(* ===== verification/Candy_Prelude.thy ===== *)
theory Candy_Prelude
  imports Main "HOL-Library.Word"
begin

unbundle bit_operations_syntax

section \<open>Prelude: machine types, results, loops with early return\<close>

text \<open>
  The shared vocabulary of the development:
  \<^item> machine integers of the Rust source as words of their width, with
    \<open>checked_add\<close>, \<open>checked_sub\<close> and the wrapping left shift of a release build;
  \<^item> UUIDs and the fixed-size identifiers as 128-bit words (16 bytes, big endian, so that
    the byte order of \<open>Uuid\<close> and of \<open>[u8; 16]\<close> is the numeric order of the word);
  \<^item> strings as their UTF-8 bytes (\<open>str::len\<close> and \<open>str::bytes\<close> count bytes), with the
    decoding to scalar values for the places where the source counts \<open>chars\<close>;
  \<^item> \<open>Result\<close> as a sum (\<open>Inl\<close> the error), the chain of guards \<open>first_err\<close>,
    the \<open>for\<close> loops with early return \<open>for_each\<close> and \<open>fold_res\<close>;
  \<^item> the collections \<open>res_simps\<close> and \<open>contract_defs\<close>.
\<close>

named_theorems res_simps \<open>what a successful result says about the guards before it\<close>
named_theorems contract_defs \<open>definitions of validation routines\<close>

subsection \<open>Machine integers and identifiers\<close>

type_synonym u8 = "8 word"
type_synonym u16 = "16 word"
type_synonym u32 = "32 word"
type_synonym u64 = "64 word"
type_synonym uuid = "128 word"
type_synonym hash32 = "u8 list"
type_synonym instant = int

definition is_nil :: "uuid \<Rightarrow> bool" where
  "is_nil i \<longleftrightarrow> i = 0"

definition checked_add :: "'a::len word \<Rightarrow> 'a word \<Rightarrow> 'a word option" where
  "checked_add a b = (if unat a + unat b < 2 ^ LENGTH('a) then Some (a + b) else None)"

definition checked_sub :: "'a::len word \<Rightarrow> 'a word \<Rightarrow> 'a word option" where
  "checked_sub a b = (if b \<le> a then Some (a - b) else None)"

definition zero_hash :: hash32 where
  "zero_hash = replicate 32 0"

text \<open>The 16 bytes of an identifier, most significant first (\<open>Uuid::as_bytes\<close>).\<close>

definition uuid_bytes :: "uuid \<Rightarrow> u8 list" where
  "uuid_bytes w = map (\<lambda>i. ucast (drop_bit (8 * (15 - i)) w)) [0..<16]"

definition be_bytes_u64 :: "u64 \<Rightarrow> u8 list" where
  "be_bytes_u64 w = map (\<lambda>i. ucast (drop_bit (8 * (7 - i)) w)) [0..<8]"

definition be_word :: "u8 list \<Rightarrow> 'a::len word" where
  "be_word bs = foldl (\<lambda>acc b. push_bit 8 acc OR ucast b) 0 bs"

lemma checked_add_code [code]:
  "checked_add a (b :: 'a::len word) = (if a \<le> a + b then Some (a + b) else None)"
  by (simp add: checked_add_def no_olen_add_nat)

lemma checked_add_Some:
  assumes "checked_add a b = Some (c :: 'a::len word)"
  shows "unat c = unat a + unat b" and "c = a + b"
  using assms by (auto simp: checked_add_def unat_word_ariths split: if_splits)

lemma checked_sub_Some:
  assumes "checked_sub a b = Some (c :: 'a::len word)"
  shows "unat c = unat a - unat b" and "c = a - b"
  using assms by (auto simp: checked_sub_def unat_sub word_le_nat_alt split: if_splits)

lemma checked_add_succ_gt:
  assumes "checked_add a 1 = Some (c :: 'a::len word)"
  shows "a < c"
  using checked_add_Some(1) [OF assms] by (simp add: word_less_nat_alt)

lemma checked_add_succ_pos:
  assumes "checked_add a 1 = Some (c :: 'a::len word)"
  shows "c \<noteq> 0"
  using checked_add_succ_gt [OF assms] by auto

lemma length_zero_hash [simp]: "length zero_hash = 32"
  by (simp add: zero_hash_def)

lemma length_uuid_bytes [simp]: "length (uuid_bytes w) = 16"
  by (simp add: uuid_bytes_def)

lemma length_be_bytes_u64 [simp]: "length (be_bytes_u64 w) = 8"
  by (simp add: be_bytes_u64_def)

text \<open>The big-endian bytes of a word determine it.\<close>

lemma be_bytes_inject:
  fixes v w :: "'a::len word"
  assumes len: "LENGTH('a) = 8 * Suc n"
    and eq: "map (\<lambda>i. ucast (drop_bit (8 * (n - i)) v) :: u8) [0..<Suc n] =
             map (\<lambda>i. ucast (drop_bit (8 * (n - i)) w)) [0..<Suc n]"
  shows "v = w"
proof (rule bit_word_eqI)
  fix k
  assume "k < LENGTH('a)"
  with len have k: "k div 8 \<le> n" by simp
  have "(ucast (drop_bit (8 * (n - i)) v) :: u8) = ucast (drop_bit (8 * (n - i)) w)" if "i \<le> n" for i
    using eq that by (simp add: map_eq_conv less_Suc_eq_le del: upt_Suc)
  from this [of "n - k div 8"] k
  have "(ucast (drop_bit (8 * (k div 8)) v) :: u8) = ucast (drop_bit (8 * (k div 8)) w)" by simp
  from arg_cong [OF this, of "\<lambda>x. bit x (k mod 8)"]
  have "bit v (8 * (k div 8) + k mod 8) = bit w (8 * (k div 8) + k mod 8)"
    by (simp add: bit_ucast_iff bit_drop_bit_eq)
  then show "bit v k = bit w k" by simp
qed

lemma uuid_bytes_inject [simp]: "uuid_bytes v = uuid_bytes w \<longleftrightarrow> v = w"
  using be_bytes_inject [of 15 v w] by (auto simp: uuid_bytes_def simp del: upt_Suc)

subsection \<open>Results, guards and loops with early return\<close>

text \<open>
  \<open>first_err\<close> is a sequence of statements \<open>check?;\<close>: the first failing one is the
  result. \<open>guard c e\<close> is \<open>if c { return Err(e) }\<close>.
\<close>

definition guard :: "bool \<Rightarrow> 'e \<Rightarrow> 'e + unit" where
  "guard c e = (if c then Inl e else Inr ())"

fun first_err :: "('e + unit) list \<Rightarrow> 'e + unit" where
  "first_err [] = Inr ()"
| "first_err (c # cs) = (case c of Inl e \<Rightarrow> Inl e | Inr _ \<Rightarrow> first_err cs)"

definition bind_res :: "'e + 'a \<Rightarrow> ('a \<Rightarrow> 'e + 'b) \<Rightarrow> 'e + 'b" where
  "bind_res r f = (case r of Inl e \<Rightarrow> Inl e | Inr a \<Rightarrow> f a)"

definition map_err :: "('e \<Rightarrow> 'f) \<Rightarrow> 'e + 'a \<Rightarrow> 'f + 'a" where
  "map_err f r = (case r of Inl e \<Rightarrow> Inl (f e) | Inr a \<Rightarrow> Inr a)"

definition ok_or :: "'a option \<Rightarrow> 'e \<Rightarrow> 'e + 'a" where
  "ok_or r e = (case r of None \<Rightarrow> Inl e | Some a \<Rightarrow> Inr a)"

definition is_ok :: "'e + 'a \<Rightarrow> bool" where
  "is_ok r = (case r of Inl _ \<Rightarrow> False | Inr _ \<Rightarrow> True)"

fun for_each :: "('a \<Rightarrow> 'e + unit) \<Rightarrow> 'a list \<Rightarrow> 'e + unit" where
  "for_each f [] = Inr ()"
| "for_each f (x # xs) = (case f x of Inl e \<Rightarrow> Inl e | Inr _ \<Rightarrow> for_each f xs)"

fun fold_res :: "('s \<Rightarrow> 'a \<Rightarrow> 'e + 's) \<Rightarrow> 's \<Rightarrow> 'a list \<Rightarrow> 'e + 's" where
  "fold_res f s [] = Inr s"
| "fold_res f s (x # xs) = (case f s x of Inl e \<Rightarrow> Inl e | Inr s' \<Rightarrow> fold_res f s' xs)"

fun map_res :: "('a \<Rightarrow> 'e + 'b) \<Rightarrow> 'a list \<Rightarrow> 'e + 'b list" where
  "map_res f [] = Inr []"
| "map_res f (x # xs) =
     (case f x of Inl e \<Rightarrow> Inl e
      | Inr y \<Rightarrow> (case map_res f xs of Inl e \<Rightarrow> Inl e | Inr ys \<Rightarrow> Inr (y # ys)))"

lemma guard_ok [simp, res_simps]: "guard c e = Inr u \<longleftrightarrow> \<not> c"
  by (simp add: guard_def)

lemma guard_err [simp]: "guard c e = Inl e' \<longleftrightarrow> c \<and> e' = e"
  by (auto simp: guard_def)

lemma guard_simps [simp]: "guard True e = Inl e" "guard False e = Inr ()"
  by (simp_all add: guard_def)

lemma first_err_ok [simp, res_simps]:
  "first_err cs = Inr u \<longleftrightarrow> (\<forall>c \<in> set cs. c = Inr ())"
  by (induction cs) (auto split: sum.splits)

declare first_err.simps [simp del]

lemma bind_res_ok [simp, res_simps]:
  "bind_res r f = Inr b \<longleftrightarrow> (\<exists>a. r = Inr a \<and> f a = Inr b)"
  by (cases r) (auto simp: bind_res_def)

lemma bind_res_err:
  "bind_res r f = Inl e \<longleftrightarrow> r = Inl e \<or> (\<exists>a. r = Inr a \<and> f a = Inl e)"
  by (cases r) (auto simp: bind_res_def)

lemma bind_res_simps [simp]: "bind_res (Inr a) f = f a" "bind_res (Inl e) f = Inl e"
  by (simp_all add: bind_res_def)

lemma map_err_ok [simp, res_simps]: "map_err f r = Inr b \<longleftrightarrow> r = Inr b"
  by (cases r) (auto simp: map_err_def)

lemma map_err_simps [simp]: "map_err f (Inr a) = Inr a" "map_err f (Inl e) = Inl (f e)"
  by (simp_all add: map_err_def)

lemma ok_or_ok [simp, res_simps]: "ok_or r e = Inr a \<longleftrightarrow> r = Some a"
  by (cases r) (auto simp: ok_or_def)

lemma ok_or_err [simp]: "ok_or r e = Inl e' \<longleftrightarrow> r = None \<and> e' = e"
  by (cases r) (auto simp: ok_or_def)

lemma ok_or_simps [simp]: "ok_or (Some a) e = Inr a" "ok_or None e = Inl e"
  by (simp_all add: ok_or_def)

lemma is_ok_iff: "is_ok r \<longleftrightarrow> (\<exists>a. r = Inr a)"
  by (cases r) (auto simp: is_ok_def)

lemma is_ok_simps [simp]: "is_ok (Inr a)" "\<not> is_ok (Inl e)"
  by (simp_all add: is_ok_def)

lemma for_each_ok [simp, res_simps]:
  "for_each f xs = Inr u \<longleftrightarrow> (\<forall>x \<in> set xs. f x = Inr ())"
  by (induction xs) (auto split: sum.splits)

declare for_each.simps [simp del]

lemma fold_res_append:
  "fold_res f s (xs @ ys) = bind_res (fold_res f s xs) (\<lambda>s'. fold_res f s' ys)"
  by (induction xs arbitrary: s) (auto simp: bind_res_def split: sum.splits)

lemma fold_res_Cons_ok:
  "fold_res f s (x # xs) = Inr t \<longleftrightarrow> (\<exists>u. f s x = Inr u \<and> fold_res f u xs = Inr t)"
  by (auto split: sum.splits)

lemma fold_res_ok_cong:
  assumes "\<And>s x t. x \<in> set xs \<Longrightarrow> f s x = Inr t \<longleftrightarrow> g s x = Inr t"
  shows "fold_res f s xs = Inr t \<longleftrightarrow> fold_res g s xs = Inr t"
  using assms
proof (induction xs arbitrary: s)
  case (Cons x xs)
  have "f s x = Inr u \<longleftrightarrow> g s x = Inr u" for u
    by (rule Cons.prems) simp
  moreover have "fold_res f u xs = Inr t \<longleftrightarrow> fold_res g u xs = Inr t" for u
    by (rule Cons.IH, rule Cons.prems) simp
  ultimately show ?case by (simp only: fold_res_Cons_ok)
qed simp

lemma map_res_ok:
  "map_res f xs = Inr ys \<longleftrightarrow> list_all2 (\<lambda>x y. f x = Inr y) xs ys"
proof (induction xs arbitrary: ys)
  case Nil
  then show ?case by auto
next
  case (Cons x xs)
  show ?case
  proof (cases "map_res f xs")
    case (Inl e)
    with Cons [of "tl ys"] show ?thesis
      by (cases ys) (auto split: sum.splits)
  next
    case (Inr zs)
    have "list_all2 (\<lambda>x y. f x = Inr y) xs ws \<longleftrightarrow> ws = zs" for ws
      using Cons [of ws] Inr by auto
    with Inr show ?thesis
      by (cases ys) (auto split: sum.splits)
  qed
qed

text \<open>
  An invariant of a loop with early return: it holds at the start, every iteration that
  does not return keeps it.
\<close>

lemma fold_res_invariant:
  assumes "fold_res f s xs = Inr s'" and "I s"
    and "\<And>s x t. x \<in> set xs \<Longrightarrow> I s \<Longrightarrow> f s x = Inr t \<Longrightarrow> I t"
  shows "I s'"
  using assms
proof (induction xs arbitrary: s)
  case Nil
  then show ?case by simp
next
  case (Cons x xs)
  from Cons.prems(1) obtain t where t: "f s x = Inr t" "fold_res f t xs = Inr s'"
    by (auto split: sum.splits)
  have "I t" by (rule Cons.prems(3) [OF _ Cons.prems(2) t(1)]) simp
  with t(2) show ?case
  proof (rule Cons.IH)
    show "I v" if "y \<in> set xs" "I u" "f u y = Inr v" for y u v
      using that by (intro Cons.prems(3) [of y u v]) auto
  qed
qed

text \<open>
  The idiom \<open>if bad(x) || !seen.insert(key(x)) { return Err(e) }\<close> over a growing
  \<open>HashSet\<close>: the loop succeeds exactly when no element is bad and the keys are
  pairwise distinct.
\<close>

definition insert_check ::
  "('a \<Rightarrow> bool) \<Rightarrow> ('a \<Rightarrow> 'k) \<Rightarrow> 'e \<Rightarrow> 'k set \<Rightarrow> 'a \<Rightarrow> 'e + 'k set" where
  "insert_check bad key e seen x =
     (if bad x \<or> key x \<in> seen then Inl e else Inr (insert (key x) seen))"

lemma fold_insert_check_ok:
  "fold_res (insert_check bad key e) seen xs = Inr seen' \<longleftrightarrow>
     (\<forall>x \<in> set xs. \<not> bad x) \<and> distinct (map key xs) \<and> key ` set xs \<inter> seen = {} \<and>
     seen' = key ` set xs \<union> seen"
  by (induction xs arbitrary: seen) (auto simp: insert_check_def)

subsection \<open>Duplicates\<close>

text \<open>
  \<open>has_duplicates\<close> of the source looks for an element among those before it; it is the
  negation of \<open>distinct\<close>.
\<close>

definition has_duplicates :: "'a list \<Rightarrow> bool" where
  "has_duplicates xs \<longleftrightarrow>
     list_ex (\<lambda>(index, x). x \<in> set (take index xs)) (enumerate 0 xs)"

lemma has_duplicates_index:
  "has_duplicates xs \<longleftrightarrow> (\<exists>i < length xs. xs ! i \<in> set (take i xs))"
  by (auto simp: has_duplicates_def list_ex_iff in_set_enumerate_eq)

lemma has_duplicates_iff [simp]: "has_duplicates xs \<longleftrightarrow> \<not> distinct xs"
proof -
  have "(\<exists>i < length xs. xs ! i \<in> set (take i xs)) \<longleftrightarrow>
      (\<exists>i < length xs. \<exists>j < i. xs ! j = xs ! i)"
    by (auto simp: in_set_conv_nth) (metis nth_take order.strict_trans)+
  also have "\<dots> \<longleftrightarrow> \<not> distinct xs"
    by (metis distinct_conv_nth linorder_neq_iff order.strict_trans)
  finally show ?thesis by (simp add: has_duplicates_index)
qed

subsection \<open>Lists\<close>

lemma list_all2_mem1: "list_all2 P xs ys \<Longrightarrow> x \<in> set xs \<Longrightarrow> \<exists>y \<in> set ys. P x y"
  by (induction rule: list_all2_induct) auto

lemma list_all2_mem2: "list_all2 P xs ys \<Longrightarrow> y \<in> set ys \<Longrightarrow> \<exists>x \<in> set xs. P x y"
  by (induction rule: list_all2_induct) auto

lemma find_SomeD: "find P xs = Some x \<Longrightarrow> P x \<and> x \<in> set xs"
  by (induction xs) (auto split: if_splits)

text \<open>
  \<open>slice::windows(2).any(|pair| pair[0] == pair[1])\<close>: two neighbours with the same key.
\<close>

fun adjacent_equal :: "'a list \<Rightarrow> bool" where
  "adjacent_equal (x # y # zs) \<longleftrightarrow> x = y \<or> adjacent_equal (y # zs)"
| "adjacent_equal _ \<longleftrightarrow> False"

lemma adjacent_equal_sorted:
  "sorted xs \<Longrightarrow> adjacent_equal xs \<longleftrightarrow> \<not> distinct xs"
  by (induction xs rule: adjacent_equal.induct) (auto simp: order.antisym)

text \<open>\<open>Vec::dedup\<close> removes consecutive repetitions.\<close>

lemma remdups_adj_sorted_distinct: "sorted xs \<Longrightarrow> distinct (remdups_adj xs)"
proof (induction xs rule: remdups_adj.induct)
  case (3 x y xs)
  then show ?case by (cases "x = y") (auto simp: order.antisym)
qed auto

subsection \<open>Sorting by several keys\<close>

text \<open>A stable sort by the minor key and then by the major key is the lexicographic order.\<close>

lemma sorted_lex:
  fixes f :: "'a \<Rightarrow> 'b::linorder" and g :: "'a \<Rightarrow> 'c::linorder"
  assumes "sorted (map f xs)" and "\<forall>k. sorted (map g (filter (\<lambda>x. f x = k) xs))"
  shows "sorted_wrt (\<lambda>x y. f x < f y \<or> f x = f y \<and> g x \<le> g y) xs"
  using assms
proof (induction xs)
  case (Cons x xs)
  have "\<forall>k. sorted (map g (filter (\<lambda>y. f y = k) xs))"
  proof
    fix k
    show "sorted (map g (filter (\<lambda>y. f y = k) xs))"
      using Cons.prems(2) by (cases "f x = k") (auto dest: spec [of _ k])
  qed
  with Cons have "sorted_wrt (\<lambda>x y. f x < f y \<or> f x = f y \<and> g x \<le> g y) xs" by simp
  moreover have "f x < f y \<or> f x = f y \<and> g x \<le> g y" if "y \<in> set xs" for y
  proof -
    have "f x \<le> f y" using that Cons.prems(1) by simp
    moreover have "g x \<le> g y" if "f x = f y"
      using \<open>y \<in> set xs\<close> that spec [OF Cons.prems(2), of "f x"] by auto
    ultimately show ?thesis by (auto simp: order.order_iff_strict)
  qed
  ultimately show ?case by simp
qed simp

lemma sort_key_lex:
  fixes f :: "'a \<Rightarrow> 'b::linorder" and g :: "'a \<Rightarrow> 'c::linorder"
  shows "sorted_wrt (\<lambda>x y. f x < f y \<or> f x = f y \<and> g x \<le> g y) (sort_key f (sort_key g xs))"
proof (rule sorted_lex)
  have "filter (\<lambda>x. f x = k) (sort_key f (sort_key g xs)) = filter (\<lambda>x. f x = k) (sort_key g xs)" for k
    by (rule sort_key_stable)
  then show "\<forall>k. sorted (map g (filter (\<lambda>x. f x = k) (sort_key f (sort_key g xs))))"
    by (simp add: sorted_filter)
qed simp

text \<open>A list without neighbours that are equal, in an order whose ties are equal, repeats nothing.\<close>

lemma remdups_adj_lex:
  assumes "sorted_wrt R xs" and "\<And>x y. R x y \<Longrightarrow> R y x \<Longrightarrow> x = y"
  shows "distinct (remdups_adj xs) \<and> sorted_wrt R (remdups_adj xs)"
  using assms
proof (induction xs rule: remdups_adj.induct)
  case (3 x y xs)
  show ?case
  proof (cases "x = y")
    case True
    with 3 show ?thesis by simp
  next
    case False
    with 3 have IH: "distinct (remdups_adj (y # xs)) \<and> sorted_wrt R (remdups_adj (y # xs))" by simp
    have "x \<notin> set (y # xs)"
    proof
      assume "x \<in> set (y # xs)"
      with False have "x \<in> set xs" by simp
      with 3 have "R y x" "R x y" by auto
      with 3 False show False by blast
    qed
    with IH False 3(3) show ?thesis by auto
  qed
qed simp_all

lemma find_append:
  "find P (xs @ ys) = (case find P xs of None \<Rightarrow> find P ys | Some x \<Rightarrow> Some x)"
  by (induction xs) auto

end
