(* ===== verification/Std_Text.thy ===== *)
theory Std_Text
  imports Candy_Prelude
begin

section \<open>Text of the standard library: bytes, UTF-8 scalars, hexadecimal, addresses\<close>

text \<open>
  What the source uses of \<open>str\<close>, \<open>u8\<close> and \<open>std::net\<close>. A \<open>String\<close> is its
  list of UTF-8 bytes; \<open>utf8_split\<close> cuts it into the encodings of its scalar values, which
  is what \<open>chars()\<close>, \<open>trim()\<close> and \<open>char::is_control\<close> look at. The hexadecimal
  printer and parser are the ones every signed object of the system spells its hashes with;
  the address parser is the one of \<open>IpAddr::from_str\<close>.
\<close>

subsection \<open>ASCII classes\<close>

abbreviation byte_of :: "char \<Rightarrow> nat" where
  "byte_of c \<equiv> of_char c"

definition is_ascii_digit :: "char \<Rightarrow> bool" where
  "is_ascii_digit c \<longleftrightarrow> 48 \<le> byte_of c \<and> byte_of c \<le> 57"

definition is_ascii_uppercase :: "char \<Rightarrow> bool" where
  "is_ascii_uppercase c \<longleftrightarrow> 65 \<le> byte_of c \<and> byte_of c \<le> 90"

definition is_ascii_lowercase :: "char \<Rightarrow> bool" where
  "is_ascii_lowercase c \<longleftrightarrow> 97 \<le> byte_of c \<and> byte_of c \<le> 122"

definition is_ascii_alphabetic :: "char \<Rightarrow> bool" where
  "is_ascii_alphabetic c \<longleftrightarrow> is_ascii_uppercase c \<or> is_ascii_lowercase c"

definition is_ascii_alphanumeric :: "char \<Rightarrow> bool" where
  "is_ascii_alphanumeric c \<longleftrightarrow> is_ascii_alphabetic c \<or> is_ascii_digit c"

definition is_ascii_hexdigit :: "char \<Rightarrow> bool" where
  "is_ascii_hexdigit c \<longleftrightarrow> is_ascii_digit c \<or>
     65 \<le> byte_of c \<and> byte_of c \<le> 70 \<or> 97 \<le> byte_of c \<and> byte_of c \<le> 102"

definition is_lower_hexdigit :: "char \<Rightarrow> bool" where
  "is_lower_hexdigit c \<longleftrightarrow> is_ascii_digit c \<or> 97 \<le> byte_of c \<and> byte_of c \<le> 102"

definition is_ascii_control :: "char \<Rightarrow> bool" where
  "is_ascii_control c \<longleftrightarrow> byte_of c < 32 \<or> byte_of c = 127"

definition to_ascii_uppercase :: "char \<Rightarrow> char" where
  "to_ascii_uppercase c = (if is_ascii_lowercase c then char_of (byte_of c - 32) else c)"

definition to_ascii_lowercase :: "char \<Rightarrow> char" where
  "to_ascii_lowercase c = (if is_ascii_uppercase c then char_of (byte_of c + 32) else c)"

lemmas ascii_defs = is_ascii_digit_def is_ascii_uppercase_def is_ascii_lowercase_def
  is_ascii_alphabetic_def is_ascii_alphanumeric_def is_ascii_hexdigit_def
  is_lower_hexdigit_def is_ascii_control_def

lemma byte_of_char_of: "n < 256 \<Longrightarrow> byte_of (char_of n) = n"
  by simp

lemma byte_of_less: "byte_of c < 256"
  by (rule nat_of_char_less_256)

lemma byte_of_inject: "byte_of c = byte_of d \<longleftrightarrow> c = d"
  by (rule of_char_eq_iff)

lemma to_ascii_uppercase_alnum:
  "is_ascii_alphanumeric c \<Longrightarrow>
     is_ascii_uppercase (to_ascii_uppercase c) \<or> is_ascii_digit (to_ascii_uppercase c)"
  by (auto simp: to_ascii_uppercase_def ascii_defs)

subsection \<open>Substrings\<close>

fun split_on :: "char \<Rightarrow> string \<Rightarrow> string list" where
  "split_on d [] = [[]]"
| "split_on d (c # cs) =
     (if c = d then [] # split_on d cs
      else (case split_on d cs of [] \<Rightarrow> [[c]] | w # ws \<Rightarrow> (c # w) # ws))"

definition strip_prefix :: "string \<Rightarrow> string \<Rightarrow> string option" where
  "strip_prefix p s = (if take (length p) s = p then Some (drop (length p) s) else None)"

definition starts_with :: "string \<Rightarrow> string \<Rightarrow> bool" where
  "starts_with p s \<longleftrightarrow> take (length p) s = p"

definition split_once :: "char \<Rightarrow> string \<Rightarrow> (string \<times> string) option" where
  "split_once d s =
     (if d \<in> set s
      then Some (takeWhile (\<lambda>c. c \<noteq> d) s, tl (dropWhile (\<lambda>c. c \<noteq> d) s))
      else None)"

lemma split_on_ne [simp]: "split_on d s \<noteq> []"
  by (induction s) (auto split: list.splits)

lemma split_on_no_sep: "d \<notin> set s \<Longrightarrow> split_on d s = [s]"
  by (induction s) auto

lemma split_on_sep:
  "d \<notin> set w \<Longrightarrow> split_on d (w @ d # s) = w # split_on d s"
  by (induction w) auto

lemma split_on_pieces: "w \<in> set (split_on d s) \<Longrightarrow> d \<notin> set w"
  by (induction s arbitrary: w) (auto split: if_splits list.splits)

lemma split_on_concat:
  "s = hd (split_on d s) @ concat (map (\<lambda>w. d # w) (tl (split_on d s)))"
  by (induction s) (auto split: list.splits)

lemma split_on_cover: "c \<in> set s \<Longrightarrow> c \<noteq> d \<Longrightarrow> \<exists>w \<in> set (split_on d s). c \<in> set w"
  by (induction s) (auto split: list.splits)

lemma split_on_snoc: "split_on d (s @ [d]) = split_on d s @ [[]]"
  by (induction s) (auto split: list.splits)

lemma split_on_last_sep: "s \<noteq> [] \<Longrightarrow> last s = d \<Longrightarrow> [] \<in> set (split_on d s)"
  by (cases s rule: rev_cases) (auto simp: split_on_snoc)

lemma strip_prefix_append [simp]: "strip_prefix p (p @ s) = Some s"
  by (simp add: strip_prefix_def)

lemma strip_prefix_Some: "strip_prefix p s = Some t \<longleftrightarrow> s = p @ t"
  by (auto simp: strip_prefix_def) (metis append_take_drop_id)

subsection \<open>UTF-8 scalar values\<close>

definition utf8_extra :: "char \<Rightarrow> nat" where
  "utf8_extra c = (if byte_of c < 192 then 0 else if byte_of c < 224 then 1
                   else if byte_of c < 240 then 2 else 3)"

function utf8_split :: "string \<Rightarrow> string list" where
  "utf8_split [] = []"
| "utf8_split (b # bs) =
     (b # take (utf8_extra b) bs) # utf8_split (drop (utf8_extra b) bs)"
  by pat_completeness auto
termination
  by (relation "measure length") auto

fun utf8_scalar :: "string \<Rightarrow> nat" where
  "utf8_scalar [a] = byte_of a"
| "utf8_scalar [a, b] = (byte_of a mod 32) * 64 + byte_of b mod 64"
| "utf8_scalar [a, b, c] =
     (byte_of a mod 16) * 4096 + (byte_of b mod 64) * 64 + byte_of c mod 64"
| "utf8_scalar [a, b, c, d] =
     (byte_of a mod 8) * 262144 + (byte_of b mod 64) * 4096 + (byte_of c mod 64) * 64 +
     byte_of d mod 64"
| "utf8_scalar _ = 65533"

definition chars :: "string \<Rightarrow> nat list" where
  "chars s = map utf8_scalar (utf8_split s)"

text \<open>\<open>char::is_control\<close> is the general category Cc; \<open>char::is_whitespace\<close> is White\_Space.\<close>

definition is_control_scalar :: "nat \<Rightarrow> bool" where
  "is_control_scalar n \<longleftrightarrow> n < 32 \<or> 127 \<le> n \<and> n < 160"

definition is_whitespace_scalar :: "nat \<Rightarrow> bool" where
  "is_whitespace_scalar n \<longleftrightarrow>
     9 \<le> n \<and> n \<le> 13 \<or> n = 32 \<or> n = 133 \<or> n = 160 \<or> n = 5760 \<or>
     8192 \<le> n \<and> n \<le> 8202 \<or> n = 8232 \<or> n = 8233 \<or> n = 8239 \<or> n = 8287 \<or> n = 12288"

lemma is_whitespace_scalar_code [code]:
  "is_whitespace_scalar n \<longleftrightarrow> (let i = int n in
     9 \<le> i \<and> i \<le> 13 \<or> i = 32 \<or> i = 133 \<or> i = 160 \<or> i = 5760 \<or>
     8192 \<le> i \<and> i \<le> 8202 \<or> i = 8232 \<or> i = 8233 \<or> i = 8239 \<or> i = 8287 \<or> i = 12288)"
  by (auto simp: is_whitespace_scalar_def Let_def)

definition str_trim :: "string \<Rightarrow> string" where
  "str_trim s =
     (let ws = (\<lambda>w. is_whitespace_scalar (utf8_scalar w))
      in concat (rev (dropWhile ws (rev (dropWhile ws (utf8_split s))))))"

lemma concat_utf8_split [simp]: "concat (utf8_split s) = s"
  by (induction s rule: utf8_split.induct) auto

lemma utf8_split_ascii:
  "\<forall>c \<in> set s. byte_of c < 192 \<Longrightarrow> utf8_split s = map (\<lambda>c. [c]) s"
  by (induction s rule: utf8_split.induct) (auto simp: utf8_extra_def)

lemma length_chars_le: "length (chars s) \<le> length s"
  by (induction s rule: utf8_split.induct) (auto simp: chars_def)

lemma chars_ascii: "\<forall>c \<in> set s. byte_of c < 192 \<Longrightarrow> chars s = map byte_of s"
  by (simp add: chars_def utf8_split_ascii)

lemma chars_Nil_iff [simp]: "chars s = [] \<longleftrightarrow> s = []"
  by (cases s) (auto simp: chars_def)

lemma str_trim_Nil [simp]: "str_trim [] = []"
  by (simp add: str_trim_def)

text \<open>The bytes of a string as \<open>u8\<close> values (\<open>as_bytes\<close>, byte string literals).\<close>

definition str_bytes :: "string \<Rightarrow> u8 list" where
  "str_bytes s = map of_char s"

lemma length_str_bytes [simp]: "length (str_bytes s) = length s"
  by (simp add: str_bytes_def)

lemma str_bytes_append: "str_bytes (s @ t) = str_bytes s @ str_bytes t"
  by (simp add: str_bytes_def)

subsection \<open>Hexadecimal\<close>

definition hex_digit :: "nat \<Rightarrow> char" where
  "hex_digit n = (if n < 10 then char_of (48 + n) else char_of (87 + n))"

definition hex_byte :: "u8 \<Rightarrow> string" where
  "hex_byte b = [hex_digit (unat b div 16), hex_digit (unat b mod 16)]"

definition hex :: "u8 list \<Rightarrow> string" where
  "hex bs = concat (map hex_byte bs)"

definition to_digit :: "nat \<Rightarrow> char \<Rightarrow> nat option" where
  "to_digit radix c =
     (let n = byte_of c;
          v = (if is_ascii_digit c then Some (n - 48)
               else if is_ascii_lowercase c then Some (n - 87)
               else if is_ascii_uppercase c then Some (n - 55) else None)
      in case v of None \<Rightarrow> None | Some d \<Rightarrow> if d < radix then Some d else None)"

fun radix_digits :: "nat \<Rightarrow> nat \<Rightarrow> string \<Rightarrow> nat option" where
  "radix_digits radix acc [] = Some acc"
| "radix_digits radix acc (c # cs) =
     (case to_digit radix c of None \<Rightarrow> None
      | Some d \<Rightarrow> radix_digits radix (acc * radix + d) cs)"

text \<open>
  \<open>u8::from_str_radix\<close>: an empty text and a lone sign are refused, one leading plus is
  accepted, and the value must fit in a byte.
\<close>

definition u8_from_str_radix :: "nat \<Rightarrow> string \<Rightarrow> u8 option" where
  "u8_from_str_radix radix s =
     (case s of [] \<Rightarrow> None
      | c # cs \<Rightarrow>
          if cs = [] \<and> (c = CHR ''+'' \<or> c = CHR ''-'') then None
          else (case radix_digits radix 0 (if c = CHR ''+'' then cs else s) of
                  None \<Rightarrow> None
                | Some n \<Rightarrow> if n < 256 then Some (of_nat n) else None))"

fun chunks2 :: "'a list \<Rightarrow> 'a list list" where
  "chunks2 [] = []"
| "chunks2 [x] = [[x]]"
| "chunks2 (x # y # zs) = [x, y] # chunks2 zs"

text \<open>The loop \<open>for chunk in hex.chunks(2) { hash[i] = u8::from_str_radix(chunk, 16)?; }\<close>\<close>

fun parse_hex :: "string \<Rightarrow> u8 list option" where
  "parse_hex s = those (map (u8_from_str_radix 16) (chunks2 s))"

lemma hex_digit_byte: "n < 16 \<Longrightarrow> byte_of (hex_digit n) = (if n < 10 then 48 + n else 87 + n)"
  by (simp add: hex_digit_def)

lemma hex_digit_lower: "n < 16 \<Longrightarrow> is_lower_hexdigit (hex_digit n)"
  by (simp add: is_lower_hexdigit_def is_ascii_digit_def hex_digit_byte)

lemma to_digit_hex_digit: "n < 16 \<Longrightarrow> to_digit 16 (hex_digit n) = Some n"
  by (auto simp: to_digit_def ascii_defs hex_digit_byte Let_def)

lemma hex_digit_not_sign: "n < 16 \<Longrightarrow> hex_digit n \<noteq> CHR ''+''"
  by (auto simp: byte_of_inject [symmetric] hex_digit_byte)

lemma unat_u8_less: "unat (b :: u8) < 256"
  using unsigned_less [of b, where ?'a = nat] by simp

lemma u8_from_str_radix_hex_byte: "u8_from_str_radix 16 (hex_byte b) = Some b"
  using unat_u8_less [of b]
  by (simp add: u8_from_str_radix_def hex_byte_def to_digit_hex_digit hex_digit_not_sign)

lemma length_hex [simp]: "length (hex bs) = 2 * length bs"
  by (induction bs) (simp_all add: hex_def hex_byte_def)

lemma chunks2_hex: "chunks2 (hex bs) = map hex_byte bs"
  by (induction bs) (simp_all add: hex_def hex_byte_def)

lemma parse_hex_hex [simp]: "parse_hex (hex bs) = Some bs"
proof -
  have "those (map (u8_from_str_radix 16) (map hex_byte bs)) = Some bs"
    by (induction bs) (simp_all add: u8_from_str_radix_hex_byte)
  then show ?thesis by (simp add: chunks2_hex)
qed

lemma hex_lower: "c \<in> set (hex bs) \<Longrightarrow> is_lower_hexdigit c"
proof -
  assume "c \<in> set (hex bs)"
  then obtain b where "c \<in> set (hex_byte b)"
    by (auto simp: hex_def)
  then show ?thesis
    using unat_u8_less [of b] by (auto simp: hex_byte_def intro!: hex_digit_lower)
qed

lemma lower_hexdigit_hexdigit: "is_lower_hexdigit c \<Longrightarrow> is_ascii_hexdigit c"
  by (auto simp: ascii_defs)

lemma hex_inject: "hex bs = hex cs \<longleftrightarrow> bs = cs"
  by (metis parse_hex_hex option.inject)

declare parse_hex.simps [simp del]

text \<open>A hexadecimal digit is the lower-case spelling of its value, up to case.\<close>

lemma to_digit_hexdigit:
  assumes "is_ascii_hexdigit c"
  shows "\<exists>n < 16. to_digit 16 c = Some n \<and> hex_digit n = to_ascii_lowercase c"
proof -
  consider "is_ascii_digit c" | "97 \<le> byte_of c" "byte_of c \<le> 102"
    | "65 \<le> byte_of c" "byte_of c \<le> 70"
    using assms by (auto simp: is_ascii_hexdigit_def)
  then show ?thesis
  proof cases
    case 1
    then have "48 \<le> byte_of c" "byte_of c - 48 < 10" "byte_of c \<le> 57"
      by (auto simp: is_ascii_digit_def)
    with 1 show ?thesis
      by (intro exI [of _ "byte_of c - 48"])
        (simp add: to_digit_def hex_digit_def to_ascii_lowercase_def is_ascii_uppercase_def)
  next
    case 2
    then have "\<not> byte_of c - 87 < 10" "byte_of c - 87 < 16" by auto
    with 2 show ?thesis
      by (intro exI [of _ "byte_of c - 87"])
        (simp add: Let_def to_digit_def hex_digit_def to_ascii_lowercase_def ascii_defs)
  next
    case 3
    then have "\<not> byte_of c - 55 < 10" "byte_of c - 55 < 16" by auto
    with 3 show ?thesis
      by (intro exI [of _ "byte_of c - 55"])
        (simp add: Let_def to_digit_def hex_digit_def to_ascii_lowercase_def ascii_defs)
  qed
qed

lemma to_ascii_lowercase_lower: "is_lower_hexdigit c \<Longrightarrow> to_ascii_lowercase c = c"
  by (auto simp: to_ascii_lowercase_def ascii_defs)

lemma u8_from_str_radix_pair:
  assumes "is_ascii_hexdigit c" and "is_ascii_hexdigit d"
  shows "\<exists>b. u8_from_str_radix 16 [c, d] = Some b \<and>
             hex_byte b = [to_ascii_lowercase c, to_ascii_lowercase d]"
proof -
  from to_digit_hexdigit [OF assms(1)] obtain m where
    m: "m < 16" "to_digit 16 c = Some m" "hex_digit m = to_ascii_lowercase c" by blast
  from to_digit_hexdigit [OF assms(2)] obtain n where
    n: "n < 16" "to_digit 16 d = Some n" "hex_digit n = to_ascii_lowercase d" by blast
  have plus: "c \<noteq> CHR ''+''"
    using assms(1) by (auto simp: ascii_defs)
  have less: "m * 16 + n < 256" using m(1) n(1) by simp
  then have "unat (of_nat (m * 16 + n) :: u8) = m * 16 + n"
    by (simp add: unat_of_nat del: of_nat_add of_nat_mult)
  with less m n plus show ?thesis
    by (intro exI [of _ "of_nat (m * 16 + n)"])
      (simp add: u8_from_str_radix_def hex_byte_def del: of_nat_add of_nat_mult)
qed

lemma parse_hex_digits:
  assumes "\<forall>c \<in> set s. is_ascii_hexdigit c" and "even (length s)"
  shows "\<exists>bs. parse_hex s = Some bs \<and> hex bs = map to_ascii_lowercase s \<and>
              length bs = length s div 2"
  using assms
proof (induction s rule: chunks2.induct)
  case 1
  then show ?case by (simp add: parse_hex.simps hex_def)
next
  case (2 x)
  then show ?case by simp
next
  case (3 x y zs)
  then obtain bs where bs: "parse_hex zs = Some bs" "hex bs = map to_ascii_lowercase zs"
      "length bs = length zs div 2" by auto
  from 3 u8_from_str_radix_pair [of x y] obtain b where
    b: "u8_from_str_radix 16 [x, y] = Some b"
       "hex_byte b = [to_ascii_lowercase x, to_ascii_lowercase y]" by auto
  from b bs show ?case
    by (intro exI [of _ "b # bs"]) (auto simp: parse_hex.simps hex_def)
qed

subsection \<open>Decimal numbers\<close>

text \<open>\<open>Display\<close> of an unsigned integer.\<close>

function decimal :: "nat \<Rightarrow> string" where
  "decimal n = (if n < 10 then [char_of (48 + n)] else decimal (n div 10) @ [char_of (48 + n mod 10)])"
  by auto
termination by (relation "measure (\<lambda>n. n)") auto

declare decimal.simps [simp del]

end
