(* ===== verification/Signed_Document.thy ===== *)
theory Signed_Document
  imports Std_Text
begin

section \<open>Signed documents: digests, signatures, key files\<close>

text \<open>
  What the two terminal trust domains (\<open>cloud-client-grant\<close>, \<open>cloud-client-projection\<close>)
  share: the textual content hash \<open>sha256:<64 hex>\<close>, the domain-separated message that is
  signed, the key file loader, and the contract of an issuer. SHA-256, Ed25519 and base64
  are the parameter \<open>crypto_ext\<close>; what the code relies on of them is \<open>ed25519_ok\<close> (a
  signature made with a key verifies under its public key and is 64 bytes long),
  \<open>base64_ok\<close> (decoding an encoding gives the bytes back) and \<open>sha256_ok\<close> (32 bytes).
  The contract of an issuer is the locale \<open>signed_document\<close>.
\<close>

subsection \<open>Cryptography and encodings as parameters\<close>

record crypto_ext =
  cx_sha256 :: "u8 list \<Rightarrow> u8 list"
  cx_verifying_key :: "u8 list \<Rightarrow> u8 list"
  cx_sign :: "u8 list \<Rightarrow> u8 list \<Rightarrow> u8 list"
  cx_verify :: "u8 list \<Rightarrow> u8 list \<Rightarrow> u8 list \<Rightarrow> bool"
  cx_signature_from_slice :: "u8 list \<Rightarrow> bool"
  cx_url_encode :: "u8 list \<Rightarrow> string"
  cx_url_decode :: "string \<Rightarrow> u8 list option"
  cx_std_encode :: "u8 list \<Rightarrow> string"
  cx_std_decode :: "string \<Rightarrow> u8 list option"

definition ed25519_ok :: "('a) crypto_ext_scheme \<Rightarrow> bool" where
  "ed25519_ok cx \<longleftrightarrow>
     (\<forall>key msg. cx_verify cx (cx_verifying_key cx key) msg (cx_sign cx key msg) \<and>
        length (cx_sign cx key msg) = 64 \<and> cx_signature_from_slice cx (cx_sign cx key msg))"

definition base64_ok :: "('a) crypto_ext_scheme \<Rightarrow> bool" where
  "base64_ok cx \<longleftrightarrow>
     (\<forall>bs. cx_url_decode cx (cx_url_encode cx bs) = Some bs \<and>
        cx_std_decode cx (cx_std_encode cx bs) = Some bs)"

definition sha256_ok :: "('a) crypto_ext_scheme \<Rightarrow> bool" where
  "sha256_ok cx \<longleftrightarrow> (\<forall>bs. length (cx_sha256 cx bs) = 32)"

lemma ed25519_okD:
  assumes "ed25519_ok cx"
  shows "cx_verify cx (cx_verifying_key cx key) msg (cx_sign cx key msg)"
    and "length (cx_sign cx key msg) = 64"
    and "cx_signature_from_slice cx (cx_sign cx key msg)"
  using assms by (auto simp: ed25519_ok_def)

lemma base64_okD:
  assumes "base64_ok cx"
  shows "cx_url_decode cx (cx_url_encode cx bs) = Some bs"
    and "cx_std_decode cx (cx_std_encode cx bs) = Some bs"
  using assms by (auto simp: base64_ok_def)

subsection \<open>Content hashes\<close>

definition hash_prefix :: string where
  "hash_prefix = ''sha256:''"

definition format_content_hash :: "hash32 \<Rightarrow> string" where
  "format_content_hash hash = hash_prefix @ hex hash"

definition parse_content_hash :: "'e \<Rightarrow> string \<Rightarrow> 'e + hash32" where
  "parse_content_hash e value =
     bind_res (ok_or (strip_prefix hash_prefix value) e) (\<lambda>hx.
       if length hx \<noteq> 64 \<or> \<not> list_all is_ascii_hexdigit hx then Inl e
       else ok_or (parse_hex hx) e)"

lemma parse_format_content_hash [simp]:
  assumes "length h = 32"
  shows "parse_content_hash e (format_content_hash h) = Inr h"
  using assms hex_lower lower_hexdigit_hexdigit
  by (auto simp: parse_content_hash_def format_content_hash_def list_all_iff ok_or_def)

text \<open>What is parsed is the lower-case spelling of the text after the prefix.\<close>

lemma parse_content_hash_ok:
  "parse_content_hash e s = Inr h \<longleftrightarrow>
     (\<exists>hx. s = hash_prefix @ hx \<and> length hx = 64 \<and> list_all is_ascii_hexdigit hx \<and>
        hex h = map to_ascii_lowercase hx)"
    (is "?lhs \<longleftrightarrow> ?rhs")
proof
  assume ?lhs
  then obtain hx where hx: "s = hash_prefix @ hx" "length hx = 64"
      "list_all is_ascii_hexdigit hx" "parse_hex hx = Some h"
    by (auto simp: parse_content_hash_def strip_prefix_Some split: if_splits)
  with parse_hex_digits [of hx] show ?rhs by (auto simp: list_all_iff)
next
  assume ?rhs
  then obtain hx where hx: "s = hash_prefix @ hx" "length hx = 64"
      "list_all is_ascii_hexdigit hx" "hex h = map to_ascii_lowercase hx" by blast
  with parse_hex_digits [of hx] have "parse_hex hx = Some h"
    by (auto simp: list_all_iff hex_inject [symmetric])
  with hx show ?lhs by (simp add: parse_content_hash_def)
qed

lemma parse_content_hash_err: "parse_content_hash e s = Inl e' \<Longrightarrow> e' = e"
  by (auto simp: parse_content_hash_def bind_res_err split: if_splits)

lemma parse_content_hash_length: "parse_content_hash e s = Inr h \<Longrightarrow> length h = 32"
  by (auto simp: parse_content_hash_ok dest!: arg_cong [where f = length])

subsection \<open>Domain-separated messages\<close>

definition domain_message :: "u8 list \<Rightarrow> hash32 \<Rightarrow> u8 list" where
  "domain_message domain hash = domain @ hash"

lemma domain_message_inject:
  "domain_message d h = domain_message d h' \<longleftrightarrow> h = h'"
  by (simp add: domain_message_def)

lemma domain_message_separated:
  assumes "length h = length h'" and "length d \<noteq> length d'"
  shows "domain_message d h \<noteq> domain_message d' h'"
  using assms by (auto simp: domain_message_def dest!: arg_cong [where f = length])

subsection \<open>Key files\<close>

datatype io_error = NotFound | PermissionDenied | InvalidData | InvalidInput | OtherIo

text \<open>
  \<open>load_signing_seed\<close>: the permission bits of the file (\<open>fs::metadata\<close>) and its contents
  (\<open>fs::read\<close>) are what the file system answers; \<open>0x3F\<close> is the octal \<open>077\<close>.
\<close>

definition load_signing_seed ::
  "io_error + u32 \<Rightarrow> io_error + u8 list \<Rightarrow> io_error + u8 list" where
  "load_signing_seed metadata contents =
     bind_res metadata (\<lambda>mode.
       if mode AND 0x3F \<noteq> 0 then Inl PermissionDenied
       else bind_res contents (\<lambda>bytes.
              if length bytes = 32 then Inr bytes else Inl InvalidData))"

subsection \<open>The contract of an issuer\<close>

text \<open>
  An issuer overwrites the fields it owns (\<open>prepare\<close>), signs, and checks its own result
  before it hands it out; a verifier accepts only valid payloads whose claimed hash is
  their digest.
\<close>

locale signed_document =
  fixes issue :: "'signer \<Rightarrow> 'doc \<Rightarrow> 'e + 'env"
    and verify :: "'vk \<Rightarrow> 'env \<Rightarrow> 'e + unit"
    and public_key :: "'signer \<Rightarrow> 'vk"
    and prepare :: "'signer \<Rightarrow> 'doc \<Rightarrow> 'doc"
    and payload :: "'env \<Rightarrow> 'doc"
    and valid :: "'doc \<Rightarrow> bool"
    and digest :: "'doc \<Rightarrow> hash32 option"
    and claimed :: "'env \<Rightarrow> hash32 option"
  assumes issue_self_check: "issue s d = Inr env \<Longrightarrow> verify (public_key s) env = Inr ()"
    and issue_payload: "issue s d = Inr env \<Longrightarrow> payload env = prepare s d"
    and verify_valid: "verify vk env = Inr () \<Longrightarrow> valid (payload env)"
    and verify_digest: "verify vk env = Inr () \<Longrightarrow>
          digest (payload env) \<noteq> None \<and> claimed env = digest (payload env)"
begin

lemma issued_is_valid:
  assumes "issue s d = Inr env"
  shows "valid (prepare s d)"
  using verify_valid [OF issue_self_check [OF assms]] issue_payload [OF assms] by simp

text \<open>No document can be issued that the verifier would refuse to call valid.\<close>

lemma invalid_not_issued:
  assumes "\<not> valid (prepare s d)"
  shows "\<exists>e. issue s d = Inl e"
  using assms issued_is_valid by (cases "issue s d") auto

lemma same_claim_same_payload:
  assumes "verify vk env = Inr ()" and "verify vk' env' = Inr ()"
    and "claimed env = claimed env'"
    and "digest (payload env) = digest (payload env') \<Longrightarrow> payload env = payload env'"
  shows "payload env = payload env'"
  using assms verify_digest by metis


end

end
