(* ===== verification/Std_Net.thy ===== *)
theory Std_Net
  imports Std_Text
begin

section \<open>Addresses of \<open>std::net\<close>\<close>

text \<open>
  The textual address parser of the standard library, as the source calls it through
  \<open>str::parse::<IpAddr>\<close> and \<open>str::parse::<Ipv4Addr>\<close>, and the classification
  predicates of \<open>Ipv4Addr\<close>. A reader takes the remaining text and gives the value it read
  with the text after it; \<open>None\<close> leaves the text where it was (\<open>read_atomically\<close>).
\<close>

type_synonym ipv4 = u32
type_synonym 'a reader = "string \<Rightarrow> ('a \<times> string) option"

subsection \<open>Predicates of \<open>Ipv4Addr\<close>\<close>

definition ipv4_octet :: "nat \<Rightarrow> ipv4 \<Rightarrow> u8" where
  "ipv4_octet i a = ucast (drop_bit (8 * (3 - i)) a)"

definition octets :: "ipv4 \<Rightarrow> u8 list" where
  "octets a = map (\<lambda>i. ipv4_octet i a) [0..<4]"

definition is_unspecified :: "ipv4 \<Rightarrow> bool" where
  "is_unspecified a \<longleftrightarrow> a = 0"

definition is_loopback :: "ipv4 \<Rightarrow> bool" where
  "is_loopback a \<longleftrightarrow> ipv4_octet 0 a = 127"

definition is_multicast :: "ipv4 \<Rightarrow> bool" where
  "is_multicast a \<longleftrightarrow> 224 \<le> ipv4_octet 0 a \<and> ipv4_octet 0 a \<le> 239"

definition is_broadcast :: "ipv4 \<Rightarrow> bool" where
  "is_broadcast a \<longleftrightarrow> a = - 1"

lemma length_octets [simp]: "length (octets a) = 4"
  by (simp add: octets_def)

lemma octets_inject [simp]: "octets a = octets b \<longleftrightarrow> a = b"
  using be_bytes_inject [of 3 a b] by (auto simp: octets_def ipv4_octet_def)

subsection \<open>The address parser\<close>

text \<open>
  \<open>read_number(radix, Some(max_digits), allow_zero_prefix)\<close>: the run of digits, refused
  when longer than \<open>max_digits\<close>, empty, with a forbidden leading zero, or above the
  type's maximum.
\<close>

definition read_number :: "nat \<Rightarrow> nat \<Rightarrow> bool \<Rightarrow> nat \<Rightarrow> nat reader" where
  "read_number radix max_digits allow_zero_prefix bound s =
     (let ds = takeWhile (\<lambda>c. to_digit radix c \<noteq> None) s;
          rest = drop (length ds) s
      in if ds = [] \<or> length ds > max_digits then None
         else if \<not> allow_zero_prefix \<and> hd ds = CHR ''0'' \<and> length ds > 1 then None
         else (case radix_digits radix 0 ds of None \<Rightarrow> None
               | Some n \<Rightarrow> if n < bound then Some (n, rest) else None))"

definition read_given_char :: "char \<Rightarrow> unit reader" where
  "read_given_char c s = (case s of [] \<Rightarrow> None | x # xs \<Rightarrow> if x = c then Some ((), xs) else None)"

definition read_separator :: "char \<Rightarrow> nat \<Rightarrow> 'a reader \<Rightarrow> 'a reader" where
  "read_separator sep index inner s =
     (if index > 0
      then (case read_given_char sep s of None \<Rightarrow> None | Some (_, rest) \<Rightarrow> inner rest)
      else inner s)"

definition read_ipv4_addr :: "ipv4 reader" where
  "read_ipv4_addr s =
     (let oct = (\<lambda>i. read_separator CHR ''.'' i (read_number 10 3 False 256))
      in case oct 0 s of None \<Rightarrow> None | Some (a, s1) \<Rightarrow>
        (case oct 1 s1 of None \<Rightarrow> None | Some (b, s2) \<Rightarrow>
        (case oct 2 s2 of None \<Rightarrow> None | Some (c, s3) \<Rightarrow>
        (case oct 3 s3 of None \<Rightarrow> None | Some (d, s4) \<Rightarrow>
           Some (((of_nat a * 256 + of_nat b) * 256 + of_nat c) * 256 + of_nat d, s4)))))"

text \<open>
  \<open>read_groups\<close>: up to \<open>limit\<close> groups from position \<open>i\<close>; the result is the number
  read, whether an embedded IPv4 address ended it, and the remaining text. The groups read
  are kept in order.
\<close>

function read_groups ::
    "nat \<Rightarrow> nat \<Rightarrow> nat list \<Rightarrow> string \<Rightarrow> nat list \<times> bool \<times> string" where
  "read_groups limit i acc s =
     (if i \<ge> limit then (acc, False, s)
      else case (if i < limit - 1 then read_separator CHR '':'' i read_ipv4_addr s else None) of
             Some (v4, rest) \<Rightarrow>
               (acc @ [unat (drop_bit 16 v4), unat (v4 AND 65535)], True, rest)
           | None \<Rightarrow>
               (case read_separator CHR '':'' i (read_number 16 4 True 65536) s of
                  None \<Rightarrow> (acc, False, s)
                | Some (g, rest) \<Rightarrow> read_groups limit (Suc i) (acc @ [g]) rest))"
  by pat_completeness auto
termination
  by (relation "measure (\<lambda>(limit, i, acc, s). limit - i)") auto

declare read_groups.simps [simp del]

definition read_ipv6_addr :: "nat list reader" where
  "read_ipv6_addr s =
     (case read_groups 8 0 [] s of (head, head_ipv4, s1) \<Rightarrow>
        if length head = 8 then Some (head, s1)
        else if head_ipv4 then None
        else case read_given_char CHR '':'' s1 of None \<Rightarrow> None | Some (_, s2) \<Rightarrow>
          (case read_given_char CHR '':'' s2 of None \<Rightarrow> None | Some (_, s3) \<Rightarrow>
            (case read_groups (8 - (length head + 1)) 0 [] s3 of (tail, _, s4) \<Rightarrow>
               Some (head @ replicate (8 - length head - length tail) 0 @ tail, s4))))"

datatype ip_addr = V4 ipv4 | V6 "nat list"

text \<open>\<open>parse_with\<close>: the whole text must have been read.\<close>

definition parse_ip_addr :: "string \<Rightarrow> ip_addr option" where
  "parse_ip_addr s =
     (case read_ipv4_addr s of
        Some (a, []) \<Rightarrow> Some (V4 a)
      | Some (a, _ # _) \<Rightarrow> None
      | None \<Rightarrow> (case read_ipv6_addr s of Some (g, []) \<Rightarrow> Some (V6 g) | _ \<Rightarrow> None))"

definition parse_ipv4_addr :: "string \<Rightarrow> ipv4 option" where
  "parse_ipv4_addr s =
     (if length s > 15 then None
      else case read_ipv4_addr s of Some (a, []) \<Rightarrow> Some a | _ \<Rightarrow> None)"

text \<open>
  \<open>str::parse::<SocketAddr>\<close>: an IPv4 address and a port, or an IPv6 address in brackets with
  an optional scope. A number without a limit on its digits is bounded by its type only.
\<close>

datatype socket_addr = SocketV4 ipv4 u16 | SocketV6 "128 word" u16

definition ipv6_word :: "nat list \<Rightarrow> 128 word" where
  "ipv6_word groups = foldl (\<lambda>acc g. acc * 65536 + of_nat g) 0 groups"

definition read_port :: "u16 reader" where
  "read_port s =
     (case read_given_char CHR '':'' s of None \<Rightarrow> None
      | Some (_, rest) \<Rightarrow> map_option (\<lambda>(n, r). (of_nat n, r)) (read_number 10 (length rest) True 65536 rest))"

definition skip_scope_id :: "string \<Rightarrow> string" where
  "skip_scope_id s =
     (case read_given_char CHR ''%'' s of None \<Rightarrow> s
      | Some (_, rest) \<Rightarrow>
          (case read_number 10 (length rest) True (2 ^ 32) rest of None \<Rightarrow> s | Some (_, r) \<Rightarrow> r))"

definition read_socket_addr_v4 :: "socket_addr reader" where
  "read_socket_addr_v4 s =
     (case read_ipv4_addr s of None \<Rightarrow> None
      | Some (a, s1) \<Rightarrow> map_option (\<lambda>(p, r). (SocketV4 a p, r)) (read_port s1))"

definition read_socket_addr_v6 :: "socket_addr reader" where
  "read_socket_addr_v6 s =
     (case read_given_char CHR ''['' s of None \<Rightarrow> None | Some (_, s1) \<Rightarrow>
     (case read_ipv6_addr s1 of None \<Rightarrow> None | Some (g, s2) \<Rightarrow>
     (case read_given_char CHR '']'' (skip_scope_id s2) of None \<Rightarrow> None | Some (_, s3) \<Rightarrow>
        map_option (\<lambda>(p, r). (SocketV6 (ipv6_word g) p, r)) (read_port s3))))"

definition parse_socket_addr :: "string \<Rightarrow> socket_addr option" where
  "parse_socket_addr s =
     (case read_socket_addr_v4 s of
        Some (a, []) \<Rightarrow> Some a
      | Some (a, _ # _) \<Rightarrow> None
      | None \<Rightarrow> (case read_socket_addr_v6 s of Some (a, []) \<Rightarrow> Some a | _ \<Rightarrow> None))"

subsection \<open>Text the parser accepts\<close>

lemma read_number_consumes:
  assumes "read_number radix m z b s = Some (n, rest)"
  shows "n < b" and "\<exists>ds. s = ds @ rest \<and> ds \<noteq> [] \<and> length ds \<le> m \<and>
     (\<forall>c \<in> set ds. to_digit radix c \<noteq> None)"
proof -
  let ?ds = "takeWhile (\<lambda>c. to_digit radix c \<noteq> None) s"
  from assms show "n < b"
    by (auto simp: read_number_def Let_def split: if_splits option.splits)
  from assms have "s = ?ds @ rest \<and> ?ds \<noteq> [] \<and> length ?ds \<le> m \<and>
      (\<forall>c \<in> set ?ds. to_digit radix c \<noteq> None)"
    by (auto simp: read_number_def Let_def dropWhile_eq_drop [symmetric]
        dest: set_takeWhileD split: if_splits option.splits)
  then show "\<exists>ds. s = ds @ rest \<and> ds \<noteq> [] \<and> length ds \<le> m \<and>
     (\<forall>c \<in> set ds. to_digit radix c \<noteq> None)" by blast
qed

end
