(* ===== verification/Client_Grant.thy ===== *)
theory Client_Grant
  imports Signed_Document Std_Net
begin

section \<open>The terminal client grant (\<open>crates/cloud-client-grant\<close>)\<close>

text \<open>
  The signed authorisation a client device presents to a node: the payload with its
  validation, the envelope, its verification, its token form, and the issuer. The canonical
  JSON serialiser, the JSON parser and the cryptography are the parameter \<open>grant_ext\<close>.
  The lemmas give the acceptance condition of the payload, of the byte-wise DNS name scanner
  (against a definition by labels), of content hashes and certificate pins, and show that
  \<open>issue\<close> is an instance of the contract \<open>signed_document\<close>.
\<close>

subsection \<open>Constants and types\<close>

definition CLIENT_GRANT_SCHEMA_VERSION :: u16 where "CLIENT_GRANT_SCHEMA_VERSION = 1"
definition CLIENT_GRANT_DOMAIN :: "u8 list" where
  "CLIENT_GRANT_DOMAIN = str_bytes ''candy/sdwan/client-grant/v1''"
definition CLIENT_GRANT_TTL_SECS :: u64 where "CLIENT_GRANT_TTL_SECS = 24 * 60 * 60"
definition CLIENT_GRANT_MAX_TTL_SECS :: u64 where
  "CLIENT_GRANT_MAX_TTL_SECS = 7 * 24 * 60 * 60"
definition MAX_CLIENT_GRANT_SIGNING_KEY_ID_LEN :: nat where
  "MAX_CLIENT_GRANT_SIGNING_KEY_ID_LEN = 128"
definition MAX_CLIENT_GRANT_NODES :: nat where "MAX_CLIENT_GRANT_NODES = 3"
definition MAX_CLIENT_GRANT_TOKEN_LEN :: nat where "MAX_CLIENT_GRANT_TOKEN_LEN = 64 * 1024"
definition ED25519_PUBLIC_KEY_LEN :: nat where "ED25519_PUBLIC_KEY_LEN = 32"

datatype ClientGrantTrafficMode = GrantPolicy | GrantGlobal

record ClientGrantNodeAssignment =
  gn_node_id :: uuid
  gn_endpoint :: string
  gn_priority :: u8
  gn_node_key_id :: uuid
  gn_transport :: string
  gn_server_name :: string
  gn_server_cert_sha256 :: string
  gn_assignment_lease_until :: u64

record ClientGrantPolicyBinding =
  gb_policy_id :: uuid
  gb_generation :: u64
  gb_content_hash :: string

record ClientGrantAudience =
  ga_tenant_id :: uuid
  ga_user_id :: uuid
  ga_device_id :: uuid
  ga_device_key_id :: uuid

record ClientGrantPayloadV1 =
  gp_schema_version :: u16
  gp_grant_id :: uuid
  gp_tenant_id :: uuid
  gp_user_id :: uuid
  gp_device_id :: uuid
  gp_device_key_id :: uuid
  gp_device_public_key :: string
  gp_audience :: ClientGrantAudience
  gp_device_generation :: u64
  gp_generation :: u64
  gp_issued_at :: u64
  gp_not_before :: u64
  gp_expires_at :: u64
  gp_mode_capabilities :: "ClientGrantTrafficMode list"
  gp_policy :: ClientGrantPolicyBinding
  gp_nodes :: "ClientGrantNodeAssignment list"
  gp_signing_key_id :: string

record ClientGrantEnvelopeV1 =
  ge_schema_version :: u16
  ge_payload :: ClientGrantPayloadV1
  ge_content_hash :: string
  ge_signing_key_id :: string
  ge_signature :: string

datatype ClientGrantError =
    InvalidPayload | InvalidEnvelope | ContentHashMismatch | AudienceMismatch
  | InvalidSignature | Canonicalization | InvalidToken

record grant_ext = crypto_ext +
  gx_jcs_payload :: "ClientGrantPayloadV1 \<Rightarrow> u8 list option"
  gx_jcs_envelope :: "ClientGrantEnvelopeV1 \<Rightarrow> u8 list option"
  gx_json_envelope :: "u8 list \<Rightarrow> ClientGrantEnvelopeV1 option"

subsection \<open>Server names\<close>

datatype LabelState = Start | HasLetter | AllNumeric | EndsInHyphen

definition dns_letter :: "char \<Rightarrow> bool" where
  "dns_letter c \<longleftrightarrow> is_ascii_alphabetic c \<or> c = CHR ''_''"

fun digit_state :: "LabelState \<Rightarrow> LabelState" where
  "digit_state Start = AllNumeric"
| "digit_state AllNumeric = AllNumeric"
| "digit_state HasLetter = HasLetter"
| "digit_state EndsInHyphen = HasLetter"

definition byte_at :: "string \<Rightarrow> nat \<Rightarrow> char option" where
  "byte_at input idx = (if idx < length input then Some (input ! idx) else None)"

text \<open>
  The loop of \<open>is_valid_dns_name\<close> over the index \<open>idx\<close>, the start of the current label and
  its state; the result is the value the function returns.
\<close>

function dns_loop :: "string \<Rightarrow> nat \<Rightarrow> nat \<Rightarrow> LabelState \<Rightarrow> bool" where
  "dns_loop input start idx state =
     (let c = byte_at input idx in
      if c \<noteq> None \<and> dns_letter (the c) then dns_loop input start (idx + 1) HasLetter
      else if c \<noteq> None \<and> is_ascii_digit (the c)
        then dns_loop input start (idx + 1) (digit_state state)
      else if c = None \<or> c = Some CHR ''.'' then
        (let len = idx - start in
         if len = 0 \<or> len > 63 \<or> state = EndsInHyphen then False
         else if idx + 1 \<ge> length input then state \<noteq> AllNumeric
         else dns_loop input (idx + 1) (idx + 1) Start)
      else if c = Some CHR ''-'' then
        (if idx = start then False else dns_loop input start (idx + 1) EndsInHyphen)
      else False)"
  by pat_completeness auto
termination
  by (relation "measure (\<lambda>(input, start, idx, state). length input - idx)")
    (auto simp: byte_at_def split: if_splits)

declare dns_loop.simps [simp del]

definition is_valid_dns_name :: "string \<Rightarrow> bool" where
  "is_valid_dns_name value =
     (if value = [] \<or> length value > 253 then False else dns_loop value 0 0 Start)"

definition is_valid_server_name :: "string \<Rightarrow> bool" where
  "is_valid_server_name value \<longleftrightarrow> is_valid_dns_name value \<or> parse_ip_addr value \<noteq> None"

subsection \<open>Pins, hashes and keys\<close>

definition format_cert_pin :: "hash32 \<Rightarrow> string" where
  "format_cert_pin hash = hex hash"

definition parse_cert_pin :: "string \<Rightarrow> hash32 option" where
  "parse_cert_pin value =
     (if length value \<noteq> 64 \<or> \<not> list_all is_lower_hexdigit value then None
      else parse_hex value)"

definition grant_parse_content_hash :: "string \<Rightarrow> ClientGrantError + hash32" where
  "grant_parse_content_hash value = parse_content_hash InvalidEnvelope value"

definition is_content_hash :: "string \<Rightarrow> bool" where
  "is_content_hash value = is_ok (grant_parse_content_hash value)"

definition format_device_public_key :: "('a) crypto_ext_scheme \<Rightarrow> u8 list \<Rightarrow> string" where
  "format_device_public_key cx key = cx_url_encode cx key"

definition is_device_public_key :: "('a) crypto_ext_scheme \<Rightarrow> string \<Rightarrow> bool" where
  "is_device_public_key cx value =
     (if length value \<noteq> 43 then False
      else (case cx_url_decode cx value of None \<Rightarrow> False
            | Some raw \<Rightarrow> length raw = ED25519_PUBLIC_KEY_LEN))"

definition grant_signing_message :: "hash32 \<Rightarrow> u8 list" where
  "grant_signing_message content_hash = domain_message CLIENT_GRANT_DOMAIN content_hash"

subsection \<open>The payload\<close>

definition grant_audience_bad :: "ClientGrantPayloadV1 \<Rightarrow> bool" where
  "grant_audience_bad p =
     (let a = gp_audience p in
      list_ex is_nil [ga_tenant_id a, ga_user_id a, ga_device_id a, ga_device_key_id a] \<or>
      ga_tenant_id a \<noteq> gp_tenant_id p \<or> ga_user_id a \<noteq> gp_user_id p \<or>
      ga_device_id a \<noteq> gp_device_id p \<or> ga_device_key_id a \<noteq> gp_device_key_id p)"

definition grant_node_bad :: "ClientGrantPayloadV1 \<Rightarrow> ClientGrantNodeAssignment \<Rightarrow> bool" where
  "grant_node_bad p n \<longleftrightarrow>
     is_nil (gn_node_id n) \<or> is_nil (gn_node_key_id n) \<or> str_trim (gn_endpoint n) = [] \<or>
     length (gn_endpoint n) > 255 \<or> list_ex is_ascii_control (gn_endpoint n) \<or>
     \<not> is_valid_server_name (gn_server_name n) \<or>
     parse_cert_pin (gn_server_cert_sha256 n) = None \<or> gn_transport n \<noteq> ''quic'' \<or>
     gn_assignment_lease_until n \<le> gp_issued_at p \<or>
     gn_assignment_lease_until n > gp_expires_at p"

text \<open>One iteration over the nodes; \<open>seen\<close> is the hash set of node ids.\<close>

definition grant_node_step ::
  "ClientGrantPayloadV1 \<Rightarrow> uuid set \<Rightarrow> nat \<times> ClientGrantNodeAssignment \<Rightarrow>
     ClientGrantError + uuid set" where
  "grant_node_step p seen = (\<lambda>(index, n).
     if grant_node_bad p n \<or> gn_node_id n \<in> seen then Inl InvalidPayload
     else if unat (gn_priority n) \<noteq> index + 1 then Inl InvalidPayload
     else Inr (insert (gn_node_id n) seen))"

definition grant_validate ::
  "('a) crypto_ext_scheme \<Rightarrow> ClientGrantPayloadV1 \<Rightarrow> ClientGrantError + unit" where
  "grant_validate cx p = first_err
     [guard (gp_schema_version p \<noteq> CLIENT_GRANT_SCHEMA_VERSION \<or> is_nil (gp_grant_id p) \<or>
             gp_device_generation p = 0 \<or> gp_generation p = 0 \<or>
             \<not> is_device_public_key cx (gp_device_public_key p) \<or> gp_signing_key_id p = [] \<or>
             length (gp_signing_key_id p) > MAX_CLIENT_GRANT_SIGNING_KEY_ID_LEN) InvalidPayload,
      guard (grant_audience_bad p) AudienceMismatch,
      guard (gp_not_before p > gp_issued_at p \<or> gp_expires_at p \<le> gp_issued_at p \<or>
             gp_expires_at p - gp_issued_at p > CLIENT_GRANT_MAX_TTL_SECS) InvalidPayload,
      guard (gp_mode_capabilities p = [] \<or> length (gp_mode_capabilities p) > 2 \<or>
             has_duplicates (gp_mode_capabilities p)) InvalidPayload,
      guard (is_nil (gb_policy_id (gp_policy p)) \<or> gb_generation (gp_policy p) = 0 \<or>
             \<not> is_content_hash (gb_content_hash (gp_policy p))) InvalidPayload,
      guard (gp_nodes p = [] \<or> length (gp_nodes p) > MAX_CLIENT_GRANT_NODES) InvalidPayload,
      bind_res (fold_res (grant_node_step p) {} (enumerate 0 (gp_nodes p))) (\<lambda>_. Inr ())]"

definition grant_canonical_bytes ::
  "grant_ext \<Rightarrow> ClientGrantPayloadV1 \<Rightarrow> ClientGrantError + u8 list" where
  "grant_canonical_bytes gx p = ok_or (gx_jcs_payload gx p) Canonicalization"

definition grant_content_hash ::
  "grant_ext \<Rightarrow> ClientGrantPayloadV1 \<Rightarrow> ClientGrantError + hash32" where
  "grant_content_hash gx p =
     bind_res (grant_validate gx p) (\<lambda>_.
     bind_res (grant_canonical_bytes gx p) (\<lambda>canonical. Inr (cx_sha256 gx canonical)))"

subsection \<open>The envelope\<close>

definition content_hash_bytes :: "ClientGrantEnvelopeV1 \<Rightarrow> ClientGrantError + hash32" where
  "content_hash_bytes env = grant_parse_content_hash (ge_content_hash env)"

definition grant_verify ::
  "grant_ext \<Rightarrow> u8 list \<Rightarrow> ClientGrantEnvelopeV1 \<Rightarrow> ClientGrantError + unit" where
  "grant_verify gx vk env =
     bind_res (grant_validate gx (ge_payload env)) (\<lambda>_.
     bind_res (guard (ge_schema_version env \<noteq> CLIENT_GRANT_SCHEMA_VERSION \<or>
        ge_signing_key_id env \<noteq> gp_signing_key_id (ge_payload env)) InvalidEnvelope) (\<lambda>_.
     bind_res (grant_content_hash gx (ge_payload env)) (\<lambda>expected_hash.
     bind_res (content_hash_bytes env) (\<lambda>stated.
     bind_res (guard (expected_hash \<noteq> stated) ContentHashMismatch) (\<lambda>_.
     bind_res (ok_or (cx_url_decode gx (ge_signature env)) InvalidSignature) (\<lambda>signature.
     bind_res (guard (\<not> cx_signature_from_slice gx signature) InvalidSignature) (\<lambda>_.
     guard (\<not> cx_verify gx vk (grant_signing_message expected_hash) signature)
       InvalidSignature)))))))"

definition grant_to_envelope_bytes ::
  "grant_ext \<Rightarrow> ClientGrantEnvelopeV1 \<Rightarrow> ClientGrantError + u8 list" where
  "grant_to_envelope_bytes gx env = ok_or (gx_jcs_envelope gx env) Canonicalization"

definition grant_from_envelope_bytes ::
  "grant_ext \<Rightarrow> u8 list \<Rightarrow> ClientGrantError + ClientGrantEnvelopeV1" where
  "grant_from_envelope_bytes gx bytes =
     (if bytes = [] \<or> length bytes > MAX_CLIENT_GRANT_TOKEN_LEN then Inl InvalidEnvelope
      else ok_or (gx_json_envelope gx bytes) InvalidEnvelope)"

definition to_token :: "grant_ext \<Rightarrow> ClientGrantEnvelopeV1 \<Rightarrow> ClientGrantError + string" where
  "to_token gx env =
     bind_res (grant_to_envelope_bytes gx env) (\<lambda>bytes. Inr (cx_url_encode gx bytes))"

definition from_token :: "grant_ext \<Rightarrow> string \<Rightarrow> ClientGrantError + ClientGrantEnvelopeV1" where
  "from_token gx token =
     (if token = [] \<or> length token > MAX_CLIENT_GRANT_TOKEN_LEN then Inl InvalidToken
      else bind_res (ok_or (cx_url_decode gx token) InvalidToken)
             (grant_from_envelope_bytes gx))"

subsection \<open>The issuer\<close>

record ClientGrantSigner =
  gs_signing_key :: "u8 list"
  gs_key_id :: string

definition grant_signer_new :: "string \<Rightarrow> u8 list \<Rightarrow> ClientGrantError + ClientGrantSigner" where
  "grant_signer_new key_id signing_key =
     (if key_id = [] \<or> length key_id > MAX_CLIENT_GRANT_SIGNING_KEY_ID_LEN
      then Inl InvalidEnvelope
      else Inr \<lparr>gs_signing_key = signing_key, gs_key_id = key_id\<rparr>)"

definition grant_signer_from_key_file ::
  "io_error + u32 \<Rightarrow> io_error + u8 list \<Rightarrow> string \<Rightarrow> io_error + ClientGrantSigner" where
  "grant_signer_from_key_file metadata contents key_id =
     bind_res (load_signing_seed metadata contents)
       (\<lambda>seed. map_err (\<lambda>_. InvalidInput) (grant_signer_new key_id seed))"

definition grant_verifying_key :: "grant_ext \<Rightarrow> ClientGrantSigner \<Rightarrow> u8 list" where
  "grant_verifying_key gx s = cx_verifying_key gx (gs_signing_key s)"

definition grant_issue ::
  "grant_ext \<Rightarrow> ClientGrantSigner \<Rightarrow> ClientGrantPayloadV1 \<Rightarrow>
     ClientGrantError + ClientGrantEnvelopeV1" where
  "grant_issue gx s p0 =
     (let p = p0\<lparr>gp_signing_key_id := gs_key_id s\<rparr> in
      bind_res (grant_validate gx p) (\<lambda>_.
      bind_res (grant_content_hash gx p) (\<lambda>content_hash.
      let signature = cx_sign gx (gs_signing_key s) (grant_signing_message content_hash);
          env = \<lparr>ge_schema_version = CLIENT_GRANT_SCHEMA_VERSION, ge_payload = p,
                 ge_content_hash = format_content_hash content_hash,
                 ge_signing_key_id = gs_key_id s,
                 ge_signature = cx_url_encode gx signature\<rparr>
      in bind_res (grant_verify gx (grant_verifying_key gx s) env) (\<lambda>_. Inr env))))"

subsection \<open>The DNS name scanner against a definition by labels\<close>

definition label_char :: "char \<Rightarrow> bool" where
  "label_char c \<longleftrightarrow> dns_letter c \<or> is_ascii_digit c \<or> c = CHR ''-''"

definition wire_label_ok :: "string \<Rightarrow> bool" where
  "wire_label_ok w \<longleftrightarrow> w \<noteq> [] \<and> length w \<le> 63 \<and> hd w \<noteq> CHR ''-'' \<and> last w \<noteq> CHR ''-'' \<and>
     list_all label_char w"

definition strip_root_dot :: "string \<Rightarrow> string" where
  "strip_root_dot s = (if s \<noteq> [] \<and> last s = CHR ''.'' then butlast s else s)"

definition labels_ok :: "string list \<Rightarrow> bool" where
  "labels_ok ls \<longleftrightarrow> list_all wire_label_ok ls \<and> \<not> list_all is_ascii_digit (last ls)"

definition label_step :: "LabelState \<Rightarrow> char \<Rightarrow> LabelState" where
  "label_step st c = (if dns_letter c then HasLetter
     else if is_ascii_digit c then digit_state st else EndsInHyphen)"

definition label_state :: "string \<Rightarrow> LabelState" where
  "label_state w = foldl label_step Start w"

lemma char_classes:
  "dns_letter c \<Longrightarrow> \<not> is_ascii_digit c" "dns_letter c \<Longrightarrow> c \<noteq> CHR ''.''"
  "dns_letter c \<Longrightarrow> c \<noteq> CHR ''-''" "is_ascii_digit c \<Longrightarrow> c \<noteq> CHR ''.''"
  "is_ascii_digit c \<Longrightarrow> c \<noteq> CHR ''-''" "label_char c \<Longrightarrow> c \<noteq> CHR ''.''"
  by (auto simp: label_char_def dns_letter_def ascii_defs)

lemma label_state_snoc: "label_state (w @ [c]) = label_step (label_state w) c"
  by (simp add: label_state_def)

lemma digit_state_cases:
  "digit_state st \<noteq> EndsInHyphen" "digit_state st \<noteq> Start"
  "digit_state st = AllNumeric \<longleftrightarrow> st = Start \<or> st = AllNumeric"
  by (cases st; simp)+

lemma label_state_props:
  assumes "list_all label_char w"
  shows "label_state w = Start \<longleftrightarrow> w = []"
    and "label_state w = EndsInHyphen \<longleftrightarrow> w \<noteq> [] \<and> last w = CHR ''-''"
    and "label_state w = AllNumeric \<longleftrightarrow> w \<noteq> [] \<and> list_all is_ascii_digit w"
  using assms
  by (induction w rule: rev_induct)
    (auto simp: label_state_def label_step_def label_char_def digit_state_cases char_classes)

lemma strip_root_dot_Cons:
  "r \<noteq> [] \<Longrightarrow> strip_root_dot (c # r) = c # strip_root_dot r"
  "c \<noteq> CHR ''.'' \<Longrightarrow> strip_root_dot (c # r) = c # strip_root_dot r"
  "strip_root_dot [CHR ''.''] = []" "strip_root_dot [] = []"
  by (auto simp: strip_root_dot_def)

lemma split_on_Cons_other:
  "c \<noteq> d \<Longrightarrow> split_on d (c # s) = (c # hd (split_on d s)) # tl (split_on d s)"
  by (auto split: list.splits)

lemma labels_ok_Cons:
  "ls \<noteq> [] \<Longrightarrow> labels_ok (w # ls) \<longleftrightarrow> wire_label_ok w \<and> labels_ok ls"
  by (auto simp: labels_ok_def)

lemma labels_bad_char:
  assumes "c \<in> set s" and "\<not> label_char c" and "c \<noteq> CHR ''.''"
  shows "\<not> labels_ok (split_on CHR ''.'' s)"
  using split_on_cover [OF assms(1,3)] assms(2)
  by (auto simp: labels_ok_def wire_label_ok_def list_all_iff)

text \<open>The four kinds of steps of the scanner.\<close>

lemma dns_loop_char:
  assumes "byte_at input idx = Some c" and "label_char c" and "c = CHR ''-'' \<Longrightarrow> idx \<noteq> start"
  shows "dns_loop input start idx st = dns_loop input start (idx + 1) (label_step st c)"
  using assms
  by (subst dns_loop.simps) (auto simp: label_step_def label_char_def char_classes Let_def)

lemma dns_loop_hyphen:
  assumes "byte_at input idx = Some CHR ''-''"
  shows "\<not> dns_loop input idx idx st"
  using assms by (subst dns_loop.simps) (auto simp: dns_letter_def ascii_defs Let_def)

lemma dns_loop_end:
  assumes "byte_at input idx = None \<or> byte_at input idx = Some CHR ''.''"
  shows "dns_loop input start idx st \<longleftrightarrow>
    idx - start \<noteq> 0 \<and> idx - start \<le> 63 \<and> st \<noteq> EndsInHyphen \<and>
    (if idx + 1 \<ge> length input then st \<noteq> AllNumeric
     else dns_loop input (idx + 1) (idx + 1) Start)"
  using assms by (subst dns_loop.simps) (auto simp: dns_letter_def ascii_defs Let_def)

lemma dns_loop_bad:
  assumes "byte_at input idx = Some c" and "\<not> label_char c" and "c \<noteq> CHR ''.''"
  shows "\<not> dns_loop input start idx st"
  using assms by (subst dns_loop.simps) (auto simp: label_char_def Let_def)

text \<open>The scanner in the middle of a label \<open>w\<close>, with \<open>rest\<close> still to read.\<close>

lemma dns_loop_labels:
  assumes "list_all label_char w" and "w = [] \<or> hd w \<noteq> CHR ''-''"
  shows "dns_loop (pre @ w @ rest) (length pre) (length pre + length w) (label_state w) \<longleftrightarrow>
    labels_ok (split_on CHR ''.'' (w @ strip_root_dot rest))"
  using assms
proof (induction rest arbitrary: pre w)
  case Nil
  have "CHR ''.'' \<notin> set w" using Nil by (auto simp: list_all_iff dest: char_classes(6))
  then show ?case
    using Nil label_state_props [OF Nil(1)]
    by (subst dns_loop_end)
      (auto simp: byte_at_def split_on_no_sep labels_ok_def wire_label_ok_def strip_root_dot_Cons)
next
  case (Cons c rest)
  let ?input = "pre @ w @ c # rest"
  have at: "byte_at ?input (length pre + length w) = Some c"
    by (simp add: byte_at_def nth_append)
  have nodot: "CHR ''.'' \<notin> set w"
    using Cons.prems by (auto simp: list_all_iff dest: char_classes(6))
  consider (char) "label_char c" "\<not> (c = CHR ''-'' \<and> w = [])" | (hyphen) "c = CHR ''-''" "w = []"
    | (dot) "c = CHR ''.''" | (bad) "\<not> label_char c" "c \<noteq> CHR ''.''" by blast
  then show ?case
  proof cases
    case char
    then have "dns_loop ?input (length pre) (length pre + length w) (label_state w) =
        dns_loop ?input (length pre) (length pre + length (w @ [c])) (label_state (w @ [c]))"
      by (subst dns_loop_char [OF at]) (auto simp: label_state_snoc)
    also have "\<dots> \<longleftrightarrow> labels_ok (split_on CHR ''.'' ((w @ [c]) @ strip_root_dot rest))"
      using Cons.IH [of "w @ [c]" pre] Cons.prems char
      by (cases w) auto
    finally show ?thesis using char(1) by (simp add: strip_root_dot_Cons char_classes(6))
  next
    case hyphen
    then have "\<not> dns_loop ?input (length pre) (length pre + length w) (label_state w)"
      using dns_loop_hyphen [of ?input "length pre"] at by simp
    moreover have "\<not> labels_ok (split_on CHR ''.'' (w @ strip_root_dot (c # rest)))"
      using hyphen
      by (simp add: strip_root_dot_Cons split_on_Cons_other labels_ok_def wire_label_ok_def
          del: split_on.simps)
    ultimately show ?thesis by simp
  next
    case dot
    have word: "wire_label_ok w \<longleftrightarrow> w \<noteq> [] \<and> length w \<le> 63 \<and> label_state w \<noteq> EndsInHyphen"
      using Cons.prems label_state_props(2) [OF Cons.prems(1)] by (auto simp: wire_label_ok_def)
    have num: "label_state w = AllNumeric \<longleftrightarrow> w \<noteq> [] \<and> list_all is_ascii_digit w"
      using label_state_props(3) [OF Cons.prems(1)] .
    have start: "label_state [] = Start" by (simp add: label_state_def)
    have step: "dns_loop ?input (length pre) (length pre + length w) (label_state w) \<longleftrightarrow>
        wire_label_ok w \<and> (if rest = [] then label_state w \<noteq> AllNumeric
          else dns_loop ?input (length pre + length w + 1) (length pre + length w + 1) Start)"
      using dot at by (subst dns_loop_end) (auto simp: word)
    show ?thesis
    proof (cases "rest = []")
      case True
      have "wire_label_ok w \<Longrightarrow> w \<noteq> []" by (simp add: wire_label_ok_def)
      with True dot nodot show ?thesis
        unfolding step by (auto simp: strip_root_dot_Cons split_on_no_sep labels_ok_def num)
    next
      case False
      have "dns_loop ?input (length pre + length w + 1) (length pre + length w + 1) Start \<longleftrightarrow>
          labels_ok (split_on CHR ''.'' (strip_root_dot rest))"
        using Cons.IH [of "[]" "pre @ w @ [c]"] start by (simp add: add.assoc)
      with False dot nodot show ?thesis
        unfolding step by (simp add: strip_root_dot_Cons(1) split_on_sep labels_ok_Cons)
    qed
  next
    case bad
    then have "\<not> dns_loop ?input (length pre) (length pre + length w) (label_state w)"
      using dns_loop_bad [OF at] by simp
    moreover have "\<not> labels_ok (split_on CHR ''.'' (w @ strip_root_dot (c # rest)))"
      using bad by (intro labels_bad_char [of c]) (auto simp: strip_root_dot_Cons)
    ultimately show ?thesis by simp
  qed
qed


subsection \<open>Pins\<close>

lemma parse_cert_pin_iff:
  "parse_cert_pin s = Some h \<longleftrightarrow> length h = 32 \<and> s = format_cert_pin h"
proof
  assume "parse_cert_pin s = Some h"
  then have s: "length s = 64" "list_all is_lower_hexdigit s" "parse_hex s = Some h"
    by (auto simp: parse_cert_pin_def split: if_splits)
  then have "\<forall>c \<in> set s. is_ascii_hexdigit c"
    by (auto simp: list_all_iff intro: lower_hexdigit_hexdigit)
  from parse_hex_digits [OF this] s have "hex h = map to_ascii_lowercase s" "length h = 32"
    by auto
  moreover have "map to_ascii_lowercase s = s"
    using s(2) by (intro map_idI) (auto simp: list_all_iff to_ascii_lowercase_lower)
  ultimately show "length h = 32 \<and> s = format_cert_pin h" by (simp add: format_cert_pin_def)
next
  assume "length h = 32 \<and> s = format_cert_pin h"
  then show "parse_cert_pin s = Some h"
    using hex_lower by (auto simp: parse_cert_pin_def format_cert_pin_def list_all_iff)
qed

subsection \<open>What the payload validation accepts\<close>

lemma grant_nodes_ok:
  "fold_res (grant_node_step p) seen (enumerate k ns) = Inr seen' \<longleftrightarrow>
     (\<forall>n \<in> set ns. \<not> grant_node_bad p n) \<and> distinct (map gn_node_id ns) \<and>
     gn_node_id ` set ns \<inter> seen = {} \<and>
     map (unat \<circ> gn_priority) ns = [k + 1..<k + 1 + length ns] \<and>
     seen' = gn_node_id ` set ns \<union> seen"
proof (induction ns arbitrary: k seen)
  case Nil
  then show ?case by auto
next
  case (Cons n ns)
  have "[k + 1..<k + 1 + length (n # ns)] = (k + 1) # [Suc k + 1..<Suc k + 1 + length ns]"
    by (simp add: upt_rec)
  with Cons show ?case
    by (auto simp: grant_node_step_def)
qed

lemma grant_validate_nodes:
  assumes "grant_validate cx p = Inr ()"
  shows "map (unat \<circ> gn_priority) (gp_nodes p) = [1..<1 + length (gp_nodes p)]"
    and "distinct (map gn_node_id (gp_nodes p))"
    and "n \<in> set (gp_nodes p) \<Longrightarrow> \<not> grant_node_bad p n"
    and "gp_nodes p \<noteq> []" and "length (gp_nodes p) \<le> 3"
  using assms by (auto simp: grant_validate_def grant_nodes_ok MAX_CLIENT_GRANT_NODES_def)

subsection \<open>Issuing and verifying\<close>

lemma grant_verify_ok:
  "grant_verify gx vk env = Inr () \<longleftrightarrow>
     grant_validate gx (ge_payload env) = Inr () \<and>
     ge_schema_version env = CLIENT_GRANT_SCHEMA_VERSION \<and>
     ge_signing_key_id env = gp_signing_key_id (ge_payload env) \<and>
     (\<exists>h sig. grant_content_hash gx (ge_payload env) = Inr h \<and> content_hash_bytes env = Inr h \<and>
        cx_url_decode gx (ge_signature env) = Some sig \<and> cx_signature_from_slice gx sig \<and>
        cx_verify gx vk (grant_signing_message h) sig)"
  by (auto simp: grant_verify_def)

interpretation grant: signed_document "grant_issue gx" "grant_verify gx" "grant_verifying_key gx"
  "\<lambda>s p. p\<lparr>gp_signing_key_id := gs_key_id s\<rparr>" ge_payload "\<lambda>p. grant_validate gx p = Inr ()"
  "\<lambda>p. case grant_content_hash gx p of Inl _ \<Rightarrow> None | Inr h \<Rightarrow> Some h"
  "\<lambda>env. case content_hash_bytes env of Inl _ \<Rightarrow> None | Inr h \<Rightarrow> Some h"
  for gx :: grant_ext
  by unfold_locales (auto simp: grant_issue_def Let_def grant_verify_ok)

subsection \<open>Properties\<close>

text \<open>
  C35: the byte-wise scanner \<open>is_valid_dns_name\<close> accepts exactly the names of at most 253
  bytes whose labels (after an optional final dot) are 1 to 63 letters, digits, underscores
  or inner hyphens, the last label not being all digits.
\<close>

theorem is_valid_dns_name_iff:
  "is_valid_dns_name s \<longleftrightarrow>
     s \<noteq> [] \<and> length s \<le> 253 \<and> labels_ok (split_on CHR ''.'' (strip_root_dot s))"
  using dns_loop_labels [of "[]" "[]" s]
  by (auto simp: is_valid_dns_name_def label_state_def)

text \<open>
  A certificate pin is parsed exactly when it is the lower-case rendering of a 32-byte
  hash, and then to that hash: there is no second spelling.
\<close>

theorem parse_cert_pin_canonical:
  "parse_cert_pin s = Some h \<longleftrightarrow> length h = 32 \<and> s = format_cert_pin h"
  by (rule parse_cert_pin_iff)

text \<open>
  C27: a validated grant has one to three nodes with pairwise different ids and the dense
  failover priorities 1, 2, 3; every lease ends after the issue time and not after the
  expiry; the lifetime is positive and at most seven days; the audience is the bound device.
\<close>

theorem grant_validate_guarantees:
  assumes "grant_validate cx p = Inr ()"
  shows "map (unat \<circ> gn_priority) (gp_nodes p) = [1..<1 + length (gp_nodes p)] \<and>
    1 \<le> length (gp_nodes p) \<and> length (gp_nodes p) \<le> 3 \<and>
    distinct (map gn_node_id (gp_nodes p)) \<and>
    list_all (\<lambda>n. gp_issued_at p < gn_assignment_lease_until n \<and>
       gn_assignment_lease_until n \<le> gp_expires_at p \<and>
       (\<exists>h. gn_server_cert_sha256 n = format_cert_pin h)) (gp_nodes p) \<and>
    gp_not_before p \<le> gp_issued_at p \<and>
    unat (gp_issued_at p) < unat (gp_expires_at p) \<and>
    unat (gp_expires_at p) \<le> unat (gp_issued_at p) + 604800 \<and>
    gp_audience p = \<lparr>ga_tenant_id = gp_tenant_id p, ga_user_id = gp_user_id p,
      ga_device_id = gp_device_id p, ga_device_key_id = gp_device_key_id p\<rparr>"
proof -
  note nodes = grant_validate_nodes [OF assms]
  have window: "gp_not_before p \<le> gp_issued_at p" "gp_issued_at p < gp_expires_at p"
    "gp_expires_at p - gp_issued_at p \<le> 604800" and aud: "\<not> grant_audience_bad p"
    using assms by (auto simp: grant_validate_def CLIENT_GRANT_MAX_TTL_SECS_def)
  then have "unat (gp_expires_at p - gp_issued_at p) \<le> 604800"
    by (simp add: word_le_nat_alt)
  moreover have "unat (gp_expires_at p - gp_issued_at p) =
      unat (gp_expires_at p) - unat (gp_issued_at p)"
    using window(2) by (intro unat_sub) simp
  moreover have "unat (gp_issued_at p) < unat (gp_expires_at p)"
    using window(2) by (simp add: word_less_nat_alt)
  moreover have "list_all (\<lambda>n. gp_issued_at p < gn_assignment_lease_until n \<and>
       gn_assignment_lease_until n \<le> gp_expires_at p \<and>
       (\<exists>h. gn_server_cert_sha256 n = format_cert_pin h)) (gp_nodes p)"
    using nodes(3) by (auto simp: list_all_iff grant_node_bad_def not_le not_less parse_cert_pin_iff)
  moreover have "gp_audience p = \<lparr>ga_tenant_id = gp_tenant_id p, ga_user_id = gp_user_id p,
      ga_device_id = gp_device_id p, ga_device_key_id = gp_device_key_id p\<rparr>"
    using aud by (auto simp: grant_audience_bad_def Let_def)
  moreover have "1 \<le> length (gp_nodes p)"
    using nodes(4) by (simp add: Suc_le_eq)
  ultimately show ?thesis
    using nodes(1,2,5) window(1) by linarith
qed

text \<open>
  C28: with correct signatures and base64, a 32-byte digest and a serialiser that accepts the
  payload, \<open>issue\<close> fails exactly with the validation error of the payload carrying the
  signer's key id, and otherwise returns an envelope around that payload which verifies
  under the signer's public key and states the payload's digest.
\<close>

theorem grant_issue_complete:
  assumes "ed25519_ok gx" and "base64_ok gx" and "sha256_ok gx"
    and "gx_jcs_payload gx (p\<lparr>gp_signing_key_id := gs_key_id s\<rparr>) = Some canonical"
  shows "(case grant_validate gx (p\<lparr>gp_signing_key_id := gs_key_id s\<rparr>) of
      Inl e \<Rightarrow> grant_issue gx s p = Inl e
    | Inr _ \<Rightarrow> (\<exists>env. grant_issue gx s p = Inr env \<and>
        ge_payload env = p\<lparr>gp_signing_key_id := gs_key_id s\<rparr> \<and>
        content_hash_bytes env = Inr (cx_sha256 gx canonical) \<and>
        grant_verify gx (grant_verifying_key gx s) env = Inr ()))"
proof (cases "grant_validate gx (p\<lparr>gp_signing_key_id := gs_key_id s\<rparr>)")
  case (Inl e)
  then show ?thesis by (simp add: grant_issue_def)
next
  case (Inr u)
  let ?p = "p\<lparr>gp_signing_key_id := gs_key_id s\<rparr>" and ?h = "cx_sha256 gx canonical"
  define env where "env = \<lparr>ge_schema_version = CLIENT_GRANT_SCHEMA_VERSION, ge_payload = ?p,
    ge_content_hash = format_content_hash ?h, ge_signing_key_id = gs_key_id s,
    ge_signature = cx_url_encode gx (cx_sign gx (gs_signing_key s) (grant_signing_message ?h))\<rparr>"
  have hash: "grant_content_hash gx ?p = Inr ?h"
    using Inr assms(4) by (simp add: grant_content_hash_def grant_canonical_bytes_def)
  have stated: "content_hash_bytes env = Inr ?h"
    using assms(3) by (simp add: content_hash_bytes_def grant_parse_content_hash_def env_def
        sha256_ok_def)
  have "grant_verify gx (grant_verifying_key gx s) env = Inr ()"
    using Inr hash stated
    by (simp add: grant_verify_ok env_def grant_verifying_key_def base64_okD(1) [OF assms(2)]
        ed25519_okD [OF assms(1)])
  moreover from this have "grant_issue gx s p = Inr env"
    using Inr hash by (simp add: grant_issue_def Let_def env_def)
  moreover have "ge_payload env = ?p" by (simp add: env_def)
  ultimately show ?thesis using Inr stated by auto
qed

lemma grant_content_hash_ok:
  "grant_content_hash gx p = Inr h \<longleftrightarrow>
     grant_validate gx p = Inr () \<and> (\<exists>b. gx_jcs_payload gx p = Some b \<and> h = cx_sha256 gx b)"
  by (auto simp: grant_content_hash_def grant_canonical_bytes_def)



subsection \<open>Witnesses\<close>

definition wit_grant_node :: ClientGrantNodeAssignment where
  "wit_grant_node = \<lparr>gn_node_id = 11, gn_endpoint = ''192.0.2.1:443'', gn_priority = 1,
     gn_node_key_id = 12, gn_transport = ''quic'', gn_server_name = ''n1.example'',
     gn_server_cert_sha256 = hex (replicate 32 5), gn_assignment_lease_until = 200\<rparr>"

definition wit_payload :: ClientGrantPayloadV1 where
  "wit_payload = \<lparr>gp_schema_version = 1, gp_grant_id = 1, gp_tenant_id = 2, gp_user_id = 3,
     gp_device_id = 4, gp_device_key_id = 5, gp_device_public_key = replicate 43 CHR ''A'',
     gp_audience = \<lparr>ga_tenant_id = 2, ga_user_id = 3, ga_device_id = 4, ga_device_key_id = 5\<rparr>,
     gp_device_generation = 1, gp_generation = 1, gp_issued_at = 100, gp_not_before = 100,
     gp_expires_at = 500, gp_mode_capabilities = [GrantPolicy],
     gp_policy = \<lparr>gb_policy_id = 9, gb_generation = 3,
       gb_content_hash = format_content_hash (replicate 32 6)\<rparr>,
     gp_nodes = [wit_grant_node, wit_grant_node\<lparr>gn_node_id := 13, gn_priority := 2\<rparr>],
     gp_signing_key_id = ''k1''\<rparr>"

definition wit_gx :: grant_ext where
  "wit_gx = \<lparr>cx_sha256 = (\<lambda>_. replicate 32 0xAB), cx_verifying_key = (\<lambda>k. k),
     cx_sign = (\<lambda>_ _. replicate 64 0), cx_verify = (\<lambda>_ _ sig. sig = replicate 64 0),
     cx_signature_from_slice = (\<lambda>sig. length sig = 64), cx_url_encode = hex,
     cx_url_decode = (\<lambda>s. if length s = 43 then Some (replicate 32 1) else parse_hex s),
     cx_std_encode = hex, cx_std_decode = parse_hex,
     gx_jcs_payload = (\<lambda>p. if p = wit_payload then Some [1, 2] else None),
     gx_jcs_envelope = (\<lambda>_. Some [1, 2, 3]),
     gx_json_envelope = (\<lambda>_. None)\<rparr>"

lemma wit_payload_valid: "grant_validate wit_gx wit_payload = Inr ()"
proof -
  have name: "is_valid_dns_name ''n1.example''" by code_simp
  have trim: "str_trim ''192.0.2.1:443'' \<noteq> []" by code_simp
  have ctl: "\<not> list_ex is_ascii_control ''192.0.2.1:443''" by code_simp
  have pin: "parse_cert_pin (hex (replicate 32 5)) = Some (replicate 32 5)"
    by (simp add: parse_cert_pin_iff format_cert_pin_def)
  have hash: "is_content_hash (format_content_hash (replicate 32 6))"
    by (simp add: is_content_hash_def grant_parse_content_hash_def)
  have bad: "\<not> grant_node_bad wit_payload n" if "n \<in> set (gp_nodes wit_payload)" for n
    using that name trim ctl pin
    by (auto simp: wit_payload_def wit_grant_node_def grant_node_bad_def is_nil_def
        is_valid_server_name_def)
  have key: "is_device_public_key wit_gx (replicate 43 CHR ''A'')"
    by (simp add: is_device_public_key_def wit_gx_def ED25519_PUBLIC_KEY_LEN_def)
  have "fold_res (grant_node_step wit_payload) {} (enumerate 0 (gp_nodes wit_payload)) =
      Inr (gn_node_id ` set (gp_nodes wit_payload))"
    unfolding grant_nodes_ok using bad by (simp add: wit_payload_def wit_grant_node_def upt_rec)
  then show ?thesis
    using key hash
    by (simp add: grant_validate_def) (simp add: wit_payload_def grant_audience_bad_def is_nil_def
        CLIENT_GRANT_SCHEMA_VERSION_def MAX_CLIENT_GRANT_SIGNING_KEY_ID_LEN_def
        CLIENT_GRANT_MAX_TTL_SECS_def MAX_CLIENT_GRANT_NODES_def)
qed

lemma wit_gx_laws: "ed25519_ok wit_gx" "base64_ok wit_gx" "sha256_ok wit_gx"
proof -
  have "length (hex bs) \<noteq> 43" for bs :: "u8 list"
    by simp presburger
  then show "base64_ok wit_gx" by (simp add: base64_ok_def wit_gx_def)
qed (simp_all add: ed25519_ok_def sha256_ok_def wit_gx_def)

theorem grant_validate_guarantees_witness:
  "map (unat \<circ> gn_priority) (gp_nodes wit_payload) = [1, 2]"
proof -
  have "length (gp_nodes wit_payload) = 2" by (simp add: wit_payload_def)
  then show ?thesis using grant_validate_guarantees [OF wit_payload_valid] by (simp add: numeral_2_eq_2)
qed

definition wit_signer :: ClientGrantSigner where
  "wit_signer = \<lparr>gs_signing_key = replicate 32 9, gs_key_id = ''k1''\<rparr>"

lemma wit_payload_key: "wit_payload\<lparr>gp_signing_key_id := gs_key_id wit_signer\<rparr> = wit_payload"
  by (simp add: wit_payload_def wit_signer_def)

theorem grant_issue_complete_witness:
  "\<exists>env. grant_issue wit_gx wit_signer wit_payload = Inr env \<and>
     grant_verify wit_gx (grant_verifying_key wit_gx wit_signer) env = Inr ()"
proof -
  have "gx_jcs_payload wit_gx (wit_payload\<lparr>gp_signing_key_id := gs_key_id wit_signer\<rparr>) = Some [1, 2]"
    by (simp add: wit_payload_key) (simp add: wit_gx_def)
  from grant_issue_complete [OF wit_gx_laws this] show ?thesis
    by (auto simp: wit_payload_key wit_payload_valid)
qed

definition wit_envelope :: ClientGrantEnvelopeV1 where
  "wit_envelope = \<lparr>ge_schema_version = 1, ge_payload = wit_payload,
     ge_content_hash = format_content_hash (replicate 32 0xAB), ge_signing_key_id = ''k1'',
     ge_signature = hex (replicate 64 0)\<rparr>"

text \<open>The same envelope with its content hash spelt in upper case.\<close>

definition wit_envelope_upper :: ClientGrantEnvelopeV1 where
  "wit_envelope_upper =
     wit_envelope\<lparr>ge_content_hash := ''sha256:'' @ concat (replicate 32 ''AB'')\<rparr>"

lemma wit_envelope_hash:
  "content_hash_bytes wit_envelope = Inr (replicate 32 0xAB)"
  "content_hash_bytes wit_envelope_upper = Inr (replicate 32 0xAB)"
proof -
  show "content_hash_bytes wit_envelope = Inr (replicate 32 0xAB)"
    by (simp add: content_hash_bytes_def grant_parse_content_hash_def wit_envelope_def)
  show "content_hash_bytes wit_envelope_upper = Inr (replicate 32 0xAB)" by code_simp
qed

lemma wit_envelope_verifies:
  assumes "env = wit_envelope \<or> env = wit_envelope_upper"
  shows "grant_verify wit_gx vk env = Inr ()"
proof -
  have "grant_content_hash wit_gx wit_payload = Inr (replicate 32 0xAB)"
    by (simp add: grant_content_hash_def wit_payload_valid grant_canonical_bytes_def)
      (simp add: wit_gx_def)
  moreover have "ge_payload env = wit_payload" "ge_schema_version env = 1"
      "ge_signing_key_id env = ''k1''" "ge_signature env = hex (replicate 64 0)"
      "content_hash_bytes env = Inr (replicate 32 0xAB)" "gp_signing_key_id wit_payload = ''k1''"
    using assms wit_envelope_hash
    by (auto simp: wit_envelope_def wit_envelope_upper_def wit_payload_def)
  ultimately show ?thesis
    by (simp add: grant_verify_ok wit_payload_valid CLIENT_GRANT_SCHEMA_VERSION_def)
      (simp add: wit_gx_def)
qed



end
