(* ===== verification/Client_Projection.thy ===== *)
theory Client_Projection
  imports Client_Grant
begin

section \<open>The terminal policy projection (\<open>crates/cloud-client-projection\<close>)\<close>

text \<open>
  The signed document that tells a client device which node to use and which resources it
  may reach: its validation, its canonical bytes (every field but \<open>content_hash\<close> and
  \<open>signature\<close>), verification and signing. The canonicaliser is the parameter
  \<open>proj_ext\<close>: \<open>px_jcs_unsigned\<close> is applied to the document with the two unsigned fields
  removed, \<open>px_jcs\<close> to the whole. The lemmas characterise the accepted documents, show that
  signing is an instance of \<open>signed_document\<close>, and separate the two signing domains.
\<close>

subsection \<open>Constants and types\<close>

definition POLICY_PROJECTION_SCHEMA_VERSION :: u16 where "POLICY_PROJECTION_SCHEMA_VERSION = 1"
definition POLICY_PROJECTION_TYPE :: string where "POLICY_PROJECTION_TYPE = ''device_client''"
definition POLICY_PROJECTION_DOMAIN :: "u8 list" where
  "POLICY_PROJECTION_DOMAIN = str_bytes ''candy/sdwan/policy-projection/v1''"
definition MAX_POLICY_PROJECTION_SIGNING_KEY_ID_LEN :: nat where
  "MAX_POLICY_PROJECTION_SIGNING_KEY_ID_LEN = 128"
definition MAX_POLICY_PROJECTION_STANDBY_NODES :: nat where
  "MAX_POLICY_PROJECTION_STANDBY_NODES = 8"
definition MAX_POLICY_PROJECTION_RESOURCES :: nat where "MAX_POLICY_PROJECTION_RESOURCES = 4096"
definition MAX_POLICY_PROJECTION_DNS_SERVERS :: nat where "MAX_POLICY_PROJECTION_DNS_SERVERS = 8"
definition MAX_POLICY_PROJECTION_SEARCH_DOMAINS :: nat where
  "MAX_POLICY_PROJECTION_SEARCH_DOMAINS = 32"
definition MAX_POLICY_PROJECTION_UNDERLAY_EXCLUSIONS :: nat where
  "MAX_POLICY_PROJECTION_UNDERLAY_EXCLUSIONS = 256"
definition MAX_POLICY_PROJECTION_BYTES :: nat where "MAX_POLICY_PROJECTION_BYTES = 1024 * 1024"
definition MAX_RESOURCE_NAME_LEN :: nat where "MAX_RESOURCE_NAME_LEN = 128"
definition MAX_DOMAIN_LEN :: nat where "MAX_DOMAIN_LEN = 253"
definition MAX_CIDR_LEN :: nat where "MAX_CIDR_LEN = 64"
definition MAX_ENDPOINT_LEN :: nat where "MAX_ENDPOINT_LEN = 255"
definition MAX_DNS_SERVER_LEN :: nat where "MAX_DNS_SERVER_LEN = 128"
definition MAX_SEARCH_DOMAIN_LEN :: nat where "MAX_SEARCH_DOMAIN_LEN = 253"
definition MAX_UNDERLAY_EXCLUSION_LEN :: nat where "MAX_UNDERLAY_EXCLUSION_LEN = 128"
definition ED25519_SIGNATURE_LEN :: nat where "ED25519_SIGNATURE_LEN = 64"

datatype PolicyProjectionTrafficMode = ProjPolicy | ProjGlobal
datatype PolicyProjectionDnsMode = CloudSplit | CloudGlobal | SystemDns | DnsDisabled
datatype PolicyProjectionDnsEgress = SelectedNode | CloudResolver | NoDnsEgress
datatype PolicyProjectionDegradedBehavior =
  ProtectedFailClosed | ProtectedFailClosedDirectNonprotected | StopAll

record PolicyProjectionAudience =
  pa_tenant_id :: uuid
  pa_user_id :: uuid
  pa_device_id :: uuid
  pa_device_key_id :: uuid

record PolicyProjectionNodeAssignment =
  pn_node_id :: uuid
  pn_endpoint :: string
  pn_priority :: u8
  pn_node_key_id :: uuid
  pn_transport :: string
  pn_assignment_lease_until :: u64

record PolicyProjectionResource =
  pr_name :: string
  pr_domains :: "string list"
  pr_cidrs :: "string list"
  pr_ports :: "u16 list"

record PolicyProjectionDns =
  pd_mode :: PolicyProjectionDnsMode
  pd_servers :: "string list"
  pd_search_domains :: "string list option"
  pd_leak_protection :: bool

record PolicyProjectionGlobalEgress =
  pg_enabled :: bool
  pg_node_id :: uuid
  pg_dns_egress :: PolicyProjectionDnsEgress

record PolicyProjectionV1 =
  pp_schema_version :: u16
  pp_projection_id :: uuid
  pp_projection_type :: string
  pp_tenant_id :: uuid
  pp_user_id :: uuid
  pp_device_id :: uuid
  pp_device_key_id :: uuid
  pp_audience :: PolicyProjectionAudience
  pp_grant_id :: uuid
  pp_grant_expires_at :: u64
  pp_generation :: u64
  pp_content_hash :: string
  pp_not_before :: u64
  pp_stale_until :: u64
  pp_issued_at :: u64
  pp_traffic_mode :: PolicyProjectionTrafficMode
  pp_mode_capabilities :: "PolicyProjectionTrafficMode list"
  pp_selected_node :: PolicyProjectionNodeAssignment
  pp_standby_nodes :: "PolicyProjectionNodeAssignment list"
  pp_allowed_resources :: "PolicyProjectionResource list"
  pp_dns_projection :: PolicyProjectionDns
  pp_underlay_exclusions :: "string list"
  pp_degraded_behavior :: PolicyProjectionDegradedBehavior
  pp_global_egress :: PolicyProjectionGlobalEgress
  pp_signing_key_id :: string
  pp_signature :: string

datatype PolicyProjectionError =
    InvalidProjection | ProjAudienceMismatch | ProjContentHashMismatch
  | ProjInvalidSignature | ProjCanonicalization

text \<open>The document without its two unsigned fields (the JSON object after the removals).\<close>

definition unsigned_view :: "PolicyProjectionV1 \<Rightarrow> PolicyProjectionV1" where
  "unsigned_view p = p\<lparr>pp_content_hash := [], pp_signature := []\<rparr>"

record proj_ext = crypto_ext +
  px_jcs_unsigned :: "PolicyProjectionV1 \<Rightarrow> u8 list option"
  px_jcs :: "PolicyProjectionV1 \<Rightarrow> u8 list option"
  px_json :: "u8 list \<Rightarrow> PolicyProjectionV1 option"

subsection \<open>Validation\<close>

definition key_id_byte :: "char \<Rightarrow> bool" where
  "key_id_byte b \<longleftrightarrow> is_ascii_alphanumeric b \<or> b \<in> set ''_.:-''"

definition bounded_text_bad :: "nat \<Rightarrow> string \<Rightarrow> bool" where
  "bounded_text_bad n s \<longleftrightarrow> s = [] \<or> length s > n \<or> list_ex is_ascii_control s"

definition validate_node ::
  "PolicyProjectionNodeAssignment \<Rightarrow> u64 \<Rightarrow> PolicyProjectionError + unit" where
  "validate_node n stale_until =
     guard (is_nil (pn_node_id n) \<or> is_nil (pn_node_key_id n) \<or>
            bounded_text_bad MAX_ENDPOINT_LEN (pn_endpoint n) \<or> pn_priority n = 0 \<or>
            (pn_transport n \<noteq> ''quic'' \<and> pn_transport n \<noteq> ''tls_tcp'') \<or>
            pn_assignment_lease_until n = 0 \<or> pn_assignment_lease_until n > stale_until)
       InvalidProjection"

definition validate_projection_resource ::
  "PolicyProjectionResource \<Rightarrow> PolicyProjectionError + unit" where
  "validate_projection_resource r = first_err
     [guard (pr_name r = [] \<or> length (pr_name r) > MAX_RESOURCE_NAME_LEN \<or>
             \<not> list_all key_id_byte (pr_name r) \<or> (pr_domains r = [] \<and> pr_cidrs r = []) \<or>
             length (pr_domains r) > 1024 \<or> length (pr_cidrs r) > 1024 \<or>
             length (pr_ports r) > 128 \<or> has_duplicates (pr_domains r) \<or>
             has_duplicates (pr_cidrs r) \<or> has_duplicates (pr_ports r)) InvalidProjection,
      guard (list_ex (bounded_text_bad MAX_DOMAIN_LEN) (pr_domains r)) InvalidProjection,
      guard (list_ex (bounded_text_bad MAX_CIDR_LEN) (pr_cidrs r)) InvalidProjection,
      guard (0 \<in> set (pr_ports r)) InvalidProjection]"

definition validate_dns :: "PolicyProjectionDns \<Rightarrow> PolicyProjectionError + unit" where
  "validate_dns d = first_err
     [guard (length (pd_servers d) > MAX_POLICY_PROJECTION_DNS_SERVERS) InvalidProjection,
      guard (list_ex (bounded_text_bad MAX_DNS_SERVER_LEN) (pd_servers d)) InvalidProjection,
      (case pd_search_domains d of None \<Rightarrow> Inr ()
       | Some ds \<Rightarrow> first_err
           [guard (length ds > MAX_POLICY_PROJECTION_SEARCH_DOMAINS) InvalidProjection,
            guard (list_ex (bounded_text_bad MAX_SEARCH_DOMAIN_LEN) ds) InvalidProjection])]"

definition proj_audience_bad :: "PolicyProjectionV1 \<Rightarrow> bool" where
  "proj_audience_bad p =
     (let a = pp_audience p in
      list_ex is_nil [pa_tenant_id a, pa_user_id a, pa_device_id a, pa_device_key_id a] \<or>
      pa_tenant_id a \<noteq> pp_tenant_id p \<or> pa_user_id a \<noteq> pp_user_id p \<or>
      pa_device_id a \<noteq> pp_device_id p \<or> pa_device_key_id a \<noteq> pp_device_key_id p)"

definition proj_nodes :: "PolicyProjectionV1 \<Rightarrow> PolicyProjectionNodeAssignment list" where
  "proj_nodes p = pp_selected_node p # pp_standby_nodes p"

definition proj_node_step ::
  "u64 \<Rightarrow> uuid set \<Rightarrow> PolicyProjectionNodeAssignment \<Rightarrow> PolicyProjectionError + uuid set" where
  "proj_node_step stale_until seen n =
     bind_res (validate_node n stale_until) (\<lambda>_.
       if pn_node_id n \<in> seen then Inl InvalidProjection else Inr (insert (pn_node_id n) seen))"

definition mode_egress_bad ::
  "PolicyProjectionTrafficMode \<Rightarrow> PolicyProjectionGlobalEgress \<Rightarrow> bool" where
  "mode_egress_bad mode g =
     (case mode of
        ProjGlobal \<Rightarrow> \<not> pg_enabled g \<or> pg_dns_egress g = NoDnsEgress
      | ProjPolicy \<Rightarrow> pg_enabled g \<or> pg_dns_egress g \<noteq> NoDnsEgress)"

definition projection_validate :: "PolicyProjectionV1 \<Rightarrow> PolicyProjectionError + unit" where
  "projection_validate p =
     bind_res (first_err
       [guard (pp_schema_version p \<noteq> POLICY_PROJECTION_SCHEMA_VERSION \<or>
               pp_projection_type p \<noteq> POLICY_PROJECTION_TYPE \<or> is_nil (pp_projection_id p) \<or>
               is_nil (pp_grant_id p) \<or> pp_generation p = 0 \<or> pp_grant_expires_at p = 0 \<or>
               pp_not_before p = 0 \<or> pp_issued_at p = 0 \<or> pp_stale_until p = 0) InvalidProjection,
        guard (proj_audience_bad p) ProjAudienceMismatch,
        guard (pp_not_before p > pp_issued_at p \<or> pp_issued_at p > pp_stale_until p \<or>
               pp_stale_until p > pp_grant_expires_at p) InvalidProjection,
        guard (pp_mode_capabilities p = [] \<or> length (pp_mode_capabilities p) > 2 \<or>
               has_duplicates (pp_mode_capabilities p) \<or>
               pp_traffic_mode p \<notin> set (pp_mode_capabilities p)) InvalidProjection,
        guard (length (pp_standby_nodes p) > MAX_POLICY_PROJECTION_STANDBY_NODES)
          InvalidProjection]) (\<lambda>_.
     bind_res (fold_res (proj_node_step (pp_stale_until p)) {} (proj_nodes p)) (\<lambda>seen_nodes.
     first_err
       [guard (length (pp_allowed_resources p) > MAX_POLICY_PROJECTION_RESOURCES)
          InvalidProjection,
        for_each validate_projection_resource (pp_allowed_resources p),
        validate_dns (pp_dns_projection p),
        guard (pp_underlay_exclusions p = [] \<or>
               length (pp_underlay_exclusions p) > MAX_POLICY_PROJECTION_UNDERLAY_EXCLUSIONS \<or>
               has_duplicates (pp_underlay_exclusions p)) InvalidProjection,
        for_each (\<lambda>x. guard (bounded_text_bad MAX_UNDERLAY_EXCLUSION_LEN x) InvalidProjection)
          (pp_underlay_exclusions p),
        guard (is_nil (pg_node_id (pp_global_egress p)) \<or>
               pg_node_id (pp_global_egress p) \<notin> seen_nodes) InvalidProjection,
        guard (mode_egress_bad (pp_traffic_mode p) (pp_global_egress p)) InvalidProjection,
        guard (pp_signing_key_id p = [] \<or>
               length (pp_signing_key_id p) > MAX_POLICY_PROJECTION_SIGNING_KEY_ID_LEN \<or>
               \<not> list_all key_id_byte (pp_signing_key_id p)) InvalidProjection]))"

subsection \<open>Hashing, verification, signing\<close>

definition projection_canonical_bytes ::
  "proj_ext \<Rightarrow> PolicyProjectionV1 \<Rightarrow> PolicyProjectionError + u8 list" where
  "projection_canonical_bytes px p = ok_or (px_jcs_unsigned px (unsigned_view p)) ProjCanonicalization"

definition projection_content_hash ::
  "proj_ext \<Rightarrow> PolicyProjectionV1 \<Rightarrow> PolicyProjectionError + hash32" where
  "projection_content_hash px p =
     bind_res (projection_validate p) (\<lambda>_.
     bind_res (projection_canonical_bytes px p) (\<lambda>bytes. Inr (cx_sha256 px bytes)))"

definition projection_to_envelope_bytes ::
  "proj_ext \<Rightarrow> PolicyProjectionV1 \<Rightarrow> PolicyProjectionError + u8 list" where
  "projection_to_envelope_bytes px p = ok_or (px_jcs px p) ProjCanonicalization"

definition projection_from_envelope_bytes ::
  "proj_ext \<Rightarrow> u8 list \<Rightarrow> PolicyProjectionError + PolicyProjectionV1" where
  "projection_from_envelope_bytes px bytes =
     (if bytes = [] \<or> length bytes > MAX_POLICY_PROJECTION_BYTES then Inl InvalidProjection
      else ok_or (px_json px bytes) InvalidProjection)"

definition projection_parse_content_hash :: "string \<Rightarrow> PolicyProjectionError + hash32" where
  "projection_parse_content_hash value = parse_content_hash InvalidProjection value"

definition projection_signing_message :: "hash32 \<Rightarrow> u8 list" where
  "projection_signing_message content_hash = domain_message POLICY_PROJECTION_DOMAIN content_hash"

definition projection_verify ::
  "proj_ext \<Rightarrow> u8 list \<Rightarrow> PolicyProjectionV1 \<Rightarrow> PolicyProjectionError + unit" where
  "projection_verify px vk p =
     bind_res (projection_validate p) (\<lambda>_.
     bind_res (projection_content_hash px p) (\<lambda>expected_hash.
     bind_res (projection_parse_content_hash (pp_content_hash p)) (\<lambda>stated.
     bind_res (guard (stated \<noteq> expected_hash) ProjContentHashMismatch) (\<lambda>_.
     bind_res (ok_or (cx_std_decode px (pp_signature p)) ProjInvalidSignature) (\<lambda>signature.
     first_err
       [guard (length signature \<noteq> ED25519_SIGNATURE_LEN) ProjInvalidSignature,
        guard (\<not> cx_signature_from_slice px signature) ProjInvalidSignature,
        guard (\<not> cx_verify px vk (projection_signing_message expected_hash) signature)
          ProjInvalidSignature])))))"

record PolicyProjectionSigner =
  ps_signing_key :: "u8 list"
  ps_key_id :: string

definition projection_signer_new ::
  "string \<Rightarrow> u8 list \<Rightarrow> PolicyProjectionError + PolicyProjectionSigner" where
  "projection_signer_new key_id signing_key =
     (if key_id = [] \<or> length key_id > MAX_POLICY_PROJECTION_SIGNING_KEY_ID_LEN \<or>
         \<not> list_all key_id_byte key_id
      then Inl InvalidProjection
      else Inr \<lparr>ps_signing_key = signing_key, ps_key_id = key_id\<rparr>)"

definition projection_load_signing_seed ::
  "io_error + u32 \<Rightarrow> io_error + u8 list \<Rightarrow> io_error + u8 list" where
  "projection_load_signing_seed = load_signing_seed"

definition projection_signer_from_key_file ::
  "io_error + u32 \<Rightarrow> io_error + u8 list \<Rightarrow> string \<Rightarrow> io_error + PolicyProjectionSigner" where
  "projection_signer_from_key_file metadata contents key_id =
     bind_res (projection_load_signing_seed metadata contents)
       (\<lambda>seed. map_err (\<lambda>_. InvalidInput) (projection_signer_new key_id seed))"

definition projection_verifying_key :: "proj_ext \<Rightarrow> PolicyProjectionSigner \<Rightarrow> u8 list" where
  "projection_verifying_key px s = cx_verifying_key px (ps_signing_key s)"

definition projection_prepare ::
  "PolicyProjectionSigner \<Rightarrow> PolicyProjectionV1 \<Rightarrow> PolicyProjectionV1" where
  "projection_prepare s p =
     p\<lparr>pp_signing_key_id := ps_key_id s, pp_content_hash := [], pp_signature := []\<rparr>"

definition projection_sign ::
  "proj_ext \<Rightarrow> PolicyProjectionSigner \<Rightarrow> PolicyProjectionV1 \<Rightarrow>
     PolicyProjectionError + PolicyProjectionV1" where
  "projection_sign px s p0 =
     (let p = projection_prepare s p0 in
      bind_res (projection_content_hash px p) (\<lambda>content_hash.
      let signature = cx_sign px (ps_signing_key s) (projection_signing_message content_hash);
          signed = p\<lparr>pp_content_hash := format_content_hash content_hash,
                     pp_signature := cx_std_encode px signature\<rparr>
      in bind_res (projection_verify px (projection_verifying_key px s) signed)
           (\<lambda>_. Inr signed)))"

subsection \<open>What validation accepts\<close>

text \<open>The unsigned fields play no part in validation and in the digest.\<close>

lemma projection_validate_unsigned:
  "projection_validate (p\<lparr>pp_content_hash := h, pp_signature := sig\<rparr>) = projection_validate p"
  by (simp add: projection_validate_def proj_audience_bad_def proj_nodes_def)

lemma projection_content_hash_unsigned:
  "projection_content_hash px (p\<lparr>pp_content_hash := h, pp_signature := sig\<rparr>) =
     projection_content_hash px p"
  by (simp add: projection_content_hash_def projection_validate_unsigned
      projection_canonical_bytes_def unsigned_view_def)

lemma proj_nodes_ok:
  "fold_res (proj_node_step stale) {} ns = Inr seen \<longleftrightarrow>
     (\<forall>n \<in> set ns. validate_node n stale = Inr ()) \<and> distinct (map pn_node_id ns) \<and>
     seen = pn_node_id ` set ns"
proof -
  have "fold_res (proj_node_step stale) {} ns = Inr seen \<longleftrightarrow>
      fold_res (insert_check (\<lambda>n. validate_node n stale \<noteq> Inr ()) pn_node_id InvalidProjection)
        {} ns = Inr seen"
    by (rule fold_res_ok_cong) (auto simp: proj_node_step_def insert_check_def)
  then show ?thesis by (auto simp: fold_insert_check_ok)
qed

lemma projection_validate_facts:
  assumes "projection_validate p = Inr ()"
  shows "\<not> proj_audience_bad p"
    and "pp_not_before p \<le> pp_issued_at p" "pp_issued_at p \<le> pp_stale_until p"
      "pp_stale_until p \<le> pp_grant_expires_at p"
    and "pp_traffic_mode p \<in> set (pp_mode_capabilities p)"
    and "n \<in> set (proj_nodes p) \<Longrightarrow> validate_node n (pp_stale_until p) = Inr ()"
    and "distinct (map pn_node_id (proj_nodes p))"
    and "r \<in> set (pp_allowed_resources p) \<Longrightarrow> validate_projection_resource r = Inr ()"
    and "pg_node_id (pp_global_egress p) \<in> pn_node_id ` set (proj_nodes p)"
    and "\<not> mode_egress_bad (pp_traffic_mode p) (pp_global_egress p)"
  using assms by (auto simp: projection_validate_def proj_nodes_ok)

subsection \<open>Signing and verifying\<close>

lemma projection_verify_ok:
  "projection_verify px vk p = Inr () \<longleftrightarrow>
     projection_validate p = Inr () \<and>
     (\<exists>h sig. projection_content_hash px p = Inr h \<and>
        projection_parse_content_hash (pp_content_hash p) = Inr h \<and>
        cx_std_decode px (pp_signature p) = Some sig \<and> length sig = 64 \<and>
        cx_signature_from_slice px sig \<and> cx_verify px vk (projection_signing_message h) sig)"
  by (auto simp: projection_verify_def ED25519_SIGNATURE_LEN_def)

lemma projection_content_hash_ok:
  "projection_content_hash px p = Inr h \<longleftrightarrow> projection_validate p = Inr () \<and>
     (\<exists>b. px_jcs_unsigned px (unsigned_view p) = Some b \<and> h = cx_sha256 px b)"
  by (auto simp: projection_content_hash_def projection_canonical_bytes_def)

lemma unsigned_view_ignored:
  "projection_validate (unsigned_view p) = projection_validate p"
  "projection_content_hash px (unsigned_view p) = projection_content_hash px p"
  by (simp_all add: unsigned_view_def projection_validate_unsigned
      projection_content_hash_unsigned)

interpretation projection: signed_document "projection_sign px" "projection_verify px"
  "projection_verifying_key px" projection_prepare unsigned_view
  "\<lambda>p. projection_validate p = Inr ()"
  "\<lambda>p. case projection_content_hash px p of Inl _ \<Rightarrow> None | Inr h \<Rightarrow> Some h"
  "\<lambda>p. case projection_parse_content_hash (pp_content_hash p) of Inl _ \<Rightarrow> None | Inr h \<Rightarrow> Some h"
  for px :: proj_ext
proof unfold_locales
  show "unsigned_view env = projection_prepare s d" if "projection_sign px s d = Inr env" for s d env
    using that by (auto simp: projection_sign_def Let_def projection_prepare_def unsigned_view_def)
qed (auto simp: projection_sign_def Let_def projection_verify_ok unsigned_view_ignored)

subsection \<open>Properties\<close>

text \<open>
  C30: a validated projection never outlives its grant: leases end by \<open>stale_until\<close>, which is
  at most the grant's expiry; its nodes are pairwise different; the global egress node is one
  of them; a policy-mode projection carries no default-route permission and a global-mode one
  carries it together with a DNS exit; every resource names a domain or a CIDR, no port 0.
\<close>

theorem projection_validate_guarantees:
  assumes "projection_validate p = Inr ()"
  shows "pp_not_before p \<le> pp_issued_at p \<and> pp_issued_at p \<le> pp_stale_until p \<and>
    pp_stale_until p \<le> pp_grant_expires_at p \<and>
    list_all (\<lambda>n. 0 < pn_assignment_lease_until n \<and>
      pn_assignment_lease_until n \<le> pp_grant_expires_at p \<and>
      pn_transport n \<in> {''quic'', ''tls_tcp''}) (proj_nodes p) \<and>
    distinct (map pn_node_id (proj_nodes p)) \<and>
    list_ex (\<lambda>n. pn_node_id n = pg_node_id (pp_global_egress p)) (proj_nodes p) \<and>
    (pg_enabled (pp_global_egress p) \<longleftrightarrow> pp_traffic_mode p = ProjGlobal) \<and>
    (pg_dns_egress (pp_global_egress p) = NoDnsEgress \<longleftrightarrow> pp_traffic_mode p = ProjPolicy) \<and>
    list_all (\<lambda>r. (pr_domains r \<noteq> [] \<or> pr_cidrs r \<noteq> []) \<and> 0 \<notin> set (pr_ports r))
      (pp_allowed_resources p)"
proof -
  note facts = projection_validate_facts [OF assms]
  have "list_all (\<lambda>n. 0 < pn_assignment_lease_until n \<and>
      pn_assignment_lease_until n \<le> pp_grant_expires_at p \<and>
      pn_transport n \<in> {''quic'', ''tls_tcp''}) (proj_nodes p)"
  proof (unfold list_all_iff, intro ballI)
    fix n
    assume "n \<in> set (proj_nodes p)"
    from facts(6) [OF this] facts(4) show "0 < pn_assignment_lease_until n \<and>
      pn_assignment_lease_until n \<le> pp_grant_expires_at p \<and> pn_transport n \<in> {''quic'', ''tls_tcp''}"
      by (auto simp: validate_node_def word_gt_0)
  qed
  moreover have "list_all (\<lambda>r. (pr_domains r \<noteq> [] \<or> pr_cidrs r \<noteq> []) \<and> 0 \<notin> set (pr_ports r))
      (pp_allowed_resources p)"
    using facts(8) by (auto simp: list_all_iff validate_projection_resource_def)
  moreover have "list_ex (\<lambda>n. pn_node_id n = pg_node_id (pp_global_egress p)) (proj_nodes p)"
    using facts(9) by (auto simp: list_ex_iff)
  ultimately show ?thesis
    using facts(2-4,7,10)
    by (cases "pp_traffic_mode p") (auto simp: mode_egress_bad_def)
qed

text \<open>
  With correct signatures and base64, a 32-byte digest and a canonicaliser that accepts
  the document, \<open>sign\<close> fails exactly with the validation error of the document carrying the
  signer's key id; otherwise its result verifies under the signer's public key and differs
  from the input only in the key id, the content hash and the signature.
\<close>

theorem projection_sign_complete:
  assumes "ed25519_ok px" and "base64_ok px" and "sha256_ok px"
    and "px_jcs_unsigned px (projection_prepare s p) = Some canonical"
  shows "(case projection_validate (p\<lparr>pp_signing_key_id := ps_key_id s\<rparr>) of
      Inl e \<Rightarrow> projection_sign px s p = Inl e
    | Inr _ \<Rightarrow> (\<exists>h sig. projection_sign px s p =
          Inr (p\<lparr>pp_signing_key_id := ps_key_id s, pp_content_hash := h, pp_signature := sig\<rparr>) \<and>
        projection_parse_content_hash h = Inr (cx_sha256 px canonical) \<and>
        projection_verify px (projection_verifying_key px s)
          (p\<lparr>pp_signing_key_id := ps_key_id s, pp_content_hash := h, pp_signature := sig\<rparr>) = Inr ()))"
proof -
  let ?q = "projection_prepare s p" and ?h = "cx_sha256 px canonical"
  have prep: "projection_validate ?q = projection_validate (p\<lparr>pp_signing_key_id := ps_key_id s\<rparr>)"
    unfolding projection_prepare_def by (rule projection_validate_unsigned)
  show ?thesis
  proof (cases "projection_validate (p\<lparr>pp_signing_key_id := ps_key_id s\<rparr>)")
    case (Inl e)
    then show ?thesis
      by (simp add: projection_sign_def Let_def projection_content_hash_def prep)
  next
    case (Inr u)
    define sig where
      "sig = cx_std_encode px (cx_sign px (ps_signing_key s) (projection_signing_message ?h))"
    define signed where
      "signed = ?q\<lparr>pp_content_hash := format_content_hash ?h, pp_signature := sig\<rparr>"
    have shape: "signed = p\<lparr>pp_signing_key_id := ps_key_id s,
        pp_content_hash := format_content_hash ?h, pp_signature := sig\<rparr>"
      by (simp add: signed_def projection_prepare_def)
    have "unsigned_view ?q = ?q" by (simp add: unsigned_view_def projection_prepare_def)
    then have hash: "projection_content_hash px ?q = Inr ?h"
      using Inr prep assms(4) by (simp add: projection_content_hash_ok)
    have parse: "projection_parse_content_hash (format_content_hash ?h) = Inr ?h"
      using assms(3) by (simp add: projection_parse_content_hash_def sha256_ok_def)
    have "projection_verify px (projection_verifying_key px s) signed = Inr ()"
      unfolding projection_verify_ok signed_def projection_content_hash_unsigned
        projection_validate_unsigned
      using Inr prep hash parse
      by (simp add: sig_def projection_verifying_key_def base64_okD(2) [OF assms(2)]
          ed25519_okD [OF assms(1)])
    moreover from this have "projection_sign px s p = Inr signed"
      using hash by (simp add: projection_sign_def Let_def signed_def sig_def)
    ultimately show ?thesis using Inr parse unfolding shape by auto
  qed
qed


text \<open>
  C32: a message signed for a grant is never a message signed for a projection, so a
  signature of one trust domain cannot be replayed in the other, even under one key.
\<close>

theorem signing_domains_disjoint:
  assumes "sha256_ok gx" and "sha256_ok px"
    and "grant_content_hash gx g = Inr h" and "projection_content_hash px p = Inr h'"
  shows "grant_signing_message h \<noteq> projection_signing_message h'"
proof -
  have "length h = length h'"
    using assms by (auto simp: grant_content_hash_ok projection_content_hash_ok sha256_ok_def)
  then show ?thesis
    unfolding grant_signing_message_def projection_signing_message_def
    by (rule domain_message_separated)
      (simp add: CLIENT_GRANT_DOMAIN_def POLICY_PROJECTION_DOMAIN_def)
qed

subsection \<open>Witnesses\<close>

definition wit_proj_node :: PolicyProjectionNodeAssignment where
  "wit_proj_node = \<lparr>pn_node_id = 11, pn_endpoint = ''n1:443'', pn_priority = 1,
     pn_node_key_id = 12, pn_transport = ''quic'', pn_assignment_lease_until = 200\<rparr>"

definition wit_projection :: PolicyProjectionV1 where
  "wit_projection = \<lparr>pp_schema_version = 1, pp_projection_id = 1,
     pp_projection_type = ''device_client'', pp_tenant_id = 2, pp_user_id = 3, pp_device_id = 4,
     pp_device_key_id = 5, pp_audience = \<lparr>pa_tenant_id = 2, pa_user_id = 3, pa_device_id = 4,
       pa_device_key_id = 5\<rparr>, pp_grant_id = 6, pp_grant_expires_at = 500, pp_generation = 1,
     pp_content_hash = [], pp_not_before = 100, pp_stale_until = 300, pp_issued_at = 100,
     pp_traffic_mode = ProjPolicy, pp_mode_capabilities = [ProjPolicy],
     pp_selected_node = wit_proj_node, pp_standby_nodes = [wit_proj_node\<lparr>pn_node_id := 13\<rparr>],
     pp_allowed_resources = [\<lparr>pr_name = ''r'', pr_domains = [''a''], pr_cidrs = [], pr_ports = [443]\<rparr>],
     pp_dns_projection = \<lparr>pd_mode = SystemDns, pd_servers = [], pd_search_domains = None,
       pd_leak_protection = True\<rparr>,
     pp_underlay_exclusions = [''u''], pp_degraded_behavior = StopAll,
     pp_global_egress = \<lparr>pg_enabled = False, pg_node_id = 11, pg_dns_egress = NoDnsEgress\<rparr>,
     pp_signing_key_id = ''k1'', pp_signature = []\<rparr>"

definition wit_px :: proj_ext where
  "wit_px = \<lparr>cx_sha256 = (\<lambda>_. replicate 32 0xCD), cx_verifying_key = (\<lambda>k. k),
     cx_sign = (\<lambda>_ _. replicate 64 0), cx_verify = (\<lambda>_ _ sig. sig = replicate 64 0),
     cx_signature_from_slice = (\<lambda>sig. length sig = 64), cx_url_encode = hex,
     cx_url_decode = parse_hex, cx_std_encode = hex, cx_std_decode = parse_hex,
     px_jcs_unsigned = (\<lambda>p. if p = wit_projection then Some [1, 2] else None),
     px_jcs = (\<lambda>_. Some [1, 2, 3]),
     px_json = (\<lambda>_. None)\<rparr>"

definition wit_proj_signer :: PolicyProjectionSigner where
  "wit_proj_signer = \<lparr>ps_signing_key = replicate 32 9, ps_key_id = ''k1''\<rparr>"

lemma wit_px_laws: "ed25519_ok wit_px" "base64_ok wit_px" "sha256_ok wit_px"
  by (simp_all add: ed25519_ok_def base64_ok_def sha256_ok_def wit_px_def)

lemma wit_unsigned: "unsigned_view wit_projection = wit_projection"
  by (simp add: unsigned_view_def wit_projection_def)

lemma wit_projection_valid: "projection_validate wit_projection = Inr ()"
proof -
  have texts: "\<not> bounded_text_bad MAX_ENDPOINT_LEN ''n1:443''"
    "\<not> bounded_text_bad MAX_DOMAIN_LEN ''a''" "\<not> bounded_text_bad MAX_UNDERLAY_EXCLUSION_LEN ''u''"
    "list_all key_id_byte ''r''" "list_all key_id_byte ''k1''"
    by (simp_all add: bounded_text_bad_def MAX_ENDPOINT_LEN_def MAX_DOMAIN_LEN_def
        MAX_UNDERLAY_EXCLUSION_LEN_def key_id_byte_def ascii_defs)
  have nodes: "fold_res (proj_node_step (pp_stale_until wit_projection)) {}
      (proj_nodes wit_projection) = Inr (pn_node_id ` set (proj_nodes wit_projection))"
    unfolding proj_nodes_ok using texts
    by (simp add: proj_nodes_def wit_projection_def wit_proj_node_def validate_node_def is_nil_def)
  show ?thesis
    unfolding projection_validate_def bind_res_ok nodes
    using texts
    by (simp add: wit_projection_def wit_proj_node_def proj_nodes_def proj_audience_bad_def
        is_nil_def POLICY_PROJECTION_SCHEMA_VERSION_def POLICY_PROJECTION_TYPE_def
        MAX_POLICY_PROJECTION_STANDBY_NODES_def MAX_POLICY_PROJECTION_RESOURCES_def
        validate_projection_resource_def MAX_RESOURCE_NAME_LEN_def validate_dns_def
        MAX_POLICY_PROJECTION_DNS_SERVERS_def MAX_POLICY_PROJECTION_UNDERLAY_EXCLUSIONS_def
        mode_egress_bad_def MAX_POLICY_PROJECTION_SIGNING_KEY_ID_LEN_def)
qed

theorem projection_validate_guarantees_witness:
  "pg_enabled (pp_global_egress wit_projection) \<longleftrightarrow> pp_traffic_mode wit_projection = ProjGlobal"
  using projection_validate_guarantees [OF wit_projection_valid] by blast

theorem projection_sign_complete_witness:
  "is_ok (projection_sign wit_px wit_proj_signer wit_projection)"
proof -
  have "wit_projection\<lparr>pp_signing_key_id := ps_key_id wit_proj_signer\<rparr> = wit_projection"
    by (simp add: wit_projection_def wit_proj_signer_def)
  moreover have "projection_prepare wit_proj_signer wit_projection = wit_projection"
    by (simp add: projection_prepare_def wit_projection_def wit_proj_signer_def)
  then have "px_jcs_unsigned wit_px (projection_prepare wit_proj_signer wit_projection) = Some [1, 2]"
    by (simp add: wit_px_def)
  note projection_sign_complete [OF wit_px_laws this]
  ultimately show ?thesis by (auto simp: wit_projection_valid)
qed

definition wit_signed :: "string \<Rightarrow> PolicyProjectionV1" where
  "wit_signed hx = wit_projection\<lparr>pp_content_hash := ''sha256:'' @ hx,
     pp_signature := hex (replicate 64 0)\<rparr>"

lemma wit_signed_hash:
  "projection_parse_content_hash (''sha256:'' @ concat (replicate 32 ''cd'')) = Inr (replicate 32 0xCD)"
  "projection_parse_content_hash (''sha256:'' @ concat (replicate 32 ''CD'')) = Inr (replicate 32 0xCD)"
proof -
  show "projection_parse_content_hash (''sha256:'' @ concat (replicate 32 ''cd'')) =
    Inr (replicate 32 0xCD)" by code_simp
  show "projection_parse_content_hash (''sha256:'' @ concat (replicate 32 ''CD'')) =
    Inr (replicate 32 0xCD)" by code_simp
qed

lemma wit_signed_verifies:
  assumes "projection_parse_content_hash (''sha256:'' @ hx) = Inr (replicate 32 0xCD)"
  shows "projection_verify wit_px vk (wit_signed hx) = Inr ()"
proof -
  have "projection_content_hash wit_px wit_projection = Inr (replicate 32 0xCD)"
    by (simp add: projection_content_hash_ok wit_projection_valid wit_unsigned) (simp add: wit_px_def)
  then show ?thesis
    unfolding projection_verify_ok wit_signed_def projection_content_hash_unsigned
      projection_validate_unsigned
    using assms by (simp add: wit_projection_valid) (simp add: wit_px_def)
qed


theorem signing_domains_disjoint_witness:
  "grant_signing_message (replicate 32 0xAB) \<noteq> projection_signing_message (replicate 32 0xCD)"
proof (rule signing_domains_disjoint)
  show "grant_content_hash wit_gx wit_payload = Inr (replicate 32 0xAB)"
    by (simp add: grant_content_hash_ok wit_payload_valid) (simp add: wit_gx_def)
  show "projection_content_hash wit_px wit_projection = Inr (replicate 32 0xCD)"
    by (simp add: projection_content_hash_ok wit_projection_valid wit_unsigned) (simp add: wit_px_def)
qed (rule wit_gx_laws wit_px_laws)+

end
