(* ===== verification/Worker_Main.thy ===== *)
theory Worker_Main
  imports Std_Text
begin

section \<open>The start-up parameters of the worker (\<open>crates/cloud-worker/src/main.rs\<close>)\<close>

text \<open>
  Parsing the digest of the Core module and the signing key from the environment. The rest of
  \<open>main\<close> wires components together and is not modelled. \<open>KeyPanic\<close> stands for the panic of a
  slice that does not fall on a character boundary.
\<close>

datatype env_error = EnvMissing | NotHexadecimal | WrongLength | ZeroKey | KeyPanic

definition hex_nibble :: "char \<Rightarrow> env_error + u8" where
  "hex_nibble value =
     (if 48 \<le> byte_of value \<and> byte_of value \<le> 57 then Inr (of_nat (byte_of value - 48))
      else if 97 \<le> byte_of value \<and> byte_of value \<le> 102 then Inr (of_nat (byte_of value - 97 + 10))
      else if 65 \<le> byte_of value \<and> byte_of value \<le> 70 then Inr (of_nat (byte_of value - 65 + 10))
      else Inl NotHexadecimal)"

definition hex_pair :: "char list \<Rightarrow> env_error + u8" where
  "hex_pair pair =
     (case pair of
        [a, b] \<Rightarrow> bind_res (hex_nibble a) (\<lambda>high. bind_res (hex_nibble b) (\<lambda>low.
          Inr (or (push_bit 4 high) low)))
      | _ \<Rightarrow> Inl WrongLength)"

definition parse_sha256_env :: "string option \<Rightarrow> env_error + u8 list" where
  "parse_sha256_env env =
     bind_res (ok_or env EnvMissing) (\<lambda>value.
     bind_res (guard (length value \<noteq> 64) WrongLength) (\<lambda>_.
     bind_res (map_res hex_pair (chunks2 value)) (\<lambda>bytes.
     if length bytes = 32 then Inr bytes else Inl WrongLength)))"

text \<open>\<open>&value[i .. j]\<close> of a \<open>str\<close> panics unless both ends are character boundaries.\<close>

definition is_char_boundary :: "string \<Rightarrow> nat \<Rightarrow> bool" where
  "is_char_boundary s i \<longleftrightarrow> i = 0 \<or> i = length s \<or>
     (i < length s \<and> \<not> (128 \<le> byte_of (s ! i) \<and> byte_of (s ! i) < 192))"

definition str_slice :: "string \<Rightarrow> nat \<Rightarrow> nat \<Rightarrow> env_error + string" where
  "str_slice s i j =
     (if i \<le> j \<and> is_char_boundary s i \<and> is_char_boundary s j then Inr (take (j - i) (drop i s))
      else Inl KeyPanic)"

definition decode_key :: "string \<Rightarrow> env_error + u8 list" where
  "decode_key value0 =
     (let value = (case strip_prefix ''0x'' value0 of None \<Rightarrow> value0 | Some v \<Rightarrow> v) in
      bind_res (guard (length value \<noteq> 64) WrongLength) (\<lambda>_.
      bind_res (map_res (\<lambda>index.
        bind_res (str_slice value (index * 2) (index * 2 + 2)) (\<lambda>slot.
        ok_or (u8_from_str_radix 16 slot) NotHexadecimal)) [0..<32]) (\<lambda>key.
      bind_res (guard (key = replicate 32 0) ZeroKey) (\<lambda>_. Inr key))))"

subsection \<open>Digests\<close>

lemma hex_nibble_digit:
  assumes "n < 16"
  shows "hex_nibble c = Inr (of_nat n) \<longleftrightarrow> to_ascii_lowercase c = hex_digit n"
proof -
  have n: "byte_of (hex_digit n) = (if n < 10 then 48 + n else 87 + n)"
    by (rule hex_digit_byte [OF assms])
  have low: "byte_of (to_ascii_lowercase c) =
      (if 65 \<le> byte_of c \<and> byte_of c \<le> 90 then byte_of c + 32 else byte_of c)"
    by (auto simp: to_ascii_lowercase_def is_ascii_uppercase_def byte_of_char_of)
  have inj: "(of_nat a :: u8) = of_nat n \<longleftrightarrow> a = n" if "a < 16" for a
    using that assms by (auto simp: word_of_nat_eq_iff take_bit_eq_mod)
  let ?b = "byte_of c"
  consider (digit) "48 \<le> ?b" "?b \<le> 57" | (lower) "97 \<le> ?b" "?b \<le> 102" | (upper) "65 \<le> ?b" "?b \<le> 70"
    | (none) "\<not> (48 \<le> ?b \<and> ?b \<le> 57)" "\<not> (97 \<le> ?b \<and> ?b \<le> 102)" "\<not> (65 \<le> ?b \<and> ?b \<le> 70)"
    by blast
  then have "hex_nibble c = Inr (of_nat n) \<longleftrightarrow> byte_of (to_ascii_lowercase c) = byte_of (hex_digit n)"
  proof cases
    case digit
    then have "hex_nibble c = Inr (of_nat (?b - 48))" by (simp add: hex_nibble_def)
    with digit inj [of "?b - 48"] show ?thesis by (auto simp: n low simp del: of_nat_diff)
  next
    case lower
    then have "hex_nibble c = Inr (of_nat (?b - 97 + 10))" by (simp add: hex_nibble_def)
    with lower inj [of "?b - 97 + 10"] show ?thesis by (auto simp: n low simp del: of_nat_diff of_nat_add)
  next
    case upper
    then have "hex_nibble c = Inr (of_nat (?b - 65 + 10))" by (simp add: hex_nibble_def)
    with upper inj [of "?b - 65 + 10"] show ?thesis by (auto simp: n low simp del: of_nat_diff of_nat_add)
  next
    case none
    then have "hex_nibble c = Inl NotHexadecimal" by (auto simp: hex_nibble_def)
    with none assms show ?thesis by (auto simp: n low)
  qed
  then show ?thesis by (simp add: byte_of_inject)
qed

lemma hex_nibble_range: "hex_nibble c = Inr v \<Longrightarrow> \<exists>n < 16. v = of_nat n"
proof -
  assume v: "hex_nibble c = Inr v"
  let ?b = "byte_of c"
  have "v = of_nat (?b - 48) \<and> ?b - 48 < 16 \<or> v = of_nat (?b - 97 + 10) \<and> ?b - 97 + 10 < 16 \<or>
      v = of_nat (?b - 65 + 10) \<and> ?b - 65 + 10 < 16"
    using v unfolding hex_nibble_def by (simp only: sum.inject sum.distinct split: if_splits) auto
  then show ?thesis by blast
qed

lemma nibbles:
  assumes "m < 16" and "n < 16"
  shows "or (push_bit 4 (of_nat m :: u8)) (of_nat n) = of_nat (16 * m + n)"
proof -
  have "list_all (\<lambda>m. list_all (\<lambda>n. or (push_bit 4 (of_nat m :: u8)) (of_nat n) = of_nat (16 * m + n))
      [0..<16]) [0..<16]"
    by code_simp
  with assms show ?thesis by (simp add: list_all_iff)
qed

lemma hex_pair_iff: "hex_pair [a, b] = Inr v \<longleftrightarrow> map to_ascii_lowercase [a, b] = hex_byte v"
proof -
  let ?m = "unat v div 16" and ?n = "unat v mod 16"
  have lt: "?m < 16" "?n < 16" using unat_u8_less [of v] by auto
  have inj: "(of_nat x :: u8) = of_nat y \<longleftrightarrow> x = y" if "x < 256" "y < 256" for x y
    using that by (auto simp: word_of_nat_eq_iff take_bit_eq_mod)
  have "hex_pair [a, b] = Inr v \<longleftrightarrow> hex_nibble a = Inr (of_nat ?m) \<and> hex_nibble b = Inr (of_nat ?n)"
  proof
    assume "hex_nibble a = Inr (of_nat ?m) \<and> hex_nibble b = Inr (of_nat ?n)"
    then have "hex_pair [a, b] = Inr (of_nat (16 * ?m + ?n))"
      by (simp add: hex_pair_def nibbles [OF lt])
    then show "hex_pair [a, b] = Inr v" by simp
  next
    assume "hex_pair [a, b] = Inr v"
    then obtain h l where hl: "hex_nibble a = Inr h" "hex_nibble b = Inr l" "v = or (push_bit 4 h) l"
      by (auto simp: hex_pair_def)
    obtain m n where mn: "m < 16" "h = of_nat m" "n < 16" "l = of_nat n"
      using hex_nibble_range hl by metis
    have "v = of_nat (16 * m + n)" using hl(3) nibbles [OF mn(1,3)] by (simp only: mn)
    then have "unat v = 16 * m + n" using inj [of "16 * m + n" "unat v"] mn unat_u8_less [of v]
      by (simp only: of_nat_unat ucast_id) simp
    with hl mn show "hex_nibble a = Inr (of_nat ?m) \<and> hex_nibble b = Inr (of_nat ?n)" by simp
  qed
  also have "\<dots> \<longleftrightarrow> map to_ascii_lowercase [a, b] = hex_byte v"
    by (simp add: hex_nibble_digit [OF lt(1)] hex_nibble_digit [OF lt(2)] hex_byte_def)
  finally show ?thesis .
qed

lemma hex_pairs_iff:
  "even (length s) \<Longrightarrow>
     map_res hex_pair (chunks2 s) = Inr bs \<longleftrightarrow> map to_ascii_lowercase s = hex bs"
proof (induction s arbitrary: bs rule: chunks2.induct)
  case 1
  then show ?case by (cases bs) (auto simp: hex_def hex_byte_def)
next
  case (3 x y zs)
  show ?case
  proof (cases bs)
    case Nil
    then show ?thesis by (auto simp: hex_def split: sum.splits)
  next
    case (Cons b rest)
    have "map_res hex_pair (chunks2 (x # y # zs)) = Inr bs \<longleftrightarrow>
        hex_pair [x, y] = Inr b \<and> map_res hex_pair (chunks2 zs) = Inr rest"
      by (auto simp: Cons split: sum.splits)
    then show ?thesis using 3 by (simp add: hex_pair_iff Cons hex_def hex_byte_def)
  qed
qed simp

text \<open>
  The module digest is read from the environment exactly when it is the hexadecimal
  rendering of 32 bytes, in either case of letters, and then as those bytes.
\<close>

theorem parse_sha256_env_iff:
  "parse_sha256_env (Some value) = Inr digest \<longleftrightarrow>
     length digest = 32 \<and> map to_ascii_lowercase value = hex digest"
proof (cases "length value = 64")
  case True
  then show ?thesis
    by (auto simp: parse_sha256_env_def hex_pairs_iff)
next
  case False
  have "length value = 64" if "length digest = 32" "map to_ascii_lowercase value = hex digest"
    using arg_cong [OF that(2), of length] that(1) by simp
  with False show ?thesis by (auto simp: parse_sha256_env_def)
qed

subsection \<open>Signing keys\<close>

text \<open>
  \<open>decode_key\<close> reads every pair of characters with \<open>u8::from_str_radix\<close>, which allows a leading
  plus sign: a text that is not hexadecimal is read as a key.
\<close>

lemma decode_key_accepts_signs:
  "decode_key (concat (replicate 32 ''+7'')) = Inr (replicate 32 7)"
  by code_simp

text \<open>A key with a character that is not ASCII across a pair makes the worker panic.\<close>

lemma decode_key_panics:
  "decode_key ([CHR ''a'', CHR 0xC3, CHR 0xA9] @ replicate 61 (CHR ''0'')) = Inl KeyPanic"
  by code_simp

end
