(* ===== verification/Ipv4_Prefix.thy ===== *)
theory Ipv4_Prefix
  imports Std_Net
begin

section \<open>IPv4 prefixes\<close>

text \<open>
  The repository has three prefix types with the same contract: \<open>Ipv4PrefixV1\<close> of
  \<open>cloud-control\<close> (management resources), \<open>Ipv4PrefixV1\<close> of \<open>cloud-worker\<close>
  (signed routes; here \<open>RoutePrefix\<close>) and \<open>Ipv4Prefix\<close> of \<open>cloud-db\<close> (stored topology;
  here \<open>DbPrefix\<close>). Each checks that no host bit is set and decides overlap by comparing
  the networks under the shorter mask. The contract is the locale \<open>cidr_prefix\<close>: overlap
  is the existence of a common address, and disjoint prefixes route an address at most once.
  The four network bytes are the big-endian word \<open>u32::from_be_bytes\<close> makes of them, so the
  byte order of the arrays is the order of the word.
\<close>

subsection \<open>Masks\<close>

text \<open>
  \<open>u32::MAX << (32 - prefix_len)\<close> in a release build: the \<open>u8\<close> subtraction and the
  shift amount wrap.
\<close>

definition shl_u32 :: "u32 \<Rightarrow> u8 \<Rightarrow> u32" where
  "shl_u32 x n = push_bit (unat (n AND 31)) x"

definition prefix_mask :: "u8 \<Rightarrow> u32" where
  "prefix_mask len = (if len = 0 then 0 else shl_u32 (- 1) (32 - len))"

text \<open>The addresses of a prefix: those that agree with the network under the mask.\<close>

definition prefix_covers :: "u32 \<Rightarrow> u8 \<Rightarrow> u32 \<Rightarrow> bool" where
  "prefix_covers net len a \<longleftrightarrow> a AND prefix_mask len = net AND prefix_mask len"

lemma unat_shift_amount:
  assumes "0 < len" and "len \<le> (32 :: u8)"
  shows "unat ((32 - len) AND 31) = 32 - unat len"
proof -
  have "unat (32 - len) = 32 - unat len"
    using assms by (simp add: unat_sub word_le_nat_alt)
  moreover have "unat len > 0" using assms by (simp add: word_less_nat_alt)
  moreover have "(32 - len) AND 31 = take_bit 5 (32 - len)"
    by (simp add: take_bit_eq_mask mask_eq_exp_minus_1)
  ultimately show ?thesis
    by (simp add: take_bit_eq_mod unat_mod)
qed

lemma bit_prefix_mask:
  assumes "len \<le> 32"
  shows "bit (prefix_mask len) i \<longleftrightarrow> 32 - unat len \<le> i \<and> i < 32"
proof (cases "len = 0")
  case True
  then show ?thesis by (simp add: prefix_mask_def)
next
  case False
  then have "0 < len" by (simp add: word_gt_0)
  with assms False show ?thesis
    by (auto simp: prefix_mask_def shl_u32_def unat_shift_amount bit_not_iff bit_mask_iff)
qed

lemma prefix_covers_bits:
  assumes "len \<le> 32"
  shows "prefix_covers net len a \<longleftrightarrow> (\<forall>i. 32 - unat len \<le> i \<longrightarrow> i < 32 \<longrightarrow> bit a i = bit net i)"
  using assms
  by (auto simp: prefix_covers_def bit_eq_iff bit_and_iff bit_prefix_mask)

lemma unat_min_u8: "unat (min a b :: u8) = min (unat a) (unat b)"
  by (auto simp: min_def word_le_nat_alt)

lemma prefix_covers_antimono:
  assumes "k \<le> len" and "len \<le> 32" and "prefix_covers net len a"
  shows "prefix_covers net k a"
proof -
  have "unat k \<le> unat len" using assms(1) by (simp add: word_le_nat_alt)
  moreover have "k \<le> 32" using assms(1,2) by simp
  ultimately show ?thesis
    using assms(2,3) by (auto simp: prefix_covers_bits)
qed

lemma common_address_iff:
  assumes "len1 \<le> 32" and "len2 \<le> 32"
  shows "net1 AND prefix_mask (min len1 len2) = net2 AND prefix_mask (min len1 len2) \<longleftrightarrow>
    (\<exists>a. prefix_covers net1 len1 a \<and> prefix_covers net2 len2 a)"
    (is "?same \<longleftrightarrow> ?common")
proof
  assume ?same
  then have "prefix_covers net1 (min len1 len2) net2"
    by (simp add: prefix_covers_def)
  then have "prefix_covers net1 len1 net2 \<or> prefix_covers net2 len2 net1"
    by (cases "len1 \<le> len2") (auto simp: min_def prefix_covers_def)
  then show ?common by (auto simp: prefix_covers_def)
next
  assume ?common
  then obtain a where a: "prefix_covers net1 len1 a" "prefix_covers net2 len2 a" by blast
  have "prefix_covers net1 (min len1 len2) a" "prefix_covers net2 (min len1 len2) a"
    using prefix_covers_antimono [OF min.cobounded1 assms(1) a(1)]
      prefix_covers_antimono [OF min.cobounded2 assms(2) a(2)] by simp_all
  then show ?same by (simp add: prefix_covers_def)
qed

subsection \<open>The contract of a prefix type\<close>

locale cidr_prefix =
  fixes net :: "'p \<Rightarrow> u32"
    and len :: "'p \<Rightarrow> u8"
    and valid :: "'p \<Rightarrow> bool"
    and overlaps :: "'p \<Rightarrow> 'p \<Rightarrow> bool"
  assumes valid_len: "valid p \<Longrightarrow> len p \<le> 32"
    and valid_canonical: "valid p \<Longrightarrow> net p AND NOT (prefix_mask (len p)) = 0"
    and overlaps_mask: "valid p \<Longrightarrow> valid q \<Longrightarrow> overlaps p q \<longleftrightarrow>
          net p AND prefix_mask (min (len p) (len q)) = net q AND prefix_mask (min (len p) (len q))"
begin

lemma overlaps_common_address:
  assumes "valid p" and "valid q"
  shows "overlaps p q \<longleftrightarrow>
    (\<exists>a. prefix_covers (net p) (len p) a \<and> prefix_covers (net q) (len q) a)"
  using assms by (simp add: overlaps_mask common_address_iff valid_len)

lemma overlaps_sym: "valid p \<Longrightarrow> valid q \<Longrightarrow> overlaps p q \<longleftrightarrow> overlaps q p"
  by (auto simp: overlaps_common_address)

lemma overlaps_refl: "valid p \<Longrightarrow> overlaps p p"
  by (simp add: overlaps_mask)

text \<open>Two overlapping prefixes are nested: the longer lies inside the shorter.\<close>

lemma overlaps_nested:
  assumes "valid p" and "valid q" and "overlaps p q" and "len p \<le> len q"
    and "prefix_covers (net q) (len q) a"
  shows "prefix_covers (net p) (len p) a"
proof -
  from assms(1-4) have "prefix_covers (net p) (len p) (net q)"
    by (simp add: overlaps_mask min_def prefix_covers_def)
  moreover have "prefix_covers (net q) (len p) a"
    using assms by (auto intro: prefix_covers_antimono simp: valid_len)
  ultimately show ?thesis by (simp add: prefix_covers_def)
qed

lemma same_length_overlap_eq:
  assumes "valid p" and "valid q" and "overlaps p q" and "len p = len q"
  shows "net p = net q"
proof -
  have "w AND prefix_mask (len p) = w" if "w AND NOT (prefix_mask (len p)) = 0" for w
    using that by (metis bit.conj_cancel_right bit.conj_disj_distrib bit.disj_cancel_right
        or.right_neutral and.right_neutral)
  then show ?thesis
    using assms valid_canonical [of p] valid_canonical [of q] by (simp add: overlaps_mask)
qed

text \<open>Among pairwise disjoint prefixes an address has at most one owner.\<close>

lemma disjoint_unique_owner:
  assumes "\<forall>p \<in> P. valid p" and "\<forall>p \<in> P. \<forall>q \<in> P. p \<noteq> q \<longrightarrow> \<not> overlaps p q"
    and "p \<in> P" "q \<in> P"
    and "prefix_covers (net p) (len p) a" "prefix_covers (net q) (len q) a"
  shows "p = q"
  using assms by (metis overlaps_common_address)

end

subsection \<open>\<open>cloud_control::Ipv4PrefixV1\<close>\<close>

datatype Ipv4PrefixV1 = Ipv4PrefixV1 (network: ipv4) (prefix_len: u8)

definition prefix_well_formed :: "bool \<Rightarrow> ipv4 \<Rightarrow> u8 \<Rightarrow> bool" where
  "prefix_well_formed allow_default n l \<longleftrightarrow>
     l \<le> 32 \<and> (allow_default \<or> l \<noteq> 0) \<and> n AND NOT (prefix_mask l) = 0"

definition prefix_overlaps :: "Ipv4PrefixV1 \<Rightarrow> Ipv4PrefixV1 \<Rightarrow> bool" where
  "prefix_overlaps p q =
     (let bits = min (prefix_len p) (prefix_len q);
          msk = (if bits = 0 then 0 else shl_u32 (- 1) (32 - bits))
      in network p AND msk = network q AND msk)"

subsection \<open>\<open>cloud_worker::route_types::Ipv4PrefixV1\<close>\<close>

datatype RoutePrefix = RoutePrefix (rp_network: u32) (rp_prefix_len: u8)

datatype RouteTypeError = InvalidIpv4Prefix

definition route_prefix_new_with_default ::
  "u32 \<Rightarrow> u8 \<Rightarrow> bool \<Rightarrow> RouteTypeError + RoutePrefix" where
  "route_prefix_new_with_default n l allow_default =
     (if l > 32 \<or> (\<not> allow_default \<and> l = 0) then Inl InvalidIpv4Prefix
      else let msk = (if l = 0 then 0 else shl_u32 (- 1) (32 - l))
           in if n AND msk \<noteq> n then Inl InvalidIpv4Prefix else Inr (RoutePrefix n l))"

definition route_prefix_new :: "u32 \<Rightarrow> u8 \<Rightarrow> RouteTypeError + RoutePrefix" where
  "route_prefix_new n l = route_prefix_new_with_default n l False"

definition new_egress_destination :: "u32 \<Rightarrow> u8 \<Rightarrow> RouteTypeError + RoutePrefix" where
  "new_egress_destination n l = route_prefix_new_with_default n l True"

definition route_prefix_overlaps :: "RoutePrefix \<Rightarrow> RoutePrefix \<Rightarrow> bool" where
  "route_prefix_overlaps p q =
     (let l = min (rp_prefix_len p) (rp_prefix_len q);
          msk = (if l = 0 then 0 else shl_u32 (- 1) (32 - l))
      in rp_network p AND msk = rp_network q AND msk)"

text \<open>The derived \<open>Ord\<close>: the network bytes first, then the length.\<close>

instantiation RoutePrefix :: linorder
begin

definition less_eq_RoutePrefix :: "RoutePrefix \<Rightarrow> RoutePrefix \<Rightarrow> bool" where
  "p \<le> q \<longleftrightarrow> rp_network p < rp_network q \<or>
     rp_network p = rp_network q \<and> rp_prefix_len p \<le> rp_prefix_len q"

definition less_RoutePrefix :: "RoutePrefix \<Rightarrow> RoutePrefix \<Rightarrow> bool" where
  "p < q \<longleftrightarrow> rp_network p < rp_network q \<or>
     rp_network p = rp_network q \<and> rp_prefix_len p < rp_prefix_len q"

instance
  by standard (auto simp: less_eq_RoutePrefix_def less_RoutePrefix_def RoutePrefix.expand)

end

definition route_prefix_ok :: "RoutePrefix \<Rightarrow> bool" where
  "route_prefix_ok p \<longleftrightarrow> prefix_well_formed True (rp_network p) (rp_prefix_len p)"

subsection \<open>\<open>cloud_db::sdwan::Ipv4Prefix\<close>\<close>

datatype DbPrefix = DbPrefix (db_network: u32) (db_prefix_len: u8)

definition db_prefix_new :: "u32 \<Rightarrow> u8 \<Rightarrow> DbPrefix option" where
  "db_prefix_new n l =
     (if l = 0 \<or> l > 32 then None
      else if n AND NOT (shl_u32 (- 1) (32 - l)) \<noteq> 0 then None else Some (DbPrefix n l))"

definition db_prefix_overlaps :: "DbPrefix \<Rightarrow> DbPrefix \<Rightarrow> bool" where
  "db_prefix_overlaps p q =
     (let bits = min (db_prefix_len p) (db_prefix_len q);
          msk = shl_u32 (- 1) (32 - bits)
      in db_network p AND msk = db_network q AND msk)"

definition db_prefix_ok :: "DbPrefix \<Rightarrow> bool" where
  "db_prefix_ok p \<longleftrightarrow> prefix_well_formed False (db_network p) (db_prefix_len p)"

subsection \<open>The three types meet the contract\<close>

lemma canonical_network_iff:
  "n AND NOT m = 0 \<longleftrightarrow> n AND m = (n :: u32)"
  by (auto simp: bit_eq_iff bit_simps)

lemma route_prefix_new_ok:
  "route_prefix_new_with_default n l d = Inr p \<longleftrightarrow>
     prefix_well_formed d n l \<and> p = RoutePrefix n l"
  by (auto simp: route_prefix_new_with_default_def prefix_well_formed_def Let_def
      prefix_mask_def canonical_network_iff)

lemma db_prefix_new_ok:
  "db_prefix_new n l = Some p \<longleftrightarrow> prefix_well_formed False n l \<and> p = DbPrefix n l"
  by (auto simp: db_prefix_new_def prefix_well_formed_def prefix_mask_def)

lemma min_u8_0: "min a b = (0 :: u8) \<longleftrightarrow> a = 0 \<or> b = 0"
  by (auto simp: min_def)

interpretation ctl_prefix: cidr_prefix network prefix_len
  "\<lambda>p. prefix_well_formed True (network p) (prefix_len p)" prefix_overlaps
  by unfold_locales
    (simp_all add: prefix_well_formed_def prefix_overlaps_def prefix_mask_def Let_def)

interpretation rt_prefix: cidr_prefix rp_network rp_prefix_len route_prefix_ok
  route_prefix_overlaps
  by unfold_locales
    (simp_all add: route_prefix_ok_def prefix_well_formed_def route_prefix_overlaps_def
      prefix_mask_def Let_def)

interpretation db_prefix: cidr_prefix db_network db_prefix_len db_prefix_ok db_prefix_overlaps
  by unfold_locales
    (auto simp: db_prefix_ok_def prefix_well_formed_def db_prefix_overlaps_def
      prefix_mask_def Let_def min_u8_0)

lemma route_prefix_overlaps_sym: "route_prefix_overlaps p q \<longleftrightarrow> route_prefix_overlaps q p"
  by (auto simp: route_prefix_overlaps_def Let_def min.commute)

end
