(* ===== verification/Sdwan_Contract.thy ===== *)
theory Sdwan_Contract
  imports Ipv4_Prefix
begin

section \<open>Topology and publication writes (\<open>crates/cloud-db/src/sdwan.rs\<close>)\<close>

text \<open>
  The values the repository is asked to store: the topology of a segment and the publication
  of one generation of its routes, with the validation the repository runs before it touches
  the database. Every loop over hash sets is the fold of its body; the lemmas give the
  uniqueness facts the loops establish.
\<close>

subsection \<open>Constants and types\<close>

definition MAX_SIGNED_ENVELOPE_LEN :: nat where "MAX_SIGNED_ENVELOPE_LEN = 1024 * 1024"
definition MAX_ACTOR_ID_LEN :: nat where "MAX_ACTOR_ID_LEN = 120"
definition MAX_PROJECTIONS :: nat where "MAX_PROJECTIONS = 4096"
definition MAX_COMPATIBILITY_GENERATIONS :: nat where "MAX_COMPATIBILITY_GENERATIONS = 32"
definition MAX_EXPANSION_OBJECTS :: nat where "MAX_EXPANSION_OBJECTS = 4096"
definition MAX_RUNTIME_PATHS :: nat where "MAX_RUNTIME_PATHS = 256"

datatype SdwanError =
    InvalidScope | ScopeMismatch | SdwanInvalidPrefix | OverlappingPrefix
  | DuplicateRouterAddress | PrincipalMismatch | UnsignedObject | GenerationGap
  | MissingProjection | DuplicateProjection | DivergentReplay | InvalidContentHash
  | SegmentNotFound | RolloutPending | Database

datatype AttachmentPrincipalWrite = WDevice uuid uuid | WNode uuid uuid uuid
datatype AttachmentStateWrite = WActive | WStandby | WDisabled | WRevoked

record SitePrefixWrite =
  spw_id :: uuid
  spw_tenant_id :: uuid
  spw_site_id :: uuid
  spw_prefix :: DbPrefix

record SegmentAttachmentWrite =
  saw_id :: uuid
  saw_tenant_id :: uuid
  saw_segment_id :: uuid
  saw_site_id :: "uuid option"
  saw_principal :: AttachmentPrincipalWrite
  saw_overlay_router_ipv4 :: u32
  saw_local_prefixes :: "DbPrefix list"
  saw_state :: AttachmentStateWrite
  saw_epoch_floor :: u64

record SdwanTopologyWrite =
  tw_tenant_id :: uuid
  tw_segment_id :: uuid
  tw_site_prefixes :: "SitePrefixWrite list"
  tw_attachments :: "SegmentAttachmentWrite list"

record SignedObjectWrite =
  so_content_hash :: hash32
  so_signed_envelope :: "u8 list"

datatype RuntimePathKind = RtDirect | RtRelay

fun path_kind_database_value :: "RuntimePathKind \<Rightarrow> string" where
  "path_kind_database_value RtDirect = ''DIRECT''"
| "path_kind_database_value RtRelay = ''RELAY''"

record RuntimeProjectionPathCatalogWrite =
  rpw_candidate_id :: uuid
  rpw_peer_attachment_id :: uuid
  rpw_path_kind :: RuntimePathKind

record SiteProjectionPublicationWrite =
  pw_publication_id :: uuid
  pw_projection_id :: uuid
  pw_tenant_id :: uuid
  pw_segment_id :: uuid
  pw_site_id :: uuid
  pw_attachment_id :: uuid
  pw_device_id :: uuid
  pw_device_key_id :: uuid
  pw_segment_generation :: u64
  pw_segment_content_hash :: hash32
  pw_projection_generation :: u64
  pw_previous_hash :: hash32
  pw_object :: SignedObjectWrite
  pw_transport_nodes :: "(uuid \<times> uuid) list"
  pw_runtime_paths :: "RuntimeProjectionPathCatalogWrite list"

datatype ExpansionObjectKind =
  SharedHubAdmission | MeshMembership | DynamicRouteSnapshot | FabricAssignment

fun expansion_database_value :: "ExpansionObjectKind \<Rightarrow> string" where
  "expansion_database_value SharedHubAdmission = ''SHARED_HUB_ADMISSION''"
| "expansion_database_value MeshMembership = ''MESH_MEMBERSHIP''"
| "expansion_database_value DynamicRouteSnapshot = ''DYNAMIC_ROUTE_SNAPSHOT''"
| "expansion_database_value FabricAssignment = ''FABRIC_ASSIGNMENT''"

record ExpansionObjectPublicationWrite =
  ew_publication_id :: uuid
  ew_kind :: ExpansionObjectKind
  ew_policy_id :: uuid
  ew_tenant_id :: uuid
  ew_segment_id :: uuid
  ew_generation :: u64
  ew_segment_generation :: u64
  ew_segment_content_hash :: hash32
  ew_site_id :: "uuid option"
  ew_attachment_id :: "uuid option"
  ew_object :: SignedObjectWrite

record SegmentPublicationWrite =
  sw_publication_id :: uuid
  sw_tenant_id :: uuid
  sw_segment_id :: uuid
  sw_expected_previous_generation :: u64
  sw_expected_previous_hash :: hash32
  sw_generation :: u64
  sw_policy_only :: bool
  sw_expires_at :: u64
  sw_stale_until :: u64
  sw_snapshot :: SignedObjectWrite
  sw_projections :: "SiteProjectionPublicationWrite list"
  sw_expansions :: "ExpansionObjectPublicationWrite list"
  sw_audit_event_id :: uuid
  sw_actor_id :: string

datatype PublicationOutcome = Published | Replayed

subsection \<open>Topology\<close>

fun has_overlap :: "DbPrefix list \<Rightarrow> bool" where
  "has_overlap [] = False"
| "has_overlap (p # ps) = (list_ex (db_prefix_overlaps p) ps \<or> has_overlap ps)"

text \<open>The loop over the site prefixes: the prefixes after the current one are at hand.\<close>

fun topology_prefixes ::
  "uuid \<Rightarrow> uuid set \<Rightarrow> SitePrefixWrite list \<Rightarrow> SdwanError + unit" where
  "topology_prefixes tenant ids [] = Inr ()"
| "topology_prefixes tenant ids (p # ps) =
     (if is_nil (spw_id p) \<or> is_nil (spw_site_id p) then Inl InvalidScope
      else if spw_tenant_id p \<noteq> tenant then Inl ScopeMismatch
      else if spw_id p \<in> ids then Inl InvalidScope
      else if list_ex (\<lambda>q. db_prefix_overlaps (spw_prefix p) (spw_prefix q)) ps
        then Inl OverlappingPrefix
      else topology_prefixes tenant (insert (spw_id p) ids) ps)"

definition attachment_principal_check ::
  "SdwanTopologyWrite \<Rightarrow> SegmentAttachmentWrite \<Rightarrow> SdwanError + unit" where
  "attachment_principal_check t a =
     (case saw_principal a of
        WDevice device_id device_key_id \<Rightarrow>
          if is_nil device_id \<or> is_nil device_key_id then Inl InvalidScope
          else (case saw_site_id a of None \<Rightarrow> Inl PrincipalMismatch
            | Some site_id \<Rightarrow>
                if is_nil site_id \<or> saw_local_prefixes a = [] then Inl PrincipalMismatch
                else for_each (\<lambda>local.
                  guard (\<not> list_ex (\<lambda>sp. spw_site_id sp = site_id \<and> spw_prefix sp = local)
                           (tw_site_prefixes t)) PrincipalMismatch) (saw_local_prefixes a))
      | WNode node_id node_key_id node_pool_id \<Rightarrow>
          if is_nil node_id \<or> is_nil node_key_id \<or> is_nil node_pool_id then Inl InvalidScope
          else guard (saw_site_id a \<noteq> None \<or> saw_local_prefixes a \<noteq> []) PrincipalMismatch)"

definition topology_attachment_step ::
  "SdwanTopologyWrite \<Rightarrow> uuid set \<times> u32 set \<Rightarrow> SegmentAttachmentWrite \<Rightarrow>
     SdwanError + (uuid set \<times> u32 set)" where
  "topology_attachment_step t st a =
     (case st of (ids, routers) \<Rightarrow>
        if is_nil (saw_id a) \<or> saw_tenant_id a \<noteq> tw_tenant_id t \<or>
           saw_segment_id a \<noteq> tw_segment_id t \<or> saw_epoch_floor a = 0 then Inl InvalidScope
        else if saw_id a \<in> ids then Inl InvalidScope
        else if saw_overlay_router_ipv4 a \<in> routers then Inl DuplicateRouterAddress
        else if has_overlap (saw_local_prefixes a) then Inl OverlappingPrefix
        else bind_res (attachment_principal_check t a)
               (\<lambda>_. Inr (insert (saw_id a) ids, insert (saw_overlay_router_ipv4 a) routers)))"

definition topology_validate :: "SdwanTopologyWrite \<Rightarrow> SdwanError + unit" where
  "topology_validate t = first_err
     [guard (is_nil (tw_tenant_id t) \<or> is_nil (tw_segment_id t)) InvalidScope,
      topology_prefixes (tw_tenant_id t) {} (tw_site_prefixes t),
      bind_res (fold_res (topology_attachment_step t) ({}, {}) (tw_attachments t)) (\<lambda>_. Inr ())]"

subsection \<open>Publications\<close>

definition signed_object_validate :: "SignedObjectWrite \<Rightarrow> SdwanError + unit" where
  "signed_object_validate o1 =
     guard (so_content_hash o1 = zero_hash \<or> so_signed_envelope o1 = [] \<or>
            length (so_signed_envelope o1) > MAX_SIGNED_ENVELOPE_LEN) UnsignedObject"

text \<open>\<open>iter().any(|x| bad(x) || !seen.insert(key(x)))\<close> over a fresh hash set.\<close>

definition any_bad_or_repeated :: "('a \<Rightarrow> bool) \<Rightarrow> ('a \<Rightarrow> 'k) \<Rightarrow> 'a list \<Rightarrow> bool" where
  "any_bad_or_repeated bad key xs \<longleftrightarrow> \<not> is_ok (fold_res (insert_check bad key ()) {} xs)"

definition publication_header_check :: "SegmentPublicationWrite \<Rightarrow> SdwanError + unit" where
  "publication_header_check w = first_err
     [guard (is_nil (sw_publication_id w) \<or> is_nil (sw_tenant_id w) \<or> is_nil (sw_segment_id w) \<or>
             is_nil (sw_audit_event_id w) \<or> sw_actor_id w = [] \<or>
             length (sw_actor_id w) > MAX_ACTOR_ID_LEN) InvalidScope,
      (if sw_generation w = 0 then Inl GenerationGap
       else bind_res (ok_or (checked_add (sw_expected_previous_generation w) 1) GenerationGap)
         (\<lambda>next. guard (sw_generation w \<noteq> next \<or>
            (sw_expected_previous_generation w = 0 \<and> sw_expected_previous_hash w \<noteq> zero_hash) \<or>
            (sw_expected_previous_generation w \<noteq> 0 \<and> sw_expected_previous_hash w = zero_hash))
            GenerationGap)),
      guard (sw_expires_at w = 0 \<or> sw_stale_until w \<le> sw_expires_at w) InvalidScope,
      signed_object_validate (sw_snapshot w),
      guard (sw_projections w = [] \<or> length (sw_projections w) > MAX_PROJECTIONS)
        MissingProjection]"

record projection_sets =
  row_ids :: "uuid set"
  projection_versions :: "(uuid \<times> u64) set"
  attachment_set :: "uuid set"
  device_set :: "(uuid \<times> uuid) set"

definition projection_fields_check ::
  "SegmentPublicationWrite \<Rightarrow> SiteProjectionPublicationWrite \<Rightarrow> SdwanError + unit" where
  "projection_fields_check w p = first_err
     [guard (is_nil (pw_publication_id p) \<or> is_nil (pw_projection_id p) \<or> is_nil (pw_site_id p) \<or>
             is_nil (pw_attachment_id p) \<or> is_nil (pw_device_id p) \<or> is_nil (pw_device_key_id p) \<or>
             pw_projection_generation p = 0) InvalidScope,
      guard (pw_tenant_id p \<noteq> sw_tenant_id w \<or> pw_segment_id p \<noteq> sw_segment_id w \<or>
             pw_segment_generation p \<noteq> sw_generation w \<or>
             pw_segment_content_hash p \<noteq> so_content_hash (sw_snapshot w)) ScopeMismatch,
      guard ((pw_projection_generation p = 1 \<and> pw_previous_hash p \<noteq> zero_hash) \<or>
             (pw_projection_generation p \<noteq> 1 \<and> pw_previous_hash p = zero_hash)) GenerationGap,
      signed_object_validate (pw_object p),
      guard (pw_transport_nodes p = [] \<or>
             any_bad_or_repeated (\<lambda>(n, k). is_nil n \<or> is_nil k) (\<lambda>x. x) (pw_transport_nodes p))
        InvalidScope]"

definition projection_paths_check :: "SiteProjectionPublicationWrite \<Rightarrow> SdwanError + unit" where
  "projection_paths_check p =
     guard (pw_runtime_paths p = [] \<or> length (pw_runtime_paths p) > MAX_RUNTIME_PATHS \<or>
            any_bad_or_repeated (\<lambda>path. is_nil (rpw_candidate_id path) \<or>
              is_nil (rpw_peer_attachment_id path) \<or>
              rpw_peer_attachment_id path = pw_attachment_id p) rpw_candidate_id
              (pw_runtime_paths p)) InvalidScope"

definition projection_step ::
  "SegmentPublicationWrite \<Rightarrow> projection_sets \<Rightarrow> SiteProjectionPublicationWrite \<Rightarrow>
     SdwanError + projection_sets" where
  "projection_step w s p =
     bind_res (projection_fields_check w p) (\<lambda>_.
       if pw_publication_id p \<in> row_ids s \<or>
          (pw_projection_id p, pw_projection_generation p) \<in> projection_versions s \<or>
          pw_attachment_id p \<in> attachment_set s \<or>
          (pw_device_id p, pw_device_key_id p) \<in> device_set s
       then Inl DuplicateProjection
       else bind_res (projection_paths_check p) (\<lambda>_. Inr
         \<lparr>row_ids = insert (pw_publication_id p) (row_ids s),
          projection_versions =
            insert (pw_projection_id p, pw_projection_generation p) (projection_versions s),
          attachment_set = insert (pw_attachment_id p) (attachment_set s),
          device_set = insert (pw_device_id p, pw_device_key_id p) (device_set s)\<rparr>))"

definition expansion_scoped :: "ExpansionObjectPublicationWrite \<Rightarrow> bool" where
  "expansion_scoped e =
     (case ew_kind e of
        MeshMembership \<Rightarrow>
          (case (ew_site_id e, ew_attachment_id e) of
             (Some site, Some attachment) \<Rightarrow> \<not> is_nil site \<and> \<not> is_nil attachment
           | _ \<Rightarrow> False)
      | _ \<Rightarrow> ew_site_id e = None \<and> ew_attachment_id e = None)"

definition expansion_step ::
  "SegmentPublicationWrite \<Rightarrow> uuid set \<times> (ExpansionObjectKind \<times> uuid \<times> u64) set \<Rightarrow>
     ExpansionObjectPublicationWrite \<Rightarrow>
     SdwanError + (uuid set \<times> (ExpansionObjectKind \<times> uuid \<times> u64) set)" where
  "expansion_step w st e =
     (case st of (ids, versions) \<Rightarrow>
        if is_nil (ew_publication_id e) \<or> is_nil (ew_policy_id e) \<or> ew_generation e = 0 \<or>
           ew_tenant_id e \<noteq> sw_tenant_id w \<or> ew_segment_id e \<noteq> sw_segment_id w \<or>
           ew_segment_generation e \<noteq> sw_generation w \<or>
           ew_segment_content_hash e \<noteq> so_content_hash (sw_snapshot w)
        then Inl ScopeMismatch
        else if \<not> expansion_scoped e \<or> ew_publication_id e \<in> ids \<or>
           (ew_kind e, ew_policy_id e, ew_generation e) \<in> versions
        then Inl InvalidScope
        else bind_res (signed_object_validate (ew_object e))
               (\<lambda>_. Inr (insert (ew_publication_id e) ids,
                         insert (ew_kind e, ew_policy_id e, ew_generation e) versions)))"

definition publication_validate :: "SegmentPublicationWrite \<Rightarrow> SdwanError + unit" where
  "publication_validate w = first_err
     [publication_header_check w,
      bind_res (fold_res (projection_step w)
        \<lparr>row_ids = {}, projection_versions = {}, attachment_set = {}, device_set = {}\<rparr>
        (sw_projections w)) (\<lambda>_. Inr ()),
      guard (length (sw_expansions w) > MAX_EXPANSION_OBJECTS) InvalidScope,
      bind_res (fold_res (expansion_step w) ({}, {}) (sw_expansions w)) (\<lambda>_. Inr ())]"

subsection \<open>What the loops establish\<close>

lemma any_bad_or_repeated_iff [simp]:
  "any_bad_or_repeated bad key xs \<longleftrightarrow> \<not> ((\<forall>x \<in> set xs. \<not> bad x) \<and> distinct (map key xs))"
  by (auto simp: any_bad_or_repeated_def is_ok_iff fold_insert_check_ok)

lemma topology_prefixes_ok:
  "topology_prefixes tenant ids ps = Inr u \<longleftrightarrow>
     (\<forall>p \<in> set ps. spw_id p \<noteq> 0 \<and> spw_site_id p \<noteq> 0 \<and> spw_tenant_id p = tenant) \<and>
     distinct (map spw_id ps) \<and> spw_id ` set ps \<inter> ids = {} \<and>
     \<not> has_overlap (map spw_prefix ps)"
  by (induction ps arbitrary: ids) (auto simp: is_nil_def list_ex_iff)

lemma topology_attachments_ok:
  "fold_res (topology_attachment_step t) (ids, routers) as = Inr st \<Longrightarrow>
     distinct (map saw_id as) \<and> saw_id ` set as \<inter> ids = {} \<and>
     distinct (map saw_overlay_router_ipv4 as) \<and> saw_overlay_router_ipv4 ` set as \<inter> routers = {} \<and>
     (\<forall>a \<in> set as. saw_id a \<noteq> 0 \<and> saw_tenant_id a = tw_tenant_id t \<and>
        saw_segment_id a = tw_segment_id t \<and> saw_epoch_floor a \<noteq> 0 \<and>
        \<not> has_overlap (saw_local_prefixes a) \<and> attachment_principal_check t a = Inr ())"
proof (induction as arbitrary: ids routers)
  case (Cons a as)
  from Cons.prems obtain s1 where step: "topology_attachment_step t (ids, routers) a = Inr s1"
    and rest: "fold_res (topology_attachment_step t) s1 as = Inr st"
    by (auto simp: fold_res_Cons_ok simp del: fold_res.simps)
  from step have s1: "s1 = (insert (saw_id a) ids, insert (saw_overlay_router_ipv4 a) routers)"
    and a: "saw_id a \<notin> ids" "saw_overlay_router_ipv4 a \<notin> routers" "saw_id a \<noteq> 0"
      "saw_tenant_id a = tw_tenant_id t" "saw_segment_id a = tw_segment_id t"
      "saw_epoch_floor a \<noteq> 0" "\<not> has_overlap (saw_local_prefixes a)"
      "attachment_principal_check t a = Inr ()"
    by (auto simp: topology_attachment_step_def is_nil_def split: if_splits)
  from Cons.IH [OF rest [unfolded s1]] a show ?case by auto
qed simp

lemma projections_ok:
  "fold_res (projection_step w) s ps = Inr s' \<Longrightarrow>
     (\<forall>p \<in> set ps. projection_fields_check w p = Inr () \<and> projection_paths_check p = Inr ()) \<and>
     distinct (map pw_publication_id ps) \<and> pw_publication_id ` set ps \<inter> row_ids s = {} \<and>
     distinct (map (\<lambda>p. (pw_projection_id p, pw_projection_generation p)) ps) \<and>
     (\<forall>p \<in> set ps. (pw_projection_id p, pw_projection_generation p) \<notin> projection_versions s) \<and>
     distinct (map pw_attachment_id ps) \<and> pw_attachment_id ` set ps \<inter> attachment_set s = {} \<and>
     distinct (map (\<lambda>p. (pw_device_id p, pw_device_key_id p)) ps) \<and>
     (\<forall>p \<in> set ps. (pw_device_id p, pw_device_key_id p) \<notin> device_set s)"
proof (induction ps arbitrary: s)
  case (Cons p ps)
  from Cons.prems obtain s1 where
    step: "projection_step w s p = Inr s1" and rest: "fold_res (projection_step w) s1 ps = Inr s'"
    by (auto simp: fold_res_Cons_ok simp del: fold_res.simps)
  from step have s1: "s1 = \<lparr>row_ids = insert (pw_publication_id p) (row_ids s),
          projection_versions =
            insert (pw_projection_id p, pw_projection_generation p) (projection_versions s),
          attachment_set = insert (pw_attachment_id p) (attachment_set s),
          device_set = insert (pw_device_id p, pw_device_key_id p) (device_set s)\<rparr>"
    and p: "projection_fields_check w p = Inr ()" "projection_paths_check p = Inr ()"
      "pw_publication_id p \<notin> row_ids s" "pw_attachment_id p \<notin> attachment_set s"
      "(pw_projection_id p, pw_projection_generation p) \<notin> projection_versions s"
      "(pw_device_id p, pw_device_key_id p) \<notin> device_set s"
    by (auto simp: projection_step_def split: if_splits)
  from Cons.IH [OF rest] p show ?case unfolding s1 by auto
qed simp

lemma expansions_ok:
  "fold_res (expansion_step w) (ids, versions) es = Inr st \<Longrightarrow>
     distinct (map ew_publication_id es) \<and> ew_publication_id ` set es \<inter> ids = {} \<and>
     distinct (map (\<lambda>e. (ew_kind e, ew_policy_id e, ew_generation e)) es) \<and>
     (\<forall>e \<in> set es. (ew_kind e, ew_policy_id e, ew_generation e) \<notin> versions) \<and>
     (\<forall>e \<in> set es. ew_tenant_id e = sw_tenant_id w \<and> ew_segment_id e = sw_segment_id w \<and>
        ew_segment_generation e = sw_generation w)"
proof (induction es arbitrary: ids versions)
  case (Cons e es)
  from Cons.prems obtain s1 where step: "expansion_step w (ids, versions) e = Inr s1"
    and rest: "fold_res (expansion_step w) s1 es = Inr st"
    by (auto simp: fold_res_Cons_ok simp del: fold_res.simps)
  from step have s1: "s1 = (insert (ew_publication_id e) ids,
      insert (ew_kind e, ew_policy_id e, ew_generation e) versions)"
    and e: "ew_publication_id e \<notin> ids" "(ew_kind e, ew_policy_id e, ew_generation e) \<notin> versions"
      "ew_tenant_id e = sw_tenant_id w" "ew_segment_id e = sw_segment_id w"
      "ew_segment_generation e = sw_generation w"
    by (auto simp: expansion_step_def split: if_splits)
  from Cons.IH [OF rest [unfolded s1]] e show ?case by auto
qed simp

lemma publication_validate_facts:
  assumes "publication_validate w = Inr ()"
  shows "checked_add (sw_expected_previous_generation w) 1 = Some (sw_generation w)"
    and "sw_generation w \<noteq> 0"
    and "sw_expected_previous_generation w = 0 \<longleftrightarrow> sw_expected_previous_hash w = zero_hash"
    and "so_content_hash (sw_snapshot w) \<noteq> zero_hash"
    and "p \<in> set (sw_projections w) \<Longrightarrow> projection_fields_check w p = Inr ()"
    and "p \<in> set (sw_projections w) \<Longrightarrow> projection_paths_check p = Inr ()"
    and "distinct (map pw_publication_id (sw_projections w))"
    and "distinct (map pw_attachment_id (sw_projections w))"
    and "distinct (map ew_publication_id (sw_expansions w))"
  using assms
  by (auto simp: publication_validate_def publication_header_check_def signed_object_validate_def
      dest!: projections_ok expansions_ok split: if_splits)

end
