(* ===== verification/Route_Types.thy ===== *)
theory Route_Types
  imports Ipv4_Prefix
begin

section \<open>Route objects (\<open>crates/cloud-worker/src/route_types.rs\<close>)\<close>

text \<open>
  The objects the worker signs for the data plane: segment snapshots, site projections and
  the expansion objects (shared hubs, mesh membership, dynamic routes, fabric assignments).
  The identifier newtypes over \<open>[u8; 16]\<close> are 128-bit words, whose order is the byte order
  of the arrays; the prefix type and its contract are in \<open>Ipv4_Prefix\<close>.
\<close>

definition ROUTE_PUBLICATION_VALIDITY_SECONDS :: u64 where
  "ROUTE_PUBLICATION_VALIDITY_SECONDS = 24 * 60 * 60"
definition ROUTE_PUBLICATION_STALE_SECONDS :: u64 where
  "ROUTE_PUBLICATION_STALE_SECONDS = 48 * 60 * 60"
definition MAXIMUM_ROLLING_ACTIVATION_SECONDS :: u64 where
  "MAXIMUM_ROLLING_ACTIVATION_SECONDS = 10 * 60"
definition PUBLICATION_SCHEDULING_MARGIN_SECONDS :: u64 where
  "PUBLICATION_SCHEDULING_MARGIN_SECONDS = 5 * 60"
definition PUBLICATION_REFRESH_LEAD_SECONDS :: u64 where
  "PUBLICATION_REFRESH_LEAD_SECONDS =
     MAXIMUM_ROLLING_ACTIVATION_SECONDS + PUBLICATION_SCHEDULING_MARGIN_SECONDS"

type_synonym AttachmentId = uuid
type_synonym DeviceId = uuid
type_synonym DeviceKeyId = uuid
type_synonym NodeId = uuid
type_synonym NodeKeyId = uuid
type_synonym NodePoolId = uuid
type_synonym PathCandidateId = uuid
type_synonym PolicyId = uuid
type_synonym SegmentId = uuid
type_synonym SiteId = uuid
type_synonym TenantId = uuid

datatype AttachmentState = AttActive | AttDraining | AttRevoked
datatype PathSelectionPolicyV1 = PolDirectOnly | PolDirectPreferred | PolRelayRequired
datatype PeerPathKindV1 = PathDirect | PathRelay
datatype TransportPresetV1 = Current | BbrV1 | Aggressive

text \<open>The numeric discriminants (\<open>as u64\<close>).\<close>

fun attachment_state_u64 :: "AttachmentState \<Rightarrow> u64" where
  "attachment_state_u64 AttActive = 1"
| "attachment_state_u64 AttDraining = 2"
| "attachment_state_u64 AttRevoked = 3"

fun path_policy_u64 :: "PathSelectionPolicyV1 \<Rightarrow> u64" where
  "path_policy_u64 PolDirectOnly = 1"
| "path_policy_u64 PolDirectPreferred = 2"
| "path_policy_u64 PolRelayRequired = 3"

fun path_kind_u64 :: "PeerPathKindV1 \<Rightarrow> u64" where
  "path_kind_u64 PathDirect = 1"
| "path_kind_u64 PathRelay = 2"

fun transport_preset_u64 :: "TransportPresetV1 \<Rightarrow> u64" where
  "transport_preset_u64 Current = 1"
| "transport_preset_u64 BbrV1 = 2"
| "transport_preset_u64 Aggressive = 3"

datatype AttachmentPrincipalV1 = PrDevice DeviceId DeviceKeyId | PrNode NodeId NodeKeyId
datatype PeerEndpointV1 = EpIpv4 u32 u16 | EpIpv6 "128 word" u16

record PolicyRefV1 =
  pref_policy_id :: PolicyId
  pref_generation :: u64
  pref_content_hash :: hash32

record SegmentAttachmentV1 =
  sa_attachment_id :: AttachmentId
  sa_site_id :: "SiteId option"
  sa_principal :: AttachmentPrincipalV1
  sa_overlay_router_ipv4 :: u32
  sa_local_prefixes :: "RoutePrefix list"
  sa_state :: AttachmentState
  sa_epoch_floor :: u64

record SegmentRouteV1 =
  sr_destination_prefix :: RoutePrefix
  sr_owner_site_id :: "SiteId option"
  sr_owner_attachment_ids :: "AttachmentId list"

record SegmentRouteSnapshotV1 =
  ss_tenant_id :: TenantId
  ss_segment_id :: SegmentId
  ss_segment_generation :: u64
  ss_segment_overlay_prefix :: RoutePrefix
  ss_attachments :: "SegmentAttachmentV1 list"
  ss_routes :: "SegmentRouteV1 list"
  ss_not_before :: u64
  ss_expires_at :: u64
  ss_stale_until :: u64
  ss_previous_hash :: hash32

record RelayNodeIdentityV1 =
  rni_node_id :: NodeId
  rni_node_key_id :: NodeKeyId

record TransportNodeIdentityV1 =
  tni_node_id :: NodeId
  tni_node_key_id :: NodeKeyId

record PeerPathCandidateV1 =
  ppc_candidate_id :: PathCandidateId
  ppc_peer_site_id :: SiteId
  ppc_peer_attachment_id :: AttachmentId
  ppc_kind :: PeerPathKindV1
  ppc_relay_node :: "RelayNodeIdentityV1 option"
  ppc_node_pool_id :: NodePoolId
  ppc_transport_node :: TransportNodeIdentityV1
  ppc_endpoint :: PeerEndpointV1
  ppc_server_name :: string
  ppc_server_cert_sha256 :: hash32
  ppc_transport_preset :: TransportPresetV1
  ppc_priority :: u16
  ppc_authorization :: PolicyRefV1

record RemoteRouteV1 =
  rr_destination_prefix :: RoutePrefix
  rr_owner_site_id :: SiteId
  rr_owner_attachment_ids :: "AttachmentId list"

record CoherentPolicyManifestV1 =
  cm_generation :: u64
  cm_peer_paths_hash :: hash32
  cm_dns_projection :: "PolicyRefV1 option"
  cm_egress_authorization :: "PolicyRefV1 option"
  cm_egress_gateway :: bool

record PacketResourcePolicyV1 =
  prp_max_route_prefixes :: u64
  prp_max_queue_packets :: u64
  prp_max_queue_bytes :: u64
  prp_replay_window_packets :: u64
  prp_max_packets_per_second :: u64
  prp_max_bytes_per_second :: u64
  prp_allowed_traffic_classes :: u64

record SiteRouteProjectionV1 =
  srp_tenant_id :: TenantId
  srp_segment_id :: SegmentId
  srp_segment_generation :: u64
  srp_segment_content_hash :: hash32
  srp_site_id :: SiteId
  srp_attachment_id :: AttachmentId
  srp_device_id :: DeviceId
  srp_device_key_id :: DeviceKeyId
  srp_local_transport_node :: "TransportNodeIdentityV1 option"
  srp_overlay_router_ipv4 :: u32
  srp_local_prefixes :: "RoutePrefix list"
  srp_remote_routes :: "RemoteRouteV1 list"
  srp_egress_destination_prefixes :: "RoutePrefix list"
  srp_path_policy :: PathSelectionPolicyV1
  srp_peer_paths :: "PeerPathCandidateV1 list"
  srp_coherent_manifest :: CoherentPolicyManifestV1
  srp_max_inner_mtu :: u16
  srp_resources :: PacketResourcePolicyV1
  srp_epoch_floor :: u64
  srp_not_before :: u64
  srp_expires_at :: u64
  srp_stale_until :: u64
  srp_projection_id :: PolicyId
  srp_projection_generation :: u64
  srp_previous_hash :: hash32

record SharedHubQuotaV1 =
  hq_max_entities :: u64
  hq_max_queue_packets :: u64
  hq_max_queue_bytes :: u64
  hq_packets_per_second :: u64
  hq_bytes_per_second :: u64
  hq_burst_packets :: u64
  hq_burst_bytes :: u64

record SharedHubAdmissionPolicyV1 =
  ha_node_id :: NodeId
  ha_node_key_id :: NodeKeyId
  ha_node_pool_id :: NodePoolId
  ha_tenant_id :: TenantId
  ha_segment_id :: SegmentId
  ha_segment_generation :: u64
  ha_segment_content_hash :: hash32
  ha_policy_id :: PolicyId
  ha_policy_generation :: u64
  ha_not_before :: u64
  ha_expires_at :: u64
  ha_stale_until :: u64
  ha_previous_hash :: hash32
  ha_node :: SharedHubQuotaV1
  ha_tenant :: SharedHubQuotaV1
  ha_site :: SharedHubQuotaV1
  ha_tunnel :: SharedHubQuotaV1

record MeshPeerRefV1 =
  mp_site_id :: SiteId
  mp_attachment_id :: AttachmentId
  mp_epoch_floor :: u64

record MeshMembershipProjectionV1 =
  mm_tenant_id :: TenantId
  mm_segment_id :: SegmentId
  mm_segment_generation :: u64
  mm_segment_content_hash :: hash32
  mm_local_site_id :: SiteId
  mm_local_attachment_id :: AttachmentId
  mm_peers :: "MeshPeerRefV1 list"
  mm_projection_id :: PolicyId
  mm_projection_generation :: u64
  mm_not_before :: u64
  mm_expires_at :: u64
  mm_stale_until :: u64
  mm_previous_hash :: hash32

record DynamicRouteV1 =
  dy_prefix :: RoutePrefix
  dy_owner_site_id :: SiteId
  dy_owner_attachment_id :: AttachmentId
  dy_metric :: u64

record DynamicRouteSnapshotV1 =
  ds_tenant_id :: TenantId
  ds_segment_id :: SegmentId
  ds_base_segment_generation :: u64
  ds_base_segment_content_hash :: hash32
  ds_routes :: "DynamicRouteV1 list"
  ds_policy_id :: PolicyId
  ds_generation :: u64
  ds_not_before :: u64
  ds_expires_at :: u64
  ds_stale_until :: u64
  ds_previous_hash :: hash32

record FabricAttachmentAssignmentV1 =
  fa_site_id :: SiteId
  fa_attachment_id :: AttachmentId
  fa_hub_node_id :: NodeId
  fa_hub_node_key_id :: NodeKeyId
  fa_hub_attachment_id :: AttachmentId
  fa_attachment_epoch :: u64

record HubFabricAssignmentV1 =
  hf_tenant_id :: TenantId
  hf_segment_id :: SegmentId
  hf_segment_generation :: u64
  hf_segment_content_hash :: hash32
  hf_assignments :: "FabricAttachmentAssignmentV1 list"
  hf_policy_id :: PolicyId
  hf_generation :: u64
  hf_not_before :: u64
  hf_expires_at :: u64
  hf_stale_until :: u64
  hf_previous_hash :: hash32

lemma discriminant_inject [simp]:
  "attachment_state_u64 a = attachment_state_u64 a' \<longleftrightarrow> a = a'"
  "path_policy_u64 b = path_policy_u64 b' \<longleftrightarrow> b = b'"
  "path_kind_u64 c = path_kind_u64 c' \<longleftrightarrow> c = c'"
  "transport_preset_u64 d = transport_preset_u64 d' \<longleftrightarrow> d = d'"
     apply (cases a; cases a'; simp)
    apply (cases b; cases b'; simp)
   apply (cases c; cases c'; simp)
  apply (cases d; cases d'; simp)
  done

end
