(* ===== verification/Route_Encoding.thy ===== *)
theory Route_Encoding
  imports Route_Types
begin

section \<open>The JSON handed to the Core module (\<open>route_publication.rs\<close>)\<close>

text \<open>
  The worker describes every object it signs to the Core module as a JSON value: identifiers
  and hashes in lower-case hexadecimal, integers as numbers, options as \<open>null\<close> or the value.
  The lemmas show that nothing is lost: each encoder is injective, the site projection up to
  the \<open>peer_paths_hash\<close> of its manifest, which the encoder leaves to Core.
\<close>

datatype json = JNull | JBool bool | JNum nat | JStr string | JArr "json list"
  | JObj "(string \<times> json) list"

subsection \<open>Encoders\<close>

definition j_id :: "uuid \<Rightarrow> json" where "j_id i = JStr (hex (uuid_bytes i))"
definition j_hash :: "hash32 \<Rightarrow> json" where "j_hash h = JStr (hex h)"
definition j_ipv4 :: "u32 \<Rightarrow> json" where "j_ipv4 a = JStr (hex (octets a))"
definition j_word :: "'a::len word \<Rightarrow> json" where "j_word w = JNum (unat w)"
definition j_opt :: "('a \<Rightarrow> json) \<Rightarrow> 'a option \<Rightarrow> json" where
  "j_opt f x = (case x of None \<Rightarrow> JNull | Some a \<Rightarrow> f a)"
definition j_list :: "('a \<Rightarrow> json) \<Rightarrow> 'a list \<Rightarrow> json" where
  "j_list f xs = JArr (map f xs)"

definition policy_ref_json :: "PolicyRefV1 \<Rightarrow> json" where
  "policy_ref_json p = JObj
     [(''policy_id_hex'', j_id (pref_policy_id p)),
      (''generation'', j_word (pref_generation p)),
      (''content_hash_hex'', j_hash (pref_content_hash p))]"

definition prefix_json :: "RoutePrefix \<Rightarrow> json" where
  "prefix_json p = JObj
     [(''network_hex'', j_ipv4 (rp_network p)), (''prefix_len'', j_word (rp_prefix_len p))]"

fun principal_json :: "AttachmentPrincipalV1 \<Rightarrow> json" where
  "principal_json (PrDevice d k) = JObj
     [(''principal_type'', JStr ''device''), (''device_id_hex'', j_id d),
      (''device_key_id_hex'', j_id k)]"
| "principal_json (PrNode n k) = JObj
     [(''principal_type'', JStr ''node''), (''node_id_hex'', j_id n),
      (''node_key_id_hex'', j_id k)]"

definition attachment_json :: "SegmentAttachmentV1 \<Rightarrow> json" where
  "attachment_json a = JObj
     [(''attachment_id_hex'', j_id (sa_attachment_id a)),
      (''site_id_hex'', j_opt j_id (sa_site_id a)),
      (''principal'', principal_json (sa_principal a)),
      (''overlay_router_ipv4_hex'', j_ipv4 (sa_overlay_router_ipv4 a)),
      (''local_prefixes'', j_list prefix_json (sa_local_prefixes a)),
      (''state'', j_word (attachment_state_u64 (sa_state a))),
      (''epoch_floor'', j_word (sa_epoch_floor a))]"

definition route_json :: "SegmentRouteV1 \<Rightarrow> json" where
  "route_json r = JObj
     [(''destination_prefix'', prefix_json (sr_destination_prefix r)),
      (''owner_site_id_hex'', j_opt j_id (sr_owner_site_id r)),
      (''owner_attachment_ids_hex'', j_list j_id (sr_owner_attachment_ids r))]"

definition segment_snapshot_json :: "SegmentRouteSnapshotV1 \<Rightarrow> json" where
  "segment_snapshot_json o1 = JObj
     [(''object_type'', JStr ''segment_snapshot_v1''),
      (''tenant_id_hex'', j_id (ss_tenant_id o1)),
      (''segment_id_hex'', j_id (ss_segment_id o1)),
      (''segment_generation'', j_word (ss_segment_generation o1)),
      (''segment_overlay_prefix'', prefix_json (ss_segment_overlay_prefix o1)),
      (''attachments'', j_list attachment_json (ss_attachments o1)),
      (''routes'', j_list route_json (ss_routes o1)),
      (''not_before'', j_word (ss_not_before o1)),
      (''expires_at'', j_word (ss_expires_at o1)),
      (''stale_until'', j_word (ss_stale_until o1)),
      (''previous_hash_hex'', j_hash (ss_previous_hash o1))]"

fun endpoint_json :: "PeerEndpointV1 \<Rightarrow> json" where
  "endpoint_json (EpIpv4 a p) = JObj
     [(''address_family'', JStr ''ipv4''), (''address_hex'', j_ipv4 a), (''port'', j_word p)]"
| "endpoint_json (EpIpv6 a p) = JObj
     [(''address_family'', JStr ''ipv6''), (''address_hex'', j_id a), (''port'', j_word p)]"

definition relay_node_json :: "RelayNodeIdentityV1 \<Rightarrow> json" where
  "relay_node_json n = JObj
     [(''node_id_hex'', j_id (rni_node_id n)), (''node_key_id_hex'', j_id (rni_node_key_id n))]"

definition transport_node_json :: "TransportNodeIdentityV1 \<Rightarrow> json" where
  "transport_node_json n = JObj
     [(''node_id_hex'', j_id (tni_node_id n)), (''node_key_id_hex'', j_id (tni_node_key_id n))]"

definition peer_path_json :: "PeerPathCandidateV1 \<Rightarrow> json" where
  "peer_path_json p = JObj
     [(''candidate_id_hex'', j_id (ppc_candidate_id p)),
      (''peer_site_id_hex'', j_id (ppc_peer_site_id p)),
      (''peer_attachment_id_hex'', j_id (ppc_peer_attachment_id p)),
      (''kind'', j_word (path_kind_u64 (ppc_kind p))),
      (''relay_node'', j_opt relay_node_json (ppc_relay_node p)),
      (''node_pool_id_hex'', j_id (ppc_node_pool_id p)),
      (''transport_node'', transport_node_json (ppc_transport_node p)),
      (''endpoint'', endpoint_json (ppc_endpoint p)),
      (''server_name'', JStr (ppc_server_name p)),
      (''server_cert_sha256_hex'', j_hash (ppc_server_cert_sha256 p)),
      (''transport_preset'', j_word (transport_preset_u64 (ppc_transport_preset p))),
      (''priority'', j_word (ppc_priority p)),
      (''authorization'', policy_ref_json (ppc_authorization p))]"

definition remote_route_json :: "RemoteRouteV1 \<Rightarrow> json" where
  "remote_route_json r = JObj
     [(''destination_prefix'', prefix_json (rr_destination_prefix r)),
      (''owner_site_id_hex'', j_id (rr_owner_site_id r)),
      (''owner_attachment_ids_hex'', j_list j_id (rr_owner_attachment_ids r))]"

definition manifest_json :: "CoherentPolicyManifestV1 \<Rightarrow> json" where
  "manifest_json m = JObj
     [(''generation'', j_word (cm_generation m)),
      (''dns_projection'', j_opt policy_ref_json (cm_dns_projection m)),
      (''egress_authorization'', j_opt policy_ref_json (cm_egress_authorization m)),
      (''egress_gateway'', JBool (cm_egress_gateway m))]"

definition resources_json :: "PacketResourcePolicyV1 \<Rightarrow> json" where
  "resources_json r = JObj
     [(''max_route_prefixes'', j_word (prp_max_route_prefixes r)),
      (''max_queue_packets'', j_word (prp_max_queue_packets r)),
      (''max_queue_bytes'', j_word (prp_max_queue_bytes r)),
      (''replay_window_packets'', j_word (prp_replay_window_packets r)),
      (''max_packets_per_second'', j_word (prp_max_packets_per_second r)),
      (''max_bytes_per_second'', j_word (prp_max_bytes_per_second r)),
      (''allowed_traffic_classes'', j_word (prp_allowed_traffic_classes r))]"

definition site_projection_json :: "SiteRouteProjectionV1 \<Rightarrow> json" where
  "site_projection_json o1 = JObj
     [(''object_type'', JStr ''site_projection_v1''),
      (''tenant_id_hex'', j_id (srp_tenant_id o1)),
      (''segment_id_hex'', j_id (srp_segment_id o1)),
      (''segment_generation'', j_word (srp_segment_generation o1)),
      (''segment_content_hash_hex'', j_hash (srp_segment_content_hash o1)),
      (''site_id_hex'', j_id (srp_site_id o1)),
      (''attachment_id_hex'', j_id (srp_attachment_id o1)),
      (''device_id_hex'', j_id (srp_device_id o1)),
      (''device_key_id_hex'', j_id (srp_device_key_id o1)),
      (''local_transport_node'', j_opt transport_node_json (srp_local_transport_node o1)),
      (''overlay_router_ipv4_hex'', j_ipv4 (srp_overlay_router_ipv4 o1)),
      (''local_prefixes'', j_list prefix_json (srp_local_prefixes o1)),
      (''remote_routes'', j_list remote_route_json (srp_remote_routes o1)),
      (''egress_destination_prefixes'', j_list prefix_json (srp_egress_destination_prefixes o1)),
      (''path_policy'', j_word (path_policy_u64 (srp_path_policy o1))),
      (''peer_paths'', j_list peer_path_json (srp_peer_paths o1)),
      (''coherent_manifest'', manifest_json (srp_coherent_manifest o1)),
      (''max_inner_mtu'', j_word (srp_max_inner_mtu o1)),
      (''resources'', resources_json (srp_resources o1)),
      (''epoch_floor'', j_word (srp_epoch_floor o1)),
      (''not_before'', j_word (srp_not_before o1)),
      (''expires_at'', j_word (srp_expires_at o1)),
      (''stale_until'', j_word (srp_stale_until o1)),
      (''projection_id_hex'', j_id (srp_projection_id o1)),
      (''projection_generation'', j_word (srp_projection_generation o1)),
      (''previous_hash_hex'', j_hash (srp_previous_hash o1))]"

definition quota_json :: "SharedHubQuotaV1 \<Rightarrow> json" where
  "quota_json q = JObj
     [(''max_entities'', j_word (hq_max_entities q)),
      (''max_queue_packets'', j_word (hq_max_queue_packets q)),
      (''max_queue_bytes'', j_word (hq_max_queue_bytes q)),
      (''packets_per_second'', j_word (hq_packets_per_second q)),
      (''bytes_per_second'', j_word (hq_bytes_per_second q)),
      (''burst_packets'', j_word (hq_burst_packets q)),
      (''burst_bytes'', j_word (hq_burst_bytes q))]"

definition shared_hub_admission_json :: "SharedHubAdmissionPolicyV1 \<Rightarrow> json" where
  "shared_hub_admission_json o1 = JObj
     [(''object_type'', JStr ''shared_hub_admission_v1''),
      (''node_id_hex'', j_id (ha_node_id o1)),
      (''node_key_id_hex'', j_id (ha_node_key_id o1)),
      (''node_pool_id_hex'', j_id (ha_node_pool_id o1)),
      (''tenant_id_hex'', j_id (ha_tenant_id o1)),
      (''segment_id_hex'', j_id (ha_segment_id o1)),
      (''segment_generation'', j_word (ha_segment_generation o1)),
      (''segment_content_hash_hex'', j_hash (ha_segment_content_hash o1)),
      (''policy_id_hex'', j_id (ha_policy_id o1)),
      (''policy_generation'', j_word (ha_policy_generation o1)),
      (''not_before'', j_word (ha_not_before o1)),
      (''expires_at'', j_word (ha_expires_at o1)),
      (''stale_until'', j_word (ha_stale_until o1)),
      (''previous_hash_hex'', j_hash (ha_previous_hash o1)),
      (''node'', quota_json (ha_node o1)),
      (''tenant'', quota_json (ha_tenant o1)),
      (''site'', quota_json (ha_site o1)),
      (''tunnel'', quota_json (ha_tunnel o1))]"

definition mesh_peer_json :: "MeshPeerRefV1 \<Rightarrow> json" where
  "mesh_peer_json p = JObj
     [(''site_id_hex'', j_id (mp_site_id p)), (''attachment_id_hex'', j_id (mp_attachment_id p)),
      (''epoch_floor'', j_word (mp_epoch_floor p))]"

definition mesh_membership_json :: "MeshMembershipProjectionV1 \<Rightarrow> json" where
  "mesh_membership_json o1 = JObj
     [(''object_type'', JStr ''mesh_membership_v1''),
      (''tenant_id_hex'', j_id (mm_tenant_id o1)),
      (''segment_id_hex'', j_id (mm_segment_id o1)),
      (''segment_generation'', j_word (mm_segment_generation o1)),
      (''segment_content_hash_hex'', j_hash (mm_segment_content_hash o1)),
      (''local_site_id_hex'', j_id (mm_local_site_id o1)),
      (''local_attachment_id_hex'', j_id (mm_local_attachment_id o1)),
      (''peers'', j_list mesh_peer_json (mm_peers o1)),
      (''projection_id_hex'', j_id (mm_projection_id o1)),
      (''projection_generation'', j_word (mm_projection_generation o1)),
      (''not_before'', j_word (mm_not_before o1)),
      (''expires_at'', j_word (mm_expires_at o1)),
      (''stale_until'', j_word (mm_stale_until o1)),
      (''previous_hash_hex'', j_hash (mm_previous_hash o1))]"

definition dynamic_route_json :: "DynamicRouteV1 \<Rightarrow> json" where
  "dynamic_route_json r = JObj
     [(''prefix'', prefix_json (dy_prefix r)), (''owner_site_id_hex'', j_id (dy_owner_site_id r)),
      (''owner_attachment_id_hex'', j_id (dy_owner_attachment_id r)),
      (''metric'', j_word (dy_metric r))]"

definition dynamic_route_snapshot_json :: "DynamicRouteSnapshotV1 \<Rightarrow> json" where
  "dynamic_route_snapshot_json o1 = JObj
     [(''object_type'', JStr ''dynamic_route_snapshot_v1''),
      (''tenant_id_hex'', j_id (ds_tenant_id o1)),
      (''segment_id_hex'', j_id (ds_segment_id o1)),
      (''base_segment_generation'', j_word (ds_base_segment_generation o1)),
      (''base_segment_content_hash_hex'', j_hash (ds_base_segment_content_hash o1)),
      (''routes'', j_list dynamic_route_json (ds_routes o1)),
      (''policy_id_hex'', j_id (ds_policy_id o1)),
      (''generation'', j_word (ds_generation o1)),
      (''not_before'', j_word (ds_not_before o1)),
      (''expires_at'', j_word (ds_expires_at o1)),
      (''stale_until'', j_word (ds_stale_until o1)),
      (''previous_hash_hex'', j_hash (ds_previous_hash o1))]"

definition fabric_entry_json :: "FabricAttachmentAssignmentV1 \<Rightarrow> json" where
  "fabric_entry_json a = JObj
     [(''site_id_hex'', j_id (fa_site_id a)), (''attachment_id_hex'', j_id (fa_attachment_id a)),
      (''hub_node_id_hex'', j_id (fa_hub_node_id a)),
      (''hub_node_key_id_hex'', j_id (fa_hub_node_key_id a)),
      (''hub_attachment_id_hex'', j_id (fa_hub_attachment_id a)),
      (''attachment_epoch'', j_word (fa_attachment_epoch a))]"

definition fabric_assignment_json :: "HubFabricAssignmentV1 \<Rightarrow> json" where
  "fabric_assignment_json o1 = JObj
     [(''object_type'', JStr ''fabric_assignment_v1''),
      (''tenant_id_hex'', j_id (hf_tenant_id o1)),
      (''segment_id_hex'', j_id (hf_segment_id o1)),
      (''segment_generation'', j_word (hf_segment_generation o1)),
      (''segment_content_hash_hex'', j_hash (hf_segment_content_hash o1)),
      (''assignments'', j_list fabric_entry_json (hf_assignments o1)),
      (''policy_id_hex'', j_id (hf_policy_id o1)),
      (''generation'', j_word (hf_generation o1)),
      (''not_before'', j_word (hf_not_before o1)),
      (''expires_at'', j_word (hf_expires_at o1)),
      (''stale_until'', j_word (hf_stale_until o1)),
      (''previous_hash_hex'', j_hash (hf_previous_hash o1))]"

subsection \<open>Nothing is lost\<close>

lemma j_inject [simp]:
  "j_id i = j_id i' \<longleftrightarrow> i = i'" "j_hash h = j_hash h' \<longleftrightarrow> h = h'"
  "j_ipv4 a = j_ipv4 a' \<longleftrightarrow> a = a'" "j_word (w :: 'a::len word) = j_word w' \<longleftrightarrow> w = w'"
  by (simp_all add: j_id_def j_hash_def j_ipv4_def j_word_def hex_inject word_unat_eq_iff)

text \<open>An encoder that can stand under an option: injective and never \<open>null\<close>.\<close>

definition encoder :: "('a \<Rightarrow> json) \<Rightarrow> bool" where
  "encoder f \<longleftrightarrow> inj f \<and> (\<forall>x. f x \<noteq> JNull)"

lemma encoderI: "(\<And>x y. f x = f y \<Longrightarrow> x = y) \<Longrightarrow> (\<And>x. f x \<noteq> JNull) \<Longrightarrow> encoder f"
  by (auto simp: encoder_def inj_def)

lemma encoderD [simp]: "encoder f \<Longrightarrow> f x = f y \<longleftrightarrow> x = y"
  by (auto simp: encoder_def inj_eq)

lemma j_opt_inject [simp]: "encoder f \<Longrightarrow> j_opt f a = j_opt f b \<longleftrightarrow> a = b"
  by (auto simp: encoder_def j_opt_def inj_eq split: option.splits) metis

lemma j_list_inject [simp]: "encoder f \<Longrightarrow> j_list f xs = j_list f ys \<longleftrightarrow> xs = ys"
  by (simp add: encoder_def j_list_def inj_map_eq_map)

named_theorems encoders \<open>the encoders that lose nothing\<close>

lemma encoder_j_id [encoders]: "encoder j_id"
  by (rule encoderI) (simp_all add: j_id_def hex_inject)

lemma encoder_policy_ref [encoders]: "encoder policy_ref_json"
  by (rule encoderI) (simp_all add: policy_ref_json_def)

lemma encoder_prefix [encoders]: "encoder prefix_json"
  by (rule encoderI) (simp_all add: prefix_json_def RoutePrefix.expand)

lemma encoder_principal [encoders]: "encoder principal_json"
proof (rule encoderI)
  show "principal_json x = principal_json y \<Longrightarrow> x = y" for x y
    by (cases x; cases y) auto
  show "principal_json x \<noteq> JNull" for x by (cases x) auto
qed

lemma encoder_attachment [encoders]: "encoder attachment_json"
  by (rule encoderI) (simp_all add: attachment_json_def encoders)

lemma encoder_route [encoders]: "encoder route_json"
  by (rule encoderI) (simp_all add: route_json_def encoders)

lemma encoder_endpoint [encoders]: "encoder endpoint_json"
proof (rule encoderI)
  show "endpoint_json x = endpoint_json y \<Longrightarrow> x = y" for x y
    by (cases x; cases y) auto
  show "endpoint_json x \<noteq> JNull" for x by (cases x) auto
qed

lemma encoder_nodes [encoders]: "encoder relay_node_json" "encoder transport_node_json"
  by (rule encoderI; simp add: relay_node_json_def transport_node_json_def)+

lemma encoder_peer_path [encoders]: "encoder peer_path_json"
  by (rule encoderI) (simp_all add: peer_path_json_def encoders)

lemma encoder_remote_route [encoders]: "encoder remote_route_json"
  by (rule encoderI) (simp_all add: remote_route_json_def encoders)

lemma encoder_resources [encoders]: "encoder resources_json"
  by (rule encoderI) (simp_all add: resources_json_def)

lemma encoder_quota [encoders]: "encoder quota_json"
  by (rule encoderI) (simp_all add: quota_json_def)

lemma encoder_mesh_peer [encoders]: "encoder mesh_peer_json"
  by (rule encoderI) (simp_all add: mesh_peer_json_def)

lemma encoder_dynamic_route [encoders]: "encoder dynamic_route_json"
  by (rule encoderI) (simp_all add: dynamic_route_json_def encoders)

lemma encoder_fabric_entry [encoders]: "encoder fabric_entry_json"
  by (rule encoderI) (simp_all add: fabric_entry_json_def)

lemma manifest_json_iff:
  "manifest_json m = manifest_json n \<longleftrightarrow>
     m\<lparr>cm_peer_paths_hash := []\<rparr> = n\<lparr>cm_peer_paths_hash := []\<rparr>"
  by (cases m; cases n) (auto simp: manifest_json_def encoders)

subsection \<open>Properties\<close>

text \<open>
  C40: the JSON of a site projection determines every field of it but the manifest's
  \<open>peer_paths_hash\<close>.
\<close>

theorem site_projection_json_determines:
  "site_projection_json p = site_projection_json q \<longleftrightarrow>
     p\<lparr>srp_coherent_manifest := (srp_coherent_manifest p)\<lparr>cm_peer_paths_hash := []\<rparr>\<rparr> =
     q\<lparr>srp_coherent_manifest := (srp_coherent_manifest q)\<lparr>cm_peer_paths_hash := []\<rparr>\<rparr>"
  by (cases p; cases q) (simp add: site_projection_json_def encoders manifest_json_iff conj_ac)

text \<open>
  The JSON of the other five signed objects (segment snapshot, shared hub admission, mesh
  membership, dynamic routes, fabric assignment) determines the object.
\<close>

theorem signed_objects_json_determine:
  "inj segment_snapshot_json \<and> inj shared_hub_admission_json \<and> inj mesh_membership_json \<and>
   inj dynamic_route_snapshot_json \<and> inj fabric_assignment_json"
  by (auto simp: inj_def segment_snapshot_json_def shared_hub_admission_json_def
      mesh_membership_json_def dynamic_route_snapshot_json_def fabric_assignment_json_def encoders)

end
