(* ===== verification/Control_Contract.thy ===== *)
theory Control_Contract
  imports Ipv4_Prefix
begin

section \<open>Management resources (\<open>crates/cloud-control/src/lib.rs\<close>)\<close>

text \<open>
  The documents operators store: nodes, sites, segments, attachments, prefixes, peers,
  relays, path candidates, egresses, service policies and DNS intents, their validation
  rules, and the hashes that identify them. SHA-256 and the JSON serialiser are parameters
  (\<open>control_ext\<close>): \<open>json_record\<close> and \<open>json_spec\<close> are \<open>serde_json::to_string\<close> of a DNS
  record and \<open>serde_json::to_vec\<close> of a resource (\<open>None\<close> for a serialisation error).
  The lemmas characterise the loops over hash sets and the policy hash.
\<close>

subsection \<open>Constants and identifiers\<close>

definition MAX_NAME_LEN :: nat where "MAX_NAME_LEN = 200"
definition MAX_POLICY_RULES :: nat where "MAX_POLICY_RULES = 512"
definition MAX_DNS_RECORDS :: nat where "MAX_DNS_RECORDS = 4096"
definition MIN_DNS_TTL_SECONDS :: u32 where "MIN_DNS_TTL_SECONDS = 5"
definition MAX_DNS_TTL_SECONDS :: u32 where "MAX_DNS_TTL_SECONDS = 86400"
definition CONTROL_SCHEMA_V1 :: u16 where "CONTROL_SCHEMA_V1 = 1"

definition path_candidate_domain :: "u8 list" where
  "path_candidate_domain = str_bytes ''candy/path-endpoint-candidate-v1'' @ [0]"

definition uuid_of_digest :: "u8 list \<Rightarrow> uuid" where
  "uuid_of_digest digest = be_word (take 16 digest)"

definition runtime_path_candidate_id ::
  "(u8 list \<Rightarrow> u8 list) \<Rightarrow> uuid \<Rightarrow> uuid \<Rightarrow> uuid" where
  "runtime_path_candidate_id sha256 path_resource_id endpoint_id =
     uuid_of_digest
       (sha256 (path_candidate_domain @ uuid_bytes path_resource_id @ uuid_bytes endpoint_id))"

subsection \<open>Documents\<close>

datatype ResourceState = Active | Disabled | Deleted

record ResourceMetadataV1 =
  md_schema_version :: u16
  md_id :: uuid
  md_tenant_id :: uuid
  md_revision :: u64
  md_state :: ResourceState

datatype NodePlatformV1 = OpenWrt | Linux

record NodeV1 =
  nd_device_id :: uuid
  nd_device_key_id :: uuid
  nd_site_id :: uuid
  nd_display_name :: string
  nd_platform :: NodePlatformV1
  nd_architecture :: string

record AttachmentV1 =
  at_segment_id :: uuid
  at_site_id :: uuid
  at_node_id :: uuid
  at_overlay_router_ipv4 :: ipv4
  at_epoch_floor :: u64

datatype SiteKindV1 = Edge | PrivateCloud

record SiteV1 =
  st_name :: string
  st_kind :: SiteKindV1

record SegmentV1 =
  sg_name :: string
  sg_overlay_prefix :: Ipv4PrefixV1

datatype PrefixSourceV1 = Connected | Configured | ApprovedLearned

record PrefixV1 =
  px_site_id :: uuid
  px_segment_id :: uuid
  px_prefix :: Ipv4PrefixV1
  px_source :: PrefixSourceV1

datatype PeerPathPolicyV1 = DirectOnly | DirectPreferred | RelayRequired

record PeerV1 =
  pe_segment_id :: uuid
  pe_site_a_id :: uuid
  pe_site_b_id :: uuid
  pe_path_policy :: PeerPathPolicyV1

record RelayV1 =
  rl_service_node_id :: uuid
  rl_name :: string
  rl_region :: string
  rl_max_sessions :: u32
  rl_max_bits_per_second :: u64

datatype PathCandidateKindV1 = Direct | Relayed

record PathCandidateV1 =
  pc_segment_id :: uuid
  pc_peer_id :: uuid
  pc_source_attachment_id :: uuid
  pc_destination_attachment_id :: uuid
  pc_kind :: PathCandidateKindV1
  pc_relay_id :: "uuid option"
  pc_transport_node_id :: uuid
  pc_priority :: u16

record EgressV1 =
  eg_name :: string
  eg_site_id :: uuid
  eg_attachment_id :: uuid
  eg_max_sessions :: u32
  eg_max_bits_per_second :: u64

datatype PolicyActionV1 = LocalEgress | RemoteEgress uuid

record PolicyGeoSelectorV1 =
  geo_provider :: string
  geo_countries :: "string list"
  geo_version :: "string option"
  geo_digest :: "string option"

record ServicePolicyRuleV1 =
  rule_id :: uuid
  rule_priority :: u32
  rule_source_site_ids :: "uuid list"
  rule_destination_prefixes :: "Ipv4PrefixV1 list"
  rule_destination_geo :: "PolicyGeoSelectorV1 option"
  rule_domains :: "string list"
  rule_traffic_classes :: "string list"
  rule_action :: PolicyActionV1

record ServicePolicyV1 =
  sp_segment_id :: uuid
  sp_generation :: u64
  sp_name :: string
  sp_enabled :: bool
  sp_rules :: "ServicePolicyRuleV1 list"

datatype DnsRecordDataV1 = RecA ipv4 | RecAaaa "128 word" | RecCname string

record DnsRecordV1 =
  dr_name :: string
  dr_ttl_seconds :: u32
  dr_data :: DnsRecordDataV1
  dr_required_prefix_id :: "uuid option"

record DnsIntentV1 =
  di_segment_id :: uuid
  di_site_id :: "uuid option"
  di_site_ids :: "uuid list"
  di_zone :: string
  di_records :: "DnsRecordV1 list"

datatype ResourceSpecV1 =
    Node NodeV1 | Site SiteV1 | Segment SegmentV1 | Attachment AttachmentV1
  | Prefix PrefixV1 | Peer PeerV1 | Relay RelayV1 | PathCandidate PathCandidateV1
  | Egress EgressV1 | ServicePolicy ServicePolicyV1 | DnsIntent DnsIntentV1

record ControlResourceV1 =
  cr_metadata :: ResourceMetadataV1
  cr_resource :: ResourceSpecV1

datatype ResourceKind =
    KNode | KSite | KSegment | KAttachment | KPrefix | KPeer | KRelay | KPathCandidate
  | KEgress | KServicePolicy | KDnsIntent

datatype ContractError =
    InvalidMetadata | InvalidReference | InvalidName | InvalidToken | InvalidPrefix
  | InvalidPeer | InvalidPathCandidate | InvalidCapacity | InvalidAttachment
  | InvalidServicePolicy | InvalidDnsIntent | InvalidDnsName | Serialization

record control_ext =
  json_record :: "DnsRecordV1 \<Rightarrow> string option"
  json_spec :: "ResourceSpecV1 \<Rightarrow> u8 list option"
  sha256 :: "u8 list \<Rightarrow> u8 list"

subsection \<open>Kinds\<close>

fun api_collection :: "ResourceKind \<Rightarrow> string" where
  "api_collection KNode = ''nodes''"
| "api_collection KSite = ''sites''"
| "api_collection KSegment = ''segments''"
| "api_collection KAttachment = ''attachments''"
| "api_collection KPrefix = ''prefixes''"
| "api_collection KPeer = ''peers''"
| "api_collection KRelay = ''relays''"
| "api_collection KPathCandidate = ''path-candidates''"
| "api_collection KEgress = ''egresses''"
| "api_collection KServicePolicy = ''service-policies''"
| "api_collection KDnsIntent = ''dns-intents''"

fun database_value :: "ResourceKind \<Rightarrow> string" where
  "database_value KNode = ''NODE''"
| "database_value KSite = ''SITE''"
| "database_value KSegment = ''SEGMENT''"
| "database_value KAttachment = ''ATTACHMENT''"
| "database_value KPrefix = ''PREFIX''"
| "database_value KPeer = ''PEER''"
| "database_value KRelay = ''RELAY''"
| "database_value KPathCandidate = ''PATH_CANDIDATE''"
| "database_value KEgress = ''EGRESS''"
| "database_value KServicePolicy = ''SERVICE_POLICY''"
| "database_value KDnsIntent = ''DNS_INTENT''"

definition all_kinds :: "ResourceKind list" where
  "all_kinds = [KNode, KSite, KSegment, KAttachment, KPrefix, KPeer, KRelay, KPathCandidate,
     KEgress, KServicePolicy, KDnsIntent]"

definition parse_api_collection :: "string \<Rightarrow> ResourceKind option" where
  "parse_api_collection value = find (\<lambda>kind. api_collection kind = value) all_kinds"

fun spec_kind :: "ResourceSpecV1 \<Rightarrow> ResourceKind" where
  "spec_kind (Node _) = KNode"
| "spec_kind (Site _) = KSite"
| "spec_kind (Segment _) = KSegment"
| "spec_kind (Attachment _) = KAttachment"
| "spec_kind (Prefix _) = KPrefix"
| "spec_kind (Peer _) = KPeer"
| "spec_kind (Relay _) = KRelay"
| "spec_kind (PathCandidate _) = KPathCandidate"
| "spec_kind (Egress _) = KEgress"
| "spec_kind (ServicePolicy _) = KServicePolicy"
| "spec_kind (DnsIntent _) = KDnsIntent"

fun spec_segment_id :: "ResourceSpecV1 \<Rightarrow> uuid option" where
  "spec_segment_id (Attachment v) = Some (at_segment_id v)"
| "spec_segment_id (Prefix v) = Some (px_segment_id v)"
| "spec_segment_id (Peer v) = Some (pe_segment_id v)"
| "spec_segment_id (PathCandidate v) = Some (pc_segment_id v)"
| "spec_segment_id (ServicePolicy v) = Some (sp_segment_id v)"
| "spec_segment_id (DnsIntent v) = Some (di_segment_id v)"
| "spec_segment_id _ = None"

subsection \<open>Validation of the parts\<close>

definition validate_metadata :: "ResourceMetadataV1 \<Rightarrow> ContractError + unit" where
  "validate_metadata m =
     guard (md_schema_version m \<noteq> CONTROL_SCHEMA_V1 \<or> is_nil (md_id m) \<or>
            is_nil (md_tenant_id m) \<or> md_revision m = 0) InvalidMetadata"

definition validate_prefix_with_default ::
  "bool \<Rightarrow> Ipv4PrefixV1 \<Rightarrow> ContractError + unit" where
  "validate_prefix_with_default allow_default p =
     (if prefix_len p > 32 \<or> (\<not> allow_default \<and> prefix_len p = 0) then Inl InvalidPrefix
      else let msk = (if prefix_len p = 0 then 0 else shl_u32 (- 1) (32 - prefix_len p))
           in if network p AND NOT msk \<noteq> 0 then Inl InvalidPrefix else Inr ())"

definition validate_prefix :: "Ipv4PrefixV1 \<Rightarrow> ContractError + unit" where
  "validate_prefix p = validate_prefix_with_default False p"

definition require_ids :: "uuid list \<Rightarrow> ContractError + unit" where
  "require_ids ids = (if list_ex is_nil ids then Inl InvalidReference else Inr ())"

definition require_capacity :: "u32 \<Rightarrow> u64 \<Rightarrow> ContractError + unit" where
  "require_capacity sessions bits_per_second =
     (if sessions = 0 \<or> bits_per_second = 0 then Inl InvalidCapacity else Inr ())"

definition validate_display_text :: "string \<Rightarrow> nat \<Rightarrow> ContractError + unit" where
  "validate_display_text value max_len =
     (if str_trim value \<noteq> value \<or> value = [] \<or> length (chars value) > max_len \<or>
         list_ex is_control_scalar (chars value)
      then Inl InvalidName else Inr ())"

definition validate_name :: "string \<Rightarrow> ContractError + unit" where
  "validate_name value = validate_display_text value MAX_NAME_LEN"

definition token_byte :: "char \<Rightarrow> bool" where
  "token_byte b \<longleftrightarrow> is_ascii_alphanumeric b \<or> b = CHR ''-'' \<or> b = CHR ''_'' \<or> b = CHR ''.''"

definition validate_token :: "string \<Rightarrow> nat \<Rightarrow> ContractError + unit" where
  "validate_token value max_len =
     (if value = [] \<or> length value > max_len \<or> \<not> list_all token_byte value
      then Inl InvalidToken else Inr ())"

definition dns_label_ok :: "string \<Rightarrow> bool" where
  "dns_label_ok label \<longleftrightarrow>
     \<not> (label = [] \<or> length label > 63 \<or> hd label = CHR ''-'' \<or> last label = CHR ''-'' \<or>
        \<not> list_all (\<lambda>b. is_ascii_lowercase b \<or> is_ascii_digit b \<or> b = CHR ''-'') label)"

definition validate_dns_name :: "string \<Rightarrow> ContractError + unit" where
  "validate_dns_name value =
     (if value = [] \<or> length value > 253 \<or> last value = CHR ''.'' \<or>
         list_ex is_ascii_uppercase value \<or>
         list_ex (\<lambda>label. \<not> dns_label_ok label) (split_on CHR ''.'' value)
      then Inl InvalidDnsName else Inr ())"

subsection \<open>Service policies and DNS intents\<close>

definition geo_selector_bad :: "PolicyGeoSelectorV1 \<Rightarrow> bool" where
  "geo_selector_bad geo \<longleftrightarrow>
     str_trim (geo_provider geo) = [] \<or> length (geo_provider geo) > 80 \<or>
     geo_countries geo = [] \<or> length (geo_countries geo) > 256 \<or>
     card (set (geo_countries geo)) \<noteq> length (geo_countries geo) \<or>
     list_ex (\<lambda>country. length country \<noteq> 2 \<or> \<not> list_all is_ascii_uppercase country)
       (geo_countries geo) \<or>
     (case geo_version geo of None \<Rightarrow> False | Some v \<Rightarrow> v = [] \<or> length v > 120) \<or>
     (case geo_digest geo of None \<Rightarrow> False
      | Some v \<Rightarrow> length v \<noteq> 64 \<or> \<not> list_all is_ascii_hexdigit v)"

definition action_bad :: "PolicyActionV1 \<Rightarrow> bool" where
  "action_bad a = (case a of LocalEgress \<Rightarrow> False | RemoteEgress i \<Rightarrow> is_nil i)"

definition is_remote_egress :: "PolicyActionV1 \<Rightarrow> bool" where
  "is_remote_egress a = (case a of LocalEgress \<Rightarrow> False | RemoteEgress _ \<Rightarrow> True)"

definition rule_shape_bad :: "ServicePolicyRuleV1 \<Rightarrow> bool" where
  "rule_shape_bad rule \<longleftrightarrow>
     list_ex is_nil (rule_source_site_ids rule) \<or> length (rule_source_site_ids rule) > 256 \<or>
     card (set (rule_source_site_ids rule)) \<noteq> length (rule_source_site_ids rule) \<or>
     length (rule_destination_prefixes rule) > 256 \<or> length (rule_domains rule) > 256 \<or>
     length (rule_traffic_classes rule) > 32 \<or> action_bad (rule_action rule)"

definition validate_rule_contents :: "ServicePolicyRuleV1 \<Rightarrow> ContractError + unit" where
  "validate_rule_contents rule = first_err
     [for_each (validate_prefix_with_default (is_remote_egress (rule_action rule)))
        (rule_destination_prefixes rule),
      (case rule_destination_geo rule of None \<Rightarrow> Inr ()
       | Some geo \<Rightarrow> guard (geo_selector_bad geo) InvalidServicePolicy),
      for_each validate_dns_name (rule_domains rule),
      for_each (\<lambda>class. validate_token class 40) (rule_traffic_classes rule)]"

text \<open>One iteration of the rule loop, over the two hash sets \<open>ids\<close> and \<open>priorities\<close>.\<close>

definition validate_rule_step ::
  "uuid set \<times> u32 set \<Rightarrow> ServicePolicyRuleV1 \<Rightarrow> ContractError + (uuid set \<times> u32 set)" where
  "validate_rule_step st rule =
     (case st of (ids, priorities) \<Rightarrow>
        if is_nil (rule_id rule) \<or> rule_id rule \<in> ids \<or> rule_priority rule \<in> priorities \<or>
           rule_shape_bad rule
        then Inl InvalidServicePolicy
        else bind_res (validate_rule_contents rule)
               (\<lambda>_. Inr (insert (rule_id rule) ids, insert (rule_priority rule) priorities)))"

definition validate_service_policy :: "ServicePolicyV1 \<Rightarrow> ContractError + unit" where
  "validate_service_policy v = first_err
     [require_ids [sp_segment_id v],
      guard (sp_generation v = 0 \<or> length (sp_rules v) > MAX_POLICY_RULES) InvalidServicePolicy,
      (if sp_name v \<noteq> [] then validate_display_text (sp_name v) 120 else Inr ()),
      bind_res (fold_res validate_rule_step ({}, {}) (sp_rules v)) (\<lambda>_. Inr ())]"

definition dns_record_step ::
  "control_ext \<Rightarrow> string set \<Rightarrow> DnsRecordV1 \<Rightarrow> ContractError + string set" where
  "dns_record_step ext keys record =
     bind_res (first_err
       [validate_dns_name (dr_name record),
        guard (dr_ttl_seconds record < MIN_DNS_TTL_SECONDS \<or>
               dr_ttl_seconds record > MAX_DNS_TTL_SECONDS \<or>
               (case dr_required_prefix_id record of None \<Rightarrow> False | Some i \<Rightarrow> is_nil i))
          InvalidDnsIntent,
        (case dr_data record of RecCname target \<Rightarrow> validate_dns_name target | _ \<Rightarrow> Inr ())])
     (\<lambda>_. bind_res (ok_or (json_record ext record) Serialization)
     (\<lambda>key. if key \<in> keys then Inl InvalidDnsIntent else Inr (insert key keys)))"

definition validate_dns_intent :: "control_ext \<Rightarrow> DnsIntentV1 \<Rightarrow> ContractError + unit" where
  "validate_dns_intent ext v = first_err
     [require_ids [di_segment_id v],
      guard ((case di_site_id v of None \<Rightarrow> False | Some s \<Rightarrow> is_nil s) \<or>
             length (di_site_ids v) > 256 \<or> list_ex is_nil (di_site_ids v) \<or>
             has_duplicates (di_site_ids v) \<or> (di_site_id v \<noteq> None \<and> di_site_ids v \<noteq> []))
        InvalidDnsIntent,
      guard (length (di_records v) > MAX_DNS_RECORDS) InvalidDnsIntent,
      validate_dns_name (di_zone v),
      bind_res (fold_res (dns_record_step ext) {} (di_records v)) (\<lambda>_. Inr ())]"

subsection \<open>Resources\<close>

definition path_relay_mismatch :: "PathCandidateKindV1 \<Rightarrow> uuid option \<Rightarrow> bool" where
  "path_relay_mismatch kind relay =
     (case (kind, relay) of (Direct, Some _) \<Rightarrow> True | (Relayed, None) \<Rightarrow> True | _ \<Rightarrow> False)"

fun validate_spec :: "control_ext \<Rightarrow> ResourceSpecV1 \<Rightarrow> ContractError + unit" where
  "validate_spec ext (Node v) = first_err
     [require_ids [nd_device_id v, nd_device_key_id v, nd_site_id v],
      validate_name (nd_display_name v), validate_token (nd_architecture v) 80]"
| "validate_spec ext (Site v) = validate_name (st_name v)"
| "validate_spec ext (Segment v) = first_err
     [validate_name (sg_name v), validate_prefix (sg_overlay_prefix v)]"
| "validate_spec ext (Attachment v) = first_err
     [require_ids [at_segment_id v, at_site_id v, at_node_id v],
      guard (is_unspecified (at_overlay_router_ipv4 v) \<or> is_loopback (at_overlay_router_ipv4 v) \<or>
             is_multicast (at_overlay_router_ipv4 v) \<or> is_broadcast (at_overlay_router_ipv4 v) \<or>
             at_epoch_floor v = 0) InvalidAttachment]"
| "validate_spec ext (Prefix v) = first_err
     [require_ids [px_site_id v, px_segment_id v], validate_prefix (px_prefix v)]"
| "validate_spec ext (Peer v) = first_err
     [require_ids [pe_segment_id v, pe_site_a_id v, pe_site_b_id v],
      guard (pe_site_a_id v = pe_site_b_id v \<or> pe_site_a_id v > pe_site_b_id v) InvalidPeer]"
| "validate_spec ext (Relay v) = first_err
     [require_ids [rl_service_node_id v], validate_name (rl_name v),
      validate_display_text (rl_region v) 80,
      require_capacity (rl_max_sessions v) (rl_max_bits_per_second v)]"
| "validate_spec ext (PathCandidate v) = first_err
     [require_ids [pc_segment_id v, pc_peer_id v, pc_source_attachment_id v,
        pc_destination_attachment_id v, pc_transport_node_id v],
      guard (pc_source_attachment_id v = pc_destination_attachment_id v \<or> pc_priority v = 0 \<or>
             path_relay_mismatch (pc_kind v) (pc_relay_id v) \<or>
             (case pc_relay_id v of None \<Rightarrow> False | Some i \<Rightarrow> is_nil i)) InvalidPathCandidate]"
| "validate_spec ext (Egress v) = first_err
     [require_ids [eg_site_id v, eg_attachment_id v], validate_name (eg_name v),
      require_capacity (eg_max_sessions v) (eg_max_bits_per_second v)]"
| "validate_spec ext (ServicePolicy v) = validate_service_policy v"
| "validate_spec ext (DnsIntent v) = validate_dns_intent ext v"

definition document_hash :: "control_ext \<Rightarrow> ResourceSpecV1 \<Rightarrow> ContractError + hash32" where
  "document_hash ext spec =
     bind_res (validate_spec ext spec) (\<lambda>_.
     bind_res (ok_or (json_spec ext spec) Serialization) (\<lambda>bytes. Inr (sha256 ext bytes)))"

definition validate_resource :: "control_ext \<Rightarrow> ControlResourceV1 \<Rightarrow> ContractError + unit" where
  "validate_resource ext r =
     first_err [validate_metadata (cr_metadata r), validate_spec ext (cr_resource r)]"

definition data_plane_hash :: "control_ext \<Rightarrow> ServicePolicyV1 \<Rightarrow> ContractError + hash32" where
  "data_plane_hash ext policy = document_hash ext (ServicePolicy (policy\<lparr>sp_name := []\<rparr>))"

subsection \<open>What validation accepts\<close>

lemma card_set_length_distinct [simp]: "card (set xs) = length xs \<longleftrightarrow> distinct xs"
  by (auto simp: card_distinct distinct_card)

lemma validate_prefix_with_default_ok:
  "validate_prefix_with_default d p = Inr u \<longleftrightarrow>
     prefix_well_formed d (network p) (prefix_len p)"
  by (auto simp: validate_prefix_with_default_def prefix_well_formed_def prefix_mask_def Let_def)

lemma validate_dns_name_ok:
  "validate_dns_name s = Inr u \<longleftrightarrow>
     s \<noteq> [] \<and> length s \<le> 253 \<and> (\<forall>label \<in> set (split_on CHR ''.'' s). dns_label_ok label)"
    (is "?lhs \<longleftrightarrow> ?rhs")
proof
  assume ?lhs
  then show ?rhs
    by (auto simp: validate_dns_name_def list_ex_iff split: if_splits)
next
  assume r: ?rhs
  have "\<not> is_ascii_uppercase c" if c: "c \<in> set s" for c
  proof (cases "c = CHR ''.''")
    case True
    then show ?thesis by (simp add: ascii_defs)
  next
    case False
    then obtain w where "w \<in> set (split_on CHR ''.'' s)" "c \<in> set w"
      using split_on_cover [OF c] by blast
    with r have "is_ascii_lowercase c \<or> is_ascii_digit c \<or> c = CHR ''-''"
      by (auto simp: dns_label_ok_def list_all_iff)
    then show ?thesis by (auto simp: ascii_defs)
  qed
  moreover have "last s \<noteq> CHR ''.''"
    using r split_on_last_sep [of s "CHR ''.''"] by (auto simp: dns_label_ok_def)
  ultimately show ?lhs
    using r by (auto simp: validate_dns_name_def list_ex_iff)
qed

text \<open>The rule loop: no rule is malformed and both keys are pairwise distinct.\<close>

definition rule_well_formed :: "ServicePolicyRuleV1 \<Rightarrow> bool" where
  "rule_well_formed r \<longleftrightarrow>
     \<not> is_nil (rule_id r) \<and> \<not> rule_shape_bad r \<and> validate_rule_contents r = Inr ()"

lemma validate_rules_ok:
  "fold_res validate_rule_step (ids, prios) rules = Inr st \<longleftrightarrow>
     (\<forall>r \<in> set rules. rule_well_formed r) \<and>
     distinct (map rule_id rules) \<and> rule_id ` set rules \<inter> ids = {} \<and>
     distinct (map rule_priority rules) \<and> rule_priority ` set rules \<inter> prios = {} \<and>
     st = (rule_id ` set rules \<union> ids, rule_priority ` set rules \<union> prios)"
  by (induction rules arbitrary: ids prios)
    (auto simp: validate_rule_step_def rule_well_formed_def bind_res_def split: sum.splits)


lemma rule_well_formed_iff:
  "rule_well_formed r \<longleftrightarrow>
     rule_id r \<noteq> 0 \<and> 0 \<notin> set (rule_source_site_ids r) \<and> distinct (rule_source_site_ids r) \<and>
     length (rule_source_site_ids r) \<le> 256 \<and> length (rule_destination_prefixes r) \<le> 256 \<and>
     length (rule_domains r) \<le> 256 \<and> length (rule_traffic_classes r) \<le> 32 \<and>
     rule_action r \<noteq> RemoteEgress 0 \<and>
     (\<forall>p \<in> set (rule_destination_prefixes r).
        prefix_well_formed (rule_action r \<noteq> LocalEgress) (network p) (prefix_len p)) \<and>
     (\<forall>geo. rule_destination_geo r = Some geo \<longrightarrow> \<not> geo_selector_bad geo) \<and>
     (\<forall>s \<in> set (rule_domains r). validate_dns_name s = Inr ()) \<and>
     (\<forall>s \<in> set (rule_traffic_classes r). validate_token s 40 = Inr ())"
  by (auto simp: rule_well_formed_def rule_shape_bad_def action_bad_def is_nil_def list_ex_iff
      validate_rule_contents_def validate_prefix_with_default_ok is_remote_egress_def
      split: option.splits PolicyActionV1.splits)

text \<open>A DNS record passes when its own fields do and its serialised form is new.\<close>

definition dns_record_ok :: "control_ext \<Rightarrow> DnsRecordV1 \<Rightarrow> bool" where
  "dns_record_ok ext r \<longleftrightarrow> validate_dns_name (dr_name r) = Inr () \<and>
     5 \<le> dr_ttl_seconds r \<and> dr_ttl_seconds r \<le> 86400 \<and> dr_required_prefix_id r \<noteq> Some 0 \<and>
     (case dr_data r of RecCname t \<Rightarrow> validate_dns_name t = Inr () | _ \<Rightarrow> True)"

lemma dns_record_step_ok:
  "dns_record_step ext keys r = Inr ks \<longleftrightarrow>
     insert_check (\<lambda>r. \<not> dns_record_ok ext r \<or> json_record ext r = None)
       (the \<circ> json_record ext) InvalidDnsIntent keys r = Inr ks"
  by (auto simp: dns_record_step_def insert_check_def dns_record_ok_def is_nil_def not_less
      MIN_DNS_TTL_SECONDS_def MAX_DNS_TTL_SECONDS_def
      split: option.splits DnsRecordDataV1.splits if_splits)

lemma dns_records_ok:
  "fold_res (dns_record_step ext) {} rs = Inr keys \<longleftrightarrow>
     (\<forall>r \<in> set rs. dns_record_ok ext r \<and> json_record ext r \<noteq> None) \<and>
     distinct (map (the \<circ> json_record ext) rs) \<and> keys = (the \<circ> json_record ext) ` set rs"
proof -
  let ?bad = "\<lambda>r. \<not> dns_record_ok ext r \<or> json_record ext r = None"
  have "fold_res (dns_record_step ext) {} rs = Inr keys \<longleftrightarrow>
      fold_res (insert_check ?bad (the \<circ> json_record ext) InvalidDnsIntent) {} rs = Inr keys"
    by (intro fold_res_ok_cong dns_record_step_ok)
  then show ?thesis by (auto simp only: fold_insert_check_ok)
qed

subsection \<open>Properties\<close>


text \<open>
  When the JSON serialiser accepts the records of an intent and tells them apart,
  \<open>validate_dns_intent\<close> accepts exactly the intents of at most 4096 pairwise different,
  individually valid records, scoped to one site, to a duplicate-free list of at most 256
  sites, or to the whole segment.
\<close>

theorem validate_dns_intent_accepts:
  assumes "inj_on (json_record ext) (set (di_records v))"
    and "list_all (\<lambda>r. json_record ext r \<noteq> None) (di_records v)"
  shows "validate_dns_intent ext v = Inr () \<longleftrightarrow>
     di_segment_id v \<noteq> 0 \<and> di_site_id v \<noteq> Some 0 \<and> 0 \<notin> set (di_site_ids v) \<and>
     distinct (di_site_ids v) \<and> length (di_site_ids v) \<le> 256 \<and>
     (di_site_id v = None \<or> di_site_ids v = []) \<and>
     length (di_records v) \<le> 4096 \<and> distinct (di_records v) \<and>
     validate_dns_name (di_zone v) = Inr () \<and> list_all (dns_record_ok ext) (di_records v)"
proof -
  have "inj_on (the \<circ> json_record ext) (set (di_records v))"
  proof (rule inj_onI)
    fix r t
    assume "r \<in> set (di_records v)" "t \<in> set (di_records v)"
      and "(the \<circ> json_record ext) r = (the \<circ> json_record ext) t"
    moreover from this have "json_record ext r = json_record ext t"
      using assms(2) unfolding list_all_iff comp_apply by (intro option.expand) auto
    ultimately show "r = t" using assms(1) by (simp add: inj_on_def)
  qed
  then have "distinct (map (the \<circ> json_record ext) (di_records v)) \<longleftrightarrow> distinct (di_records v)"
    by (simp add: distinct_map)
  then show ?thesis
    using assms(2)
    by (auto simp: validate_dns_intent_def require_ids_def is_nil_def MAX_DNS_RECORDS_def
        dns_records_ok list_all_iff list_ex_iff split: option.splits if_splits)
qed

text \<open>
  The collection names of the API and the kinds correspond one to one: a name is parsed
  to a kind exactly when it is the kind's own collection name.
\<close>

theorem parse_api_collection_iff:
  "parse_api_collection value = Some kind \<longleftrightarrow> value = api_collection kind"
proof
  assume "parse_api_collection value = Some kind"
  then show "value = api_collection kind"
    by (auto simp: parse_api_collection_def dest: find_SomeD)
next
  assume "value = api_collection kind"
  then show "parse_api_collection value = Some kind"
    by (cases kind) (simp_all add: parse_api_collection_def all_kinds_def)
qed

text \<open>
  The data-plane hash of a valid policy exists, and two valid policies have the same one
  exactly when they agree on everything but the operator-facing name (for a serialiser and a
  digest that do not collide on the two documents).
\<close>

theorem data_plane_hash_identifies:
  assumes "validate_service_policy p = Inr ()" and "validate_service_policy q = Inr ()"
    and "json_spec ext (ServicePolicy (p\<lparr>sp_name := []\<rparr>)) = Some bp"
    and "json_spec ext (ServicePolicy (q\<lparr>sp_name := []\<rparr>)) = Some bq"
    and "bp = bq \<Longrightarrow> p\<lparr>sp_name := []\<rparr> = q\<lparr>sp_name := []\<rparr>"
    and "sha256 ext bp = sha256 ext bq \<Longrightarrow> bp = bq"
  shows "data_plane_hash ext p = Inr (sha256 ext bp) \<and>
    (data_plane_hash ext p = data_plane_hash ext q \<longleftrightarrow>
      p\<lparr>sp_name := []\<rparr> = q\<lparr>sp_name := []\<rparr>)"
proof -
  have hash: "data_plane_hash ext r = Inr (sha256 ext b)"
    if "validate_service_policy r = Inr ()"
      and "json_spec ext (ServicePolicy (r\<lparr>sp_name := []\<rparr>)) = Some b" for r b
  proof -
    have "validate_service_policy (r\<lparr>sp_name := []\<rparr>) = Inr ()"
      using that(1) by (simp add: validate_service_policy_def)
    then show ?thesis
      using that(2) by (simp add: data_plane_hash_def document_hash_def)
  qed
  show ?thesis
    using hash [OF assms(1,3)] hash [OF assms(2,4)] assms(3-) by auto
qed

text \<open>
  Two prefixes that pass validation overlap exactly when some address lies in both.
\<close>

theorem validated_prefixes_overlap:
  assumes "validate_prefix_with_default d p = Inr ()"
    and "validate_prefix_with_default e q = Inr ()"
  shows "prefix_overlaps p q \<longleftrightarrow>
    (\<exists>a. prefix_covers (network p) (prefix_len p) a \<and> prefix_covers (network q) (prefix_len q) a)"
  using assms
  by (intro ctl_prefix.overlaps_common_address)
    (auto simp: validate_prefix_with_default_ok prefix_well_formed_def)

definition wit_rule :: ServicePolicyRuleV1 where
  "wit_rule = \<lparr>rule_id = 7, rule_priority = 10, rule_source_site_ids = [3, 4],
     rule_destination_prefixes = [Ipv4PrefixV1 0 0, Ipv4PrefixV1 0x0A010000 16],
     rule_destination_geo = None, rule_domains = [''example.com''],
     rule_traffic_classes = [''bulk''], rule_action = RemoteEgress 9\<rparr>"

definition wit_policy :: ServicePolicyV1 where
  "wit_policy = \<lparr>sp_segment_id = 1, sp_generation = 2, sp_name = ''web'', sp_enabled = True,
     sp_rules = [wit_rule, wit_rule\<lparr>rule_id := 8, rule_priority := 11\<rparr>]\<rparr>"

definition wit_ext :: control_ext where
  "wit_ext = \<lparr>json_record = (\<lambda>r. Some (dr_name r)),
     json_spec = (\<lambda>s. case s of ServicePolicy p \<Rightarrow> Some (str_bytes (sp_name p) @ be_bytes_u64 (sp_generation p))
        | _ \<Rightarrow> None),
     sha256 = (\<lambda>bs. bs)\<rparr>"

definition wit_intent :: DnsIntentV1 where
  "wit_intent = \<lparr>di_segment_id = 1, di_site_id = None, di_site_ids = [2, 3], di_zone = ''corp'',
     di_records =
       [\<lparr>dr_name = ''a.corp'', dr_ttl_seconds = 60, dr_data = RecA 1, dr_required_prefix_id = None\<rparr>,
        \<lparr>dr_name = ''b.corp'', dr_ttl_seconds = 60, dr_data = RecCname ''a.corp'',
         dr_required_prefix_id = Some 5\<rparr>]\<rparr>"

lemma wit_policy_valid: "validate_service_policy wit_policy = Inr ()"
  by code_simp


theorem validate_dns_intent_accepts_witness:
  "validate_dns_intent wit_ext wit_intent = Inr () \<and> distinct (di_records wit_intent)"
proof -
  have "inj_on (json_record wit_ext) (set (di_records wit_intent))"
    by (simp add: inj_on_def wit_ext_def wit_intent_def)
  moreover have "list_all (\<lambda>r. json_record wit_ext r \<noteq> None) (di_records wit_intent)"
    by (simp add: wit_ext_def wit_intent_def)
  moreover have "validate_dns_intent wit_ext wit_intent = Inr ()" by code_simp
  ultimately show ?thesis
    using validate_dns_intent_accepts [of wit_ext wit_intent] by blast
qed

theorem data_plane_hash_identifies_witness:
  "data_plane_hash wit_ext wit_policy = data_plane_hash wit_ext (wit_policy\<lparr>sp_name := ''other''\<rparr>)
   \<and> is_ok (data_plane_hash wit_ext wit_policy)"
proof -
  have json: "json_spec wit_ext (ServicePolicy (wit_policy\<lparr>sp_name := []\<rparr>)) = Some (be_bytes_u64 2)"
    by (simp add: wit_ext_def wit_policy_def str_bytes_def)
  then have json': "json_spec wit_ext
      (ServicePolicy ((wit_policy\<lparr>sp_name := ''other''\<rparr>)\<lparr>sp_name := []\<rparr>)) = Some (be_bytes_u64 2)"
    by simp
  have "validate_service_policy (wit_policy\<lparr>sp_name := ''other''\<rparr>) = Inr ()" by code_simp
  note data_plane_hash_identifies [OF wit_policy_valid this json json']
  then show ?thesis by auto
qed

theorem validated_prefixes_overlap_witness:
  "prefix_overlaps (Ipv4PrefixV1 0x0A000000 8) (Ipv4PrefixV1 0x0A010000 16)"
proof -
  have "validate_prefix_with_default False (Ipv4PrefixV1 0x0A000000 8) = Inr ()" by code_simp
  moreover have "validate_prefix_with_default False (Ipv4PrefixV1 0x0A010000 16) = Inr ()"
    by code_simp
  moreover have "prefix_covers 0x0A000000 8 0x0A010203" by code_simp
  moreover have "prefix_covers 0x0A010000 16 0x0A010203" by code_simp
  ultimately show ?thesis
    using validated_prefixes_overlap [of False "Ipv4PrefixV1 0x0A000000 8" False
        "Ipv4PrefixV1 0x0A010000 16"] by auto
qed

end
