(* ===== verification/Sdwan_Repository.thy ===== *)
theory Sdwan_Repository
  imports Sdwan_Contract Route_Encoding Control_Contract
begin

section \<open>The publication tables (\<open>SdwanRepository\<close> of \<open>crates/cloud-db/src/sdwan.rs\<close>)\<close>

text \<open>
  The tables of the route contract as lists of rows in insertion order, and the operations of
  the repository on them: the heads, and \<open>publish\<close> with its helpers. A transaction that
  returns an error is rolled back, so an operation gives a result and, on success only, a new
  database. \<open>INSERT\<close> fails with \<open>Database\<close> when a unique key of the table repeats; foreign
  keys and connection failures are left out. SHA-256 is a parameter.
\<close>

subsection \<open>Rows\<close>

record segment_row =
  sgr_id :: uuid
  sgr_tenant_id :: uuid
  sgr_name :: string
  sgr_hub_node_pool_id :: uuid
  sgr_overlay_network :: u32
  sgr_overlay_prefix_len :: u8
  sgr_state :: ResourceState
  sgr_current_generation :: u64
  sgr_current_content_hash :: hash32

abbreviation sgr_active :: "segment_row \<Rightarrow> bool" where
  "sgr_active r \<equiv> sgr_state r = Active"

record publication_row =
  pbr_id :: uuid
  pbr_tenant_id :: uuid
  pbr_segment_id :: uuid
  pbr_expected_previous_generation :: u64
  pbr_expected_previous_hash :: hash32
  pbr_generation :: u64
  pbr_activation_mode :: string
  pbr_content_hash :: hash32
  pbr_signed_envelope :: "u8 list"
  pbr_expires_at :: u64
  pbr_stale_until :: u64
  pbr_audit_event_id :: uuid
  pbr_actor_id :: string

record projection_row =
  pjr_id :: uuid
  pjr_publication_id :: uuid
  pjr_projection_id :: uuid
  pjr_tenant_id :: uuid
  pjr_segment_id :: uuid
  pjr_site_id :: uuid
  pjr_attachment_id :: uuid
  pjr_device_id :: uuid
  pjr_device_key_id :: uuid
  pjr_segment_generation :: u64
  pjr_segment_content_hash :: hash32
  pjr_projection_generation :: u64
  pjr_previous_hash :: hash32
  pjr_content_hash :: hash32
  pjr_signed_envelope :: "u8 list"

record member_row =
  mbr_tenant_id :: uuid
  mbr_segment_publication_id :: uuid
  mbr_projection_publication_id :: uuid
  mbr_projection_id :: uuid
  mbr_attachment_id :: uuid
  mbr_rollout_ordinal :: u32

record transport_row =
  tcr_tenant_id :: uuid
  tcr_segment_id :: uuid
  tcr_segment_generation :: u64
  tcr_transport_node_id :: uuid
  tcr_transport_node_key_id :: uuid
  tcr_projection_publication_id :: uuid
  tcr_projection_id :: uuid

record path_row =
  pcr_tenant_id :: uuid
  pcr_projection_publication_id :: uuid
  pcr_candidate_id :: uuid
  pcr_source_attachment_id :: uuid
  pcr_destination_attachment_id :: uuid
  pcr_path_kind :: string

record expansion_row =
  exr_id :: uuid
  exr_segment_publication_id :: uuid
  exr_tenant_id :: uuid
  exr_segment_id :: uuid
  exr_object_kind :: string
  exr_policy_id :: uuid
  exr_generation :: u64
  exr_segment_generation :: u64
  exr_segment_content_hash :: hash32
  exr_site_id :: "uuid option"
  exr_attachment_id :: "uuid option"
  exr_content_hash :: hash32
  exr_signed_envelope :: "u8 list"

record rollout_row =
  ror_tenant_id :: uuid
  ror_segment_id :: uuid
  ror_segment_generation :: u64
  ror_allowed_ordinal :: u32
  ror_member_count :: u32
  ror_activation_mode :: string
  ror_state :: string

record audit_row =
  aur_id :: uuid
  aur_tenant_id :: uuid
  aur_actor_type :: string
  aur_actor_id :: string
  aur_action :: string
  aur_object_type :: string
  aur_object_id :: string
  aur_metadata :: json

record attachment_row =
  atr_id :: uuid
  atr_tenant_id :: uuid
  atr_segment_id :: uuid
  atr_site_id :: "uuid option"
  atr_is_device :: bool
  atr_device_id :: "uuid option"
  atr_device_key_id :: "uuid option"
  atr_overlay_router_ipv4 :: u32
  atr_state :: AttachmentStateWrite
  atr_epoch_floor :: u64

record site_row =
  sir_id :: uuid
  sir_tenant_id :: uuid
  sir_name :: string
  sir_kind :: SiteKindV1
  sir_state :: ResourceState

record site_prefix_row =
  spr_id :: uuid
  spr_tenant_id :: uuid
  spr_site_id :: uuid
  spr_network :: u32
  spr_prefix_len :: u8
  spr_active :: bool

record node_pool_row =
  npr_id :: uuid
  npr_tenant_id :: "uuid option"
  npr_service_class :: string
  npr_name :: string
  npr_audience :: string
  npr_active :: bool
  npr_created_at :: nat

datatype NodeStatus = NodePending | NodeActive | NodeDraining | NodeRevoked

record node_row =
  ndr_id :: uuid
  ndr_tenant_id :: "uuid option"
  ndr_device_id :: "uuid option"
  ndr_device_key_id :: "uuid option"
  ndr_node_pool_id :: uuid
  ndr_node_id :: string
  ndr_status :: NodeStatus

record endpoint_row =
  edr_id :: uuid
  edr_node_id :: uuid
  edr_endpoint :: string
  edr_region :: string
  edr_transport :: "string option"
  edr_server_name :: "string option"
  edr_server_cert_sha256 :: "u8 list option"
  edr_transport_preset :: "string option"
  edr_active :: bool

record subscription_row =
  sbr_id :: uuid
  sbr_tenant_id :: uuid
  sbr_status :: string

record entitlement_row =
  enr_id :: uuid
  enr_tenant_id :: uuid
  enr_subscription_id :: uuid
  enr_node_pool_id :: uuid
  enr_service_permission :: string
  enr_quota_json :: string
  enr_status :: string

record organization_row =
  ogr_id :: uuid
  ogr_name :: string
  ogr_active :: bool

record tenant_row =
  tnr_id :: uuid
  tnr_organization_id :: uuid
  tnr_name :: string
  tnr_active :: bool

record device_row =
  dvr_id :: uuid
  dvr_tenant_id :: uuid
  dvr_display_name :: string
  dvr_active :: bool
  dvr_last_seen_at :: "instant option"

text \<open>What a device has reported last, and the projection it is running.\<close>

record status_row =
  rsr_tenant_id :: uuid
  rsr_device_id :: uuid
  rsr_device_key_id :: uuid
  rsr_projection_publication_id :: uuid
  rsr_active_projection_publication_id :: "uuid option"
  rsr_envelope_sha256 :: hash32
  rsr_apply_state :: string
  rsr_error_code :: "string option"
  rsr_reported_at :: instant

text \<open>
  The tables \<open>publish\<close> only reads: attachments, sites, site prefixes, the nodes with their
  pools, endpoints and entitlements, the reports of the devices, and of the identity tables the
  organizations, the tenants, the devices and the active device keys \<open>(tenant, device, key)\<close>.
\<close>

record topology_tables =
  tt_attachments :: "attachment_row list"
  tt_sites :: "site_row list"
  tt_site_prefixes :: "site_prefix_row list"
  tt_node_pools :: "node_pool_row list"
  tt_nodes :: "node_row list"
  tt_endpoints :: "endpoint_row list"
  tt_subscriptions :: "subscription_row list"
  tt_entitlements :: "entitlement_row list"
  tt_organizations :: "organization_row list"
  tt_tenants :: "tenant_row list"
  tt_devices :: "device_row list"
  tt_active_keys :: "(uuid \<times> uuid \<times> uuid) list"
  tt_status :: "status_row list"

definition tt_active_devices :: "topology_tables \<Rightarrow> (uuid \<times> uuid) list" where
  "tt_active_devices t =
     map (\<lambda>v. (dvr_tenant_id v, dvr_id v)) (filter dvr_active (tt_devices t))"

definition tt_active_sites :: "topology_tables \<Rightarrow> (uuid \<times> uuid) list" where
  "tt_active_sites t =
     map (\<lambda>s. (sir_tenant_id s, sir_id s)) (filter (\<lambda>s. sir_state s = Active) (tt_sites t))"

definition tt_active_prefixes :: "topology_tables \<Rightarrow> (uuid \<times> uuid) list" where
  "tt_active_prefixes t =
     map (\<lambda>p. (spr_tenant_id p, spr_site_id p)) (filter spr_active (tt_site_prefixes t))"

record route_db =
  db_segments :: "segment_row list"
  db_publications :: "publication_row list"
  db_projections :: "projection_row list"
  db_members :: "member_row list"
  db_transports :: "transport_row list"
  db_paths :: "path_row list"
  db_expansions :: "expansion_row list"
  db_rollouts :: "rollout_row list"
  db_audits :: "audit_row list"
  db_topology :: topology_tables

subsection \<open>Unique keys\<close>

definition insert_row :: "('r \<Rightarrow> 'r \<Rightarrow> bool) \<Rightarrow> 'r \<Rightarrow> 'r list \<Rightarrow> SdwanError + 'r list" where
  "insert_row conflict row table =
     (if list_ex (conflict row) table then Inl Database else Inr (table @ [row]))"

lemma insert_row_ok:
  "insert_row c r t = Inr t' \<longleftrightarrow> (\<forall>x \<in> set t. \<not> c r x) \<and> t' = t @ [r]"
  by (auto simp: insert_row_def list_ex_iff)

definition publication_conflict :: "publication_row \<Rightarrow> publication_row \<Rightarrow> bool" where
  "publication_conflict a b \<longleftrightarrow> pbr_id a = pbr_id b \<or>
     (pbr_tenant_id a = pbr_tenant_id b \<and> pbr_segment_id a = pbr_segment_id b \<and>
      pbr_generation a = pbr_generation b)"

definition projection_conflict :: "projection_row \<Rightarrow> projection_row \<Rightarrow> bool" where
  "projection_conflict a b \<longleftrightarrow> pjr_id a = pjr_id b \<or>
     (pjr_tenant_id a = pjr_tenant_id b \<and> pjr_projection_id a = pjr_projection_id b \<and>
      pjr_projection_generation a = pjr_projection_generation b) \<or>
     (pjr_publication_id a = pjr_publication_id b \<and> pjr_attachment_id a = pjr_attachment_id b)"

definition member_conflict :: "member_row \<Rightarrow> member_row \<Rightarrow> bool" where
  "member_conflict a b \<longleftrightarrow>
     mbr_segment_publication_id a = mbr_segment_publication_id b \<and>
     (mbr_projection_publication_id a = mbr_projection_publication_id b \<or>
      mbr_attachment_id a = mbr_attachment_id b)"

definition transport_conflict :: "transport_row \<Rightarrow> transport_row \<Rightarrow> bool" where
  "transport_conflict a b \<longleftrightarrow> tcr_transport_node_id a = tcr_transport_node_id b \<and>
     (tcr_projection_publication_id a = tcr_projection_publication_id b \<or>
      (tcr_tenant_id a = tcr_tenant_id b \<and> tcr_segment_id a = tcr_segment_id b \<and>
       tcr_segment_generation a = tcr_segment_generation b \<and>
       tcr_projection_id a = tcr_projection_id b))"

definition path_conflict :: "path_row \<Rightarrow> path_row \<Rightarrow> bool" where
  "path_conflict a b \<longleftrightarrow>
     pcr_projection_publication_id a = pcr_projection_publication_id b \<and>
     pcr_candidate_id a = pcr_candidate_id b"

definition expansion_conflict :: "expansion_row \<Rightarrow> expansion_row \<Rightarrow> bool" where
  "expansion_conflict a b \<longleftrightarrow> exr_id a = exr_id b \<or>
     (exr_tenant_id a = exr_tenant_id b \<and> exr_segment_id a = exr_segment_id b \<and>
      exr_object_kind a = exr_object_kind b \<and> exr_policy_id a = exr_policy_id b \<and>
      exr_generation a = exr_generation b)"

definition rollout_conflict :: "rollout_row \<Rightarrow> rollout_row \<Rightarrow> bool" where
  "rollout_conflict a b \<longleftrightarrow> ror_tenant_id a = ror_tenant_id b \<and>
     ror_segment_id a = ror_segment_id b \<and> ror_segment_generation a = ror_segment_generation b"

definition audit_conflict :: "audit_row \<Rightarrow> audit_row \<Rightarrow> bool" where
  "audit_conflict a b \<longleftrightarrow> aur_id a = aur_id b"

subsection \<open>Heads\<close>

definition decode_hash :: "u8 list \<Rightarrow> SdwanError + hash32" where
  "decode_hash value = (if length value = 32 then Inr value else Inl InvalidContentHash)"

definition find_segment :: "uuid \<Rightarrow> uuid \<Rightarrow> route_db \<Rightarrow> segment_row option" where
  "find_segment tenant segment d =
     find (\<lambda>r. sgr_tenant_id r = tenant \<and> sgr_id r = segment \<and> sgr_active r) (db_segments d)"

definition current_head :: "uuid \<Rightarrow> uuid \<Rightarrow> route_db \<Rightarrow> SdwanError + (u64 \<times> hash32)" where
  "current_head tenant segment d =
     bind_res (ok_or (find_segment tenant segment d) SegmentNotFound) (\<lambda>row.
     bind_res (decode_hash (sgr_current_content_hash row)) (\<lambda>hash.
       let generation = sgr_current_generation row in
       if (generation = 0 \<and> hash \<noteq> zero_hash) \<or> (generation > 0 \<and> hash = zero_hash)
       then Inl InvalidContentHash else Inr (generation, hash)))"

definition published_generation ::
  "uuid \<Rightarrow> uuid \<Rightarrow> uuid \<Rightarrow> route_db \<Rightarrow> SdwanError + (u64 \<times> hash32) option" where
  "published_generation tenant segment publication d =
     (if is_nil tenant \<or> is_nil segment \<or> is_nil publication then Inl InvalidScope
      else case find (\<lambda>r. pbr_id r = publication \<and> pbr_tenant_id r = tenant \<and>
                         pbr_segment_id r = segment) (db_publications d) of
        None \<Rightarrow> Inr None
      | Some row \<Rightarrow> bind_res (decode_hash (pbr_content_hash row)) (\<lambda>hash.
          if pbr_generation row = 0 \<or> hash = zero_hash then Inl InvalidContentHash
          else Inr (Some (pbr_generation row, hash))))"

definition projection_rows :: "uuid \<Rightarrow> uuid \<Rightarrow> uuid \<Rightarrow> route_db \<Rightarrow> projection_row list" where
  "projection_rows tenant segment attachment d =
     filter (\<lambda>r. pjr_tenant_id r = tenant \<and> pjr_segment_id r = segment \<and>
                 pjr_attachment_id r = attachment) (db_projections d)"

text \<open>The loop over the rows, ordered by generation and then by insertion time.\<close>

fun projection_head_loop ::
  "u64 \<Rightarrow> hash32 \<Rightarrow> (u64 \<times> hash32) option \<Rightarrow> projection_row list \<Rightarrow>
     SdwanError + (u64 \<times> hash32) option" where
  "projection_head_loop expected previous head [] = Inr head"
| "projection_head_loop expected previous head (row # rows) =
     bind_res (decode_hash (pjr_previous_hash row)) (\<lambda>previous_hash.
     bind_res (decode_hash (pjr_content_hash row)) (\<lambda>content_hash.
       let generation = pjr_projection_generation row in
       if generation \<noteq> expected \<or> (generation = 1 \<and> previous_hash \<noteq> zero_hash) \<or>
          (generation > 1 \<and> previous_hash \<noteq> previous) \<or> content_hash = zero_hash
       then Inl InvalidContentHash
       else bind_res (ok_or (checked_add expected 1) GenerationGap) (\<lambda>next.
              projection_head_loop next content_hash (Some (generation, content_hash)) rows)))"

definition projection_head ::
  "uuid \<Rightarrow> uuid \<Rightarrow> uuid \<Rightarrow> route_db \<Rightarrow> SdwanError + (u64 \<times> hash32) option" where
  "projection_head tenant segment attachment d =
     (let rows = sort_key pjr_projection_generation (projection_rows tenant segment attachment d)
      in if rows = [] then Inr None else projection_head_loop 1 zero_hash None rows)"

subsection \<open>Checks inside the transaction\<close>

definition live_attachment :: "attachment_row \<Rightarrow> bool" where
  "live_attachment a \<longleftrightarrow> atr_is_device a \<and> (atr_state a = WActive \<or> atr_state a = WStandby)"

definition required_route_owners :: "uuid \<Rightarrow> uuid \<Rightarrow> topology_tables \<Rightarrow> uuid list" where
  "required_route_owners tenant segment t =
     remdups (map atr_id (filter (\<lambda>a. atr_tenant_id a = tenant \<and> atr_segment_id a = segment \<and>
       live_attachment a \<and>
       list_ex (\<lambda>(pt, site). pt = tenant \<and> atr_site_id a = Some site) (tt_active_prefixes t))
       (tt_attachments t)))"

definition ownership_matches :: "SiteProjectionPublicationWrite \<Rightarrow> topology_tables \<Rightarrow> nat" where
  "ownership_matches p t = length
     [a. a \<leftarrow> tt_attachments t,
         atr_id a = pw_attachment_id p \<and> atr_tenant_id a = pw_tenant_id p \<and>
         atr_segment_id a = pw_segment_id p \<and> atr_site_id a = Some (pw_site_id p) \<and>
         atr_device_id a = Some (pw_device_id p) \<and>
         atr_device_key_id a = Some (pw_device_key_id p) \<and> live_attachment a,
         s \<leftarrow> tt_active_sites t, s = (atr_tenant_id a, pw_site_id p),
         v \<leftarrow> tt_active_devices t, v = (atr_tenant_id a, pw_device_id p),
         k \<leftarrow> tt_active_keys t, k = (atr_tenant_id a, pw_device_id p, pw_device_key_id p)]"

definition validate_projection_ownership ::
  "SegmentPublicationWrite \<Rightarrow> route_db \<Rightarrow> SdwanError + unit" where
  "validate_projection_ownership w d =
     (let required = required_route_owners (sw_tenant_id w) (sw_segment_id w) (db_topology d);
          projected = set (map pw_attachment_id (sw_projections w))
      in first_err
        [guard (required = []) MissingProjection,
         guard (list_ex (\<lambda>a. a \<notin> projected) required) MissingProjection,
         for_each (\<lambda>p. guard (ownership_matches p (db_topology d) \<noteq> 1) ScopeMismatch)
           (sw_projections w)])"

text \<open>\<open>ORDER BY projection_generation DESC LIMIT 1\<close>\<close>

fun highest_row :: "projection_row list \<Rightarrow> projection_row option" where
  "highest_row [] = None"
| "highest_row (r # rs) =
     (case highest_row rs of None \<Rightarrow> Some r
      | Some b \<Rightarrow> if pjr_projection_generation b \<ge> pjr_projection_generation r then Some b
                  else Some r)"

definition validate_projection_heads ::
  "SegmentPublicationWrite \<Rightarrow> route_db \<Rightarrow> SdwanError + unit" where
  "validate_projection_heads w d =
     for_each (\<lambda>p.
       case highest_row (projection_rows (pw_tenant_id p) (pw_segment_id p)
              (pw_attachment_id p) d) of
         None \<Rightarrow> guard (pw_projection_generation p \<noteq> 1 \<or> pw_previous_hash p \<noteq> zero_hash)
                   GenerationGap
       | Some row \<Rightarrow>
           bind_res (decode_hash (pjr_content_hash row)) (\<lambda>previous_content_hash.
           bind_res (ok_or (checked_add (pjr_projection_generation row) 1) GenerationGap)
             (\<lambda>expected. guard (pw_projection_generation p \<noteq> expected \<or>
                pw_previous_hash p \<noteq> previous_content_hash) GenerationGap)))
       (sw_projections w)"

subsection \<open>Replays\<close>

definition publication_exists :: "uuid \<Rightarrow> route_db \<Rightarrow> bool" where
  "publication_exists i d = list_ex (\<lambda>r. pbr_id r = i) (db_publications d)"

definition activation_mode :: "SegmentPublicationWrite \<Rightarrow> string" where
  "activation_mode w = (if sw_policy_only w then ''POLICY_ONLY'' else ''TUNNEL'')"

definition header_matches :: "publication_row \<Rightarrow> SegmentPublicationWrite \<Rightarrow> bool" where
  "header_matches r w \<longleftrightarrow>
     pbr_tenant_id r = sw_tenant_id w \<and> pbr_segment_id r = sw_segment_id w \<and>
     pbr_expected_previous_generation r = sw_expected_previous_generation w \<and>
     pbr_expected_previous_hash r = sw_expected_previous_hash w \<and>
     pbr_generation r = sw_generation w \<and> pbr_activation_mode r = activation_mode w \<and>
     pbr_content_hash r = so_content_hash (sw_snapshot w) \<and>
     pbr_signed_envelope r = so_signed_envelope (sw_snapshot w) \<and>
     pbr_expires_at r = sw_expires_at w \<and> pbr_stale_until r = sw_stale_until w \<and>
     pbr_audit_event_id r = sw_audit_event_id w \<and> pbr_actor_id r = sw_actor_id w"

definition projection_matches :: "projection_row \<Rightarrow> SiteProjectionPublicationWrite \<Rightarrow> bool" where
  "projection_matches r p \<longleftrightarrow>
     pjr_id r = pw_publication_id p \<and> pjr_projection_id r = pw_projection_id p \<and>
     pjr_tenant_id r = pw_tenant_id p \<and> pjr_segment_id r = pw_segment_id p \<and>
     pjr_site_id r = pw_site_id p \<and> pjr_attachment_id r = pw_attachment_id p \<and>
     pjr_device_id r = pw_device_id p \<and> pjr_device_key_id r = pw_device_key_id p \<and>
     pjr_segment_generation r = pw_segment_generation p \<and>
     pjr_segment_content_hash r = pw_segment_content_hash p \<and>
     pjr_projection_generation r = pw_projection_generation p \<and>
     pjr_previous_hash r = pw_previous_hash p \<and>
     pjr_content_hash r = so_content_hash (pw_object p) \<and>
     pjr_signed_envelope r = so_signed_envelope (pw_object p)"

definition path_matches ::
  "SiteProjectionPublicationWrite \<Rightarrow> path_row \<Rightarrow> RuntimeProjectionPathCatalogWrite \<Rightarrow> bool" where
  "path_matches p r path \<longleftrightarrow>
     pcr_candidate_id r = rpw_candidate_id path \<and>
     pcr_source_attachment_id r = pw_attachment_id p \<and>
     pcr_destination_attachment_id r = rpw_peer_attachment_id path \<and>
     pcr_path_kind r = path_kind_database_value (rpw_path_kind path)"

definition expansion_matches :: "expansion_row \<Rightarrow> ExpansionObjectPublicationWrite \<Rightarrow> bool" where
  "expansion_matches r e \<longleftrightarrow>
     exr_id r = ew_publication_id e \<and> exr_tenant_id r = ew_tenant_id e \<and>
     exr_segment_id r = ew_segment_id e \<and>
     exr_object_kind r = expansion_database_value (ew_kind e) \<and>
     exr_policy_id r = ew_policy_id e \<and> exr_generation r = ew_generation e \<and>
     exr_segment_generation r = ew_segment_generation e \<and>
     exr_segment_content_hash r = ew_segment_content_hash e \<and>
     exr_site_id r = ew_site_id e \<and> exr_attachment_id r = ew_attachment_id e \<and>
     exr_content_hash r = so_content_hash (ew_object e) \<and>
     exr_signed_envelope r = so_signed_envelope (ew_object e)"

text \<open>
  Two lists of the same length, compared pairwise after sorting both by an identifier
  (the \<open>ORDER BY\<close> of the query and the \<open>sort_unstable_by_key\<close> of the write).
\<close>

definition matches_sorted ::
  "('a \<Rightarrow> 'b \<Rightarrow> bool) \<Rightarrow> ('a \<Rightarrow> uuid) \<Rightarrow> ('b \<Rightarrow> uuid) \<Rightarrow> 'a list \<Rightarrow> 'b list \<Rightarrow> bool" where
  "matches_sorted ok ka kb xs ys \<longleftrightarrow>
     length xs = length ys \<and> list_all (\<lambda>(x, y). ok x y) (zip (sort_key ka xs) (sort_key kb ys))"

definition member_projections :: "uuid \<Rightarrow> route_db \<Rightarrow> projection_row list" where
  "member_projections i d =
     [p. m \<leftarrow> db_members d, mbr_segment_publication_id m = i,
         p \<leftarrow> db_projections d, mbr_projection_publication_id m = pjr_id p]"

definition stored_paths :: "SiteProjectionPublicationWrite \<Rightarrow> route_db \<Rightarrow> path_row list" where
  "stored_paths p d = filter (\<lambda>r. pcr_tenant_id r = pw_tenant_id p \<and>
     pcr_projection_publication_id r = pw_publication_id p) (db_paths d)"

definition publication_matches ::
  "SegmentPublicationWrite \<Rightarrow> route_db \<Rightarrow> SdwanError + bool" where
  "publication_matches w d =
     (case find (\<lambda>r. pbr_id r = sw_publication_id w) (db_publications d) of
        None \<Rightarrow> Inl Database
      | Some row \<Rightarrow> Inr (
          header_matches row w \<and>
          matches_sorted (\<lambda>r p. projection_matches r p \<and>
              matches_sorted (path_matches p) pcr_candidate_id rpw_candidate_id
                (stored_paths p d) (pw_runtime_paths p))
            pjr_id pw_publication_id (member_projections (sw_publication_id w) d)
            (sw_projections w) \<and>
          matches_sorted expansion_matches exr_id ew_publication_id
            (filter (\<lambda>r. exr_segment_publication_id r = sw_publication_id w) (db_expansions d))
            (sw_expansions w)))"

subsection \<open>Rollouts\<close>

definition rollout_state :: "uuid \<Rightarrow> uuid \<Rightarrow> u64 \<Rightarrow> route_db \<Rightarrow> string option" where
  "rollout_state tenant segment generation d =
     map_option ror_state (find (\<lambda>r. ror_tenant_id r = tenant \<and> ror_segment_id r = segment \<and>
       ror_segment_generation r = generation) (db_rollouts d))"

definition tunnel_generations :: "uuid \<Rightarrow> uuid \<Rightarrow> u64 \<Rightarrow> route_db \<Rightarrow> u64 list" where
  "tunnel_generations tenant segment bound d =
     map pbr_generation (filter (\<lambda>r. pbr_tenant_id r = tenant \<and> pbr_segment_id r = segment \<and>
       pbr_activation_mode r = ''TUNNEL'' \<and> pbr_generation r \<le> bound) (db_publications d))"

definition transport_state :: "uuid \<Rightarrow> uuid \<Rightarrow> u64 \<Rightarrow> route_db \<Rightarrow> string option" where
  "transport_state tenant segment current d =
     (case tunnel_generations tenant segment current d of
        [] \<Rightarrow> None
      | g # gs \<Rightarrow>
          map_option ror_state (find (\<lambda>r. ror_tenant_id r = tenant \<and> ror_segment_id r = segment \<and>
            ror_activation_mode r = ''TUNNEL'' \<and>
            ror_segment_generation r = fold max gs g) (db_rollouts d)))"

definition saturating_sub :: "u64 \<Rightarrow> u64 \<Rightarrow> u64" where
  "saturating_sub a b = (if b \<le> a then a - b else 0)"

definition uuid_string :: "uuid \<Rightarrow> string" where
  "uuid_string w = (let h = hex (uuid_bytes w) in
     take 8 h @ ''-'' @ take 4 (drop 8 h) @ ''-'' @ take 4 (drop 12 h) @ ''-'' @
     take 4 (drop 16 h) @ ''-'' @ drop 20 h)"

definition lagging_peers :: "SegmentPublicationWrite \<Rightarrow> route_db \<Rightarrow> projection_row list" where
  "lagging_peers w d =
     [p. s \<leftarrow> tt_status (db_topology d), rsr_tenant_id s = sw_tenant_id w,
         p \<leftarrow> db_projections d,
         rsr_active_projection_publication_id s = Some (pjr_id p) \<and> pjr_tenant_id p = rsr_tenant_id s,
         a \<leftarrow> tt_attachments (db_topology d),
         atr_id a = pjr_attachment_id p \<and> atr_tenant_id a = pjr_tenant_id p \<and>
         atr_device_id a = Some (pjr_device_id p) \<and>
         atr_device_key_id a = Some (pjr_device_key_id p) \<and>
         (atr_state a = WActive \<or> atr_state a = WStandby) \<and>
         pjr_segment_id p = sw_segment_id w \<and>
         pjr_segment_generation p <
           saturating_sub (sw_generation w) (of_nat MAX_COMPATIBILITY_GENERATIONS)]"

definition resync_domain :: "u8 list" where
  "resync_domain = str_bytes ''candy/sdwan/peer-policy-resync/v1'' @ [0]"

definition resync_event ::
  "(u8 list \<Rightarrow> u8 list) \<Rightarrow> SegmentPublicationWrite \<Rightarrow> projection_row \<Rightarrow> audit_row" where
  "resync_event sha w p =
     \<lparr>aur_id = be_word (take 16 (sha (resync_domain @ uuid_bytes (sw_tenant_id w) @
        uuid_bytes (pjr_id p)))),
      aur_tenant_id = sw_tenant_id w, aur_actor_type = ''WORKER'', aur_actor_id = sw_actor_id w,
      aur_action = ''SDWAN_PEER_POLICY_RESYNC_REQUIRED'', aur_object_type = ''DEVICE'',
      aur_object_id = uuid_string (pjr_device_id p),
      aur_metadata = JObj
        [(''code'', JStr ''route_policy_resync_required''), (''module'', JStr ''sdwan_policy''),
         (''reason'', JStr ''compatibility_window_exceeded''),
         (''active_projection_publication_id'', JStr (uuid_string (pjr_id p))),
         (''active_segment_generation'', j_word (pjr_segment_generation p)),
         (''target_segment_generation'', j_word (sw_generation w)),
         (''action'', JStr ''fetch_latest_policy_preserve_existing_connections'')]\<rparr>"

text \<open>\<open>INSERT ... ON DUPLICATE KEY UPDATE id = id\<close>: a repeated event is kept as it was.\<close>

definition insert_event :: "audit_row \<Rightarrow> audit_row list \<Rightarrow> audit_row list" where
  "insert_event e table = (if list_ex (audit_conflict e) table then table else table @ [e])"

definition policy_only_gate ::
  "bool \<Rightarrow> (u8 list \<Rightarrow> u8 list) \<Rightarrow> SegmentPublicationWrite \<Rightarrow> u64 \<Rightarrow> route_db \<Rightarrow>
     SdwanError + route_db" where
  "policy_only_gate policy_isolation sha w current d =
     (if \<not> sw_policy_only w then Inr d
      else bind_res (guard (\<not> policy_isolation \<and>
             rollout_state (sw_tenant_id w) (sw_segment_id w) current d \<noteq> Some ''COMPLETE'')
             RolloutPending) (\<lambda>_.
           bind_res (guard (current = 0 \<or>
             transport_state (sw_tenant_id w) (sw_segment_id w) current d \<noteq> Some ''COMPLETE'')
             RolloutPending) (\<lambda>_.
           Inr (if policy_isolation
                then d\<lparr>db_audits := fold (\<lambda>p. insert_event (resync_event sha w p))
                         (lagging_peers w d) (db_audits d)\<rparr>
                else d))))"

subsection \<open>Writing\<close>

definition to_u32 :: "nat \<Rightarrow> u32 option" where
  "to_u32 n = (if n < 2 ^ 32 then Some (of_nat n) else None)"

definition publication_audit :: "SegmentPublicationWrite \<Rightarrow> audit_row" where
  "publication_audit w =
     \<lparr>aur_id = sw_audit_event_id w, aur_tenant_id = sw_tenant_id w,
      aur_actor_type = ''WORKER'', aur_actor_id = sw_actor_id w, aur_action = ''SDWAN_SEGMENT_ROUTES_PUBLISHED'',
      aur_object_type = ''SEGMENT'', aur_object_id = uuid_string (sw_segment_id w),
      aur_metadata = JObj
        [(''generation'', j_word (sw_generation w)),
         (''activation_mode'', JStr (activation_mode w)),
         (''projection_count'', JNum (length (sw_projections w))),
         (''expansion_count'', JNum (length (sw_expansions w)))]\<rparr>"

definition publication_row_of :: "SegmentPublicationWrite \<Rightarrow> publication_row" where
  "publication_row_of w =
     \<lparr>pbr_id = sw_publication_id w, pbr_tenant_id = sw_tenant_id w,
      pbr_segment_id = sw_segment_id w,
      pbr_expected_previous_generation = sw_expected_previous_generation w,
      pbr_expected_previous_hash = sw_expected_previous_hash w,
      pbr_generation = sw_generation w, pbr_activation_mode = activation_mode w,
      pbr_content_hash = so_content_hash (sw_snapshot w),
      pbr_signed_envelope = so_signed_envelope (sw_snapshot w),
      pbr_expires_at = sw_expires_at w, pbr_stale_until = sw_stale_until w,
      pbr_audit_event_id = sw_audit_event_id w, pbr_actor_id = sw_actor_id w\<rparr>"

definition projection_row_of ::
  "uuid \<Rightarrow> SiteProjectionPublicationWrite \<Rightarrow> projection_row" where
  "projection_row_of publication p =
     \<lparr>pjr_id = pw_publication_id p, pjr_publication_id = publication,
      pjr_projection_id = pw_projection_id p, pjr_tenant_id = pw_tenant_id p,
      pjr_segment_id = pw_segment_id p, pjr_site_id = pw_site_id p,
      pjr_attachment_id = pw_attachment_id p, pjr_device_id = pw_device_id p,
      pjr_device_key_id = pw_device_key_id p,
      pjr_segment_generation = pw_segment_generation p,
      pjr_segment_content_hash = pw_segment_content_hash p,
      pjr_projection_generation = pw_projection_generation p,
      pjr_previous_hash = pw_previous_hash p,
      pjr_content_hash = so_content_hash (pw_object p),
      pjr_signed_envelope = so_signed_envelope (pw_object p)\<rparr>"

definition path_row_of ::
  "SiteProjectionPublicationWrite \<Rightarrow> RuntimeProjectionPathCatalogWrite \<Rightarrow> path_row" where
  "path_row_of p path =
     \<lparr>pcr_tenant_id = pw_tenant_id p, pcr_projection_publication_id = pw_publication_id p,
      pcr_candidate_id = rpw_candidate_id path, pcr_source_attachment_id = pw_attachment_id p,
      pcr_destination_attachment_id = rpw_peer_attachment_id path,
      pcr_path_kind = path_kind_database_value (rpw_path_kind path)\<rparr>"

definition transport_row_of ::
  "SiteProjectionPublicationWrite \<Rightarrow> uuid \<times> uuid \<Rightarrow> transport_row" where
  "transport_row_of p = (\<lambda>(node, key).
     \<lparr>tcr_tenant_id = pw_tenant_id p, tcr_segment_id = pw_segment_id p,
      tcr_segment_generation = pw_segment_generation p, tcr_transport_node_id = node,
      tcr_transport_node_key_id = key, tcr_projection_publication_id = pw_publication_id p,
      tcr_projection_id = pw_projection_id p\<rparr>)"

definition expansion_row_of ::
  "uuid \<Rightarrow> ExpansionObjectPublicationWrite \<Rightarrow> expansion_row" where
  "expansion_row_of publication e =
     \<lparr>exr_id = ew_publication_id e, exr_segment_publication_id = publication,
      exr_tenant_id = ew_tenant_id e, exr_segment_id = ew_segment_id e,
      exr_object_kind = expansion_database_value (ew_kind e), exr_policy_id = ew_policy_id e,
      exr_generation = ew_generation e, exr_segment_generation = ew_segment_generation e,
      exr_segment_content_hash = ew_segment_content_hash e, exr_site_id = ew_site_id e,
      exr_attachment_id = ew_attachment_id e, exr_content_hash = so_content_hash (ew_object e),
      exr_signed_envelope = so_signed_envelope (ew_object e)\<rparr>"

definition insert_projection ::
  "uuid \<Rightarrow> SiteProjectionPublicationWrite \<Rightarrow> u32 \<Rightarrow> route_db \<Rightarrow> SdwanError + route_db" where
  "insert_projection publication p ordinal d =
     bind_res (insert_row projection_conflict (projection_row_of publication p)
       (db_projections d)) (\<lambda>projections.
     bind_res (insert_row member_conflict
       \<lparr>mbr_tenant_id = pw_tenant_id p, mbr_segment_publication_id = publication,
        mbr_projection_publication_id = pw_publication_id p,
        mbr_projection_id = pw_projection_id p, mbr_attachment_id = pw_attachment_id p,
        mbr_rollout_ordinal = ordinal\<rparr> (db_members d)) (\<lambda>members.
     bind_res (fold_res (\<lambda>t n. insert_row transport_conflict (transport_row_of p n) t)
       (db_transports d) (pw_transport_nodes p)) (\<lambda>transports.
     bind_res (fold_res (\<lambda>t path. insert_row path_conflict (path_row_of p path) t)
       (db_paths d) (pw_runtime_paths p)) (\<lambda>paths.
     Inr (d\<lparr>db_projections := projections, db_members := members,
            db_transports := transports, db_paths := paths\<rparr>)))))"

definition insert_expansion ::
  "uuid \<Rightarrow> ExpansionObjectPublicationWrite \<Rightarrow> route_db \<Rightarrow> SdwanError + route_db" where
  "insert_expansion publication e d =
     bind_res (insert_row expansion_conflict (expansion_row_of publication e) (db_expansions d))
       (\<lambda>expansions. Inr (d\<lparr>db_expansions := expansions\<rparr>))"

definition insert_projections ::
  "uuid \<Rightarrow> SiteProjectionPublicationWrite list \<Rightarrow> route_db \<Rightarrow> SdwanError + route_db" where
  "insert_projections publication ps d =
     fold_res (\<lambda>d (index, p).
       bind_res (ok_or (to_u32 (index + 1)) InvalidScope)
         (\<lambda>ordinal. insert_projection publication p ordinal d)) d (enumerate 0 ps)"

definition insert_rollout ::
  "SegmentPublicationWrite \<Rightarrow> route_db \<Rightarrow> SdwanError + route_db" where
  "insert_rollout w d =
     bind_res (ok_or (to_u32 (length (sw_projections w))) InvalidScope) (\<lambda>member_count.
       if member_count > 0
       then bind_res (insert_row rollout_conflict
              \<lparr>ror_tenant_id = sw_tenant_id w, ror_segment_id = sw_segment_id w,
               ror_segment_generation = sw_generation w, ror_allowed_ordinal = member_count,
               ror_member_count = member_count, ror_activation_mode = activation_mode w,
               ror_state = (if sw_policy_only w then ''COMMITTING'' else ''PREPARING'')\<rparr>
              (db_rollouts d)) (\<lambda>rollouts. Inr (d\<lparr>db_rollouts := rollouts\<rparr>))
       else Inr d)"

text \<open>The conditional update of the head, with the number of rows it changed.\<close>

definition head_matches :: "SegmentPublicationWrite \<Rightarrow> segment_row \<Rightarrow> bool" where
  "head_matches w r \<longleftrightarrow> sgr_tenant_id r = sw_tenant_id w \<and> sgr_id r = sw_segment_id w \<and>
     sgr_current_generation r = sw_expected_previous_generation w \<and>
     sgr_current_content_hash r = sw_expected_previous_hash w"

definition advance_head :: "SegmentPublicationWrite \<Rightarrow> route_db \<Rightarrow> SdwanError + route_db" where
  "advance_head w d =
     (if length (filter (head_matches w) (db_segments d)) \<noteq> 1 then Inl GenerationGap
      else Inr (d\<lparr>db_segments := map (\<lambda>r. if head_matches w r
             then r\<lparr>sgr_current_generation := sw_generation w,
                    sgr_current_content_hash := so_content_hash (sw_snapshot w)\<rparr>
             else r) (db_segments d)\<rparr>))"

definition publish_rows :: "SegmentPublicationWrite \<Rightarrow> route_db \<Rightarrow> SdwanError + route_db" where
  "publish_rows w d =
     bind_res (insert_row audit_conflict (publication_audit w) (db_audits d)) (\<lambda>audits.
     bind_res (insert_row publication_conflict (publication_row_of w) (db_publications d))
       (\<lambda>publications.
     bind_res (insert_projections (sw_publication_id w) (sw_projections w)
       (d\<lparr>db_audits := audits, db_publications := publications\<rparr>)) (\<lambda>d.
     bind_res (fold_res (\<lambda>d e. insert_expansion (sw_publication_id w) e d) d (sw_expansions w))
       (\<lambda>d.
     bind_res (insert_rollout w d) (\<lambda>d. advance_head w d)))))"

definition publish ::
  "bool \<Rightarrow> (u8 list \<Rightarrow> u8 list) \<Rightarrow> SegmentPublicationWrite \<Rightarrow> route_db \<Rightarrow>
     SdwanError + (PublicationOutcome \<times> route_db)" where
  "publish policy_isolation sha w d =
     bind_res (publication_validate w) (\<lambda>_.
       if publication_exists (sw_publication_id w) d
       then bind_res (publication_matches w d)
              (\<lambda>exact. if exact then Inr (Replayed, d) else Inl DivergentReplay)
       else
         bind_res (ok_or (find_segment (sw_tenant_id w) (sw_segment_id w) d) SegmentNotFound)
           (\<lambda>segment.
         bind_res (guard (sgr_current_generation segment \<noteq> sw_expected_previous_generation w \<or>
             sgr_current_content_hash segment \<noteq> sw_expected_previous_hash w) GenerationGap) (\<lambda>_.
         bind_res (policy_only_gate policy_isolation sha w (sgr_current_generation segment) d)
           (\<lambda>d.
         bind_res (validate_projection_ownership w d) (\<lambda>_.
         bind_res (validate_projection_heads w d) (\<lambda>_.
         bind_res (publish_rows w d) (\<lambda>d. Inr (Published, d))))))))"

end
