(* ===== verification/Generation_Jobs.thy ===== *)
theory Generation_Jobs
  imports Sdwan_Repository Control_Contract
begin

section \<open>The generation job queue (\<open>GenerationJobRepository\<close> of \<open>crates/cloud-db/src/control.rs\<close>)\<close>

text \<open>
  The tables \<open>segment_generation_heads\<close> and \<open>segment_generation_jobs\<close> and the operations on
  them: enqueueing a revision, the renewal scan, claiming, renewing, completing and failing a
  leased job, and the recovery scan after an upgrade. Every operation is one transaction. A
  \<open>DateTime<Utc>\<close> is an integer number of nanoseconds and a \<open>StdDuration\<close> a natural one (the
  rounding of \<open>TIMESTAMP(6)\<close> is left out); the database clock (\<open>CURRENT_TIMESTAMP\<close>) and the
  identifiers \<open>Uuid::now_v7\<close> makes are arguments, as is SHA-256. The message of a database
  error is dropped.
\<close>

subsection \<open>Data\<close>

definition MAX_ACTOR_LEN :: nat where "MAX_ACTOR_LEN = 120"
definition MAX_ERROR_CODE_LEN :: nat where "MAX_ERROR_CODE_LEN = 80"

definition nanos_per_sec :: nat where "nanos_per_sec = 1000000000"

definition MAX_LEASE_TTL :: nat where "MAX_LEASE_TTL = 5 * 60 * nanos_per_sec"

datatype ControlStoreError =
    CsInvalidResource string | CsInvalidRequest | CsNotFound | CsRevisionConflict
  | CsReferenceConflict | CsIdempotencyConflict | CsIdempotencyReplayExpired | CsLeaseLost
  | CsInvalidTransition | CsDatabase

datatype GenerationJobState =
  JobPending | JobLeased | JobRetry | JobPublished | JobPermanentFailure

record GenerationJob =
  gj_id :: uuid
  gj_tenant_id :: uuid
  gj_segment_id :: uuid
  gj_desired_revision :: u64
  gj_policy_only :: bool
  gj_attempt_count :: u32
  gj_lease_owner :: string
  gj_lease_until :: instant

datatype JobFailure = FailRetry string instant | FailPermanent string

record job_row =
  jr_id :: uuid
  jr_tenant_id :: uuid
  jr_segment_id :: uuid
  jr_desired_revision :: u64
  jr_idempotency_hash :: hash32
  jr_activation_mode :: string
  jr_state :: GenerationJobState
  jr_attempt_count :: u32
  jr_lease_owner :: "string option"
  jr_lease_until :: "instant option"
  jr_next_attempt_at :: instant
  jr_published_generation :: "u64 option"
  jr_published_content_hash :: "hash32 option"
  jr_last_error_code :: "string option"
  jr_created_at :: instant

record head_row =
  hr_tenant_id :: uuid
  hr_segment_id :: uuid
  hr_desired_revision :: u64

record job_db =
  jd_heads :: "head_row list"
  jd_jobs :: "job_row list"

definition empty_jobs :: job_db where
  "empty_jobs = \<lparr>jd_heads = [], jd_jobs = []\<rparr>"

subsection \<open>Rows\<close>

definition same_segment :: "uuid \<Rightarrow> uuid \<Rightarrow> job_row \<Rightarrow> bool" where
  "same_segment tenant segment j \<longleftrightarrow> jr_tenant_id j = tenant \<and> jr_segment_id j = segment"

definition terminal :: "job_row \<Rightarrow> bool" where
  "terminal j \<longleftrightarrow> jr_state j = JobPublished \<or> jr_state j = JobPermanentFailure"

definition job_conflict :: "job_row \<Rightarrow> job_row \<Rightarrow> bool" where
  "job_conflict a b \<longleftrightarrow> jr_id a = jr_id b \<or>
     (same_segment (jr_tenant_id a) (jr_segment_id a) b \<and>
      (jr_desired_revision a = jr_desired_revision b \<or>
       jr_idempotency_hash a = jr_idempotency_hash b))"

text \<open>The row an \<open>INSERT\<close> makes: the other columns take their defaults.\<close>

definition new_job_row ::
  "uuid \<Rightarrow> uuid \<Rightarrow> uuid \<Rightarrow> u64 \<Rightarrow> hash32 \<Rightarrow> string \<Rightarrow> instant \<Rightarrow> job_row" where
  "new_job_row i tenant segment desired hash mode clock =
     \<lparr>jr_id = i, jr_tenant_id = tenant, jr_segment_id = segment, jr_desired_revision = desired,
      jr_idempotency_hash = hash, jr_activation_mode = mode, jr_state = JobPending,
      jr_attempt_count = 0, jr_lease_owner = None, jr_lease_until = None,
      jr_next_attempt_at = clock, jr_published_generation = None,
      jr_published_content_hash = None, jr_last_error_code = None, jr_created_at = clock\<rparr>"

definition insert_job :: "job_row \<Rightarrow> job_db \<Rightarrow> ControlStoreError + job_db" where
  "insert_job j d =
     map_err (\<lambda>_. CsDatabase) (bind_res (insert_row job_conflict j (jd_jobs d))
       (\<lambda>jobs. Inr (d\<lparr>jd_jobs := jobs\<rparr>)))"

definition find_head :: "uuid \<Rightarrow> uuid \<Rightarrow> job_db \<Rightarrow> head_row option" where
  "find_head tenant segment d =
     find (\<lambda>h. hr_tenant_id h = tenant \<and> hr_segment_id h = segment) (jd_heads d)"

text \<open>\<open>UPDATE segment_generation_heads SET desired_revision = new WHERE ... = old\<close>\<close>

definition head_at :: "uuid \<Rightarrow> uuid \<Rightarrow> u64 \<Rightarrow> head_row \<Rightarrow> bool" where
  "head_at tenant segment old h \<longleftrightarrow>
     hr_tenant_id h = tenant \<and> hr_segment_id h = segment \<and> hr_desired_revision h = old"

definition move_head :: "uuid \<Rightarrow> uuid \<Rightarrow> u64 \<Rightarrow> u64 \<Rightarrow> job_db \<Rightarrow> job_db" where
  "move_head tenant segment old new d =
     d\<lparr>jd_heads := map (\<lambda>h. if head_at tenant segment old h
                            then h\<lparr>hr_desired_revision := new\<rparr> else h) (jd_heads d)\<rparr>"

definition mode_name :: "bool \<Rightarrow> string" where
  "mode_name policy_only = (if policy_only then ''POLICY_ONLY'' else ''TUNNEL'')"

subsection \<open>Enqueueing a revision\<close>

definition ensure_head :: "uuid \<Rightarrow> uuid \<Rightarrow> job_db \<Rightarrow> job_db" where
  "ensure_head tenant segment d =
     (case find_head tenant segment d of
        Some _ \<Rightarrow> d
      | None \<Rightarrow> d\<lparr>jd_heads := jd_heads d @
          [\<lparr>hr_tenant_id = tenant, hr_segment_id = segment, hr_desired_revision = 0\<rparr>]\<rparr>)"

definition enqueue_generation ::
  "instant \<Rightarrow> uuid \<Rightarrow> uuid \<Rightarrow> uuid \<Rightarrow> hash32 \<Rightarrow> bool \<Rightarrow> job_db \<Rightarrow> ControlStoreError + job_db" where
  "enqueue_generation clock fresh tenant segment idempotency_hash policy_only d0 =
     (let d = ensure_head tenant segment d0 in
      bind_res (ok_or (find_head tenant segment d) CsDatabase) (\<lambda>head.
      let current = hr_desired_revision head in
      if list_ex (\<lambda>j. same_segment tenant segment j \<and> jr_idempotency_hash j = idempotency_hash)
           (jd_jobs d)
      then Inr d
      else bind_res (ok_or (checked_add current 1) CsInvalidTransition) (\<lambda>desired.
             insert_job (new_job_row fresh tenant segment desired idempotency_hash
               (mode_name policy_only) clock) (move_head tenant segment current desired d))))"

subsection \<open>Leases\<close>

definition validate_lease :: "string \<Rightarrow> nat \<Rightarrow> ControlStoreError + unit" where
  "validate_lease owner ttl =
     guard (owner = [] \<or> length owner > MAX_ACTOR_LEN \<or> ttl = 0 \<or> ttl > MAX_LEASE_TTL)
       CsInvalidRequest"

text \<open>\<open>chrono::Duration::from_std\<close>: the largest \<open>chrono\<close> duration is \<open>i64::MAX\<close> milliseconds.\<close>

definition from_std :: "nat \<Rightarrow> int option" where
  "from_std ttl = (if ttl \<le> (2 ^ 63 - 1) * 1000000 then Some (int ttl) else None)"

fun failure_code :: "JobFailure \<Rightarrow> string" where
  "failure_code (FailRetry code _) = code"
| "failure_code (FailPermanent code) = code"

definition code_byte :: "char \<Rightarrow> bool" where
  "code_byte c \<longleftrightarrow> is_ascii_uppercase c \<or> is_ascii_digit c \<or> c = CHR ''_''"

definition failure_validate :: "JobFailure \<Rightarrow> instant \<Rightarrow> ControlStoreError + unit" where
  "failure_validate failure now =
     (let code = failure_code failure in
      guard (code = [] \<or> length code > MAX_ERROR_CODE_LEN \<or> \<not> list_all code_byte code \<or>
        (case failure of FailRetry _ at \<Rightarrow> at \<le> now | FailPermanent _ \<Rightarrow> False))
        CsInvalidRequest)"

subsection \<open>Claiming\<close>

definition due :: "instant \<Rightarrow> job_row \<Rightarrow> bool" where
  "due now j \<longleftrightarrow>
     ((jr_state j = JobPending \<or> jr_state j = JobRetry) \<and> jr_next_attempt_at j \<le> now) \<or>
     (jr_state j = JobLeased \<and> (case jr_lease_until j of None \<Rightarrow> False | Some u \<Rightarrow> u \<le> now))"

definition blocked :: "job_row list \<Rightarrow> job_row \<Rightarrow> bool" where
  "blocked jobs j \<longleftrightarrow> list_ex (\<lambda>e. same_segment (jr_tenant_id j) (jr_segment_id j) e \<and>
     jr_desired_revision e < jr_desired_revision j \<and> \<not> terminal e) jobs"

definition claim_order :: "job_row list \<Rightarrow> job_row list" where
  "claim_order jobs = sort_key jr_next_attempt_at (sort_key jr_created_at (sort_key jr_id jobs))"

definition claimable :: "instant \<Rightarrow> job_row list \<Rightarrow> job_row list" where
  "claimable now jobs = claim_order (filter (\<lambda>j. due now j \<and> \<not> blocked jobs j) jobs)"

text \<open>\<open>UPDATE segment_generation_jobs SET ... WHERE p\<close> and the number of rows it matches.\<close>

definition update_where ::
  "(job_row \<Rightarrow> bool) \<Rightarrow> (job_row \<Rightarrow> job_row) \<Rightarrow> job_db \<Rightarrow> nat \<times> job_db" where
  "update_where p f d = (length (filter p (jd_jobs d)),
     d\<lparr>jd_jobs := map (\<lambda>j. if p j then f j else j) (jd_jobs d)\<rparr>)"

definition update_one ::
  "ControlStoreError \<Rightarrow> (job_row \<Rightarrow> bool) \<Rightarrow> (job_row \<Rightarrow> job_row) \<Rightarrow> job_db \<Rightarrow>
     ControlStoreError + job_db" where
  "update_one e p f d = (case update_where p f d of (n, d') \<Rightarrow> if n \<noteq> 1 then Inl e else Inr d')"

definition parse_mode :: "string \<Rightarrow> ControlStoreError + bool" where
  "parse_mode mode =
     (if mode = ''TUNNEL'' then Inr False
      else if mode = ''POLICY_ONLY'' then Inr True else Inl CsInvalidTransition)"

definition leased_row :: "u32 \<Rightarrow> string \<Rightarrow> instant \<Rightarrow> job_row \<Rightarrow> job_row" where
  "leased_row attempt owner until j =
     j\<lparr>jr_state := JobLeased, jr_attempt_count := attempt, jr_lease_owner := Some owner,
       jr_lease_until := Some until, jr_last_error_code := None\<rparr>"

definition claim_next ::
  "string \<Rightarrow> instant \<Rightarrow> nat \<Rightarrow> job_db \<Rightarrow> ControlStoreError + (GenerationJob option \<times> job_db)" where
  "claim_next owner now ttl d =
     bind_res (validate_lease owner ttl) (\<lambda>_.
     bind_res (ok_or (from_std ttl) CsInvalidRequest) (\<lambda>delta.
     let lease_until = now + delta in
     case claimable now (jd_jobs d) of
       [] \<Rightarrow> Inr (None, d)
     | row # _ \<Rightarrow>
         bind_res (ok_or (checked_add (jr_attempt_count row) 1) CsInvalidTransition) (\<lambda>next_attempt.
         bind_res (update_one CsLeaseLost (\<lambda>j. jr_id j = jr_id row)
           (leased_row next_attempt owner lease_until) d) (\<lambda>d'.
         bind_res (parse_mode (jr_activation_mode row)) (\<lambda>policy_only.
         Inr (Some \<lparr>gj_id = jr_id row, gj_tenant_id = jr_tenant_id row,
                gj_segment_id = jr_segment_id row, gj_desired_revision = jr_desired_revision row,
                gj_policy_only = policy_only, gj_attempt_count = next_attempt,
                gj_lease_owner = owner, gj_lease_until = lease_until\<rparr>, d'))))))"

subsection \<open>Renewing, completing and failing a leased job\<close>

definition holds_lease :: "GenerationJob \<Rightarrow> instant \<Rightarrow> job_row \<Rightarrow> bool" where
  "holds_lease job now j \<longleftrightarrow> jr_id j = gj_id job \<and> jr_state j = JobLeased \<and>
     jr_lease_owner j = Some (gj_lease_owner job) \<and>
     (case jr_lease_until j of None \<Rightarrow> False | Some u \<Rightarrow> u > now)"

definition renew ::
  "GenerationJob \<Rightarrow> instant \<Rightarrow> nat \<Rightarrow> job_db \<Rightarrow> ControlStoreError + (instant \<times> job_db)" where
  "renew job now ttl d =
     bind_res (validate_lease (gj_lease_owner job) ttl) (\<lambda>_.
     bind_res (ok_or (from_std ttl) CsInvalidRequest) (\<lambda>delta.
     bind_res (update_one CsLeaseLost (holds_lease job now)
       (\<lambda>j. j\<lparr>jr_lease_until := Some (now + delta)\<rparr>) d) (\<lambda>d'. Inr (now + delta, d'))))"

definition published_row :: "u64 \<Rightarrow> hash32 \<Rightarrow> job_row \<Rightarrow> job_row" where
  "published_row generation hash j =
     j\<lparr>jr_state := JobPublished, jr_lease_owner := None, jr_lease_until := None,
       jr_published_generation := Some generation, jr_published_content_hash := Some hash,
       jr_last_error_code := None\<rparr>"

definition job_publish ::
  "GenerationJob \<Rightarrow> instant \<Rightarrow> u64 \<Rightarrow> hash32 \<Rightarrow> job_db \<Rightarrow> ControlStoreError + job_db" where
  "job_publish job now generation content_hash d =
     bind_res (guard (generation = 0 \<or> content_hash = zero_hash) CsInvalidRequest) (\<lambda>_.
     update_one CsLeaseLost (holds_lease job now) (published_row generation content_hash) d)"

definition released_row :: "GenerationJobState \<Rightarrow> instant \<Rightarrow> string \<Rightarrow> job_row \<Rightarrow> job_row" where
  "released_row state at code j =
     j\<lparr>jr_state := state, jr_lease_owner := None, jr_lease_until := None,
       jr_next_attempt_at := at, jr_last_error_code := Some code\<rparr>"

definition job_fail ::
  "GenerationJob \<Rightarrow> instant \<Rightarrow> JobFailure \<Rightarrow> job_db \<Rightarrow> ControlStoreError + job_db" where
  "job_fail job now failure d =
     bind_res (failure_validate failure now) (\<lambda>_.
     update_one CsLeaseLost (holds_lease job now)
       (case failure of
          FailRetry code at \<Rightarrow> released_row JobRetry at code
        | FailPermanent code \<Rightarrow> released_row JobPermanentFailure now code) d)"

subsection \<open>The renewal scan\<close>

definition open_job :: "job_row \<Rightarrow> bool" where
  "open_job j \<longleftrightarrow> jr_state j = JobPending \<or> jr_state j = JobLeased \<or> jr_state j = JobRetry"

text \<open>The job part of \<open>retire_deleted_segment\<close>: what is still open is given up.\<close>

definition retired_row :: "job_row \<Rightarrow> job_row" where
  "retired_row j = j\<lparr>jr_state := JobPermanentFailure, jr_lease_owner := None, jr_lease_until := None,
     jr_published_generation := None, jr_published_content_hash := None,
     jr_last_error_code := Some ''SEGMENT_DELETED''\<rparr>"

definition retire_jobs :: "uuid \<Rightarrow> uuid \<Rightarrow> job_db \<Rightarrow> job_db" where
  "retire_jobs tenant segment d =
     d\<lparr>jd_jobs := map (\<lambda>j. if same_segment tenant segment j \<and> open_job j then retired_row j else j)
       (jd_jobs d)\<rparr>"

definition applied_revision :: "uuid \<Rightarrow> uuid \<Rightarrow> job_db \<Rightarrow> u64" where
  "applied_revision tenant segment d =
     fold max (map jr_desired_revision (filter (\<lambda>j. same_segment tenant segment j \<and>
       jr_state j = JobPublished) (jd_jobs d))) 0"

definition transport_change_pending :: "uuid \<Rightarrow> uuid \<Rightarrow> job_db \<Rightarrow> bool" where
  "transport_change_pending tenant segment d =
     list_ex (\<lambda>j. same_segment tenant segment j \<and> jr_activation_mode j = ''TUNNEL'' \<and>
       jr_desired_revision j > applied_revision tenant segment d) (jd_jobs d)"

record refresh_row =
  rfr_tenant_id :: uuid
  rfr_segment_id :: uuid
  rfr_desired_revision :: u64
  rfr_transport_change_pending :: bool
  rfr_expires_at :: u64

definition expiring_rows :: "u64 \<Rightarrow> route_db \<Rightarrow> job_db \<Rightarrow> refresh_row list" where
  "expiring_rows threshold r d =
     [\<lparr>rfr_tenant_id = sgr_tenant_id seg, rfr_segment_id = sgr_id seg,
       rfr_desired_revision = hr_desired_revision head,
       rfr_transport_change_pending =
         transport_change_pending (sgr_tenant_id seg) (sgr_id seg) d,
       rfr_expires_at = pbr_expires_at publication\<rparr>.
       seg \<leftarrow> db_segments r, sgr_active seg \<and> sgr_current_generation seg > 0,
       head \<leftarrow> jd_heads d,
       hr_tenant_id head = sgr_tenant_id seg \<and> hr_segment_id head = sgr_id seg,
       publication \<leftarrow> db_publications r,
       pbr_tenant_id publication = sgr_tenant_id seg \<and> pbr_segment_id publication = sgr_id seg \<and>
       pbr_generation publication = sgr_current_generation seg \<and>
       pbr_expires_at publication \<le> threshold \<and>
       \<not> list_ex (\<lambda>j. same_segment (sgr_tenant_id seg) (sgr_id seg) j \<and> open_job j) (jd_jobs d)]"

definition expiring_order :: "refresh_row list \<Rightarrow> refresh_row list" where
  "expiring_order rows =
     sort_key rfr_expires_at (sort_key rfr_tenant_id (sort_key rfr_segment_id rows))"

definition refresh_domain :: "u8 list" where
  "refresh_domain = str_bytes ''candy/cloud-route-refresh-v1'' @ [0]"

definition refresh_hash :: "(u8 list \<Rightarrow> u8 list) \<Rightarrow> uuid \<Rightarrow> uuid \<Rightarrow> u64 \<Rightarrow> hash32" where
  "refresh_hash sha tenant segment desired =
     sha (refresh_domain @ uuid_bytes tenant @ uuid_bytes segment @ be_bytes_u64 desired)"

definition refresh_one ::
  "(u8 list \<Rightarrow> u8 list) \<Rightarrow> instant \<Rightarrow> (nat \<Rightarrow> uuid) \<Rightarrow> u16 \<times> job_db \<Rightarrow> nat \<times> refresh_row \<Rightarrow>
     ControlStoreError + (u16 \<times> job_db)" where
  "refresh_one sha clock fresh = (\<lambda>(refreshed, d) (index, row).
     let tenant = rfr_tenant_id row; segment = rfr_segment_id row;
         current = rfr_desired_revision row in
     bind_res (ok_or (checked_add current 1) CsInvalidTransition) (\<lambda>desired.
     bind_res (insert_job (new_job_row (fresh index) tenant segment desired
         (refresh_hash sha tenant segment desired)
         (mode_name (\<not> rfr_transport_change_pending row)) clock)
       (move_head tenant segment current desired d)) (\<lambda>d'.
     Inr (if refreshed = 0xFFFF then refreshed else refreshed + 1, d'))))"

definition unix_seconds :: "instant \<Rightarrow> u64" where
  "unix_seconds t = word_of_int (max (t div int nanos_per_sec) 0)"

definition refresh_expiring ::
  "(u8 list \<Rightarrow> u8 list) \<Rightarrow> instant \<Rightarrow> (nat \<Rightarrow> uuid) \<Rightarrow> instant \<Rightarrow> nat \<Rightarrow> u16 \<Rightarrow> route_db \<Rightarrow>
     job_db \<Rightarrow> ControlStoreError + (u16 \<times> job_db)" where
  "refresh_expiring sha clock fresh now refresh_before limit r d =
     bind_res (guard (refresh_before = 0 \<or> limit = 0 \<or> limit > 128) CsInvalidRequest) (\<lambda>_.
     bind_res (ok_or (from_std refresh_before) CsInvalidRequest) (\<lambda>delta.
     let threshold_unix = unix_seconds (now + delta);
         rows = take (unat limit) (expiring_order (expiring_rows threshold_unix r d)) in
     fold_res (refresh_one sha clock fresh) (0, d) (enumerate 0 rows)))"

subsection \<open>The recovery scan\<close>

definition recoverable_route_error :: "string \<Rightarrow> bool" where
  "recoverable_route_error code \<longleftrightarrow>
     starts_with ''ROUTE_INPUT_'' code \<or>
     code = ''ROUTE_DB_PRINCIPAL_MISMATCH'' \<or> code = ''ROUTE_DB_SCOPE_MISMATCH'' \<or>
     starts_with
       ''ROUTE_BUILD_CORE_MODULE_ROUTE_OPERATION_FAILED_CORE_PREPARE_FAILED_WITH_ABI_STAT'' code"

text \<open>
  The rows of the scan: the job of the head revision of every segment that the management
  tables (\<open>control\<close>, the active segments as \<open>(tenant, segment)\<close>) know as active.
\<close>

definition head_jobs :: "(uuid \<times> uuid) list \<Rightarrow> job_db \<Rightarrow> job_row list" where
  "head_jobs control d =
     concat (map (\<lambda>h. filter (\<lambda>j. same_segment (hr_tenant_id h) (hr_segment_id h) j \<and>
         jr_desired_revision j = hr_desired_revision h \<and>
         (jr_tenant_id j, jr_segment_id j) \<in> set control) (jd_jobs d)) (jd_heads d))"

definition reconciliation_domain :: "u8 list" where
  "reconciliation_domain = str_bytes ''candy/route-reconciliation/v1'' @ [0]"

definition opt_bytes :: "('a \<Rightarrow> u8 list) \<Rightarrow> 'a option \<Rightarrow> u8 list" where
  "opt_bytes f x = (case x of None \<Rightarrow> [] | Some v \<Rightarrow> f v)"

definition reconciliation_hash ::
  "(u8 list \<Rightarrow> u8 list) \<Rightarrow> uuid \<Rightarrow> uuid \<Rightarrow> u64 \<Rightarrow> u64 option \<Rightarrow> hash32 option \<Rightarrow> hash32" where
  "reconciliation_hash sha tenant segment revision generation hash =
     sha (reconciliation_domain @ uuid_bytes tenant @ uuid_bytes segment @ be_bytes_u64 revision @
       opt_bytes be_bytes_u64 generation @ opt_bytes (\<lambda>h. h) hash)"

definition recovered_row :: "instant \<Rightarrow> job_row \<Rightarrow> job_row" where
  "recovered_row clock = released_row JobRetry clock ''ROUTE_RETRY_AFTER_RUNTIME_UPGRADE''"

definition recover_one ::
  "(u8 list \<Rightarrow> u8 list) \<Rightarrow> instant \<Rightarrow> (nat \<Rightarrow> uuid) \<Rightarrow> route_db \<Rightarrow> nat \<times> job_db \<Rightarrow>
     nat \<times> job_row \<Rightarrow> ControlStoreError + (nat \<times> job_db)" where
  "recover_one sha clock fresh r = (\<lambda>(recovered, d) (index, row).
     let tenant = jr_tenant_id row; segment = jr_segment_id row;
         published = find_segment tenant segment r;
         current_generation = map_option sgr_current_generation published;
         current_hash = map_option sgr_current_content_hash published in
     if jr_state row = JobPermanentFailure \<and>
        (case jr_last_error_code row of None \<Rightarrow> False | Some c \<Rightarrow> recoverable_route_error c)
     then (case update_where (\<lambda>j. jr_id j = jr_id row \<and> jr_state j = JobPermanentFailure)
             (recovered_row clock) d of (n, d') \<Rightarrow> Inr (recovered + n, d'))
     else if jr_state row \<noteq> JobPublished then Inr (recovered, d)
     else if jr_published_generation row = current_generation \<and>
        jr_published_content_hash row = current_hash then Inr (recovered, d)
     else bind_res (ok_or (checked_add (jr_desired_revision row) 1) CsInvalidTransition)
       (\<lambda>revision.
       bind_res (guard (length (filter (head_at tenant segment (jr_desired_revision row))
         (jd_heads d)) \<noteq> 1) CsInvalidTransition) (\<lambda>_.
       bind_res (insert_job (new_job_row (fresh index) tenant segment revision
           (reconciliation_hash sha tenant segment revision current_generation current_hash)
           ''TUNNEL'' clock) (move_head tenant segment (jr_desired_revision row) revision d))
         (\<lambda>d'. Inr (recovered + 1, d')))))"

definition recover_route_input_head_failures ::
  "(u8 list \<Rightarrow> u8 list) \<Rightarrow> instant \<Rightarrow> (nat \<Rightarrow> uuid) \<Rightarrow> (uuid \<times> uuid) list \<Rightarrow> route_db \<Rightarrow>
     job_db \<Rightarrow> ControlStoreError + (nat \<times> job_db)" where
  "recover_route_input_head_failures sha clock fresh control r d =
     fold_res (recover_one sha clock fresh r) (0, d) (enumerate 0 (head_jobs control d))"

subsection \<open>When a change needs a publication\<close>

definition policy_only_activation :: "ResourceKind \<Rightarrow> bool" where
  "policy_only_activation kind \<longleftrightarrow> kind \<in> {KServicePolicy, KPrefix, KEgress}"

definition mutation_requires_publication ::
  "ControlResourceV1 option \<Rightarrow> ControlResourceV1 \<Rightarrow> bool" where
  "mutation_requires_publication previous current =
     (case previous of None \<Rightarrow> True
      | Some p \<Rightarrow>
          if md_state (cr_metadata p) \<noteq> md_state (cr_metadata current) then True
          else (case (cr_resource p, cr_resource current) of
                  (ServicePolicy a, ServicePolicy b) \<Rightarrow>
                    sp_segment_id a \<noteq> sp_segment_id b \<or> sp_generation a \<noteq> sp_generation b \<or>
                    sp_enabled a \<noteq> sp_enabled b \<or> sp_rules a \<noteq> sp_rules b
                | _ \<Rightarrow> True))"

definition job_publication_matches ::
  "(u64 \<times> u8 list) option \<Rightarrow> (u64 \<times> u8 list) option \<Rightarrow> bool" where
  "job_publication_matches published published_job =
     (case (published, published_job) of
        (Some (generation, hash), Some (job_generation, job_hash)) \<Rightarrow>
          generation > 0 \<and> generation = job_generation \<and> length hash = 32 \<and> hash = job_hash
      | _ \<Rightarrow> False)"

end
