(* ===== verification/Control_Store.thy ===== *)
theory Control_Store
  imports Generation_Jobs
begin

section \<open>The management store (\<open>ControlRepository\<close> of \<open>crates/cloud-db/src/control.rs\<close>)\<close>

text \<open>
  The tables behind the management API - resources, their references, the idempotency records
  - and the operations on them: reading, paging, and \<open>mutate\<close>, the one transaction that
  creates, updates and deletes resources, checks them against each other and enqueues the
  publication of every segment they affect. A JSON column holds the document it was written
  from, and reading it back validates it again (\<open>decode_resource\<close>). A \<open>HashSet\<close> that is only
  iterated is the list of its elements without repetition. A transaction that fails is rolled
  back. What \<open>serde_json\<close> does with documents is the parameter \<open>store_ext\<close>: whether a
  resource can be serialised, and the members of its \<open>spec\<close> object.
\<close>

subsection \<open>Data\<close>

definition MAX_IDEMPOTENCY_KEY_LEN :: nat where "MAX_IDEMPOTENCY_KEY_LEN = 160"
definition MAX_REQUEST_PATH_LEN :: nat where "MAX_REQUEST_PATH_LEN = 500"
definition MAX_PAGE_SIZE :: u16 where "MAX_PAGE_SIZE = 200"

record MutationContext =
  mc_actor_id :: string
  mc_idempotency_key :: string
  mc_request_method :: string
  mc_request_path :: string
  mc_request_hash :: hash32
  mc_idempotency_replay_until :: instant

definition context_validate :: "MutationContext \<Rightarrow> instant \<Rightarrow> ControlStoreError + unit" where
  "context_validate c now =
     guard (mc_actor_id c = [] \<or> length (mc_actor_id c) > MAX_ACTOR_LEN \<or>
       mc_idempotency_key c = [] \<or> length (mc_idempotency_key c) > MAX_IDEMPOTENCY_KEY_LEN \<or>
       mc_request_method c = [] \<or> length (mc_request_method c) > 12 \<or>
       mc_request_path c = [] \<or> length (mc_request_path c) > MAX_REQUEST_PATH_LEN \<or>
       mc_request_hash c = zero_hash \<or> mc_idempotency_replay_until c \<le> now) CsInvalidRequest"

record ResourceMutation =
  rm_context :: MutationContext
  rm_resource :: ControlResourceV1
  rm_expected_revision :: "u64 option"

datatype MutationOutcome = Applied ControlResourceV1 | MutReplayed ControlResourceV1

record ResourcePageRequest =
  pq_limit :: u16
  pq_after_id :: "uuid option"

record ResourcePage =
  pg_items :: "ControlResourceV1 list"
  pg_next_cursor :: "uuid option"

definition page_request_new :: "u16 \<Rightarrow> uuid option \<Rightarrow> ControlStoreError + ResourcePageRequest" where
  "page_request_new limit after_id =
     (if limit = 0 \<or> limit > MAX_PAGE_SIZE \<or> (case after_id of None \<Rightarrow> False | Some i \<Rightarrow> is_nil i)
      then Inl CsInvalidRequest else Inr \<lparr>pq_limit = limit, pq_after_id = after_id\<rparr>)"

type_synonym resource_key = "ResourceKind \<times> uuid"

record resource_row =
  crr_tenant_id :: uuid
  crr_kind :: ResourceKind
  crr_id :: uuid
  crr_revision :: u64
  crr_state :: ResourceState
  crr_segment_id :: "uuid option"
  crr_document_hash :: hash32
  crr_document :: ControlResourceV1
  crr_created_by :: string
  crr_updated_by :: string

record reference_row =
  rfr_tenant_id :: uuid
  rfr_source :: resource_key
  rfr_target :: resource_key

record idempotency_row =
  idr_tenant_id :: uuid
  idr_actor_id :: string
  idr_idempotency_key :: string
  idr_request_method :: string
  idr_request_path :: string
  idr_request_hash :: hash32
  idr_resource_kind :: ResourceKind
  idr_resource_id :: uuid
  idr_resource_revision :: u64
  idr_response_document :: ControlResourceV1
  idr_replay_until :: instant

record control_db =
  cd_resources :: "resource_row list"
  cd_references :: "reference_row list"
  cd_idempotency :: "idempotency_row list"
  cd_jobs :: job_db
  cd_routes :: route_db

record store_ext =
  se_control :: control_ext
  se_serializable :: "ControlResourceV1 \<Rightarrow> bool"
  se_spec_fields :: "ResourceSpecV1 \<Rightarrow> (string \<times> json) list option"

subsection \<open>Reading\<close>

definition validate_scope :: "uuid \<Rightarrow> uuid \<Rightarrow> ControlStoreError + unit" where
  "validate_scope tenant i = guard (is_nil tenant \<or> is_nil i) CsInvalidRequest"

text \<open>The message of a contract error (\<open>error.to_string()\<close>) is dropped.\<close>

definition decode_resource :: "store_ext \<Rightarrow> ControlResourceV1 \<Rightarrow> ControlStoreError + ControlResourceV1" where
  "decode_resource ext r =
     bind_res (map_err (\<lambda>_. CsInvalidResource []) (validate_resource (se_control ext) r)) (\<lambda>_. Inr r)"

definition row_is :: "uuid \<Rightarrow> ResourceKind \<Rightarrow> uuid \<Rightarrow> resource_row \<Rightarrow> bool" where
  "row_is tenant kind i r \<longleftrightarrow> crr_tenant_id r = tenant \<and> crr_kind r = kind \<and> crr_id r = i"

definition not_deleted :: "resource_row \<Rightarrow> bool" where
  "not_deleted r \<longleftrightarrow> crr_state r \<noteq> Deleted"

definition get_resource ::
  "store_ext \<Rightarrow> uuid \<Rightarrow> ResourceKind \<Rightarrow> uuid \<Rightarrow> control_db \<Rightarrow> ControlStoreError + ControlResourceV1" where
  "get_resource ext tenant kind i d =
     bind_res (validate_scope tenant i) (\<lambda>_.
     bind_res (ok_or (find (\<lambda>r. row_is tenant kind i r \<and> not_deleted r) (cd_resources d)) CsNotFound)
       (\<lambda>r. decode_resource ext (crr_document r)))"

definition listed_rows :: "uuid \<Rightarrow> ResourceKind \<Rightarrow> uuid option \<Rightarrow> control_db \<Rightarrow> resource_row list" where
  "listed_rows tenant kind after d =
     sort_key crr_id (filter (\<lambda>r. crr_tenant_id r = tenant \<and> crr_kind r = kind \<and> not_deleted r \<and>
       (case after of None \<Rightarrow> True | Some i \<Rightarrow> crr_id r > i)) (cd_resources d))"

definition list_resources ::
  "store_ext \<Rightarrow> uuid \<Rightarrow> ResourceKind \<Rightarrow> ResourcePageRequest \<Rightarrow> control_db \<Rightarrow>
     ControlStoreError + ResourcePage" where
  "list_resources ext tenant kind page d =
     (if is_nil tenant then Inl CsInvalidRequest
      else
        let limit = unat (pq_limit page);
            rows = take (limit + 1) (listed_rows tenant kind (pq_after_id page) d) in
        bind_res (map_res (\<lambda>r. decode_resource ext (crr_document r)) rows) (\<lambda>items.
        if length items > limit
        then let items = take limit items in
             Inr \<lparr>pg_items = items,
                  pg_next_cursor = (if items = [] then None else Some (md_id (cr_metadata (last items))))\<rparr>
        else Inr \<lparr>pg_items = items, pg_next_cursor = None\<rparr>))"

text \<open>\<open>ORDER BY source.resource_kind\<close>: the position in the \<open>ENUM\<close> of the column.\<close>

fun kind_index :: "ResourceKind \<Rightarrow> nat" where
  "kind_index KNode = 1"
| "kind_index KSite = 2"
| "kind_index KSegment = 3"
| "kind_index KAttachment = 4"
| "kind_index KPrefix = 5"
| "kind_index KPeer = 6"
| "kind_index KRelay = 7"
| "kind_index KPathCandidate = 8"
| "kind_index KEgress = 9"
| "kind_index KServicePolicy = 10"
| "kind_index KDnsIntent = 11"

definition referrers :: "uuid \<Rightarrow> resource_key \<Rightarrow> control_db \<Rightarrow> resource_row list" where
  "referrers tenant target d =
     concat (map (\<lambda>f. filter (\<lambda>r. row_is tenant (fst (rfr_source f)) (snd (rfr_source f)) r \<and>
         not_deleted r) (cd_resources d))
       (filter (\<lambda>f. rfr_tenant_id f = tenant \<and> rfr_target f = target) (cd_references d)))"

definition references_to ::
  "store_ext \<Rightarrow> uuid \<Rightarrow> ResourceKind \<Rightarrow> uuid \<Rightarrow> control_db \<Rightarrow>
     ControlStoreError + ControlResourceV1 list" where
  "references_to ext tenant kind i d =
     bind_res (validate_scope tenant i) (\<lambda>_.
     bind_res (guard (\<not> list_ex (\<lambda>r. row_is tenant kind i r \<and> not_deleted r) (cd_resources d)) CsNotFound)
       (\<lambda>_. map_res (\<lambda>r. decode_resource ext (crr_document r))
          (sort_key (\<lambda>r. kind_index (crr_kind r)) (sort_key crr_id (referrers tenant (kind, i) d)))))"

subsection \<open>References\<close>

definition affected_segment_id :: "ControlResourceV1 \<Rightarrow> uuid option" where
  "affected_segment_id r =
     (case cr_resource r of Segment _ \<Rightarrow> Some (md_id (cr_metadata r)) | other \<Rightarrow> spec_segment_id other)"

definition rule_references :: "ServicePolicyRuleV1 \<Rightarrow> resource_key list" where
  "rule_references rule = map (Pair KSite) (rule_source_site_ids rule) @
     (case rule_action rule of RemoteEgress e \<Rightarrow> [(KEgress, e)] | LocalEgress \<Rightarrow> [])"

fun spec_references :: "ResourceSpecV1 \<Rightarrow> resource_key list" where
  "spec_references (Node v) = [(KSite, nd_site_id v)]"
| "spec_references (Site _) = []"
| "spec_references (Segment _) = []"
| "spec_references (Attachment v) =
     [(KSegment, at_segment_id v), (KSite, at_site_id v), (KNode, at_node_id v)]"
| "spec_references (Prefix v) = [(KSegment, px_segment_id v), (KSite, px_site_id v)]"
| "spec_references (Peer v) =
     [(KSegment, pe_segment_id v), (KSite, pe_site_a_id v), (KSite, pe_site_b_id v)]"
| "spec_references (Relay v) = [(KNode, rl_service_node_id v)]"
| "spec_references (PathCandidate v) =
     [(KSegment, pc_segment_id v), (KPeer, pc_peer_id v), (KAttachment, pc_source_attachment_id v),
      (KAttachment, pc_destination_attachment_id v), (KNode, pc_transport_node_id v)] @
     (case pc_relay_id v of None \<Rightarrow> [] | Some i \<Rightarrow> [(KRelay, i)])"
| "spec_references (Egress v) = [(KSite, eg_site_id v), (KAttachment, eg_attachment_id v)]"
| "spec_references (ServicePolicy v) =
     (KSegment, sp_segment_id v) # concat (map rule_references (sp_rules v))"
| "spec_references (DnsIntent v) =
     (KSegment, di_segment_id v) #
     (case di_site_id v of None \<Rightarrow> [] | Some s \<Rightarrow> [(KSite, s)]) @
     map (Pair KSite) (di_site_ids v) @
     map (Pair KPrefix) (List.map_filter dr_required_prefix_id (di_records v))"

definition resource_references :: "ControlResourceV1 \<Rightarrow> resource_key list" where
  "resource_references r = remdups (spec_references (cr_resource r))"

definition resource_key_of :: "ControlResourceV1 \<Rightarrow> resource_key" where
  "resource_key_of r = (spec_kind (cr_resource r), md_id (cr_metadata r))"

definition replace_resource_references :: "ControlResourceV1 \<Rightarrow> control_db \<Rightarrow> control_db" where
  "replace_resource_references r d =
     (let tenant = md_tenant_id (cr_metadata r);
          kept = filter (\<lambda>f. \<not> (rfr_tenant_id f = tenant \<and> rfr_source f = resource_key_of r))
            (cd_references d) in
      if md_state (cr_metadata r) = Deleted then d\<lparr>cd_references := kept\<rparr>
      else d\<lparr>cd_references := kept @ map (\<lambda>target. \<lparr>rfr_tenant_id = tenant,
             rfr_source = resource_key_of r, rfr_target = target\<rparr>) (resource_references r)\<rparr>)"

text \<open>
  The recursive queries (\<open>WITH RECURSIVE ... UNION DISTINCT\<close>): rounds that add what one edge
  reaches from the rows found so far, until a round adds nothing.
\<close>

function closure :: "('a \<times> 'a) list \<Rightarrow> 'a list \<Rightarrow> 'a list" where
  "closure edges seen =
     (let new = remdups (filter (\<lambda>b. b \<notin> set seen)
        (map snd (filter (\<lambda>(a, b). a \<in> set seen) edges)))
      in if new = [] then seen else closure edges (seen @ new))"
  by pat_completeness auto
termination
proof (relation "measure (\<lambda>(edges, seen). card (snd ` set edges - set seen))", goal_cases)
  case (2 edges seen new)
  from 2(2) obtain b where b: "b \<in> set new" using last_in_set by blast
  then have "b \<in> snd ` set edges - set seen" unfolding 2(1) by force
  moreover have "b \<notin> snd ` set edges - set (seen @ new)" using b by simp
  ultimately have "snd ` set edges - set (seen @ new) \<subset> snd ` set edges - set seen" by auto
  then show ?case by (simp add: psubset_card_mono)
qed simp

declare closure.simps [simp del]

definition dependent_segments :: "uuid \<Rightarrow> resource_key \<Rightarrow> control_db \<Rightarrow> uuid list" where
  "dependent_segments tenant key d =
     (let edges = map (\<lambda>f. (rfr_target f, rfr_source f))
        (filter (\<lambda>f. rfr_tenant_id f = tenant) (cd_references d))
      in remdups (List.map_filter crr_segment_id (concat (map (\<lambda>k.
           filter (\<lambda>r. row_is tenant (fst k) (snd k) r \<and> not_deleted r) (cd_resources d))
           (closure edges [key])))))"

subsection \<open>Checks against other resources\<close>

definition load_control_resource ::
  "store_ext \<Rightarrow> uuid \<Rightarrow> ResourceKind \<Rightarrow> uuid \<Rightarrow> control_db \<Rightarrow> ControlStoreError + ControlResourceV1" where
  "load_control_resource ext tenant kind i d =
     bind_res (ok_or (find (\<lambda>r. row_is tenant kind i r \<and> crr_state r = Active) (cd_resources d))
       CsReferenceConflict) (\<lambda>r. decode_resource ext (crr_document r))"

definition site_attached_to_segment :: "uuid \<Rightarrow> uuid \<Rightarrow> uuid \<Rightarrow> control_db \<Rightarrow> bool" where
  "site_attached_to_segment tenant segment site d =
     list_ex (\<lambda>r. crr_tenant_id r = tenant \<and> crr_kind r = KAttachment \<and> crr_state r = Active \<and>
       crr_segment_id r = Some segment \<and>
       (case cr_resource (crr_document r) of Attachment v \<Rightarrow> at_site_id v = site | _ \<Rightarrow> False))
       (cd_resources d)"

definition require_attached ::
  "uuid \<Rightarrow> uuid \<Rightarrow> uuid list \<Rightarrow> control_db \<Rightarrow> ControlStoreError + unit" where
  "require_attached tenant segment sites d =
     for_each (\<lambda>site. guard (\<not> site_attached_to_segment tenant segment site d) CsReferenceConflict) sites"

definition valid_overlay_host :: "Ipv4PrefixV1 \<Rightarrow> ipv4 \<Rightarrow> bool" where
  "valid_overlay_host p address =
     (if prefix_len p = 0 \<or> prefix_len p > 32 then False
      else let msk = shl_u32 (- 1) (32 - prefix_len p) in
        if address AND msk \<noteq> network p then False
        else if prefix_len p \<le> 30 then address \<noteq> network p \<and> address \<noteq> network p OR NOT msk
        else True)"

text \<open>The other resources of a kind in a segment, as the checks read them.\<close>

definition segment_rows :: "uuid \<Rightarrow> ResourceKind \<Rightarrow> uuid \<Rightarrow> uuid \<Rightarrow> control_db \<Rightarrow> resource_row list" where
  "segment_rows tenant kind i segment d =
     filter (\<lambda>r. crr_tenant_id r = tenant \<and> crr_kind r = kind \<and> crr_id r \<noteq> i \<and> not_deleted r \<and>
       crr_segment_id r = Some segment) (cd_resources d)"

definition check_document ::
  "store_ext \<Rightarrow> (ResourceSpecV1 \<Rightarrow> bool) \<Rightarrow> resource_row \<Rightarrow> ControlStoreError + unit" where
  "check_document ext bad r =
     bind_res (decode_resource ext (crr_document r))
       (\<lambda>other. guard (bad (cr_resource other)) CsReferenceConflict)"

definition overlay_bad :: "Ipv4PrefixV1 \<Rightarrow> ResourceSpecV1 \<Rightarrow> bool" where
  "overlay_bad overlay spec =
     (case spec of
        Attachment a \<Rightarrow> \<not> valid_overlay_host overlay (at_overlay_router_ipv4 a)
      | Prefix p \<Rightarrow> prefix_overlaps overlay (px_prefix p)
      | _ \<Rightarrow> False)"

definition validate_segment_overlay ::
  "store_ext \<Rightarrow> uuid \<Rightarrow> uuid \<Rightarrow> Ipv4PrefixV1 \<Rightarrow> control_db \<Rightarrow> ControlStoreError + unit" where
  "validate_segment_overlay ext tenant segment overlay d =
     for_each (check_document ext (overlay_bad overlay))
       (filter (\<lambda>r. crr_tenant_id r = tenant \<and> crr_segment_id r = Some segment \<and>
          crr_kind r \<in> {KAttachment, KPrefix} \<and> not_deleted r) (cd_resources d))"

definition validate_path_candidate_references ::
  "store_ext \<Rightarrow> uuid \<Rightarrow> PathCandidateV1 \<Rightarrow> control_db \<Rightarrow> ControlStoreError + unit" where
  "validate_path_candidate_references ext tenant c d =
     bind_res (load_control_resource ext tenant KPeer (pc_peer_id c) d) (\<lambda>peer.
     bind_res (load_control_resource ext tenant KAttachment (pc_source_attachment_id c) d) (\<lambda>source.
     bind_res (load_control_resource ext tenant KAttachment (pc_destination_attachment_id c) d)
       (\<lambda>destination.
     case (cr_resource peer, cr_resource source, cr_resource destination) of
       (Peer p, Attachment s, Attachment t) \<Rightarrow>
         let sites_match = (at_site_id s = pe_site_a_id p \<and> at_site_id t = pe_site_b_id p) \<or>
               (at_site_id s = pe_site_b_id p \<and> at_site_id t = pe_site_a_id p);
             policy_matches = (case pe_path_policy p of
                 DirectOnly \<Rightarrow> pc_kind c = Direct
               | DirectPreferred \<Rightarrow> True
               | RelayRequired \<Rightarrow> pc_kind c = Relayed);
             direct_transport_is_endpoint = (pc_kind c \<noteq> Direct \<or>
               pc_transport_node_id c = at_node_id s \<or> pc_transport_node_id c = at_node_id t) in
         guard (pe_segment_id p \<noteq> pc_segment_id c \<or> at_segment_id s \<noteq> pc_segment_id c \<or>
           at_segment_id t \<noteq> pc_segment_id c \<or> \<not> sites_match \<or> \<not> policy_matches \<or>
           \<not> direct_transport_is_endpoint) CsReferenceConflict
     | _ \<Rightarrow> Inl CsReferenceConflict)))"

text \<open>The arm of each kind.\<close>

definition check_node :: "uuid \<Rightarrow> uuid \<Rightarrow> NodeV1 \<Rightarrow> control_db \<Rightarrow> ControlStoreError + unit" where
  "check_node tenant i v d = first_err
     [guard (\<not> ((tenant, nd_device_id v) \<in> set (tt_active_devices (db_topology (cd_routes d))) \<and>
         (tenant, nd_device_id v, nd_device_key_id v) \<in>
           set (tt_active_keys (db_topology (cd_routes d))))) CsReferenceConflict,
      guard (list_ex (\<lambda>r. crr_tenant_id r = tenant \<and> crr_kind r = KNode \<and> crr_id r \<noteq> i \<and>
         not_deleted r \<and> (case cr_resource (crr_document r) of
           Node n \<Rightarrow> nd_device_id n = nd_device_id v | _ \<Rightarrow> False)) (cd_resources d)) CsReferenceConflict]"

definition check_attachment ::
  "store_ext \<Rightarrow> uuid \<Rightarrow> uuid \<Rightarrow> AttachmentV1 \<Rightarrow> control_db \<Rightarrow> ControlStoreError + unit" where
  "check_attachment ext tenant i v d =
     bind_res (load_control_resource ext tenant KNode (at_node_id v) d) (\<lambda>node.
     bind_res (load_control_resource ext tenant KSegment (at_segment_id v) d) (\<lambda>segment.
     case (cr_resource node, cr_resource segment) of
       (Node n, Segment s) \<Rightarrow> first_err
         [guard (nd_site_id n \<noteq> at_site_id v \<or>
            \<not> valid_overlay_host (sg_overlay_prefix s) (at_overlay_router_ipv4 v)) CsReferenceConflict,
          guard (list_ex (\<lambda>r. crr_tenant_id r = tenant \<and> crr_kind r = KAttachment \<and> crr_id r \<noteq> i \<and>
            not_deleted r \<and> (case cr_resource (crr_document r) of
              Attachment a \<Rightarrow> at_segment_id a = at_segment_id v \<and>
                at_overlay_router_ipv4 a = at_overlay_router_ipv4 v
            | _ \<Rightarrow> False)) (cd_resources d)) CsReferenceConflict]
     | _ \<Rightarrow> Inl CsReferenceConflict))"

definition check_prefix ::
  "store_ext \<Rightarrow> uuid \<Rightarrow> uuid \<Rightarrow> PrefixV1 \<Rightarrow> control_db \<Rightarrow> ControlStoreError + unit" where
  "check_prefix ext tenant i v d =
     bind_res (require_attached tenant (px_segment_id v) [px_site_id v] d) (\<lambda>_.
     bind_res (load_control_resource ext tenant KSegment (px_segment_id v) d) (\<lambda>segment.
     case cr_resource segment of
       Segment s \<Rightarrow>
         bind_res (guard (prefix_overlaps (px_prefix v) (sg_overlay_prefix s)) CsReferenceConflict) (\<lambda>_.
         for_each (check_document ext (\<lambda>other. case other of
             Prefix p \<Rightarrow> prefix_overlaps (px_prefix v) (px_prefix p) | _ \<Rightarrow> False))
           (segment_rows tenant KPrefix i (px_segment_id v) d))
     | _ \<Rightarrow> Inl CsReferenceConflict))"

definition check_peer ::
  "store_ext \<Rightarrow> uuid \<Rightarrow> uuid \<Rightarrow> PeerV1 \<Rightarrow> control_db \<Rightarrow> ControlStoreError + unit" where
  "check_peer ext tenant i v d =
     bind_res (require_attached tenant (pe_segment_id v) [pe_site_a_id v, pe_site_b_id v] d) (\<lambda>_.
     for_each (check_document ext (\<lambda>other. case other of
         Peer p \<Rightarrow> pe_site_a_id p = pe_site_a_id v \<and> pe_site_b_id p = pe_site_b_id v | _ \<Rightarrow> False))
       (segment_rows tenant KPeer i (pe_segment_id v) d))"

definition check_egress ::
  "store_ext \<Rightarrow> uuid \<Rightarrow> EgressV1 \<Rightarrow> control_db \<Rightarrow> ControlStoreError + unit" where
  "check_egress ext tenant v d =
     bind_res (load_control_resource ext tenant KAttachment (eg_attachment_id v) d) (\<lambda>attachment.
     guard (\<not> (case cr_resource attachment of
       Attachment a \<Rightarrow> at_site_id a = eg_site_id v | _ \<Rightarrow> False)) CsReferenceConflict)"

definition check_rule ::
  "store_ext \<Rightarrow> uuid \<Rightarrow> uuid \<Rightarrow> control_db \<Rightarrow> ServicePolicyRuleV1 \<Rightarrow> ControlStoreError + unit" where
  "check_rule ext tenant segment d rule =
     bind_res (require_attached tenant segment (rule_source_site_ids rule) d) (\<lambda>_.
     case rule_action rule of
       LocalEgress \<Rightarrow> Inr ()
     | RemoteEgress egress_id \<Rightarrow>
         bind_res (load_control_resource ext tenant KEgress egress_id d) (\<lambda>egress.
         case cr_resource egress of
           Egress e \<Rightarrow>
             bind_res (load_control_resource ext tenant KAttachment (eg_attachment_id e) d) (\<lambda>attachment.
             guard (\<not> (case cr_resource attachment of
               Attachment a \<Rightarrow> at_segment_id a = segment | _ \<Rightarrow> False)) CsReferenceConflict)
         | _ \<Rightarrow> Inl CsReferenceConflict))"

definition check_dns_intent ::
  "store_ext \<Rightarrow> uuid \<Rightarrow> DnsIntentV1 \<Rightarrow> control_db \<Rightarrow> ControlStoreError + unit" where
  "check_dns_intent ext tenant v d =
     bind_res (require_attached tenant (di_segment_id v)
       ((case di_site_id v of None \<Rightarrow> [] | Some s \<Rightarrow> [s]) @ di_site_ids v) d) (\<lambda>_.
     for_each (\<lambda>prefix_id.
       bind_res (load_control_resource ext tenant KPrefix prefix_id d) (\<lambda>prefix.
       guard (\<not> (case cr_resource prefix of
         Prefix p \<Rightarrow> px_segment_id p = di_segment_id v | _ \<Rightarrow> False)) CsReferenceConflict))
       (List.map_filter dr_required_prefix_id (di_records v)))"

definition cross_checks ::
  "store_ext \<Rightarrow> ControlResourceV1 \<Rightarrow> control_db \<Rightarrow> ControlStoreError + unit" where
  "cross_checks ext r d =
     (let tenant = md_tenant_id (cr_metadata r); i = md_id (cr_metadata r) in
      case cr_resource r of
        Node v \<Rightarrow> check_node tenant i v d
      | Segment v \<Rightarrow> validate_segment_overlay ext tenant i (sg_overlay_prefix v) d
      | Attachment v \<Rightarrow> check_attachment ext tenant i v d
      | Prefix v \<Rightarrow> check_prefix ext tenant i v d
      | Peer v \<Rightarrow> check_peer ext tenant i v d
      | PathCandidate v \<Rightarrow> validate_path_candidate_references ext tenant v d
      | Egress v \<Rightarrow> check_egress ext tenant v d
      | ServicePolicy v \<Rightarrow> for_each (check_rule ext tenant (sp_segment_id v) d) (sp_rules v)
      | DnsIntent v \<Rightarrow> check_dns_intent ext tenant v d
      | Site _ \<Rightarrow> Inr ()
      | Relay _ \<Rightarrow> Inr ())"

definition validate_cross_resource ::
  "store_ext \<Rightarrow> ControlResourceV1 \<Rightarrow> control_db \<Rightarrow> ControlStoreError + unit" where
  "validate_cross_resource ext r d =
     (let tenant = md_tenant_id (cr_metadata r) in
      if md_state (cr_metadata r) = Deleted
      then guard (referrers tenant (resource_key_of r) d \<noteq> []) CsReferenceConflict
      else
        bind_res (for_each (\<lambda>(kind, i).
          guard (map_option crr_state (find (row_is tenant kind i) (cd_resources d)) \<noteq> Some Active)
            CsReferenceConflict) (resource_references r))
        (\<lambda>_. cross_checks ext r d))"

subsection \<open>Idempotency\<close>

definition record_is :: "uuid \<Rightarrow> MutationContext \<Rightarrow> idempotency_row \<Rightarrow> bool" where
  "record_is tenant c r \<longleftrightarrow> idr_tenant_id r = tenant \<and> idr_actor_id r = mc_actor_id c \<and>
     idr_idempotency_key r = mc_idempotency_key c"

definition replay_idempotency ::
  "store_ext \<Rightarrow> ResourceMutation \<Rightarrow> instant \<Rightarrow> control_db \<Rightarrow>
     ControlStoreError + ControlResourceV1 option" where
  "replay_idempotency ext m now d =
     (let c = rm_context m; r = rm_resource m in
      case find (record_is (md_tenant_id (cr_metadata r)) c) (cd_idempotency d) of
        None \<Rightarrow> Inr None
      | Some row \<Rightarrow>
          if idr_request_hash row \<noteq> mc_request_hash c \<or>
             idr_request_method row \<noteq> mc_request_method c \<or>
             idr_request_path row \<noteq> mc_request_path c \<or>
             idr_resource_kind row \<noteq> spec_kind (cr_resource r) \<or>
             idr_resource_id row \<noteq> md_id (cr_metadata r) \<or>
             idr_resource_revision row \<noteq> md_revision (cr_metadata r)
          then Inl CsIdempotencyConflict
          else if idr_replay_until row \<le> now then Inl CsIdempotencyReplayExpired
          else bind_res (decode_resource ext (idr_response_document row)) (\<lambda>r. Inr (Some r)))"

definition insert_idempotency ::
  "store_ext \<Rightarrow> ResourceMutation \<Rightarrow> control_db \<Rightarrow> ControlStoreError + control_db" where
  "insert_idempotency ext m d =
     (let c = rm_context m; r = rm_resource m; tenant = md_tenant_id (cr_metadata r) in
      bind_res (guard (\<not> se_serializable ext r) (CsInvalidResource [])) (\<lambda>_.
      bind_res (guard (list_ex (record_is tenant c) (cd_idempotency d)) CsDatabase) (\<lambda>_.
      Inr (d\<lparr>cd_idempotency := cd_idempotency d @
        [\<lparr>idr_tenant_id = tenant, idr_actor_id = mc_actor_id c,
          idr_idempotency_key = mc_idempotency_key c, idr_request_method = mc_request_method c,
          idr_request_path = mc_request_path c, idr_request_hash = mc_request_hash c,
          idr_resource_kind = spec_kind (cr_resource r), idr_resource_id = md_id (cr_metadata r),
          idr_resource_revision = md_revision (cr_metadata r), idr_response_document = r,
          idr_replay_until = mc_idempotency_replay_until c\<rparr>]\<rparr>))))"

subsection \<open>Audit\<close>

definition changed_resource_fields ::
  "store_ext \<Rightarrow> ResourceSpecV1 option \<Rightarrow> ResourceSpecV1 \<Rightarrow> string list" where
  "changed_resource_fields ext previous current =
     (case se_spec_fields ext current of
        None \<Rightarrow> []
      | Some members \<Rightarrow>
          map fst (filter (\<lambda>(key, value).
            Option.bind (Option.bind previous (se_spec_fields ext)) (\<lambda>old. map_of old key) \<noteq> Some value)
            members))"

fun resource_state :: "ResourceState \<Rightarrow> string" where
  "resource_state Active = ''ACTIVE''"
| "resource_state Disabled = ''DISABLED''"
| "resource_state Deleted = ''DELETED''"

text \<open>\<open>Display\<close> of an address with its prefix length.\<close>

definition prefix_text :: "Ipv4PrefixV1 \<Rightarrow> string" where
  "prefix_text p =
     concat (map (\<lambda>i. (if i = 0 then [] else ''.'') @ decimal (unat (octets (network p) ! i))) [0..<4]) @
     ''/'' @ decimal (unat (prefix_len p))"

fun resource_audit_name :: "ResourceSpecV1 \<Rightarrow> string option" where
  "resource_audit_name (Node v) = Some (nd_display_name v)"
| "resource_audit_name (Site v) = Some (st_name v)"
| "resource_audit_name (Segment v) = Some (sg_name v)"
| "resource_audit_name (Prefix v) = Some (prefix_text (px_prefix v))"
| "resource_audit_name (Relay v) = Some (rl_name v)"
| "resource_audit_name (PathCandidate _) = None"
| "resource_audit_name (Egress v) = Some (eg_name v)"
| "resource_audit_name (ServicePolicy v) = (if sp_name v = [] then None else Some (sp_name v))"
| "resource_audit_name (DnsIntent v) = Some (di_zone v)"
| "resource_audit_name (Attachment _) = None"
| "resource_audit_name (Peer _) = None"

definition json_option :: "('a \<Rightarrow> json) \<Rightarrow> 'a option \<Rightarrow> json" where
  "json_option f v = (case v of None \<Rightarrow> JNull | Some a \<Rightarrow> f a)"

definition insert_resource_audit ::
  "store_ext \<Rightarrow> uuid \<Rightarrow> ResourceMutation \<Rightarrow> ControlResourceV1 option \<Rightarrow> control_db \<Rightarrow>
     ControlStoreError + control_db" where
  "insert_resource_audit ext audit_id m previous d =
     (let r = rm_resource m; kind = spec_kind (cr_resource r);
          operation = (if md_state (cr_metadata r) = Deleted then ''delete''
            else if previous \<noteq> None then ''update'' else ''create'');
          action = (if operation = ''create'' then ''CONTROL_RESOURCE_CREATED''
            else if operation = ''update'' then ''CONTROL_RESOURCE_UPDATED''
            else ''CONTROL_RESOURCE_DELETED'');
          changed = changed_resource_fields ext (map_option cr_resource previous) (cr_resource r) @
            (case previous of None \<Rightarrow> []
             | Some p \<Rightarrow> if md_state (cr_metadata p) \<noteq> md_state (cr_metadata r) then [''state''] else []);
          event = \<lparr>aur_id = audit_id, aur_tenant_id = md_tenant_id (cr_metadata r),
            aur_actor_type = ''USER'', aur_actor_id = mc_actor_id (rm_context m), aur_action = action,
            aur_object_type = database_value kind,
            aur_object_id = uuid_string (md_id (cr_metadata r)),
            aur_metadata = JObj
              [(''operation'', JStr operation), (''collection'', JStr (api_collection kind)),
               (''resource_name'', json_option JStr (resource_audit_name (cr_resource r))),
               (''revision'', j_word (md_revision (cr_metadata r))),
               (''previous_revision'', json_option (\<lambda>p. j_word (md_revision (cr_metadata p))) previous),
               (''changed_fields'', JArr (map JStr changed)),
               (''state'', JStr (resource_state (md_state (cr_metadata r)))),
               (''request_method'', JStr (mc_request_method (rm_context m)))]\<rparr> in
      bind_res (map_err (\<lambda>_. CsDatabase) (insert_row audit_conflict event (db_audits (cd_routes d))))
        (\<lambda>audits. Inr (d\<lparr>cd_routes := (cd_routes d)\<lparr>db_audits := audits\<rparr>\<rparr>)))"

subsection \<open>The transaction\<close>

definition retire_deleted_segment :: "uuid \<Rightarrow> uuid \<Rightarrow> control_db \<Rightarrow> control_db" where
  "retire_deleted_segment tenant segment d =
     d\<lparr>cd_routes := (cd_routes d)\<lparr>db_segments := map (\<lambda>r.
         if sgr_tenant_id r = tenant \<and> sgr_id r = segment then r\<lparr>sgr_state := Deleted\<rparr> else r)
         (db_segments (cd_routes d))\<rparr>,
       cd_jobs := retire_jobs tenant segment (cd_jobs d)\<rparr>"

definition enqueue_all ::
  "instant \<Rightarrow> (nat \<Rightarrow> uuid) \<Rightarrow> uuid \<Rightarrow> hash32 \<Rightarrow> bool \<Rightarrow> uuid list \<Rightarrow> job_db \<Rightarrow>
     ControlStoreError + job_db" where
  "enqueue_all clock fresh tenant hash policy_only segments jobs =
     fold_res (\<lambda>jobs (n, segment). enqueue_generation clock (fresh n) tenant segment hash policy_only jobs)
       jobs (enumerate 0 segments)"

definition revision_conflict :: "ResourceMutation \<Rightarrow> bool" where
  "revision_conflict m \<longleftrightarrow>
     (case rm_expected_revision m of
        None \<Rightarrow> md_revision (cr_metadata (rm_resource m)) \<noteq> 1
      | Some value \<Rightarrow> value = 0 \<or> md_revision (cr_metadata (rm_resource m)) \<noteq> value + 1)"

definition mutation_row :: "ResourceMutation \<Rightarrow> hash32 \<Rightarrow> string \<Rightarrow> resource_row" where
  "mutation_row m hash created_by =
     (let r = rm_resource m in
      \<lparr>crr_tenant_id = md_tenant_id (cr_metadata r), crr_kind = spec_kind (cr_resource r),
       crr_id = md_id (cr_metadata r), crr_revision = md_revision (cr_metadata r),
       crr_state = md_state (cr_metadata r), crr_segment_id = affected_segment_id r,
       crr_document_hash = hash, crr_document = r, crr_created_by = created_by,
       crr_updated_by = mc_actor_id (rm_context m)\<rparr>)"

definition load_previous ::
  "store_ext \<Rightarrow> ResourceMutation \<Rightarrow> control_db \<Rightarrow> ControlStoreError + ControlResourceV1 option" where
  "load_previous ext m d =
     (let r = rm_resource m in
      case rm_expected_revision m of
        None \<Rightarrow> Inr None
      | Some expected \<Rightarrow>
          (case find (\<lambda>x. row_is (md_tenant_id (cr_metadata r)) (spec_kind (cr_resource r))
                 (md_id (cr_metadata r)) x \<and> crr_revision x = expected \<and> not_deleted x) (cd_resources d) of
             None \<Rightarrow> Inl CsRevisionConflict
           | Some row \<Rightarrow> bind_res (decode_resource ext (crr_document row)) (\<lambda>p. Inr (Some p))))"

definition store_resource ::
  "ResourceMutation \<Rightarrow> hash32 \<Rightarrow> control_db \<Rightarrow> ControlStoreError + control_db" where
  "store_resource m hash d =
     (let r = rm_resource m;
          mine = row_is (md_tenant_id (cr_metadata r)) (spec_kind (cr_resource r)) (md_id (cr_metadata r)) in
      case rm_expected_revision m of
        Some expected \<Rightarrow>
          let hit = (\<lambda>x. mine x \<and> crr_revision x = expected) in
          if length (filter hit (cd_resources d)) \<noteq> 1 then Inl CsRevisionConflict
          else Inr (d\<lparr>cd_resources := map (\<lambda>x. if hit x then mutation_row m hash (crr_created_by x) else x)
                 (cd_resources d)\<rparr>)
      | None \<Rightarrow>
          if list_ex mine (cd_resources d) then Inl CsDatabase
          else Inr (d\<lparr>cd_resources := cd_resources d @
                 [mutation_row m hash (mc_actor_id (rm_context m))]\<rparr>))"

definition is_segment :: "ResourceSpecV1 \<Rightarrow> bool" where
  "is_segment spec = (case spec of Segment _ \<Rightarrow> True | _ \<Rightarrow> False)"

text \<open>
  From the references of the stored resource to the publication jobs: \<open>affected\<close> are the
  segments that depended on the resource before it was written.
\<close>

definition publish_effects ::
  "instant \<Rightarrow> (nat \<Rightarrow> uuid) \<Rightarrow> ResourceMutation \<Rightarrow> ControlResourceV1 option \<Rightarrow> uuid list \<Rightarrow>
     control_db \<Rightarrow> ControlStoreError + control_db" where
  "publish_effects clock fresh m previous affected d0 =
     (let r = rm_resource m; tenant = md_tenant_id (cr_metadata r); i = md_id (cr_metadata r);
          d1 = replace_resource_references r d0;
          deleting_segment = (md_state (cr_metadata r) = Deleted \<and> is_segment (cr_resource r));
          d2 = (if deleting_segment then retire_deleted_segment tenant i d1 else d1);
          before = (if deleting_segment then removeAll i affected else affected);
          own = (case affected_segment_id r of
              None \<Rightarrow> [] | Some s \<Rightarrow> if deleting_segment then [] else [s]);
          segments = remdups (before @ dependent_segments tenant (resource_key_of r) d2 @ own) in
      if mutation_requires_publication previous r
      then bind_res (enqueue_all clock fresh tenant (mc_request_hash (rm_context m))
             (policy_only_activation (spec_kind (cr_resource r))) segments (cd_jobs d2))
             (\<lambda>jobs. Inr (d2\<lparr>cd_jobs := jobs\<rparr>))
      else Inr d2)"

text \<open>The transaction past the replay check, then the whole.\<close>

definition apply_mutation ::
  "store_ext \<Rightarrow> instant \<Rightarrow> (nat \<Rightarrow> uuid) \<Rightarrow> uuid \<Rightarrow> ResourceMutation \<Rightarrow> control_db \<Rightarrow>
     ControlStoreError + control_db" where
  "apply_mutation ext clock fresh audit_id m d =
     (let r = rm_resource m in
      bind_res (load_previous ext m d) (\<lambda>previous.
      let affected = dependent_segments (md_tenant_id (cr_metadata r)) (resource_key_of r) d in
      bind_res (validate_cross_resource ext r d) (\<lambda>_.
      bind_res (guard (\<not> se_serializable ext r) (CsInvalidResource [])) (\<lambda>_.
      bind_res (map_err (\<lambda>_. CsInvalidResource [])
        (document_hash (se_control ext) (cr_resource r))) (\<lambda>hash.
      bind_res (store_resource m hash d) (\<lambda>d1.
      bind_res (publish_effects clock fresh m previous affected d1) (\<lambda>d2.
      bind_res (insert_resource_audit ext audit_id m previous d2) (insert_idempotency ext m))))))))"

definition mutate ::
  "store_ext \<Rightarrow> instant \<Rightarrow> (nat \<Rightarrow> uuid) \<Rightarrow> uuid \<Rightarrow> ResourceMutation \<Rightarrow> instant \<Rightarrow> control_db \<Rightarrow>
     ControlStoreError + MutationOutcome \<times> control_db" where
  "mutate ext clock fresh audit_id m now d =
     bind_res (context_validate (rm_context m) now) (\<lambda>_.
     bind_res (map_err (\<lambda>_. CsInvalidResource [])
       (validate_resource (se_control ext) (rm_resource m))) (\<lambda>_.
     bind_res (guard (revision_conflict m) CsRevisionConflict) (\<lambda>_.
     bind_res (replay_idempotency ext m now d) (\<lambda>replayed.
     case replayed of
       Some response \<Rightarrow> Inr (MutReplayed response, d)
     | None \<Rightarrow> bind_res (apply_mutation ext clock fresh audit_id m d)
         (\<lambda>d'. Inr (Applied (rm_resource m), d'))))))"

end
