(* ===== verification/Control_Integrity.thy ===== *)
theory Control_Integrity
  imports Control_Store
begin

section \<open>Integrity of the management store\<close>

text \<open>
  What every sequence of mutations keeps: the columns of a row agree with its document, the
  reference table is exactly the references of the resources that are not deleted and every
  one of them leads to a resource that is not deleted, and the pairwise rules between
  resources (disjoint prefixes, distinct overlay addresses, ...) hold for the whole store
  although each mutation checks only its own resource.
\<close>

subsection \<open>Rows and keys\<close>

definition row_key :: "resource_row \<Rightarrow> uuid \<times> ResourceKind \<times> uuid" where
  "row_key r = (crr_tenant_id r, crr_kind r, crr_id r)"

definition document_key :: "ControlResourceV1 \<Rightarrow> uuid \<times> ResourceKind \<times> uuid" where
  "document_key r = (md_tenant_id (cr_metadata r), spec_kind (cr_resource r), md_id (cr_metadata r))"

lemma row_is_key: "row_is t k i r \<longleftrightarrow> row_key r = (t, k, i)"
  by (auto simp: row_is_def row_key_def)

definition row_wf :: "store_ext \<Rightarrow> resource_row \<Rightarrow> bool" where
  "row_wf ext r \<longleftrightarrow> row_key r = document_key (crr_document r) \<and>
     crr_revision r = md_revision (cr_metadata (crr_document r)) \<and>
     crr_state r = md_state (cr_metadata (crr_document r)) \<and>
     crr_segment_id r = affected_segment_id (crr_document r) \<and>
     validate_resource (se_control ext) (crr_document r) = Inr ()"

lemma row_wfD:
  assumes "row_wf ext r"
  shows "crr_tenant_id r = md_tenant_id (cr_metadata (crr_document r))"
    and "crr_kind r = spec_kind (cr_resource (crr_document r))"
    and "crr_id r = md_id (cr_metadata (crr_document r))"
    and "crr_segment_id r = affected_segment_id (crr_document r)"
    and "decode_resource ext (crr_document r) = Inr (crr_document r)"
  using assms by (auto simp: row_wf_def row_key_def document_key_def decode_resource_def)

lemma mutation_row_key [simp]: "row_key (mutation_row m h by_actor) = document_key (rm_resource m)"
  by (simp add: row_key_def document_key_def mutation_row_def Let_def)

lemma mutation_row_fields [simp]:
  "crr_document (mutation_row m h c) = rm_resource m"
  "crr_state (mutation_row m h c) = md_state (cr_metadata (rm_resource m))"
  "crr_revision (mutation_row m h c) = md_revision (cr_metadata (rm_resource m))"
  "crr_tenant_id (mutation_row m h c) = md_tenant_id (cr_metadata (rm_resource m))"
  "crr_kind (mutation_row m h c) = spec_kind (cr_resource (rm_resource m))"
  "crr_id (mutation_row m h c) = md_id (cr_metadata (rm_resource m))"
  "crr_segment_id (mutation_row m h c) = affected_segment_id (rm_resource m)"
  by (simp_all add: mutation_row_def Let_def)

lemma mutation_row_wf:
  "validate_resource (se_control ext) (rm_resource m) = Inr () \<Longrightarrow> row_wf ext (mutation_row m h c)"
  by (simp add: row_wf_def)

lemma key_unique:
  assumes "distinct (map row_key rows)" and "x \<in> set rows" and "y \<in> set rows"
    and "row_key x = row_key y"
  shows "x = y"
  using assms by (auto simp: distinct_map dest: inj_onD)

subsection \<open>What an applied mutation did\<close>

text \<open>Both ways of storing leave one row under the key, and the others alone.\<close>

definition stored :: "resource_row \<Rightarrow> control_db \<Rightarrow> control_db \<Rightarrow> bool" where
  "stored nr d d' \<longleftrightarrow> set (cd_resources d') =
     insert nr {x \<in> set (cd_resources d). row_key x \<noteq> row_key nr} \<and>
     distinct (map row_key (cd_resources d'))"

lemma store_resource_stored:
  assumes "store_resource m hash d = Inr d'" and dist: "distinct (map row_key (cd_resources d))"
  obtains c where "stored (mutation_row m hash c) d d'"
    and "d' = d\<lparr>cd_resources := cd_resources d'\<rparr>"
    and "rm_expected_revision m = None \<longrightarrow>
      (\<forall>x \<in> set (cd_resources d). row_key x \<noteq> document_key (rm_resource m))"
proof (cases "rm_expected_revision m")
  case None
  with assms(1) have "\<forall>x \<in> set (cd_resources d). row_key x \<noteq> document_key (rm_resource m)"
    and "d' = d\<lparr>cd_resources := cd_resources d @ [mutation_row m hash (mc_actor_id (rm_context m))]\<rparr>"
    by (auto simp: store_resource_def Let_def row_is_key document_key_def list_ex_iff split: if_splits)
  then show thesis
    using dist by (intro that [of "mc_actor_id (rm_context m)"]) (auto simp: stored_def)
next
  case (Some e)
  let ?hit = "\<lambda>x. row_key x = document_key (rm_resource m) \<and> crr_revision x = e"
  from assms(1) Some have one: "length (filter ?hit (cd_resources d)) = 1"
    and d': "d' = d\<lparr>cd_resources := map (\<lambda>x. if ?hit x then mutation_row m hash (crr_created_by x) else x)
      (cd_resources d)\<rparr>"
    by (auto simp: store_resource_def Let_def row_is_key document_key_def split: if_splits)
  from one obtain x where "filter ?hit (cd_resources d) = [x]"
    by (auto simp: length_Suc_conv)
  then have x: "x \<in> set (cd_resources d)" "?hit x" by (auto simp: filter_eq_Cons_iff)
  have only: "?hit y \<longleftrightarrow> y = x" and key: "row_key y = document_key (rm_resource m) \<longleftrightarrow> y = x"
    if "y \<in> set (cd_resources d)" for y
    using key_unique [OF dist that x(1)] x(2) by auto
  have rows: "cd_resources d' = map (\<lambda>y. if y = x then mutation_row m hash (crr_created_by x) else y)
      (cd_resources d)"
    using only by (auto simp: d')
  have "map row_key (cd_resources d') = map row_key (cd_resources d)"
    using x(2) by (auto simp: rows)
  then have "distinct (map row_key (cd_resources d'))" using dist by simp
  moreover have "set (cd_resources d') = insert (mutation_row m hash (crr_created_by x))
      {y \<in> set (cd_resources d). row_key y \<noteq> document_key (rm_resource m)}"
    using x(1) key by (auto simp: rows)
  ultimately have "stored (mutation_row m hash (crr_created_by x)) d d'" by (simp add: stored_def)
  then show thesis using Some by (intro that [of "crr_created_by x"]) (auto simp: d')
qed

lemma publish_effects_tables:
  assumes "publish_effects clock fresh m previous affected d = Inr d'"
  shows "cd_resources d' = cd_resources d" and "cd_idempotency d' = cd_idempotency d"
    and "cd_references d' = cd_references (replace_resource_references (rm_resource m) d)"
  using assms by (auto simp: publish_effects_def Let_def retire_deleted_segment_def
      replace_resource_references_def split: if_splits)

lemma insert_resource_audit_tables:
  assumes "insert_resource_audit ext i m previous d = Inr d'"
  shows "cd_resources d' = cd_resources d" and "cd_idempotency d' = cd_idempotency d"
    and "cd_references d' = cd_references d" and "cd_jobs d' = cd_jobs d"
  using assms by (auto simp: insert_resource_audit_def Let_def)

definition mutation_record :: "ResourceMutation \<Rightarrow> idempotency_row" where
  "mutation_record m = (let c = rm_context m; r = rm_resource m in
     \<lparr>idr_tenant_id = md_tenant_id (cr_metadata r), idr_actor_id = mc_actor_id c,
      idr_idempotency_key = mc_idempotency_key c, idr_request_method = mc_request_method c,
      idr_request_path = mc_request_path c, idr_request_hash = mc_request_hash c,
      idr_resource_kind = spec_kind (cr_resource r), idr_resource_id = md_id (cr_metadata r),
      idr_resource_revision = md_revision (cr_metadata r), idr_response_document = r,
      idr_replay_until = mc_idempotency_replay_until c\<rparr>)"

lemma mutate_applied:
  assumes "mutate ext clock fresh audit_id m now d = Inr (Applied r, d')"
    and "distinct (map row_key (cd_resources d))"
  obtains hash c previous d1 d2 where "r = rm_resource m"
    and "validate_resource (se_control ext) r = Inr ()" and "\<not> revision_conflict m"
    and "validate_cross_resource ext r d = Inr ()"
    and "load_previous ext m d = Inr previous"
    and "stored (mutation_row m hash c) d d'"
    and "cd_references d' = cd_references (replace_resource_references r d)"
    and "cd_idempotency d' = cd_idempotency d @ [mutation_record m]"
    and "d1 = d\<lparr>cd_resources := cd_resources d'\<rparr>"
    and "publish_effects clock fresh m previous
      (dependent_segments (md_tenant_id (cr_metadata r)) (resource_key_of r) d) d1 = Inr d2"
    and "cd_jobs d' = cd_jobs d2"
    and "\<forall>x \<in> set (cd_idempotency d). \<not> record_is (md_tenant_id (cr_metadata r)) (rm_context m) x"
    and "rm_expected_revision m = None \<longrightarrow>
      (\<forall>x \<in> set (cd_resources d). row_key x \<noteq> document_key r)"
proof -
  from assms(1) have r: "r = rm_resource m" and v: "validate_resource (se_control ext) r = Inr ()"
    and c: "\<not> revision_conflict m"
    and ap: "apply_mutation ext clock fresh audit_id m d = Inr d'"
    by (auto simp: mutate_def split: option.splits)
  from ap obtain previous hash d1 d2 d3 where
    p: "load_previous ext m d = Inr previous"
    and x: "validate_cross_resource ext r d = Inr ()"
    and s: "store_resource m hash d = Inr d1"
    and e: "publish_effects clock fresh m previous
      (dependent_segments (md_tenant_id (cr_metadata r)) (resource_key_of r) d) d1 = Inr d2"
    and a: "insert_resource_audit ext audit_id m previous d2 = Inr d3"
    and i: "insert_idempotency ext m d3 = Inr d'"
    unfolding apply_mutation_def Let_def r by auto
  note ta = insert_resource_audit_tables [OF a]
  note te = publish_effects_tables [OF e]
  from i have i': "d' = d3\<lparr>cd_idempotency := cd_idempotency d3 @ [mutation_record m]\<rparr>"
    and fresh: "\<forall>x \<in> set (cd_idempotency d3). \<not> record_is (md_tenant_id (cr_metadata r)) (rm_context m) x"
    by (auto simp: insert_idempotency_def mutation_record_def Let_def list_ex_iff r)
  obtain created where
    st: "stored (mutation_row m hash created) d d1"
    and d1: "d1 = d\<lparr>cd_resources := cd_resources d1\<rparr>"
    and new: "rm_expected_revision m = None \<longrightarrow>
      (\<forall>x \<in> set (cd_resources d). row_key x \<noteq> document_key (rm_resource m))"
    using store_resource_stored [OF s assms(2)] by metis
  have rows: "cd_resources d' = cd_resources d1" by (simp add: i' ta te)
  have same: "cd_idempotency d1 = cd_idempotency d" "cd_references d1 = cd_references d"
    by (subst d1, simp)+
  show thesis
  proof (rule that [OF r v c x p _ _ _ _ e])
    show "stored (mutation_row m hash created) d d'" using st by (simp add: stored_def rows)
    show "cd_references d' = cd_references (replace_resource_references r d)"
      by (simp add: i' ta te same r replace_resource_references_def Let_def)
    show "cd_idempotency d' = cd_idempotency d @ [mutation_record m]" by (simp add: i' ta te same)
    show "d1 = d\<lparr>cd_resources := cd_resources d'\<rparr>" using d1 by (simp add: rows)
    show "cd_jobs d' = cd_jobs d2" by (simp add: i' ta)
    show "\<forall>x \<in> set (cd_idempotency d). \<not> record_is (md_tenant_id (cr_metadata r)) (rm_context m) x"
      using fresh by (simp add: ta te same)
  qed (simp add: new r)
qed

subsection \<open>References\<close>

definition reference_of :: "resource_row \<Rightarrow> resource_key \<Rightarrow> reference_row" where
  "reference_of r target =
     \<lparr>rfr_tenant_id = crr_tenant_id r, rfr_source = (crr_kind r, crr_id r), rfr_target = target\<rparr>"

definition references_exact :: "control_db \<Rightarrow> bool" where
  "references_exact d \<longleftrightarrow> set (cd_references d) =
     (\<Union>r \<in> {r \<in> set (cd_resources d). not_deleted r}.
        reference_of r ` set (resource_references (crr_document r)))"

definition targets_live :: "control_db \<Rightarrow> bool" where
  "targets_live d \<longleftrightarrow> (\<forall>r \<in> set (cd_resources d). not_deleted r \<longrightarrow>
     (\<forall>(kind, i) \<in> set (resource_references (crr_document r)).
        \<exists>q \<in> set (cd_resources d). row_is (crr_tenant_id r) kind i q \<and> not_deleted q))"

definition rows_wf :: "store_ext \<Rightarrow> control_db \<Rightarrow> bool" where
  "rows_wf ext d \<longleftrightarrow> (\<forall>r \<in> set (cd_resources d). row_wf ext r) \<and> distinct (map row_key (cd_resources d))"

lemma reference_of_mutation:
  "reference_of (mutation_row m h c) g =
     \<lparr>rfr_tenant_id = md_tenant_id (cr_metadata (rm_resource m)),
      rfr_source = resource_key_of (rm_resource m), rfr_target = g\<rparr>"
  by (simp add: reference_of_def resource_key_of_def)

lemma references_exact_stored:
  assumes "references_exact d" and "stored (mutation_row m h c) d d'"
    and "cd_references d' = cd_references (replace_resource_references (rm_resource m) d)"
  shows "references_exact d'"
proof -
  let ?nr = "mutation_row m h c"
  let ?refs = "\<lambda>r. reference_of r ` set (resource_references (crr_document r))"
  have other: "reference_of x g = \<lparr>rfr_tenant_id = t, rfr_source = s, rfr_target = g'\<rparr> \<longleftrightarrow>
      crr_tenant_id x = t \<and> (crr_kind x, crr_id x) = s \<and> g = g'" for x g t s g'
    by (auto simp: reference_of_def)
  have "set (cd_references d') = {f \<in> set (cd_references d). \<not> (rfr_tenant_id f = crr_tenant_id ?nr \<and>
      rfr_source f = (crr_kind ?nr, crr_id ?nr))} \<union> (if not_deleted ?nr then ?refs ?nr else {})"
    using assms(3) by (auto simp: replace_resource_references_def Let_def not_deleted_def
        reference_of_mutation resource_key_of_def)
  also have "{f \<in> set (cd_references d). \<not> (rfr_tenant_id f = crr_tenant_id ?nr \<and>
      rfr_source f = (crr_kind ?nr, crr_id ?nr))} =
      (\<Union>r \<in> {r \<in> set (cd_resources d). not_deleted r \<and> row_key r \<noteq> row_key ?nr}. ?refs r)"
    using assms(1) unfolding references_exact_def
    by (auto simp: reference_of_def row_key_def document_key_def)
  finally show ?thesis
    using assms(2) unfolding references_exact_def stored_def by auto
qed

text \<open>The check before a deletion finds every live referrer.\<close>

lemma no_referrers:
  assumes "rows_wf ext d" and "references_exact d" and "referrers tenant (kind, i) d = []"
    and "r \<in> set (cd_resources d)" and "not_deleted r" and "crr_tenant_id r = tenant"
  shows "(kind, i) \<notin> set (resource_references (crr_document r))"
proof
  assume "(kind, i) \<in> set (resource_references (crr_document r))"
  then have "reference_of r (kind, i) \<in> set (cd_references d)"
    using assms(2,4,5) unfolding references_exact_def by blast
  moreover have "row_is tenant (crr_kind r) (crr_id r) r" using assms(6) by (simp add: row_is_def)
  ultimately have "r \<in> set (referrers tenant (kind, i) d)"
    using assms(4-6) by (auto simp: referrers_def reference_of_def)
  with assms(3) show False by simp
qed

lemma referenced_active:
  assumes "validate_cross_resource ext r d = Inr ()" and "md_state (cr_metadata r) \<noteq> Deleted"
    and "(kind, i) \<in> set (resource_references r)"
  shows "\<exists>q \<in> set (cd_resources d). row_is (md_tenant_id (cr_metadata r)) kind i q \<and> crr_state q = Active"
proof -
  from assms have "map_option crr_state (find (row_is (md_tenant_id (cr_metadata r)) kind i)
      (cd_resources d)) = Some Active"
    by (auto simp: validate_cross_resource_def Let_def)
  then obtain q where "find (row_is (md_tenant_id (cr_metadata r)) kind i) (cd_resources d) = Some q"
    "crr_state q = Active" by auto
  with find_SomeD [OF this(1)] show ?thesis by blast
qed

lemma targets_live_stored:
  assumes wf: "rows_wf ext d" and live: "targets_live d" and ex: "references_exact d"
    and st: "stored (mutation_row m h c) d d'"
    and cross: "validate_cross_resource ext (rm_resource m) d = Inr ()"
  shows "targets_live d'"
  unfolding targets_live_def
proof (intro ballI impI, clarify)
  let ?r = "rm_resource m"
  fix r kind i
  assume r: "r \<in> set (cd_resources d')" "not_deleted r"
    and t: "(kind, i) \<in> set (resource_references (crr_document r))"
  have keep: "\<exists>q \<in> set (cd_resources d'). row_is tenant kind i q \<and> not_deleted q"
    if q: "q \<in> set (cd_resources d)" "row_is tenant kind i q" "not_deleted q"
      and "(tenant, kind, i) = document_key ?r \<Longrightarrow> md_state (cr_metadata ?r) \<noteq> Deleted" for q tenant
  proof (cases "row_key q = document_key ?r")
    case True
    with that have "row_is tenant kind i (mutation_row m h c)" "not_deleted (mutation_row m h c)"
      by (auto simp: row_is_key not_deleted_def)
    then show ?thesis using st unfolding stored_def by blast
  next
    case False
    then show ?thesis using that st unfolding stored_def by auto
  qed
  show "\<exists>q \<in> set (cd_resources d'). row_is (crr_tenant_id r) kind i q \<and> not_deleted q"
  proof (cases "r = mutation_row m h c")
    case True
    then have m: "md_state (cr_metadata ?r) \<noteq> Deleted" "(kind, i) \<in> set (resource_references ?r)"
      using r(2) t by (auto simp: not_deleted_def)
    from referenced_active [OF cross this] obtain q where "q \<in> set (cd_resources d)"
      "row_is (md_tenant_id (cr_metadata ?r)) kind i q" "crr_state q = Active" by blast
    with m(1) show ?thesis using True by (intro keep) (auto simp: not_deleted_def)
  next
    case False
    with r(1) st have old: "r \<in> set (cd_resources d)" "row_key r \<noteq> document_key ?r"
      unfolding stored_def by auto
    from live old(1) r(2) t obtain q where q: "q \<in> set (cd_resources d)"
      "row_is (crr_tenant_id r) kind i q" "not_deleted q"
      unfolding targets_live_def by blast
    show ?thesis
    proof (rule keep [OF q])
      assume key: "(crr_tenant_id r, kind, i) = document_key ?r"
      show "md_state (cr_metadata ?r) \<noteq> Deleted"
      proof
        assume "md_state (cr_metadata ?r) = Deleted"
        with cross key have "referrers (crr_tenant_id r) (kind, i) d = []"
          by (auto simp: validate_cross_resource_def document_key_def resource_key_of_def Let_def)
        from no_referrers [OF wf ex this old(1) r(2)] t show False by simp
      qed
    qed
  qed
qed

subsection \<open>Rules between resources\<close>

definition prefixes_apart :: "ControlResourceV1 \<Rightarrow> ControlResourceV1 \<Rightarrow> bool" where
  "prefixes_apart a b \<longleftrightarrow> (\<forall>p q. cr_resource a = Prefix p \<longrightarrow> cr_resource b = Prefix q \<longrightarrow>
     px_segment_id p = px_segment_id q \<longrightarrow> \<not> prefix_overlaps (px_prefix p) (px_prefix q))"

definition addresses_differ :: "ControlResourceV1 \<Rightarrow> ControlResourceV1 \<Rightarrow> bool" where
  "addresses_differ a b \<longleftrightarrow> (\<forall>p q. cr_resource a = Attachment p \<longrightarrow> cr_resource b = Attachment q \<longrightarrow>
     at_segment_id p = at_segment_id q \<longrightarrow> at_overlay_router_ipv4 p \<noteq> at_overlay_router_ipv4 q)"

definition devices_differ :: "ControlResourceV1 \<Rightarrow> ControlResourceV1 \<Rightarrow> bool" where
  "devices_differ a b \<longleftrightarrow> (\<forall>p q. cr_resource a = Node p \<longrightarrow> cr_resource b = Node q \<longrightarrow>
     nd_device_id p \<noteq> nd_device_id q)"

definition peers_differ :: "ControlResourceV1 \<Rightarrow> ControlResourceV1 \<Rightarrow> bool" where
  "peers_differ a b \<longleftrightarrow> (\<forall>p q. cr_resource a = Peer p \<longrightarrow> cr_resource b = Peer q \<longrightarrow>
     pe_segment_id p = pe_segment_id q \<longrightarrow>
     (pe_site_a_id p, pe_site_b_id p) \<noteq> (pe_site_a_id q, pe_site_b_id q))"

definition overlay_respected :: "ControlResourceV1 \<Rightarrow> ControlResourceV1 \<Rightarrow> bool" where
  "overlay_respected a b \<longleftrightarrow> (\<forall>s. cr_resource a = Segment s \<longrightarrow>
     (\<forall>p. cr_resource b = Prefix p \<longrightarrow> px_segment_id p = md_id (cr_metadata a) \<longrightarrow>
        \<not> prefix_overlaps (sg_overlay_prefix s) (px_prefix p)) \<and>
     (\<forall>t. cr_resource b = Attachment t \<longrightarrow> at_segment_id t = md_id (cr_metadata a) \<longrightarrow>
        valid_overlay_host (sg_overlay_prefix s) (at_overlay_router_ipv4 t)))"

definition compatible :: "ControlResourceV1 \<Rightarrow> ControlResourceV1 \<Rightarrow> bool" where
  "compatible a b \<longleftrightarrow> prefixes_apart a b \<and> addresses_differ a b \<and> devices_differ a b \<and>
     peers_differ a b \<and> overlay_respected a b"

definition pairwise_compatible :: "control_db \<Rightarrow> bool" where
  "pairwise_compatible d \<longleftrightarrow> (\<forall>r \<in> set (cd_resources d). \<forall>q \<in> set (cd_resources d).
     not_deleted r \<longrightarrow> not_deleted q \<longrightarrow> crr_tenant_id r = crr_tenant_id q \<longrightarrow> r \<noteq> q \<longrightarrow>
     compatible (crr_document r) (crr_document q))"

lemma prefix_overlaps_sym: "prefix_overlaps p q \<longleftrightarrow> prefix_overlaps q p"
  by (auto simp: prefix_overlaps_def Let_def min.commute)

lemma check_document_ok:
  "row_wf ext r \<Longrightarrow> check_document ext bad r = Inr () \<longleftrightarrow> \<not> bad (cr_resource (crr_document r))"
  by (auto simp: check_document_def row_wfD)

lemma load_control_resource_row:
  assumes "rows_wf ext d" and "load_control_resource ext t k i d = Inr doc"
    and "q \<in> set (cd_resources d)" and "row_key q = (t, k, i)"
  shows "crr_document q = doc"
proof -
  from assms(2) obtain x where x: "find (\<lambda>r. row_is t k i r \<and> crr_state r = Active) (cd_resources d) = Some x"
    and doc: "decode_resource ext (crr_document x) = Inr doc"
    by (auto simp: load_control_resource_def)
  from find_SomeD [OF x] have "x \<in> set (cd_resources d)" "row_key x = (t, k, i)"
    by (auto simp: row_is_key)
  with assms(1,3,4) have "x = q" by (auto simp: rows_wf_def intro: key_unique)
  with doc show ?thesis by (auto simp: decode_resource_def)
qed

text \<open>
  What the checks of a resource \<open>a\<close> say about another row \<open>q\<close> of its tenant, in both
  directions.
\<close>

lemma checked_prefix:
  assumes wf: "rows_wf ext d" and a: "cr_resource a = Prefix v" and ok: "cross_checks ext a d = Inr ()"
    and q: "q \<in> set (cd_resources d)" "not_deleted q" "crr_tenant_id q = md_tenant_id (cr_metadata a)"
      "row_key q \<noteq> document_key a"
  shows "compatible a (crr_document q) \<and> compatible (crr_document q) a"
proof -
  have rq: "row_wf ext q" using wf q(1) by (simp add: rows_wf_def)
  note qf = row_wfD [OF rq]
  let ?rows = "segment_rows (md_tenant_id (cr_metadata a)) KPrefix (md_id (cr_metadata a)) (px_segment_id v) d"
  let ?bad = "\<lambda>other. case other of Prefix p \<Rightarrow> prefix_overlaps (px_prefix v) (px_prefix p) | _ \<Rightarrow> False"
  from ok a obtain seg where seg: "load_control_resource ext (md_tenant_id (cr_metadata a)) KSegment
      (px_segment_id v) d = Inr seg"
    and rest: "(case cr_resource seg of
       Segment s \<Rightarrow> bind_res (guard (prefix_overlaps (px_prefix v) (sg_overlay_prefix s)) CsReferenceConflict)
         (\<lambda>_. for_each (check_document ext ?bad) ?rows)
     | _ \<Rightarrow> Inl CsReferenceConflict) = Inr ()"
    by (auto simp: cross_checks_def check_prefix_def Let_def)
  from rest obtain s where s: "cr_resource seg = Segment s"
    and apart: "\<not> prefix_overlaps (px_prefix v) (sg_overlay_prefix s)"
    and others: "\<forall>x \<in> set ?rows. check_document ext ?bad x = Inr ()"
    by (cases "cr_resource seg") auto
  have "\<not> prefix_overlaps (px_prefix v) (px_prefix p)"
    if p: "cr_resource (crr_document q) = Prefix p" "px_segment_id p = px_segment_id v" for p
  proof -
    have "q \<in> set (segment_rows (md_tenant_id (cr_metadata a)) KPrefix (md_id (cr_metadata a))
        (px_segment_id v) d)"
      using q qf p a by (auto simp: segment_rows_def affected_segment_id_def row_key_def document_key_def)
    from others [rule_format, OF this] show ?thesis by (simp add: check_document_ok [OF rq] p)
  qed
  moreover have "\<not> prefix_overlaps (sg_overlay_prefix s') (px_prefix v)"
    if s': "cr_resource (crr_document q) = Segment s'" "px_segment_id v = md_id (cr_metadata (crr_document q))" for s'
  proof -
    have "row_key q = (md_tenant_id (cr_metadata a), KSegment, px_segment_id v)"
      using q(3) qf s' by (simp add: row_key_def)
    from load_control_resource_row [OF wf seg q(1) this] s s'(1) have "s' = s" by simp
    with apart show ?thesis by (simp add: prefix_overlaps_sym)
  qed
  ultimately show ?thesis
    by (auto simp: compatible_def prefixes_apart_def addresses_differ_def devices_differ_def
        peers_differ_def overlay_respected_def a prefix_overlaps_sym)
qed

lemma checked_attachment:
  assumes wf: "rows_wf ext d" and a: "cr_resource a = Attachment v" and ok: "cross_checks ext a d = Inr ()"
    and q: "q \<in> set (cd_resources d)" "not_deleted q" "crr_tenant_id q = md_tenant_id (cr_metadata a)"
      "row_key q \<noteq> document_key a"
  shows "compatible a (crr_document q) \<and> compatible (crr_document q) a"
proof -
  have rq: "row_wf ext q" using wf q(1) by (simp add: rows_wf_def)
  note qf = row_wfD [OF rq]
  let ?same = "\<lambda>x. crr_tenant_id x = md_tenant_id (cr_metadata a) \<and>
      crr_kind x = KAttachment \<and> crr_id x \<noteq> md_id (cr_metadata a) \<and> not_deleted x \<and>
      (case cr_resource (crr_document x) of Attachment b \<Rightarrow> at_segment_id b = at_segment_id v \<and>
         at_overlay_router_ipv4 b = at_overlay_router_ipv4 v | _ \<Rightarrow> False)"
  have "check_attachment ext (md_tenant_id (cr_metadata a)) (md_id (cr_metadata a)) v d = Inr ()"
    using ok by (simp add: cross_checks_def a Let_def)
  then obtain node :: ControlResourceV1 and seg where seg: "load_control_resource ext (md_tenant_id (cr_metadata a)) KSegment
      (at_segment_id v) d = Inr seg"
    and rest: "(case (cr_resource node, cr_resource seg) of
       (Node n, Segment s) \<Rightarrow> first_err
         [guard (nd_site_id n \<noteq> at_site_id v \<or>
            \<not> valid_overlay_host (sg_overlay_prefix s) (at_overlay_router_ipv4 v)) CsReferenceConflict,
          guard (list_ex ?same (cd_resources d)) CsReferenceConflict]
     | _ \<Rightarrow> Inl CsReferenceConflict) = Inr ()"
    unfolding check_attachment_def bind_res_ok by blast
  from rest obtain s where s: "cr_resource seg = Segment s"
    and host: "valid_overlay_host (sg_overlay_prefix s) (at_overlay_router_ipv4 v)"
    and others: "\<forall>x \<in> set (cd_resources d). \<not> ?same x"
    by (cases "cr_resource node"; cases "cr_resource seg") (simp_all add: list_ex_iff)
  have "at_overlay_router_ipv4 b \<noteq> at_overlay_router_ipv4 v"
    if "cr_resource (crr_document q) = Attachment b" "at_segment_id b = at_segment_id v" for b
    using others q qf that a by (auto simp: row_key_def document_key_def)
  moreover have "valid_overlay_host (sg_overlay_prefix s') (at_overlay_router_ipv4 v)"
    if s': "cr_resource (crr_document q) = Segment s'" "at_segment_id v = md_id (cr_metadata (crr_document q))" for s'
  proof -
    have "row_key q = (md_tenant_id (cr_metadata a), KSegment, at_segment_id v)"
      using q(3) qf s' by (simp add: row_key_def)
    from load_control_resource_row [OF wf seg q(1) this] s s'(1) host show ?thesis by simp
  qed
  ultimately show ?thesis
    by (fastforce simp: compatible_def prefixes_apart_def addresses_differ_def devices_differ_def
        peers_differ_def overlay_respected_def a)
qed

lemma checked_segment:
  assumes wf: "rows_wf ext d" and a: "cr_resource a = Segment v" and ok: "cross_checks ext a d = Inr ()"
    and q: "q \<in> set (cd_resources d)" "not_deleted q" "crr_tenant_id q = md_tenant_id (cr_metadata a)"
  shows "compatible a (crr_document q) \<and> compatible (crr_document q) a"
proof -
  have rq: "row_wf ext q" using wf q(1) by (simp add: rows_wf_def)
  note qf = row_wfD [OF rq]
  have "\<not> overlay_bad (sg_overlay_prefix v) (cr_resource (crr_document q))"
    if "crr_segment_id q = Some (md_id (cr_metadata a))" "crr_kind q \<in> {KAttachment, KPrefix}"
    using ok a q that check_document_ok [OF rq]
    by (auto simp: cross_checks_def validate_segment_overlay_def Let_def)
  then show ?thesis
    using qf by (auto simp: compatible_def prefixes_apart_def addresses_differ_def devices_differ_def
        peers_differ_def overlay_respected_def overlay_bad_def affected_segment_id_def a)
qed

lemma checked_node:
  assumes wf: "rows_wf ext d" and a: "cr_resource a = Node v" and ok: "cross_checks ext a d = Inr ()"
    and q: "q \<in> set (cd_resources d)" "not_deleted q" "crr_tenant_id q = md_tenant_id (cr_metadata a)"
      "row_key q \<noteq> document_key a"
  shows "compatible a (crr_document q) \<and> compatible (crr_document q) a"
proof -
  have rq: "row_wf ext q" using wf q(1) by (simp add: rows_wf_def)
  note qf = row_wfD [OF rq]
  have "nd_device_id n \<noteq> nd_device_id v" if "cr_resource (crr_document q) = Node n" for n
    using ok a q qf that
    by (auto simp: cross_checks_def check_node_def Let_def list_ex_iff row_key_def document_key_def)
  then show ?thesis
    by (fastforce simp: compatible_def prefixes_apart_def addresses_differ_def devices_differ_def
        peers_differ_def overlay_respected_def a)
qed

lemma checked_peer:
  assumes wf: "rows_wf ext d" and a: "cr_resource a = Peer v" and ok: "cross_checks ext a d = Inr ()"
    and q: "q \<in> set (cd_resources d)" "not_deleted q" "crr_tenant_id q = md_tenant_id (cr_metadata a)"
      "row_key q \<noteq> document_key a"
  shows "compatible a (crr_document q) \<and> compatible (crr_document q) a"
proof -
  have rq: "row_wf ext q" using wf q(1) by (simp add: rows_wf_def)
  note qf = row_wfD [OF rq]
  from ok a have others: "\<forall>x \<in> set (segment_rows (md_tenant_id (cr_metadata a)) KPeer
      (md_id (cr_metadata a)) (pe_segment_id v) d). check_document ext (\<lambda>other. case other of
        Peer p \<Rightarrow> pe_site_a_id p = pe_site_a_id v \<and> pe_site_b_id p = pe_site_b_id v | _ \<Rightarrow> False) x = Inr ()"
    by (auto simp: cross_checks_def check_peer_def Let_def)
  have "(pe_site_a_id p, pe_site_b_id p) \<noteq> (pe_site_a_id v, pe_site_b_id v)"
    if p: "cr_resource (crr_document q) = Peer p" "pe_segment_id p = pe_segment_id v" for p
  proof -
    have "q \<in> set (segment_rows (md_tenant_id (cr_metadata a)) KPeer (md_id (cr_metadata a))
        (pe_segment_id v) d)"
      using q qf p a by (auto simp: segment_rows_def affected_segment_id_def row_key_def document_key_def)
    from others [rule_format, OF this] show ?thesis by (simp add: check_document_ok [OF rq] p)
  qed
  then show ?thesis
    by (fastforce simp: compatible_def prefixes_apart_def addresses_differ_def devices_differ_def
        peers_differ_def overlay_respected_def a)
qed

lemma checked_compatible:
  assumes "rows_wf ext d" and "cross_checks ext a d = Inr ()"
    and "q \<in> set (cd_resources d)" and "not_deleted q" and "crr_tenant_id q = md_tenant_id (cr_metadata a)"
    and "row_key q \<noteq> document_key a"
  shows "compatible a (crr_document q) \<and> compatible (crr_document q) a"
  using checked_prefix [OF assms(1) _ assms(2-6)] checked_attachment [OF assms(1) _ assms(2-6)]
    checked_segment [OF assms(1) _ assms(2-5)] checked_node [OF assms(1) _ assms(2-6)]
    checked_peer [OF assms(1) _ assms(2-6)]
  by (cases "cr_resource a") (simp_all add: compatible_def prefixes_apart_def addresses_differ_def
      devices_differ_def peers_differ_def overlay_respected_def)

lemma pairwise_compatibleD:
  "pairwise_compatible d \<Longrightarrow> r \<in> set (cd_resources d) \<Longrightarrow> q \<in> set (cd_resources d) \<Longrightarrow> not_deleted r \<Longrightarrow>
    not_deleted q \<Longrightarrow> crr_tenant_id r = crr_tenant_id q \<Longrightarrow> r \<noteq> q \<Longrightarrow>
    compatible (crr_document r) (crr_document q)"
  unfolding pairwise_compatible_def by blast

lemma pairwise_compatible_stored:
  assumes wf: "rows_wf ext d" and pw: "pairwise_compatible d"
    and st: "stored (mutation_row m h c) d d'"
    and cross: "validate_cross_resource ext (rm_resource m) d = Inr ()"
  shows "pairwise_compatible d'"
  unfolding pairwise_compatible_def
proof (intro ballI impI)
  let ?nr = "mutation_row m h c"
  fix r q
  assume rq: "r \<in> set (cd_resources d')" "q \<in> set (cd_resources d')" "not_deleted r" "not_deleted q"
    "crr_tenant_id r = crr_tenant_id q" "r \<noteq> q"
  have old: "x \<in> set (cd_resources d) \<and> row_key x \<noteq> document_key (rm_resource m)"
    if "x \<in> set (cd_resources d')" "x \<noteq> ?nr" for x
    using that st unfolding stored_def by auto
  have new: "compatible (rm_resource m) (crr_document x) \<and> compatible (crr_document x) (rm_resource m)"
    if "x \<in> set (cd_resources d')" "x \<noteq> ?nr" "not_deleted x" "not_deleted ?nr"
      "crr_tenant_id x = crr_tenant_id ?nr" for x
    using that old [OF that(1,2)] cross
    by (intro checked_compatible [OF wf]) (auto simp: validate_cross_resource_def Let_def not_deleted_def)
  show "compatible (crr_document r) (crr_document q)"
  proof (cases "r = ?nr \<or> q = ?nr")
    case True
    then show ?thesis using new [of q] new [of r] rq by auto
  next
    case False
    then show ?thesis using pairwise_compatibleD [OF pw] old rq by blast
  qed
qed

subsection \<open>Every reachable store\<close>

definition store_inv :: "store_ext \<Rightarrow> control_db \<Rightarrow> bool" where
  "store_inv ext d \<longleftrightarrow> rows_wf ext d \<and> references_exact d \<and> targets_live d \<and> pairwise_compatible d"

text \<open>
  A step is a mutation, or anything the rest of the system does to the jobs, the published
  routes and the device tables.
\<close>

inductive store_step :: "store_ext \<Rightarrow> control_db \<Rightarrow> control_db \<Rightarrow> bool" for ext where
  mutation: "mutate ext clock fresh audit_id m now d = Inr (out, d') \<Longrightarrow> store_step ext d d'"
| elsewhere: "cd_resources d' = cd_resources d \<Longrightarrow> cd_references d' = cd_references d \<Longrightarrow>
    cd_idempotency d' = cd_idempotency d \<Longrightarrow> store_step ext d d'"

inductive_cases store_stepE: "store_step ext d d'"

definition empty_store :: "job_db \<Rightarrow> route_db \<Rightarrow> control_db" where
  "empty_store jobs routes = \<lparr>cd_resources = [], cd_references = [], cd_idempotency = [],
     cd_jobs = jobs, cd_routes = routes\<rparr>"

lemma empty_store_inv: "store_inv ext (empty_store jobs routes)"
  by (simp add: store_inv_def empty_store_def rows_wf_def references_exact_def targets_live_def
      pairwise_compatible_def)

lemma mutate_replayed:
  "mutate ext clock fresh audit_id m now d = Inr (MutReplayed r, d') \<Longrightarrow> d' = d"
  by (auto simp: mutate_def split: option.splits)

lemma store_step_cases:
  assumes "store_step ext d d'"
  obtains (same) "cd_resources d' = cd_resources d" "cd_references d' = cd_references d"
      "cd_idempotency d' = cd_idempotency d"
    | (applied) clock fresh audit_id m now r where
      "mutate ext clock fresh audit_id m now d = Inr (Applied r, d')"
  using assms
proof (cases rule: store_step.cases)
  case (mutation clock fresh audit_id m now out)
  show thesis
  proof (cases out)
    case (Applied r)
    with mutation applied show ?thesis by blast
  next
    case (MutReplayed r)
    with mutation mutate_replayed have "d' = d" by blast
    with same show ?thesis by simp
  qed
qed (rule same)

lemma store_inv_step:
  assumes "store_inv ext d" and "store_step ext d d'"
  shows "store_inv ext d'"
  using assms(2)
proof (cases rule: store_step_cases)
  case same
  with assms(1) show ?thesis
    by (simp add: store_inv_def rows_wf_def references_exact_def targets_live_def pairwise_compatible_def)
next
  case (applied clock fresh audit_id m now r)
  from assms(1) have inv: "rows_wf ext d" "references_exact d" "targets_live d" "pairwise_compatible d"
    by (simp_all add: store_inv_def)
  have "distinct (map row_key (cd_resources d))" using inv(1) by (simp add: rows_wf_def)
  with applied obtain hash c where r: "r = rm_resource m"
    and v: "validate_resource (se_control ext) r = Inr ()"
    and cross: "validate_cross_resource ext r d = Inr ()"
    and st: "stored (mutation_row m hash c) d d'"
    and refs: "cd_references d' = cd_references (replace_resource_references r d)"
    by (rule mutate_applied)
  have "rows_wf ext d'"
    using inv(1) st mutation_row_wf [OF v [unfolded r]] unfolding rows_wf_def stored_def by auto
  then show ?thesis
    using references_exact_stored [OF inv(2) st refs [unfolded r]]
      targets_live_stored [OF inv(1,3,2) st cross [unfolded r]]
      pairwise_compatible_stored [OF inv(1,4) st cross [unfolded r]]
    by (simp add: store_inv_def)
qed

lemma store_inv_steps: "(store_step ext)\<^sup>*\<^sup>* d d' \<Longrightarrow> store_inv ext d \<Longrightarrow> store_inv ext d'"
  by (induction rule: rtranclp_induct) (auto intro: store_inv_step)

lemmas reachable_store_inv = store_inv_steps [OF _ empty_store_inv]

text \<open>
  C2: in every store reached from an empty one, the columns of each row agree with its valid
  document, the reference table is exactly the references of the resources that are not
  deleted, each of them leads to a resource of the tenant that is not deleted, and any two
  resources of a tenant obey the rules between them; in particular no address lies in two
  prefixes of a segment.
\<close>

theorem reachable_store_consistent:
  assumes "(store_step ext)\<^sup>*\<^sup>* (empty_store jobs routes) d"
  shows "list_all (row_wf ext) (cd_resources d) \<and> distinct (map row_key (cd_resources d)) \<and>
    references_exact d \<and> targets_live d \<and> pairwise_compatible d \<and>
    (\<forall>r \<in> set (cd_resources d). \<forall>q \<in> set (cd_resources d). \<forall>p p' address.
       cr_resource (crr_document r) = Prefix p \<longrightarrow> cr_resource (crr_document q) = Prefix p' \<longrightarrow>
       not_deleted r \<longrightarrow> not_deleted q \<longrightarrow> crr_tenant_id r = crr_tenant_id q \<longrightarrow>
       px_segment_id p = px_segment_id p' \<longrightarrow>
       prefix_covers (network (px_prefix p)) (prefix_len (px_prefix p)) address \<longrightarrow>
       prefix_covers (network (px_prefix p')) (prefix_len (px_prefix p')) address \<longrightarrow> r = q)"
proof -
  note inv = reachable_store_inv [OF assms]
  have apart: "r = q"
    if rq: "r \<in> set (cd_resources d)" "q \<in> set (cd_resources d)" "not_deleted r" "not_deleted q"
      "crr_tenant_id r = crr_tenant_id q"
      and p: "cr_resource (crr_document r) = Prefix p" "cr_resource (crr_document q) = Prefix p'"
      and same: "px_segment_id p = px_segment_id p'"
      and cov: "prefix_covers (network (px_prefix p)) (prefix_len (px_prefix p)) address"
        "prefix_covers (network (px_prefix p')) (prefix_len (px_prefix p')) address" for r q p p' address
  proof (rule ccontr)
    assume "r \<noteq> q"
    with inv rq have "compatible (crr_document r) (crr_document q)"
      by (auto simp: store_inv_def intro: pairwise_compatibleD)
    with p same have "\<not> prefix_overlaps (px_prefix p) (px_prefix p')"
      by (simp add: compatible_def prefixes_apart_def)
    moreover have "validate_resource (se_control ext) (crr_document r) = Inr ()"
      "validate_resource (se_control ext) (crr_document q) = Inr ()"
      using inv rq(1,2) by (simp_all add: store_inv_def rows_wf_def row_wf_def)
    then have "validate_prefix_with_default False (px_prefix p) = Inr ()"
      "validate_prefix_with_default False (px_prefix p') = Inr ()"
      using p by (simp_all add: validate_resource_def validate_prefix_def)
    then have "prefix_well_formed False (network (px_prefix p)) (prefix_len (px_prefix p))"
      "prefix_well_formed False (network (px_prefix p')) (prefix_len (px_prefix p'))"
      by (simp_all add: validate_prefix_with_default_ok)
    ultimately show False
      using ctl_prefix.overlaps_common_address [of "px_prefix p" "px_prefix p'"] cov
      by (auto simp: prefix_well_formed_def)
  qed
  have "list_all (row_wf ext) (cd_resources d) \<and> distinct (map row_key (cd_resources d)) \<and>
      references_exact d \<and> targets_live d \<and> pairwise_compatible d"
    using inv by (simp add: store_inv_def rows_wf_def list_all_iff)
  then show ?thesis using apart by blast
qed

subsection \<open>Retries\<close>

lemma idempotency_prefix:
  assumes "(store_step ext)\<^sup>*\<^sup>* d d'" and "store_inv ext d"
  shows "\<exists>rest. cd_idempotency d' = cd_idempotency d @ rest"
  using assms
proof (induction rule: rtranclp_induct)
  case (step e f)
  then obtain rest where rest: "cd_idempotency e = cd_idempotency d @ rest" by blast
  have "distinct (map row_key (cd_resources e))"
    using store_inv_steps [OF step.hyps(1) step.prems] by (simp add: store_inv_def rows_wf_def)
  from step.hyps(2) show ?case
  proof (cases rule: store_step_cases)
    case (applied clock fresh audit_id m now r)
    from mutate_applied [OF this \<open>distinct _\<close>] have "cd_idempotency f = cd_idempotency e @ [mutation_record m]"
      by blast
    with rest show ?thesis by simp
  qed (use rest in simp)
qed simp

lemma mutation_record_is [simp]:
  "record_is (md_tenant_id (cr_metadata (rm_resource m))) (rm_context m) (mutation_record m)"
  by (simp add: record_is_def mutation_record_def Let_def)

lemma find_first_match:
  "\<forall>x \<in> set xs. \<not> P x \<Longrightarrow> P y \<Longrightarrow> find P (xs @ y # ys) = Some y"
  by (induction xs) auto

text \<open>
  C14: a client that repeats an applied request gets the stored answer: however the store has
  changed since, until the replay window of the request ends the same mutation is answered
  with the same resource and changes nothing.
\<close>

theorem mutation_retry_replays:
  assumes "(store_step ext)\<^sup>*\<^sup>* (empty_store jobs routes) d"
    and "mutate ext clock fresh audit_id m now d = Inr (Applied r, d1)"
    and "(store_step ext)\<^sup>*\<^sup>* d1 d2"
    and "later < mc_idempotency_replay_until (rm_context m)"
  shows "mutate ext clock' fresh' audit_id' m later d2 = Inr (MutReplayed r, d2)"
proof -
  have inv: "store_inv ext d" using assms(1) by (rule reachable_store_inv)
  then have "distinct (map row_key (cd_resources d))" by (simp add: store_inv_def rows_wf_def)
  with assms(2) obtain r: "r = rm_resource m" and v: "validate_resource (se_control ext) r = Inr ()"
    and c: "\<not> revision_conflict m"
    and log: "cd_idempotency d1 = cd_idempotency d @ [mutation_record m]"
    and fresh: "\<forall>x \<in> set (cd_idempotency d). \<not> record_is (md_tenant_id (cr_metadata r)) (rm_context m) x"
    by (rule mutate_applied)
  have "store_inv ext d1" using inv assms(2) by (blast intro: store_inv_step store_step.mutation)
  from idempotency_prefix [OF assms(3) this] log obtain rest where
    "cd_idempotency d2 = cd_idempotency d @ mutation_record m # rest" by auto
  then have "find (record_is (md_tenant_id (cr_metadata r)) (rm_context m)) (cd_idempotency d2) =
      Some (mutation_record m)"
    using fresh by (simp add: find_first_match r)
  moreover have "context_validate (rm_context m) later = Inr ()"
    using assms(2,4) by (auto simp: mutate_def context_validate_def)
  ultimately show ?thesis
    using v c assms(4)
    by (simp add: mutate_def replay_idempotency_def mutation_record_def decode_resource_def r Let_def)
qed

subsection \<open>Revisions\<close>

lemma applied_revision_row:
  assumes "store_inv ext d" and "mutate ext clock fresh audit_id m now d = Inr (Applied r, d')"
    and "x \<in> set (cd_resources d)" and "row_key x = document_key r"
  shows "crr_revision x < md_revision (cr_metadata r) \<and> not_deleted x"
proof -
  have dist: "distinct (map row_key (cd_resources d))"
    using assms(1) by (simp add: store_inv_def rows_wf_def)
  with assms(2) obtain previous where r: "r = rm_resource m"
    and v: "validate_resource (se_control ext) r = Inr ()"
    and c: "\<not> revision_conflict m" and p: "load_previous ext m d = Inr previous"
    and new: "rm_expected_revision m = None \<longrightarrow>
      (\<forall>x \<in> set (cd_resources d). row_key x \<noteq> document_key r)"
    by (rule mutate_applied)
  from new assms(3,4) obtain e where e: "rm_expected_revision m = Some e"
    by (cases "rm_expected_revision m") auto
  with p obtain row where "find (\<lambda>x. row_is (md_tenant_id (cr_metadata r)) (spec_kind (cr_resource r))
      (md_id (cr_metadata r)) x \<and> crr_revision x = e \<and> not_deleted x) (cd_resources d) = Some row"
    by (auto simp: load_previous_def Let_def r split: option.splits)
  from find_SomeD [OF this] have "row \<in> set (cd_resources d)" "row_key row = document_key r"
    "crr_revision row = e" "not_deleted row" by (auto simp: row_is_key document_key_def)
  with key_unique [OF dist assms(3)] assms(4) have "crr_revision x = e" "not_deleted x" by auto
  moreover have "md_revision (cr_metadata r) = e + 1" "md_revision (cr_metadata r) \<noteq> 0"
    using c e v by (auto simp: revision_conflict_def r validate_resource_def validate_metadata_def)
  moreover have "e < e + 1" if "e + 1 \<noteq> 0"
    using that unatSuc [of e] by (simp add: word_less_nat_alt add.commute)
  ultimately show ?thesis by simp
qed

lemma revisions_grow:
  assumes "(store_step ext)\<^sup>*\<^sup>* d d'" and "store_inv ext d" and "x \<in> set (cd_resources d)"
  shows "\<exists>y \<in> set (cd_resources d'). row_key y = row_key x \<and> crr_revision x \<le> crr_revision y \<and>
    (not_deleted y \<longrightarrow> not_deleted x)"
  using assms
proof (induction rule: rtranclp_induct)
  case (step e f)
  then obtain y where y: "y \<in> set (cd_resources e)" "row_key y = row_key x"
    "crr_revision x \<le> crr_revision y" "not_deleted y \<longrightarrow> not_deleted x"
    by blast
  have inv: "store_inv ext e" using store_inv_steps [OF step.hyps(1) step.prems(1)] .
  from step.hyps(2) show ?case
  proof (cases rule: store_step_cases)
    case (applied clock fresh audit_id m now r)
    have "distinct (map row_key (cd_resources e))" using inv by (simp add: store_inv_def rows_wf_def)
    with applied obtain hash c where r: "r = rm_resource m" and st: "stored (mutation_row m hash c) e f"
      by (rule mutate_applied)
    show ?thesis
    proof (cases "row_key y = document_key r")
      case True
      with applied_revision_row [OF inv applied y(1)] y(3,4)
      have "crr_revision x \<le> crr_revision (mutation_row m hash c)" "not_deleted x"
        by (auto simp: r intro: order.trans less_imp_le)
      then show ?thesis using st True y(2) unfolding stored_def by (auto simp: r)
    next
      case False
      then show ?thesis using st y unfolding stored_def by (auto simp: r)
    qed
  qed (use y in auto)
qed auto

text \<open>
  C15: no update is lost: of two applied mutations of one resource the later one has the
  greater revision, so an editor that worked from an old revision is refused, and a deleted
  resource never comes back under its id.
\<close>

theorem applied_revisions_increase:
  assumes "(store_step ext)\<^sup>*\<^sup>* (empty_store jobs routes) d"
    and "mutate ext clock fresh audit_id m now d = Inr (Applied r, d1)"
    and "(store_step ext)\<^sup>*\<^sup>* d1 d2"
    and "mutate ext clock' fresh' audit_id' m' later d2 = Inr (Applied r', d3)"
    and "document_key r' = document_key r"
  shows "md_revision (cr_metadata r) < md_revision (cr_metadata r') \<and> md_state (cr_metadata r) \<noteq> Deleted"
proof -
  have inv: "store_inv ext d" using assms(1) by (rule reachable_store_inv)
  then have "distinct (map row_key (cd_resources d))" by (simp add: store_inv_def rows_wf_def)
  with assms(2) obtain hash c where r: "r = rm_resource m" and st: "stored (mutation_row m hash c) d d1"
    by (rule mutate_applied)
  have inv1: "store_inv ext d1" using inv assms(2) by (blast intro: store_inv_step store_step.mutation)
  have inv2: "store_inv ext d2" using store_inv_steps [OF assms(3) inv1] .
  have "mutation_row m hash c \<in> set (cd_resources d1)" using st unfolding stored_def by blast
  from revisions_grow [OF assms(3) inv1 this] obtain y where
    y: "y \<in> set (cd_resources d2)" "row_key y = document_key r" "md_revision (cr_metadata r) \<le> crr_revision y"
      "not_deleted y \<longrightarrow> md_state (cr_metadata r) \<noteq> Deleted"
    by (auto simp: r not_deleted_def)
  with applied_revision_row [OF inv2 assms(4) y(1)] assms(5) show ?thesis
    by (simp add: order.strict_trans1)
qed

end
