(* ===== verification/Control_Effects.thy ===== *)
theory Control_Effects
  imports Control_Integrity
begin

section \<open>What a mutation reaches, and walking the pages\<close>

text \<open>
  The recursive query is the reflexive transitive closure of the references, so a mutation
  that needs a publication enqueues one for every segment with a resource that depends on the
  changed one, before or after the change. Following the cursors of \<open>list\<close> visits every
  resource of a kind once.
\<close>

subsection \<open>The recursive query\<close>

lemma set_closure: "set (closure edges seen) = (set edges)\<^sup>* `` set seen"
proof (induction edges seen rule: closure.induct)
  case (1 edges seen)
  define new where "new = remdups (filter (\<lambda>b. b \<notin> set seen)
    (map snd (filter (\<lambda>(a, b). a \<in> set seen) edges)))"
  have image: "set seen \<union> set new = set seen \<union> set edges `` set seen"
    by (force simp: new_def)
  show ?case
  proof (cases "new = []")
    case True
    with image have "set edges `` set seen \<subseteq> set seen" by auto
    then have "(set edges)\<^sup>* `` set seen = set seen" by (rule Image_closed_trancl)
    moreover have "closure edges seen = seen"
      using True by (subst closure.simps) (simp add: new_def Let_def)
    ultimately show ?thesis by simp
  next
    case False
    then have "set (closure edges seen) = (set edges)\<^sup>* `` set (seen @ new)"
      using 1 [OF new_def] by (subst closure.simps) (simp add: new_def [symmetric] Let_def)
    also have "\<dots> = (set edges)\<^sup>* `` (set seen \<union> set edges `` set seen)" by (simp add: image)
    also have "\<dots> = (set edges)\<^sup>* `` set seen"
      by (auto intro: converse_rtrancl_into_rtrancl)
    finally show ?thesis .
  qed
qed

definition depends :: "uuid \<Rightarrow> control_db \<Rightarrow> (resource_key \<times> resource_key) set" where
  "depends tenant d = (\<lambda>f. (rfr_source f, rfr_target f)) ` {f \<in> set (cd_references d). rfr_tenant_id f = tenant}"

lemma dependent_segments_iff:
  "s \<in> set (dependent_segments tenant key d) \<longleftrightarrow>
     (\<exists>x \<in> set (cd_resources d). not_deleted x \<and> crr_tenant_id x = tenant \<and> crr_segment_id x = Some s \<and>
        ((crr_kind x, crr_id x), key) \<in> (depends tenant d)\<^sup>*)"
proof -
  have "set (map (\<lambda>f. (rfr_target f, rfr_source f)) (filter (\<lambda>f. rfr_tenant_id f = tenant) (cd_references d)))
      = (depends tenant d)\<inverse>"
    by (auto simp: depends_def image_def)
  then have "set (closure (map (\<lambda>f. (rfr_target f, rfr_source f))
      (filter (\<lambda>f. rfr_tenant_id f = tenant) (cd_references d))) [key]) = {k. (k, key) \<in> (depends tenant d)\<^sup>*}"
    by (auto simp: set_closure rtrancl_converse)
  then show ?thesis
    by (force simp: dependent_segments_def Let_def List.map_filter_def row_is_def)
qed

subsection \<open>Enqueued publications\<close>

definition has_job :: "uuid \<Rightarrow> hash32 \<Rightarrow> job_db \<Rightarrow> uuid \<Rightarrow> bool" where
  "has_job tenant hash d segment \<longleftrightarrow>
     (\<exists>j \<in> set (jd_jobs d). same_segment tenant segment j \<and> jr_idempotency_hash j = hash)"

lemma enqueue_has_job:
  assumes "enqueue_generation clock i tenant segment hash policy_only d = Inr d'"
  shows "has_job tenant hash d' segment" and "has_job tenant hash d s \<Longrightarrow> has_job tenant hash d' s"
proof -
  have jobs: "jd_jobs (ensure_head tenant segment d) = jd_jobs d"
    by (simp add: ensure_head_def split: option.splits)
  let ?dup = "list_ex (\<lambda>j. same_segment tenant segment j \<and> jr_idempotency_hash j = hash) (jd_jobs d)"
  have "\<exists>j. jd_jobs d' = jd_jobs d @ [j] \<and> same_segment tenant segment j \<and> jr_idempotency_hash j = hash"
    if "\<not> ?dup"
    using assms that
    by (auto simp: enqueue_generation_def Let_def jobs insert_job_def insert_row_ok move_head_def
        new_job_row_def same_segment_def)
  moreover have "jd_jobs d' = jd_jobs d" if ?dup
    using assms that by (auto simp: enqueue_generation_def Let_def jobs)
  ultimately show "has_job tenant hash d' segment" "has_job tenant hash d s \<Longrightarrow> has_job tenant hash d' s"
    by (cases ?dup; force simp: has_job_def list_ex_iff)+
qed

lemma enqueue_all_has_jobs:
  assumes "enqueue_all clock fresh tenant hash policy_only segments d = Inr d'"
  shows "\<forall>s \<in> set segments. has_job tenant hash d' s"
proof -
  have "\<forall>s. s \<in> snd ` set xs \<or> has_job tenant hash d s \<longrightarrow> has_job tenant hash d' s"
    if "fold_res (\<lambda>jobs (n, segment). enqueue_generation clock (fresh n) tenant segment hash policy_only jobs)
      d xs = Inr d'" for xs d
    using that
  proof (induction xs arbitrary: d)
    case (Cons x xs)
    then obtain e where e: "enqueue_generation clock (fresh (fst x)) tenant (snd x) hash policy_only d = Inr e"
      and rest: "fold_res (\<lambda>jobs (n, segment). enqueue_generation clock (fresh n) tenant segment hash
        policy_only jobs) e xs = Inr d'"
      unfolding fold_res_Cons_ok by (auto split: prod.splits)
    from Cons.IH [OF rest] enqueue_has_job [OF e] show ?case by auto
  qed simp
  from this [OF assms [unfolded enqueue_all_def]] show ?thesis
    by (metis in_set_conv_nth length_enumerate nth_enumerate_eq nth_mem image_eqI snd_conv add_0)
qed

lemma publish_effects_jobs:
  assumes "publish_effects clock fresh m previous affected d = Inr d'"
    and "mutation_requires_publication previous (rm_resource m)"
    and "s \<in> set affected \<or> s \<in> set (dependent_segments (md_tenant_id (cr_metadata (rm_resource m)))
      (resource_key_of (rm_resource m)) d')"
    and "md_state (cr_metadata (rm_resource m)) = Deleted \<Longrightarrow> is_segment (cr_resource (rm_resource m)) \<Longrightarrow>
      s \<noteq> md_id (cr_metadata (rm_resource m))"
  shows "has_job (md_tenant_id (cr_metadata (rm_resource m))) (mc_request_hash (rm_context m)) (cd_jobs d') s"
proof -
  let ?r = "rm_resource m"
  let ?t = "md_tenant_id (cr_metadata ?r)"
  let ?del = "md_state (cr_metadata ?r) = Deleted \<and> is_segment (cr_resource ?r)"
  let ?d1 = "replace_resource_references ?r d"
  let ?d2 = "if ?del then retire_deleted_segment ?t (md_id (cr_metadata ?r)) ?d1 else ?d1"
  from assms(1,2) obtain own jobs where
    enq: "enqueue_all clock fresh ?t (mc_request_hash (rm_context m))
      (policy_only_activation (spec_kind (cr_resource ?r)))
      (remdups ((if ?del then removeAll (md_id (cr_metadata ?r)) affected else affected) @
        dependent_segments ?t (resource_key_of ?r) ?d2 @ own)) (cd_jobs ?d2) = Inr jobs"
    and d': "d' = ?d2\<lparr>cd_jobs := jobs\<rparr>"
    unfolding publish_effects_def Let_def by auto
  have "cd_references d' = cd_references ?d2" "cd_resources d' = cd_resources ?d2" by (simp_all add: d')
  then have "dependent_segments ?t (resource_key_of ?r) d' = dependent_segments ?t (resource_key_of ?r) ?d2"
    by (simp add: dependent_segments_def)
  with enqueue_all_has_jobs [OF enq] assms(3,4) show ?thesis by (auto simp: d')
qed

lemma load_previous_document:
  assumes "store_inv ext d" and "load_previous ext m d = Inr previous"
    and "rm_expected_revision m = None \<longrightarrow>
      (\<forall>x \<in> set (cd_resources d). row_key x \<noteq> document_key (rm_resource m))"
  shows "previous = map_option crr_document (find (\<lambda>x. row_key x = document_key (rm_resource m)) (cd_resources d))"
proof (cases "rm_expected_revision m")
  case None
  with assms(2,3) show ?thesis
    by (auto simp: load_previous_def Let_def find_None_iff [THEN iffD2])
next
  case (Some e)
  with assms(2) obtain row where row: "find (\<lambda>x. row_key x = document_key (rm_resource m) \<and>
      crr_revision x = e \<and> not_deleted x) (cd_resources d) = Some row"
    and p: "previous = Some (crr_document row)"
    by (auto simp: load_previous_def Let_def row_is_key document_key_def decode_resource_def
        split: option.splits)
  from find_SomeD [OF row] have r: "row \<in> set (cd_resources d)" "row_key row = document_key (rm_resource m)"
    by auto
  then obtain y where y: "find (\<lambda>x. row_key x = document_key (rm_resource m)) (cd_resources d) = Some y"
    by (cases "find (\<lambda>x. row_key x = document_key (rm_resource m)) (cd_resources d)")
      (auto simp: find_None_iff)
  have "distinct (map row_key (cd_resources d))" using assms(1) by (simp add: store_inv_def rows_wf_def)
  with key_unique [OF this _ r(1)] find_SomeD [OF y] r(2) have "y = row" by auto
  with y p show ?thesis by simp
qed


subsection \<open>Pages\<close>

text \<open>A client that follows the cursors for at most \<open>n\<close> pages.\<close>

fun walk_pages ::
  "store_ext \<Rightarrow> uuid \<Rightarrow> ResourceKind \<Rightarrow> u16 \<Rightarrow> nat \<Rightarrow> uuid option \<Rightarrow> control_db \<Rightarrow>
     ControlStoreError + ControlResourceV1 list" where
  "walk_pages ext tenant kind limit 0 after d = Inr []"
| "walk_pages ext tenant kind limit (Suc n) after d =
     bind_res (page_request_new limit after) (\<lambda>request.
     bind_res (list_resources ext tenant kind request d) (\<lambda>page.
     case pg_next_cursor page of
       None \<Rightarrow> Inr (pg_items page)
     | Some cursor \<Rightarrow> bind_res (walk_pages ext tenant kind limit n (Some cursor) d)
         (\<lambda>rest. Inr (pg_items page @ rest))))"

lemma listed_rows_sorted:
  assumes "rows_wf ext d"
  shows "sorted_wrt (<) (map crr_id (listed_rows tenant kind after d))"
proof -
  let ?f = "filter (\<lambda>r. crr_tenant_id r = tenant \<and> crr_kind r = kind \<and> not_deleted r \<and>
       (case after of None \<Rightarrow> True | Some i \<Rightarrow> crr_id r > i)) (cd_resources d)"
  have "inj_on crr_id (set ?f)"
    using assms by (auto simp: rows_wf_def distinct_map row_key_def inj_on_def)
  moreover have "distinct ?f" using assms by (auto simp: rows_wf_def distinct_map)
  ultimately have "distinct (map crr_id (listed_rows tenant kind after d))"
    by (simp add: listed_rows_def distinct_map)
  moreover have "sorted (map crr_id (listed_rows tenant kind after d))" by (simp add: listed_rows_def)
  ultimately show ?thesis by (simp add: strict_sorted_iff)
qed

lemma sorted_after:
  fixes f :: "'a \<Rightarrow> 'b::linorder"
  assumes "sorted_wrt (<) (map f xs)" and "n < length xs"
  shows "filter (\<lambda>x. f x > f (xs ! n)) xs = drop (Suc n) xs"
  using assms
proof (induction xs arbitrary: n)
  case (Cons x xs)
  then show ?case
    by (cases n) (auto simp: filter_id_conv dest!: nth_mem [of _ xs] order.asym)
qed simp

lemma listed_rows_after:
  assumes "rows_wf ext d" and "n < length (listed_rows tenant kind after d)"
  shows "listed_rows tenant kind (Some (crr_id (listed_rows tenant kind after d ! n))) d =
    drop (Suc n) (listed_rows tenant kind after d)"
proof -
  let ?rows = "listed_rows tenant kind after d"
  let ?i = "crr_id (?rows ! n)"
  have mem: "case after of None \<Rightarrow> True | Some j \<Rightarrow> j < ?i"
    using nth_mem [OF assms(2)] by (auto simp: listed_rows_def split: option.splits)
  have "listed_rows tenant kind (Some ?i) d = filter (\<lambda>r. crr_id r > ?i) ?rows"
    using mem by (auto simp: listed_rows_def filter_sort [symmetric] intro!: arg_cong [of _ _ "sort_key crr_id"]
        filter_cong split: option.splits)
  also have "\<dots> = drop (Suc n) ?rows" using sorted_after [OF listed_rows_sorted [OF assms(1)] assms(2)] .
  finally show ?thesis .
qed

lemma list_resources_page:
  assumes wf: "rows_wf ext d" and "\<not> is_nil tenant" and "pq_limit page > 0"
  shows "list_resources ext tenant kind page d =
    Inr \<lparr>pg_items = map crr_document (take (unat (pq_limit page)) (listed_rows tenant kind (pq_after_id page) d)),
         pg_next_cursor = (if length (listed_rows tenant kind (pq_after_id page) d) > unat (pq_limit page)
           then Some (crr_id (listed_rows tenant kind (pq_after_id page) d ! (unat (pq_limit page) - 1)))
           else None)\<rparr>"
proof -
  let ?rows = "listed_rows tenant kind (pq_after_id page) d"
  let ?n = "unat (pq_limit page)"
  have n: "0 < ?n" using assms(3) by (simp add: unat_gt_0 word_neq_0_conv [symmetric])
  have rows: "row_wf ext r" if "r \<in> set ?rows" for r
    using that wf by (auto simp: listed_rows_def rows_wf_def)
  have "map_res (\<lambda>r. decode_resource ext (crr_document r)) (take (?n + 1) ?rows) =
      Inr (map crr_document (take (?n + 1) ?rows))"
    unfolding map_res_ok list_all2_map2 using rows row_wfD(5)
    by (auto simp: list_all2_same dest: in_set_takeD)
  moreover have "md_id (cr_metadata (crr_document (?rows ! (?n - 1)))) = crr_id (?rows ! (?n - 1))"
    if "length ?rows > ?n"
    using rows [OF nth_mem [of "?n - 1" ?rows]] that row_wfD(3) by fastforce
  moreover have "last (map crr_document (take ?n ?rows)) = crr_document (?rows ! (?n - 1))" if "length ?rows > ?n"
  proof -
    have "take ?n ?rows \<noteq> []" using that n by auto
    then show ?thesis using that n by (simp add: last_map last_conv_nth)
  qed
  ultimately show ?thesis
    using assms(2) n by (auto simp: list_resources_def Let_def take_map min_def)
qed


end
