(* ===== verification/Control_Store_Witness.thy ===== *)
theory Control_Store_Witness
  imports Control_Effects
begin

section \<open>The management store on a concrete tenant\<close>

text \<open>
  A tenant that creates a site and a segment, with the requests and the tables written out. The
  theorems of \<^verbatim>\<open>Control_Integrity\<close> and \<^verbatim>\<open>Control_Effects\<close> are applied to it here, which shows
  that their hypotheses hold of executions of \<^verbatim>\<open>mutate\<close>.
\<close>

subsection \<open>A concrete store\<close>

definition wit_store_ext :: store_ext where
  "wit_store_ext = \<lparr>se_control = \<lparr>json_record = (\<lambda>r. Some (dr_name r)),
       json_spec = (\<lambda>s. Some [1]), sha256 = (\<lambda>b. replicate 32 3)\<rparr>,
     se_serializable = (\<lambda>_. True), se_spec_fields = (\<lambda>_. Some [])\<rparr>"

definition wit_routes :: route_db where
  "wit_routes = \<lparr>db_segments = [], db_publications = [], db_projections = [], db_members = [],
     db_transports = [], db_paths = [], db_expansions = [], db_rollouts = [], db_audits = [],
     db_topology = \<lparr>tt_attachments = [], tt_sites = [], tt_site_prefixes = [],
       tt_node_pools = [], tt_nodes = [], tt_endpoints = [], tt_subscriptions = [],
       tt_entitlements = [], tt_organizations = [], tt_tenants = [], tt_devices = [], tt_active_keys = [], tt_status = []\<rparr>\<rparr>"

definition wit_mutation :: "ResourceSpecV1 \<Rightarrow> string \<Rightarrow> u64 \<Rightarrow> u64 option \<Rightarrow> ResourceMutation" where
  "wit_mutation spec key revision expected =
     \<lparr>rm_context = \<lparr>mc_actor_id = ''op'', mc_idempotency_key = key, mc_request_method = ''PUT'',
        mc_request_path = ''/s'', mc_request_hash = replicate 32 7, mc_idempotency_replay_until = 100\<rparr>,
      rm_resource = \<lparr>cr_metadata = \<lparr>md_schema_version = 1, md_id = 11, md_tenant_id = 2,
          md_revision = revision, md_state = Active\<rparr>, cr_resource = spec\<rparr>,
      rm_expected_revision = expected\<rparr>"

definition wit_site :: ResourceSpecV1 where
  "wit_site = Site \<lparr>st_name = ''n'', st_kind = Edge\<rparr>"

definition wit_overlay :: ResourceSpecV1 where
  "wit_overlay = Segment \<lparr>sg_name = ''n'', sg_overlay_prefix = Ipv4PrefixV1 0x0A000000 24\<rparr>"

abbreviation wit_empty :: control_db where
  "wit_empty \<equiv> empty_store empty_jobs wit_routes"

lemma wit_spec_valid: "validate_name ''n'' = Inr ()" "validate_prefix (Ipv4PrefixV1 0x0A000000 24) = Inr ()"
proof -
  have chars: "chars ''n'' = [110]" "str_trim ''n'' = ''n''"
    by (simp_all add: chars_def str_trim_def is_whitespace_scalar_def utf8_extra_def)
  then show "validate_name ''n'' = Inr ()"
    by (simp add: validate_name_def validate_display_text_def is_control_scalar_def MAX_NAME_LEN_def)
  show "validate_prefix (Ipv4PrefixV1 0x0A000000 24) = Inr ()" by code_simp
qed

lemma wit_valid:
  assumes "spec = wit_site \<or> spec = wit_overlay"
  shows "revision \<noteq> 0 \<Longrightarrow>
    validate_resource (se_control wit_store_ext) (rm_resource (wit_mutation spec k revision e)) = Inr ()"
    and "document_hash (se_control wit_store_ext) spec = Inr (replicate 32 3)"
  using assms
  by (auto simp: wit_mutation_def validate_resource_def validate_metadata_def CONTROL_SCHEMA_V1_def
      is_nil_def wit_spec_valid document_hash_def wit_store_ext_def wit_site_def wit_overlay_def)

lemma closure_no_edges [simp]: "closure [] seen = seen"
  by (subst closure.simps) simp

text \<open>What is enough for a mutation to be applied.\<close>

lemma mutate_succeeds:
  assumes "context_validate (rm_context m) now = Inr ()"
    and "validate_resource (se_control ext) (rm_resource m) = Inr ()" and "\<not> revision_conflict m"
    and "\<forall>x \<in> set (cd_idempotency d). \<not> record_is (md_tenant_id (cr_metadata (rm_resource m))) (rm_context m) x"
    and "load_previous ext m d = Inr previous" and "validate_cross_resource ext (rm_resource m) d = Inr ()"
    and "se_serializable ext (rm_resource m)"
    and "document_hash (se_control ext) (cr_resource (rm_resource m)) = Inr hash"
    and "store_resource m hash d = Inr d1"
    and "publish_effects clock fresh m previous (dependent_segments (md_tenant_id (cr_metadata (rm_resource m)))
      (resource_key_of (rm_resource m)) d) d1 = Inr d2"
    and "audit_id \<notin> aur_id ` set (db_audits (cd_routes d2))" and "cd_idempotency d1 = cd_idempotency d"
  obtains d' where "mutate ext clock fresh audit_id m now d = Inr (Applied (rm_resource m), d')"
    and "aur_id ` set (db_audits (cd_routes d')) = insert audit_id (aur_id ` set (db_audits (cd_routes d2)))"
    and "cd_resources d' = cd_resources d1" and "cd_idempotency d' = cd_idempotency d @ [mutation_record m]"
    and "cd_references d' = cd_references d2"
proof -
  have none: "find (record_is (md_tenant_id (cr_metadata (rm_resource m))) (rm_context m)) (cd_idempotency d) = None"
    using assms(4) by (simp add: find_None_iff)
  obtain d3 where a: "insert_resource_audit ext audit_id m previous d2 = Inr d3"
    and ids: "aur_id ` set (db_audits (cd_routes d3)) = insert audit_id (aur_id ` set (db_audits (cd_routes d2)))"
    using assms(11) by (auto simp: insert_resource_audit_def Let_def insert_row_ok audit_conflict_def)
  note ta = insert_resource_audit_tables [OF a] publish_effects_tables [OF assms(10)]
  have i: "insert_idempotency ext m d3 = Inr (d3\<lparr>cd_idempotency := cd_idempotency d3 @ [mutation_record m]\<rparr>)"
    using assms(4,7,12) by (simp add: insert_idempotency_def mutation_record_def Let_def list_ex_iff ta)
  have "mutate ext clock fresh audit_id m now d =
      Inr (Applied (rm_resource m), d3\<lparr>cd_idempotency := cd_idempotency d3 @ [mutation_record m]\<rparr>)"
    using assms(1-3,5-10) none a i
    by (simp add: mutate_def apply_mutation_def replay_idempotency_def Let_def del: bind_res_ok)
  then show thesis
  proof (rule that)
    show "cd_idempotency (d3\<lparr>cd_idempotency := cd_idempotency d3 @ [mutation_record m]\<rparr>) =
      cd_idempotency d @ [mutation_record m]" by (simp add: ta assms(12))
  qed (simp_all add: ids ta(1,3,5))
qed


lemma wit_fields [simp]:
  "md_tenant_id (cr_metadata (rm_resource (wit_mutation s k v e))) = 2"
  "md_id (cr_metadata (rm_resource (wit_mutation s k v e))) = 11"
  "md_state (cr_metadata (rm_resource (wit_mutation s k v e))) = Active"
  "md_revision (cr_metadata (rm_resource (wit_mutation s k v e))) = v"
  "cr_resource (rm_resource (wit_mutation s k v e)) = s"
  "rm_expected_revision (wit_mutation s k v e) = e"
  by (simp_all add: wit_mutation_def)

lemma wit_references [simp]:
  "resource_references (rm_resource (wit_mutation wit_site k v e)) = []"
  "resource_references (rm_resource (wit_mutation wit_overlay k v e)) = []"
  "affected_segment_id (rm_resource (wit_mutation wit_site k v e)) = None"
  "affected_segment_id (rm_resource (wit_mutation wit_overlay k v e)) = Some 11"
  "resource_key_of (rm_resource (wit_mutation wit_site k v e)) = (KSite, 11)"
  "resource_key_of (rm_resource (wit_mutation wit_overlay k v e)) = (KSegment, 11)"
  "spec_kind wit_site = KSite" "spec_kind wit_overlay = KSegment"
  "is_segment wit_site \<longleftrightarrow> False"
  by (simp_all add: resource_references_def affected_segment_id_def resource_key_of_def wit_site_def
      wit_overlay_def is_segment_def)

lemma wit_site_effects:
  assumes "cd_resources d = [mutation_row (wit_mutation wit_site k v e) h c]" and "cd_references d = []"
  shows "publish_effects 5 (\<lambda>n. of_nat n) (wit_mutation wit_site k v e) previous [] d = Inr d"
proof -
  have "dependent_segments 2 (KSite, 11) d = []"
    using assms by (simp add: dependent_segments_def List.map_filter_def)
  moreover have "replace_resource_references (rm_resource (wit_mutation wit_site k v e)) d = d"
    using assms by (simp add: replace_resource_references_def)
  ultimately show ?thesis by (simp add: publish_effects_def enqueue_all_def Let_def del: bind_res_ok)
qed

lemma wit_overlay_effects:
  assumes "cd_resources d = [mutation_row (wit_mutation wit_overlay k v e) h c]" and "cd_references d = []"
    and "cd_jobs d = empty_jobs"
  obtains jobs where "publish_effects 5 (\<lambda>n. of_nat n) (wit_mutation wit_overlay k v e) None [] d =
    Inr (d\<lparr>cd_jobs := jobs\<rparr>)"
proof -
  have "dependent_segments 2 (KSegment, 11) d = [11]"
    using assms by (simp add: dependent_segments_def List.map_filter_def row_is_def not_deleted_def)
  moreover have "replace_resource_references (rm_resource (wit_mutation wit_overlay k v e)) d = d"
    using assms by (simp add: replace_resource_references_def)
  moreover obtain jobs where "enqueue_generation 5 0 2 11 (mc_request_hash (rm_context (wit_mutation wit_overlay k v e)))
      (policy_only_activation (spec_kind wit_overlay)) empty_jobs = Inr jobs"
    by (auto simp: enqueue_generation_def ensure_head_def find_head_def empty_jobs_def insert_job_def insert_row_def
      move_head_def checked_add_def Let_def)
  ultimately show thesis
    using assms(3) by (intro that [of jobs]) (simp add: publish_effects_def enqueue_all_def Let_def
      mutation_requires_publication_def del: bind_res_ok)
qed

lemma wit_checks:
  assumes "s = wit_site \<or> s = wit_overlay" and "cd_resources d = [] \<or> s = wit_site"
  shows "validate_cross_resource wit_store_ext (rm_resource (wit_mutation s k v e)) d = Inr ()"
  using assms by (auto simp: validate_cross_resource_def cross_checks_def validate_segment_overlay_def
      wit_site_def wit_overlay_def resource_references_def Let_def)

lemma wit_context:
  "k \<noteq> [] \<Longrightarrow> length k < 160 \<Longrightarrow> t < 100 \<Longrightarrow> context_validate (rm_context (wit_mutation s k v e)) t = Inr ()"
  by (simp add: context_validate_def wit_mutation_def MAX_ACTOR_LEN_def MAX_IDEMPOTENCY_KEY_LEN_def
      MAX_REQUEST_PATH_LEN_def zero_hash_def)

lemma wit_serializable [simp]: "se_serializable wit_store_ext r"
  by (simp add: wit_store_ext_def)

lemma wit_create:
  assumes "s = wit_site \<or> s = wit_overlay"
  obtains d where "mutate wit_store_ext 5 (\<lambda>n. of_nat n) 50 (wit_mutation s ''a'' 1 None) 5 wit_empty =
      Inr (Applied (rm_resource (wit_mutation s ''a'' 1 None)), d)"
    and "aur_id ` set (db_audits (cd_routes d)) = {50}" and "cd_references d = []"
    and "cd_resources d = [mutation_row (wit_mutation s ''a'' 1 None) (replicate 32 3)
      (mc_actor_id (rm_context (wit_mutation s ''a'' 1 None)))]"
    and "cd_idempotency d = [mutation_record (wit_mutation s ''a'' 1 None)]"
proof -
  let ?m = "wit_mutation s ''a'' 1 None"
  let ?d1 = "wit_empty\<lparr>cd_resources := [mutation_row ?m (replicate 32 3) (mc_actor_id (rm_context ?m))]\<rparr>"
  have tables: "cd_resources wit_empty = []" "cd_references wit_empty = []" "cd_idempotency wit_empty = []"
    "cd_jobs wit_empty = empty_jobs" "db_audits (cd_routes wit_empty) = []"
    by (simp_all add: empty_store_def wit_routes_def)
  have dep: "dependent_segments t k wit_empty = []" for t k
    by (simp add: dependent_segments_def tables List.map_filter_def)
  have st: "store_resource ?m (replicate 32 3) wit_empty = Inr ?d1"
    by (simp add: store_resource_def tables)
  obtain jobs where "publish_effects 5 (\<lambda>n. of_nat n) ?m None [] ?d1 = Inr (?d1\<lparr>cd_jobs := jobs\<rparr>)"
  proof (cases "s = wit_site")
    case True
    then show ?thesis using wit_site_effects [of ?d1 "''a''" 1 None] that [of empty_jobs]
      by (simp add: tables empty_store_def)
  next
    case False
    with assms have "s = wit_overlay" by simp
    then show ?thesis using that by (auto intro: wit_overlay_effects [of ?d1 "''a''" 1 None] simp: tables)
  qed
  then have eff: "publish_effects 5 (\<lambda>n. of_nat n) ?m None (dependent_segments
      (md_tenant_id (cr_metadata (rm_resource ?m))) (resource_key_of (rm_resource ?m)) wit_empty) ?d1 =
      Inr (?d1\<lparr>cd_jobs := jobs\<rparr>)"
    by (simp add: dep)
  have pre: "context_validate (rm_context ?m) 5 = Inr ()"
    "validate_resource (se_control wit_store_ext) (rm_resource ?m) = Inr ()" "\<not> revision_conflict ?m"
    "\<forall>x \<in> set (cd_idempotency wit_empty). \<not> record_is (md_tenant_id (cr_metadata (rm_resource ?m))) (rm_context ?m) x"
    "load_previous wit_store_ext ?m wit_empty = Inr None"
    "validate_cross_resource wit_store_ext (rm_resource ?m) wit_empty = Inr ()"
    using wit_context [of "''a''" 5] wit_valid(1) [OF assms, of 1] wit_checks [OF assms, of wit_empty]
    by (simp_all add: revision_conflict_def tables load_previous_def)
  have hash: "document_hash (se_control wit_store_ext) (cr_resource (rm_resource ?m)) = Inr (replicate 32 3)"
    using wit_valid(2) [OF assms] by simp
  obtain d where "mutate wit_store_ext 5 (\<lambda>n. of_nat n) 50 ?m 5 wit_empty = Inr (Applied (rm_resource ?m), d)"
    "aur_id ` set (db_audits (cd_routes d)) = insert 50 (aur_id ` set (db_audits (cd_routes (?d1\<lparr>cd_jobs := jobs\<rparr>))))"
    "cd_resources d = cd_resources ?d1" "cd_idempotency d = cd_idempotency wit_empty @ [mutation_record ?m]"
    "cd_references d = cd_references (?d1\<lparr>cd_jobs := jobs\<rparr>)"
    by (rule mutate_succeeds [OF pre wit_serializable hash st eff]) (simp_all add: tables)
  then show thesis by (intro that [of d]) (simp_all add: tables)
qed

lemma wit_update:
  obtains d d' where "mutate wit_store_ext 5 (\<lambda>n. of_nat n) 50 (wit_mutation wit_site ''a'' 1 None) 5 wit_empty =
      Inr (Applied (rm_resource (wit_mutation wit_site ''a'' 1 None)), d)"
    and "mutate wit_store_ext 5 (\<lambda>n. of_nat n) 51 (wit_mutation wit_site ''b'' 2 (Some 1)) 6 d =
      Inr (Applied (rm_resource (wit_mutation wit_site ''b'' 2 (Some 1))), d')"
proof -
  let ?m = "wit_mutation wit_site ''a'' 1 None" and ?n = "wit_mutation wit_site ''b'' 2 (Some 1)"
  obtain d where d: "mutate wit_store_ext 5 (\<lambda>n. of_nat n) 50 ?m 5 wit_empty = Inr (Applied (rm_resource ?m), d)"
    and t: "aur_id ` set (db_audits (cd_routes d)) = {50}" "cd_references d = []"
      "cd_resources d = [mutation_row ?m (replicate 32 3) (mc_actor_id (rm_context ?m))]"
      "cd_idempotency d = [mutation_record ?m]"
    by (rule wit_create [of wit_site]) simp_all
  let ?d1 = "d\<lparr>cd_resources := [mutation_row ?n (replicate 32 3) (mc_actor_id (rm_context ?m))]\<rparr>"
  have created: "crr_created_by (mutation_row ?m h c) = c" for h c by (simp add: mutation_row_def)
  have st: "store_resource ?n (replicate 32 3) d = Inr ?d1"
    by (simp add: store_resource_def t row_is_def created)
  have prev: "load_previous wit_store_ext ?n d = Inr (Some (rm_resource ?m))"
    using wit_valid(1) [of wit_site 1 "''a''" None]
    by (simp add: load_previous_def t row_is_def not_deleted_def decode_resource_def del: bind_res_ok)
  have dep: "dependent_segments 2 (KSite, 11) d = []"
    by (simp add: dependent_segments_def t List.map_filter_def)
  have eff: "publish_effects 5 (\<lambda>n. of_nat n) ?n (Some (rm_resource ?m)) (dependent_segments
      (md_tenant_id (cr_metadata (rm_resource ?n))) (resource_key_of (rm_resource ?n)) d) ?d1 = Inr ?d1"
    using wit_site_effects [of ?d1] by (simp add: t dep)
  have "\<not> record_is 2 (rm_context ?n) (mutation_record ?m)"
    by (simp add: record_is_def mutation_record_def wit_mutation_def)
  then have pre: "context_validate (rm_context ?n) 6 = Inr ()"
    "validate_resource (se_control wit_store_ext) (rm_resource ?n) = Inr ()" "\<not> revision_conflict ?n"
    "\<forall>x \<in> set (cd_idempotency d). \<not> record_is (md_tenant_id (cr_metadata (rm_resource ?n))) (rm_context ?n) x"
    using wit_context [of "''b''" 6] wit_valid(1) [of wit_site 2] by (simp_all add: revision_conflict_def t)
  have cross: "validate_cross_resource wit_store_ext (rm_resource ?n) d = Inr ()"
    using wit_checks [of wit_site d] by simp
  have hash: "document_hash (se_control wit_store_ext) (cr_resource (rm_resource ?n)) = Inr (replicate 32 3)"
    using wit_valid(2) [of wit_site] by simp
  have audit: "51 \<notin> aur_id ` set (db_audits (cd_routes ?d1))" by (simp add: t)
  obtain d' where "mutate wit_store_ext 5 (\<lambda>n. of_nat n) 51 ?n 6 d = Inr (Applied (rm_resource ?n), d')"
    by (rule mutate_succeeds [OF pre prev cross wit_serializable hash st eff audit]) (simp_all add: t)
  with d show thesis by (rule that)
qed

theorem reachable_store_consistent_witness:
  "\<exists>d. (store_step wit_store_ext)\<^sup>*\<^sup>* wit_empty d \<and> cd_resources d \<noteq> [] \<and> references_exact d \<and>
     pairwise_compatible d"
proof -
  obtain d where d: "mutate wit_store_ext 5 (\<lambda>n. of_nat n) 50 (wit_mutation wit_site ''a'' 1 None) 5 wit_empty =
      Inr (Applied (rm_resource (wit_mutation wit_site ''a'' 1 None)), d)" "cd_resources d \<noteq> []"
    by (rule wit_create [of wit_site]) simp_all
  then have "(store_step wit_store_ext)\<^sup>*\<^sup>* wit_empty d" by (blast intro: store_step.mutation)
  with reachable_store_consistent [OF this] d(2) show ?thesis by blast
qed

theorem mutation_retry_replays_witness:
  "\<exists>d. mutate wit_store_ext 5 (\<lambda>n. of_nat n) 50 (wit_mutation wit_site ''a'' 1 None) 5 wit_empty =
      Inr (Applied (rm_resource (wit_mutation wit_site ''a'' 1 None)), d) \<and>
     mutate wit_store_ext 9 (\<lambda>n. of_nat n) 60 (wit_mutation wit_site ''a'' 1 None) 9 d =
      Inr (MutReplayed (rm_resource (wit_mutation wit_site ''a'' 1 None)), d)"
proof -
  obtain d where d: "mutate wit_store_ext 5 (\<lambda>n. of_nat n) 50 (wit_mutation wit_site ''a'' 1 None) 5 wit_empty =
      Inr (Applied (rm_resource (wit_mutation wit_site ''a'' 1 None)), d)"
    by (rule wit_create [of wit_site]) simp_all
  have "9 < mc_idempotency_replay_until (rm_context (wit_mutation wit_site ''a'' 1 None))"
    by (simp add: wit_mutation_def)
  with mutation_retry_replays [OF rtranclp.rtrancl_refl d rtranclp.rtrancl_refl] d show ?thesis by blast
qed

theorem applied_revisions_increase_witness:
  "\<exists>d d'. mutate wit_store_ext 5 (\<lambda>n. of_nat n) 50 (wit_mutation wit_site ''a'' 1 None) 5 wit_empty =
      Inr (Applied (rm_resource (wit_mutation wit_site ''a'' 1 None)), d) \<and>
     mutate wit_store_ext 5 (\<lambda>n. of_nat n) 51 (wit_mutation wit_site ''b'' 2 (Some 1)) 6 d =
      Inr (Applied (rm_resource (wit_mutation wit_site ''b'' 2 (Some 1))), d') \<and>
     md_revision (cr_metadata (rm_resource (wit_mutation wit_site ''a'' 1 None))) <
       md_revision (cr_metadata (rm_resource (wit_mutation wit_site ''b'' 2 (Some 1))))"
proof -
  obtain d d' where d: "mutate wit_store_ext 5 (\<lambda>n. of_nat n) 50 (wit_mutation wit_site ''a'' 1 None) 5 wit_empty =
      Inr (Applied (rm_resource (wit_mutation wit_site ''a'' 1 None)), d)"
    and d': "mutate wit_store_ext 5 (\<lambda>n. of_nat n) 51 (wit_mutation wit_site ''b'' 2 (Some 1)) 6 d =
      Inr (Applied (rm_resource (wit_mutation wit_site ''b'' 2 (Some 1))), d')"
    by (rule wit_update)
  have "document_key (rm_resource (wit_mutation wit_site ''b'' 2 (Some 1))) =
      document_key (rm_resource (wit_mutation wit_site ''a'' 1 None))" by (simp add: document_key_def)
  from applied_revisions_increase [OF rtranclp.rtrancl_refl d rtranclp.rtrancl_refl d' this] d d'
  show ?thesis by blast
qed



end
