(* ===== verification/Geo_Provider.thy ===== *)
theory Geo_Provider
  imports Sdwan_Contract Control_Contract
begin

section \<open>Geographic rules (\<open>geo_provider.rs\<close> of \<open>cloud-db\<close>, \<open>control_publisher.rs\<close> of \<open>cloud-worker\<close>)\<close>

text \<open>
  A rule of a service policy may name countries instead of prefixes. The platform settings say
  where the prefixes of a country come from; the worker keeps a directory with one file per
  country, downloads it anew when it is stale, and replaces the country selector of a rule by
  the prefixes of the files. A directory is a map from file names to contents with the age of
  the file; the answers of the operating system to each rename, removal and write, and of the
  server to each download, are arguments.
\<close>

subsection \<open>Platform settings\<close>

definition OPENWRT_CIDR_PROVIDER :: string where "OPENWRT_CIDR_PROVIDER = ''openwrt-cidr-v1''"

record GeoProviderSettings =
  gs_provider :: string
  gs_source_url :: string
  gs_countries :: "string list"
  gs_refresh_interval_seconds :: u32
  gs_enabled :: bool
  gs_version :: "string option"
  gs_digest :: "string option"
  gs_generation :: u64

datatype GeoProviderError = GeoInvalid | GeoScope | GeoConflict | GeoStorage

fun geo_error_text :: "GeoProviderError \<Rightarrow> string" where
  "geo_error_text GeoInvalid = ''invalid Geo provider settings''"
| "geo_error_text GeoScope = ''invalid scope''"
| "geo_error_text GeoConflict = ''generation conflict''"
| "geo_error_text GeoStorage = ''storage unavailable''"

definition settings_validate :: "GeoProviderSettings \<Rightarrow> GeoProviderError + unit" where
  "settings_validate s = first_err
     [guard (gs_provider s \<noteq> OPENWRT_CIDR_PROVIDER \<or> length (gs_source_url s) > 2048 \<or>
        \<not> starts_with ''https://'' (gs_source_url s) \<or> gs_countries s = [] \<or>
        length (gs_countries s) > 256 \<or> gs_refresh_interval_seconds s < 300 \<or>
        gs_refresh_interval_seconds s > 2592000 \<or> gs_generation s = 0 \<or>
        (case gs_version s of None \<Rightarrow> False | Some v \<Rightarrow> v = [] \<or> length v > 64)) GeoInvalid,
      guard (list_ex (\<lambda>c. length c \<noteq> 2 \<or> \<not> list_all is_ascii_uppercase c) (gs_countries s) \<or>
        card (set (gs_countries s)) \<noteq> length (gs_countries s)) GeoInvalid,
      guard (case gs_digest s of None \<Rightarrow> False
             | Some d \<Rightarrow> length d \<noteq> 64 \<or> \<not> list_all is_ascii_hexdigit d) GeoInvalid]"

text \<open>The table has the one row with \<open>id = 1\<close>, the settings and who wrote them.\<close>

type_synonym geo_table = "(GeoProviderSettings \<times> uuid) option"

definition geo_get :: "geo_table \<Rightarrow> GeoProviderSettings option" where
  "geo_get t = map_option fst t"

definition geo_put :: "GeoProviderSettings \<Rightarrow> uuid \<Rightarrow> geo_table \<Rightarrow> GeoProviderError + geo_table" where
  "geo_put s actor t =
     bind_res (settings_validate s) (\<lambda>_.
     bind_res (guard (is_nil actor) GeoScope) (\<lambda>_.
     bind_res (case t of
         Some (current, _) \<Rightarrow>
           guard (gs_generation s \<noteq> (if gs_generation current = - 1 then - 1 else gs_generation current + 1))
             GeoConflict
       | None \<Rightarrow> guard (gs_generation s \<noteq> 1) GeoConflict) (\<lambda>_.
     Inr (Some (s, actor)))))"

subsection \<open>Errors of the publisher input\<close>

datatype InputReadinessError = PathCandidates | TransportIdentity | PeerPolicy | NodeIdentity

text \<open>
  An \<open>anyhow\<close> error is its text and what can be found in its chain: a readiness error, the busy
  marker, an error of the route tables, of the operating system or of the HTTP client. A panic
  is kept as an error with its message; the lemmas show that it does not occur.
\<close>

datatype InputError =
    Readiness InputReadinessError
  | GeoBusy
  | RouteTables string SdwanError
  | Io string
  | Http string
  | Bail string

definition GEO_PROVIDER_KIND :: string where "GEO_PROVIDER_KIND = ''openwrt-cidr-v1''"
definition MAX_GEO_ROUTE_PREFIXES :: nat where "MAX_GEO_ROUTE_PREFIXES = 65536"
definition GEO_PROVIDER_SOURCE_FILE :: string where "GEO_PROVIDER_SOURCE_FILE = ''SOURCE_URL''"

subsection \<open>Directories\<close>

record geo_file =
  gf_content :: string
  gf_age :: "nat option"

type_synonym geo_dir = "string \<Rightarrow> geo_file option"

text \<open>
  The root has the directories \<open>current\<close> and \<open>.previous\<close>, the stage of the running refresh, and
  files of its own, which serve when there is no \<open>current\<close>.
\<close>

record geo_root =
  gr_current :: "geo_dir option"
  gr_previous :: "geo_dir option"
  gr_stage :: "geo_dir option"
  gr_files :: geo_dir

text \<open>The answers of the operating system: whether each call succeeds.\<close>

record geo_io =
  io_recover :: bool
  io_create_root :: bool
  io_create :: bool
  io_write :: bool
  io_clean :: bool
  io_rotate :: bool
  io_activate :: bool
  io_restore :: bool
  io_drop :: bool

definition geo_provider_dir :: "geo_root \<Rightarrow> geo_dir" where
  "geo_provider_dir g = (case gr_current g of Some dir \<Rightarrow> dir | None \<Rightarrow> gr_files g)"

definition recover_previous :: "geo_io \<Rightarrow> geo_root \<Rightarrow> (InputError + unit) \<times> geo_root" where
  "recover_previous io g =
     (if gr_current g = None \<and> gr_previous g \<noteq> None
      then if io_recover io
           then (Inr (), g\<lparr>gr_current := gr_previous g, gr_previous := None\<rparr>)
           else (Inl (Io ''recover previous GeoIP provider''), g)
      else (Inr (), g))"

text \<open>
  The rotation: the old directory steps aside as \<open>.previous\<close>, the stage takes its place, and
  when that fails the old directory is put back. The removals of \<open>.previous\<close> may also leave a
  part of it behind, which the value \<open>rest\<close> stands for.
\<close>

definition activate_geo_provider ::
  "geo_io \<Rightarrow> geo_dir option \<Rightarrow> geo_root \<Rightarrow> (InputError + geo_dir) \<times> geo_root" where
  "activate_geo_provider io rest g0 =
     (case recover_previous io g0 of
        (Inl e, g) \<Rightarrow> (Inl e, g)
      | (Inr _, g) \<Rightarrow>
          (case gr_current g of
             None \<Rightarrow>
               (if io_activate io
                then (ok_or (gr_stage g) (Io ''activate GeoIP provider directory''),
                      g\<lparr>gr_current := gr_stage g, gr_stage := None\<rparr>)
                else (Inl (Io ''activate GeoIP provider directory''), g))
           | Some old \<Rightarrow>
               if gr_previous g \<noteq> None \<and> \<not> io_clean io
               then (Inl (Io ''clean previous GeoIP provider''), g\<lparr>gr_previous := rest\<rparr>)
               else if \<not> io_rotate io
               then (Inl (Io ''rotate GeoIP provider directory''), g\<lparr>gr_previous := None\<rparr>)
               else let g1 = g\<lparr>gr_current := None, gr_previous := Some old\<rparr> in
                 (case gr_stage g1 of
                    Some stage \<Rightarrow>
                      if io_activate io
                      then (Inr stage, g1\<lparr>gr_current := Some stage, gr_stage := None,
                              gr_previous := (if io_drop io then None else rest)\<rparr>)
                      else if io_restore io
                      then (Inl (Io ''activate GeoIP provider directory''),
                            g1\<lparr>gr_current := Some old, gr_previous := None\<rparr>)
                      else (Inl (Io ''restore previous GeoIP provider''), g1)
                  | None \<Rightarrow>
                      if io_restore io
                      then (Inl (Io ''activate GeoIP provider directory''),
                            g1\<lparr>gr_current := Some old, gr_previous := None\<rparr>)
                      else (Inl (Io ''restore previous GeoIP provider''), g1))))"

subsection \<open>Refreshing\<close>

definition read_to_string :: "geo_dir \<Rightarrow> string \<Rightarrow> string option" where
  "read_to_string dir name = map_option gf_content (dir name)"

definition lowercase :: "string \<Rightarrow> string" where
  "lowercase s = map to_ascii_lowercase s"

definition country_file :: "string \<Rightarrow> string" where
  "country_file country = lowercase country @ ''-ip.cidr''"

definition provider_is_fresh :: "geo_dir \<Rightarrow> GeoProviderSettings \<Rightarrow> bool" where
  "provider_is_fresh dir s \<longleftrightarrow>
     map_option str_trim (read_to_string dir GEO_PROVIDER_SOURCE_FILE) = Some (gs_source_url s) \<and>
     (case gs_version s of None \<Rightarrow> True
      | Some expected \<Rightarrow> map_option str_trim (read_to_string dir ''VERSION'') = Some expected) \<and>
     (let files = List.map_filter (\<lambda>country. dir (country_file country)) (gs_countries s)
      in files \<noteq> [] \<and>
         list_all (\<lambda>f. case gf_age f of None \<Rightarrow> False
           | Some age \<Rightarrow> age \<le> unat (gs_refresh_interval_seconds s)) files)"

text \<open>\<open>str::lines\<close>: the pieces before line feeds without a final carriage return, and what follows the
  last line feed.\<close>

definition str_lines :: "string \<Rightarrow> string list" where
  "str_lines s =
     (let pieces = split_on (CHR 0x0A) s
      in map (\<lambda>p. if p \<noteq> [] \<and> last p = CHR 0x0D then butlast p else p) (butlast pieces) @
         (if last pieces = [] then [] else [last pieces]))"

definition line_value :: "string \<Rightarrow> string" where
  "line_value raw = str_trim (hd (split_on (CHR ''#'') raw))"

text \<open>
  One entry: an address, a slash and a length that make a canonical prefix. \<open>where_text\<close> ends
  the message: the country, or the file (its directory and the line number are left out).
\<close>

definition parse_cidr :: "string \<Rightarrow> string \<Rightarrow> InputError + Ipv4PrefixV1" where
  "parse_cidr where_text value =
     bind_res (ok_or (split_once (CHR ''/'') value) (Bail (''invalid GeoIP CIDR '' @ where_text))) (\<lambda>(n, l).
     bind_res (ok_or (parse_ipv4_addr n) (Bail (''invalid GeoIP IPv4 address '' @ where_text))) (\<lambda>address.
     bind_res (ok_or (u8_from_str_radix 10 l) (Bail (''invalid GeoIP prefix length '' @ where_text))) (\<lambda>len.
     bind_res (map_err (\<lambda>_. Bail (''non-canonical GeoIP CIDR '' @ where_text))
       (validate_prefix (Ipv4PrefixV1 address len))) (\<lambda>_.
     Inr (Ipv4PrefixV1 address len)))))"

definition entries :: "string \<Rightarrow> string list" where
  "entries content = filter (\<lambda>v. v \<noteq> []) (map line_value (str_lines content))"

fun trim_end_slashes :: "string \<Rightarrow> string" where
  "trim_end_slashes s = rev (dropWhile (\<lambda>c. c = CHR ''/'') (rev s))"

definition download_country ::
  "(string \<Rightarrow> InputError + string) \<Rightarrow> geo_io \<Rightarrow> GeoProviderSettings \<Rightarrow> geo_dir \<Rightarrow> string \<Rightarrow>
     InputError + geo_dir" where
  "download_country http io s stage country =
     (let code = lowercase country in
      bind_res (http (trim_end_slashes (gs_source_url s) @ ''/'' @ code @ ''-aggregated.zone'')) (\<lambda>content.
      bind_res (map_res (parse_cidr (''for '' @ country)) (entries content)) (\<lambda>prefixes.
      bind_res (guard (prefixes = [])
        (Bail (''GeoIP provider returned no IPv4 prefixes for '' @ country))) (\<lambda>_.
      bind_res (guard (\<not> io_write io) (Io ''stage GeoIP provider data'')) (\<lambda>_.
      Inr (stage(code @ ''-ip.cidr'' \<mapsto> \<lparr>gf_content = content, gf_age = Some 0\<rparr>)))))))"

definition stage_metadata :: "string \<Rightarrow> GeoProviderSettings \<Rightarrow> geo_dir \<Rightarrow> geo_dir" where
  "stage_metadata today s stage =
     stage(''VERSION'' \<mapsto> \<lparr>gf_content = (case gs_version s of None \<Rightarrow> today | Some v \<Rightarrow> v) @ [CHR 0x0A],
             gf_age = Some 0\<rparr>,
           GEO_PROVIDER_SOURCE_FILE \<mapsto> \<lparr>gf_content = gs_source_url s @ [CHR 0x0A], gf_age = Some 0\<rparr>)"

definition refresh_geo_provider ::
  "(string \<Rightarrow> InputError + string) \<Rightarrow> geo_io \<Rightarrow> geo_dir option \<Rightarrow> string \<Rightarrow> GeoProviderSettings \<Rightarrow>
     geo_root \<Rightarrow> (InputError + geo_dir) \<times> geo_root" where
  "refresh_geo_provider http io rest today s g0 =
     (case recover_previous io g0 of
        (Inl e, g) \<Rightarrow> (Inl e, g)
      | (Inr _, g) \<Rightarrow>
          if provider_is_fresh (geo_provider_dir g) s then (Inr (geo_provider_dir g), g)
          else if \<not> io_create_root io then (Inl (Io ''create GeoIP provider root''), g)
          else if \<not> io_create io
          then (Inl (Io ''create GeoIP provider staging directory''), g)
          else (case bind_res (fold_res (download_country http io s) Map.empty (gs_countries s)) (\<lambda>stage.
                       bind_res (guard (\<not> io_write io) (Io ''stage GeoIP provider version'')) (\<lambda>_.
                       Inr (stage_metadata today s stage))) of
                  Inl e \<Rightarrow> (Inl e, g)
                | Inr stage \<Rightarrow>
                    (case activate_geo_provider io rest (g\<lparr>gr_stage := Some stage\<rparr>) of
                       (r, g') \<Rightarrow> (r, g'\<lparr>gr_stage := None\<rparr>))))"

definition validate_geo_provider_metadata ::
  "GeoProviderSettings \<Rightarrow> geo_dir \<Rightarrow> InputError + unit" where
  "validate_geo_provider_metadata s dir =
     bind_res (ok_or (read_to_string dir GEO_PROVIDER_SOURCE_FILE)
       (Io ''GeoIP provider SOURCE_URL is unavailable'')) (\<lambda>source.
     bind_res (guard (str_trim source \<noteq> gs_source_url s)
       (Bail (''GeoIP provider source mismatch: configured source is '' @ gs_source_url s @
              '', local source is '' @ str_trim source))) (\<lambda>_.
     for_each (\<lambda>country. guard (dir (country @ ''-ip.cidr'') = None)
         (Bail (''GeoIP provider data is unavailable for country '' @ country)))
       (remdups (map lowercase (gs_countries s)))))"

subsection \<open>Expanding a rule\<close>

definition geo_entry :: "string \<Rightarrow> string \<Rightarrow> InputError + Ipv4PrefixV1" where
  "geo_entry file value =
     bind_res (guard (CHR '':'' \<in> set value) (Bail (''IPv6 GeoIP entry is not supported at '' @ file))) (\<lambda>_.
     parse_cidr (''at '' @ file) value)"

text \<open>The prefixes of one country, and its part of the text that is hashed.\<close>

definition country_entries ::
  "geo_dir \<Rightarrow> string \<Rightarrow> InputError + (Ipv4PrefixV1 list \<times> u8 list)" where
  "country_entries dir country =
     bind_res (ok_or (read_to_string dir (country_file country))
       (Io (''GeoIP provider file is unavailable: '' @ country_file country))) (\<lambda>content.
     bind_res (map_res (geo_entry (country_file country)) (entries content)) (\<lambda>prefixes.
     Inr (prefixes, concat (map (\<lambda>v. str_bytes country @ [0] @ str_bytes v @ [10]) (entries content)))))"

definition sort_prefixes :: "Ipv4PrefixV1 list \<Rightarrow> Ipv4PrefixV1 list" where
  "sort_prefixes ps = sort_key network (sort_key prefix_len ps)"

definition expand_geo_rule ::
  "(u8 list \<Rightarrow> u8 list) \<Rightarrow> geo_dir \<Rightarrow> ServicePolicyRuleV1 \<Rightarrow>
     InputError + (ServicePolicyRuleV1 \<times> hash32 option)" where
  "expand_geo_rule sha dir rule =
     (case rule_destination_geo rule of
        None \<Rightarrow> Inr (rule, None)
      | Some selector \<Rightarrow>
          bind_res (guard (geo_provider selector \<noteq> GEO_PROVIDER_KIND)
            (Bail (''unsupported GeoIP provider '' @ geo_provider selector @ ''; expected '' @
              GEO_PROVIDER_KIND))) (\<lambda>_.
          bind_res (case geo_version selector of
              None \<Rightarrow> Inr ()
            | Some expected \<Rightarrow>
                bind_res (ok_or (read_to_string dir ''VERSION'')
                  (Io ''GeoIP provider VERSION is unavailable'')) (\<lambda>actual.
                guard (str_trim actual \<noteq> expected)
                  (Bail (''GeoIP provider version mismatch: expected '' @ expected @ '', found '' @
                    str_trim actual)))) (\<lambda>_.
          bind_res (map_res (country_entries dir) (geo_countries selector)) (\<lambda>parts.
          let canonical = concat (map snd parts);
              prefixes = remdups_adj (sort_prefixes
                (rule_destination_prefixes rule @ concat (map fst parts)));
              digest = sha canonical
          in bind_res (guard (canonical = []) (Bail ''GeoIP selector has no IPv4 prefixes'')) (\<lambda>_.
             bind_res (guard (length prefixes > MAX_GEO_ROUTE_PREFIXES)
               (Bail (''GeoIP selector expands to '' @ decimal (length prefixes) @
                 '' prefixes, exceeding the signed route limit of '' @ decimal MAX_GEO_ROUTE_PREFIXES))) (\<lambda>_.
             bind_res (case geo_digest selector of
                 None \<Rightarrow> Inr ()
               | Some expected \<Rightarrow> guard (hex digest \<noteq> lowercase expected)
                   (Bail ''GeoIP provider digest mismatch'')) (\<lambda>_.
             Inr (rule\<lparr>rule_destination_prefixes := prefixes\<rparr>, Some digest))))))))"

subsection \<open>Keeping a provider\<close>

text \<open>The provider that is in place, or that the next recovery puts in place.\<close>

definition kept_provider :: "geo_root \<Rightarrow> geo_dir option" where
  "kept_provider g = (case gr_current g of Some dir \<Rightarrow> Some dir | None \<Rightarrow> gr_previous g)"

lemma recover_previous_kept:
  assumes "recover_previous io g = (r, g')"
  shows "kept_provider g' = kept_provider g"
  using assms by (auto simp: recover_previous_def kept_provider_def split: if_splits option.splits)

lemma activate_kept:
  assumes "activate_geo_provider io rest g = (Inl e, g')"
  shows "kept_provider g' = kept_provider g"
proof -
  obtain r h where h: "recover_previous io g = (r, h)" by (cases "recover_previous io g")
  have "kept_provider g' = kept_provider h"
    using assms h
    by (auto simp: activate_geo_provider_def kept_provider_def Let_def recover_previous_def
        split: sum.splits option.splits if_splits)
  with recover_previous_kept [OF h] show ?thesis by simp
qed

lemma activate_current:
  assumes "activate_geo_provider io rest g = (Inr dir, g')"
  shows "gr_stage g = Some dir \<and> gr_current g' = Some dir"
  using assms
  by (auto simp: activate_geo_provider_def Let_def recover_previous_def
      split: sum.splits option.splits if_splits prod.splits)

lemma fresh_staged:
  assumes "fold_res (download_country http io s) Map.empty (gs_countries s) = Inr stage"
    and "gs_countries s \<noteq> []"
    and "str_trim (gs_source_url s @ [CHR 0x0A]) = gs_source_url s"
    and "\<forall>v. gs_version s = Some v \<longrightarrow> str_trim (v @ [CHR 0x0A]) = v"
  shows "provider_is_fresh (stage_metadata today s stage) s"
proof -
  let ?dir = "stage_metadata today s stage"
  have young: "\<forall>name f. stage name = Some f \<longrightarrow> gf_age f = Some 0"
    by (rule fold_res_invariant [OF assms(1)]) (auto simp: download_country_def Let_def split: if_splits)
  have names: "country_file c \<noteq> ''VERSION'' \<and> country_file c \<noteq> GEO_PROVIDER_SOURCE_FILE" for c
  proof -
    have "last (country_file c) = CHR ''r''" by (simp add: country_file_def)
    then show ?thesis by (auto simp: GEO_PROVIDER_SOURCE_FILE_def)
  qed
  have keep: "stage' c \<noteq> None" if "fold_res (download_country http io s) m cs = Inr stage'" "m c \<noteq> None"
    for m cs stage' c
    by (rule fold_res_invariant [where I = "\<lambda>m. m c \<noteq> None", OF that])
      (auto simp: download_country_def Let_def)
  have present: "\<exists>f. stage (country_file c) = Some f" if "c \<in> set (gs_countries s)" for c
  proof -
    from that obtain pre post where cs: "gs_countries s = pre @ c # post" by (meson split_list)
    with assms(1) obtain m m' where "download_country http io s m c = Inr m'"
      and rest: "fold_res (download_country http io s) m' post = Inr stage"
      by (auto simp: fold_res_append fold_res_Cons_ok simp del: fold_res.simps)
    then have "m' (country_file c) \<noteq> None" by (auto simp: download_country_def Let_def country_file_def)
    with keep [OF rest] show ?thesis by blast
  qed
  have files: "?dir (country_file c) = stage (country_file c)" for c
    using names [of c] by (simp add: stage_metadata_def)
  have aged: "\<exists>f. ?dir (country_file c) = Some f \<and> gf_age f = Some 0" if "c \<in> set (gs_countries s)" for c
    using present [OF that] young files by metis
  let ?files = "List.map_filter (\<lambda>c. ?dir (country_file c)) (gs_countries s)"
  have "\<forall>f \<in> set ?files. gf_age f = Some 0"
    using aged by (fastforce simp: List.map_filter_def)
  moreover obtain c where "c \<in> set (gs_countries s)" using assms(2) by (meson last_in_set)
  with aged [of c] have "?files \<noteq> []" by (auto simp: List.map_filter_def filter_empty_conv)
  ultimately show ?thesis
    using assms(3,4) unfolding provider_is_fresh_def
    by (auto simp: stage_metadata_def read_to_string_def GEO_PROVIDER_SOURCE_FILE_def list_all_iff
        Let_def split: option.splits)
qed


subsection \<open>What a rule expands to\<close>

lemma country_entries_ok:
  assumes "country_entries dir country = Inr (ps, bs)"
  shows "\<exists>content. read_to_string dir (country_file country) = Some content \<and>
    list_all2 (\<lambda>v p. geo_entry (country_file country) v = Inr p) (entries content) ps"
  using assms by (auto simp: country_entries_def map_res_ok)

text \<open>
  C20: a country selector becomes exactly the prefixes that the files of its countries list,
  next to the prefixes the rule had: in address order, without repetition, at most 65536 of
  them, and every added one is canonical and not the default route.
\<close>

theorem expand_geo_rule_exact:
  assumes "expand_geo_rule sha dir rule = Inr (rule', digest)"
    and "rule_destination_geo rule = Some selector"
  defines "listed \<equiv> {p. \<exists>country \<in> set (geo_countries selector). \<exists>content.
    read_to_string dir (country_file country) = Some content \<and>
    (\<exists>v \<in> set (entries content). geo_entry (country_file country) v = Inr p)}"
  shows "set (rule_destination_prefixes rule') = set (rule_destination_prefixes rule) \<union> listed \<and>
    listed \<noteq> {} \<and> (\<forall>p \<in> listed. validate_prefix p = Inr ()) \<and>
    distinct (rule_destination_prefixes rule') \<and>
    sorted_wrt (\<lambda>p q. network p < network q \<or> network p = network q \<and> prefix_len p \<le> prefix_len q)
      (rule_destination_prefixes rule') \<and>
    length (rule_destination_prefixes rule') \<le> MAX_GEO_ROUTE_PREFIXES \<and>
    rule' = rule\<lparr>rule_destination_prefixes := rule_destination_prefixes rule'\<rparr>"
proof -
  from assms(1,2) obtain parts where parts: "map_res (country_entries dir) (geo_countries selector) = Inr parts"
    and ne: "concat (map snd parts) \<noteq> []"
    and len: "length (rule_destination_prefixes rule') \<le> MAX_GEO_ROUTE_PREFIXES"
    and rule': "rule' = rule\<lparr>rule_destination_prefixes := remdups_adj (sort_prefixes
        (rule_destination_prefixes rule @ concat (map fst parts)))\<rparr>"
    by (auto simp: expand_geo_rule_def Let_def simp del: concat_eq_Nil_conv)
  have each: "list_all2 (\<lambda>c part. country_entries dir c = Inr part) (geo_countries selector) parts"
    using parts by (simp add: map_res_ok)
  have "p \<in> listed \<longleftrightarrow> p \<in> set (concat (map fst parts))" for p
  proof
    assume "p \<in> listed"
    then obtain c content v where c: "c \<in> set (geo_countries selector)"
      "read_to_string dir (country_file c) = Some content" "v \<in> set (entries content)"
      "geo_entry (country_file c) v = Inr p" unfolding listed_def by blast
    with each obtain part where part: "part \<in> set parts" "country_entries dir c = Inr part"
      by (meson list_all2_mem1)
    obtain ps bs where "part = (ps, bs)" by (cases part)
    with part c country_entries_ok [of dir c ps bs]
    have "list_all2 (\<lambda>v p. geo_entry (country_file c) v = Inr p) (entries content) ps" by auto
    with c(3,4) have "p \<in> set ps" using list_all2_mem1 by fastforce
    with part(1) \<open>part = (ps, bs)\<close> show "p \<in> set (concat (map fst parts))" by force
  next
    assume "p \<in> set (concat (map fst parts))"
    then obtain ps bs where "(ps, bs) \<in> set parts" "p \<in> set ps" by auto
    with each obtain c where c: "c \<in> set (geo_countries selector)" "country_entries dir c = Inr (ps, bs)"
      by (meson list_all2_mem2)
    from country_entries_ok [OF c(2)] obtain content where
      "read_to_string dir (country_file c) = Some content"
      "list_all2 (\<lambda>v p. geo_entry (country_file c) v = Inr p) (entries content) ps" by blast
    with c(1) \<open>p \<in> set ps\<close> show "p \<in> listed" unfolding listed_def by (fastforce dest: list_all2_mem2)
  qed
  then have listed: "listed = set (concat (map fst parts))" by blast
  have "listed \<noteq> {}"
  proof
    assume "listed = {}"
    have "snd part = []" if "part \<in> set parts" for part
    proof -
      from that each obtain c where c: "country_entries dir c = Inr part" by (meson list_all2_mem2)
      obtain ps bs where part: "part = (ps, bs)" by (cases part)
      from that \<open>listed = {}\<close> listed part have "ps = []" by auto
      with c part show ?thesis by (auto simp: country_entries_def map_res_ok)
    qed
    with ne show False by simp
  qed
  moreover have "\<forall>p \<in> listed. validate_prefix p = Inr ()"
    unfolding listed_def geo_entry_def parse_cidr_def by auto
  moreover have "distinct (rule_destination_prefixes rule') \<and>
    sorted_wrt (\<lambda>p q. network p < network q \<or> network p = network q \<and> prefix_len p \<le> prefix_len q)
      (rule_destination_prefixes rule')"
  proof -
    have "distinct (remdups_adj (sort_prefixes ps)) \<and>
        sorted_wrt (\<lambda>p q. network p < network q \<or> network p = network q \<and> prefix_len p \<le> prefix_len q)
          (remdups_adj (sort_prefixes ps))" for ps
      unfolding sort_prefixes_def
      by (rule remdups_adj_lex [OF sort_key_lex]) (auto intro: Ipv4PrefixV1.expand)
    then show ?thesis by (simp add: rule')
  qed
  moreover have "set (rule_destination_prefixes rule') = set (rule_destination_prefixes rule) \<union> listed"
    unfolding rule' listed by (simp add: sort_prefixes_def)
  ultimately show ?thesis using len rule' by simp
qed

end
