(* ===== verification/Egress_Selection.thy ===== *)
theory Egress_Selection
  imports Geo_Provider Control_Store
begin

section \<open>Remote egress (\<open>select_remote_egress_rules\<close> of \<open>control_publisher.rs\<close>)\<close>

text \<open>
  Which traffic leaves the network through which egress: the rules of all active policies are
  ordered by priority, and for each source site and destination the first rule that applies
  decides. The decisions then become routes, destinations and authorisations per site. The
  hash map of decisions is a HOL map; the set of sites is a list without repetitions, whose
  order does not show in the result because that is sorted by site and destination.
\<close>

subsection \<open>The decisions\<close>

record EffectiveRemoteEgressRule =
  ere_policy_ref :: PolicyRefV1
  ere_priority :: u32
  ere_source_site_id :: uuid
  ere_destination :: RoutePrefix
  ere_egress_id :: uuid

definition normalized_policy_destinations :: "Ipv4PrefixV1 list \<Rightarrow> Ipv4PrefixV1 list" where
  "normalized_policy_destinations prefixes =
     (let legacy_default = [Ipv4PrefixV1 0 1, Ipv4PrefixV1 0x80000000 1]
      in if length prefixes = length legacy_default \<and>
            list_all (\<lambda>l. list_ex (\<lambda>p. p = l) prefixes) legacy_default
         then [Ipv4PrefixV1 0 0] else prefixes)"

definition remote_egress ::
  "(uuid \<Rightarrow> EgressV1 option) \<Rightarrow> ServicePolicyRuleV1 \<Rightarrow> InputError + (uuid \<times> EgressV1) option" where
  "remote_egress egresses rule =
     (case rule_action rule of
        LocalEgress \<Rightarrow> Inr None
      | RemoteEgress e \<Rightarrow>
          bind_res (ok_or (egresses e) (Bail ''remote egress rule references an inactive Egress''))
            (\<lambda>egress. Inr (Some (e, egress))))"

definition source_sites ::
  "uuid list \<Rightarrow> ServicePolicyRuleV1 \<Rightarrow> (uuid \<times> EgressV1) option \<Rightarrow> uuid list" where
  "source_sites attachment_sites rule remote =
     (let sites = (if rule_source_site_ids rule = [] then attachment_sites
                   else rule_source_site_ids rule)
      in case remote of None \<Rightarrow> sites
         | Some (_, egress) \<Rightarrow> filter (\<lambda>site. site \<noteq> eg_site_id egress) sites)"

type_synonym decisions = "uuid \<times> RoutePrefix \<Rightarrow> (u32 \<times> uuid option) option"

definition decide ::
  "PolicyRefV1 \<Rightarrow> ServicePolicyRuleV1 \<Rightarrow> uuid option \<Rightarrow> decisions \<times> EffectiveRemoteEgressRule list \<Rightarrow>
     uuid \<times> Ipv4PrefixV1 \<Rightarrow> InputError + (decisions \<times> EffectiveRemoteEgressRule list)" where
  "decide policy_ref rule action = (\<lambda>(decisions, selected) (site, prefix).
     bind_res (map_err (\<lambda>_. Bail ''validated control prefix must convert'')
       (new_egress_destination (network prefix) (prefix_len prefix))) (\<lambda>destination.
     case decisions (site, destination) of
       Some (priority, existing_action) \<Rightarrow>
         if priority = rule_priority rule \<and> existing_action \<noteq> action
         then Inl (Bail (''service policy has equal-priority conflicting actions for source Site '' @
           uuid_string site @ '' and destination '' @
           prefix_text (Ipv4PrefixV1 (rp_network destination) (rp_prefix_len destination))))
         else Inr (decisions, selected)
     | None \<Rightarrow>
         Inr (decisions((site, destination) \<mapsto> (rule_priority rule, action)),
           case action of None \<Rightarrow> selected
           | Some egress_id \<Rightarrow> selected @
               [\<lparr>ere_policy_ref = policy_ref, ere_priority = rule_priority rule,
                 ere_source_site_id = site, ere_destination = destination,
                 ere_egress_id = egress_id\<rparr>])))"

definition rule_step ::
  "uuid list \<Rightarrow> (uuid \<Rightarrow> EgressV1 option) \<Rightarrow> decisions \<times> EffectiveRemoteEgressRule list \<Rightarrow>
     PolicyRefV1 \<times> ServicePolicyRuleV1 \<Rightarrow> InputError + (decisions \<times> EffectiveRemoteEgressRule list)" where
  "rule_step attachment_sites egresses state = (\<lambda>(policy_ref, rule).
     let destinations = normalized_policy_destinations (rule_destination_prefixes rule) in
     bind_res (remote_egress egresses rule) (\<lambda>remote.
     fold_res (decide policy_ref rule (map_option fst remote)) state
       (concat (map (\<lambda>site. map (Pair site) destinations) (source_sites attachment_sites rule remote)))))"

definition sort_rules ::
  "(PolicyRefV1 \<times> ServicePolicyRuleV1) list \<Rightarrow> (PolicyRefV1 \<times> ServicePolicyRuleV1) list" where
  "sort_rules rules =
     sort_key (\<lambda>(_, rule). rule_priority rule)
       (sort_key (\<lambda>(policy_ref, _). pref_policy_id policy_ref)
         (sort_key (\<lambda>(_, rule). rule_id rule) rules))"

definition select_remote_egress_rules ::
  "(PolicyRefV1 \<times> ServicePolicyRuleV1) list \<Rightarrow> uuid list \<Rightarrow> (uuid \<Rightarrow> EgressV1 option) \<Rightarrow>
     InputError + EffectiveRemoteEgressRule list" where
  "select_remote_egress_rules rules attachment_sites egresses =
     bind_res (fold_res (rule_step attachment_sites egresses) (Map.empty, []) (sort_rules rules))
       (\<lambda>(_, selected). Inr (sort_key ere_source_site_id (sort_key ere_destination
          (sort_key ere_priority (sort_key ere_egress_id selected)))))"

subsection \<open>Per site\<close>

definition merge_egress_destinations ::
  "RoutePrefix list \<Rightarrow> RoutePrefix list \<Rightarrow> InputError + RoutePrefix list" where
  "merge_egress_destinations destinations additions =
     bind_res (fold_res (\<lambda>ds a.
         if a \<in> set ds then Inr ds
         else if list_ex (\<lambda>x. route_prefix_overlaps x a) ds
         then Inl (Bail ''remote egress policy contains overlapping destination prefixes'')
         else Inr (ds @ [a])) destinations additions)
       (\<lambda>ds. Inr (sort ds))"

record egress_plan =
  ep_policy_for_site :: "uuid \<Rightarrow> PolicyRefV1 option"
  ep_routes_for_site :: "uuid \<Rightarrow> RemoteRouteV1 list option"
  ep_destinations_for_site :: "uuid \<Rightarrow> RoutePrefix list option"
  ep_gateway_sites :: "uuid list"

definition entry_or_default :: "'v list option \<Rightarrow> 'v list" where
  "entry_or_default e = (case e of None \<Rightarrow> [] | Some v \<Rightarrow> v)"

text \<open>A site is authorised by one policy: the first, and no other may follow.\<close>

definition authorise_site ::
  "string \<Rightarrow> uuid \<Rightarrow> PolicyRefV1 \<Rightarrow> egress_plan \<Rightarrow> InputError + egress_plan" where
  "authorise_site message site policy_ref plan =
     (case ep_policy_for_site plan site of
        Some existing \<Rightarrow> if existing \<noteq> policy_ref then Inl (Bail message) else Inr plan
      | None \<Rightarrow> Inr (plan\<lparr>ep_policy_for_site := (ep_policy_for_site plan)(site \<mapsto> policy_ref)\<rparr>))"

definition add_destination :: "uuid \<Rightarrow> RoutePrefix \<Rightarrow> egress_plan \<Rightarrow> InputError + egress_plan" where
  "add_destination site destination plan =
     bind_res (merge_egress_destinations (entry_or_default (ep_destinations_for_site plan site)) [destination])
       (\<lambda>ds. Inr (plan\<lparr>ep_destinations_for_site := (ep_destinations_for_site plan)(site \<mapsto> ds)\<rparr>))"

definition add_egress_route ::
  "uuid \<Rightarrow> RoutePrefix \<Rightarrow> EgressV1 \<Rightarrow> egress_plan \<Rightarrow> InputError + egress_plan" where
  "add_egress_route site destination egress plan =
     (let routes = entry_or_default (ep_routes_for_site plan site);
          addition = \<lparr>rr_destination_prefix = destination, rr_owner_site_id = eg_site_id egress,
            rr_owner_attachment_ids = [eg_attachment_id egress]\<rparr>
      in if list_ex (\<lambda>existing. route_prefix_overlaps (rr_destination_prefix existing)
              (rr_destination_prefix addition) \<and>
              rr_owner_attachment_ids existing \<noteq> rr_owner_attachment_ids addition) routes
         then Inl (Bail ''source Site has overlapping effective remote egress destinations'')
         else Inr (plan\<lparr>ep_routes_for_site := (ep_routes_for_site plan)(site \<mapsto>
           (if addition \<in> set routes then routes else routes @ [addition]))\<rparr>))"

definition plan_step ::
  "(uuid \<Rightarrow> EgressV1 option) \<Rightarrow> egress_plan \<Rightarrow> EffectiveRemoteEgressRule \<Rightarrow> InputError + egress_plan" where
  "plan_step egresses plan e =
     bind_res (ok_or (egresses (ere_egress_id e)) (Bail ''remote egress rule references an inactive Egress'')) (\<lambda>egress.
     bind_res (authorise_site ''Egress Site has conflicting remote egress policies''
       (eg_site_id egress) (ere_policy_ref e) plan) (\<lambda>plan.
     let plan = plan\<lparr>ep_gateway_sites := List.insert (eg_site_id egress) (ep_gateway_sites plan)\<rparr> in
     bind_res (add_destination (eg_site_id egress) (ere_destination e) plan) (\<lambda>plan.
     bind_res (authorise_site ''source Site has conflicting effective remote egress policies''
       (ere_source_site_id e) (ere_policy_ref e) plan) (\<lambda>plan.
     bind_res (add_destination (ere_source_site_id e) (ere_destination e) plan) (\<lambda>plan.
     add_egress_route (ere_source_site_id e) (ere_destination e) egress plan)))))"

definition plan_egress ::
  "(uuid \<Rightarrow> EgressV1 option) \<Rightarrow> EffectiveRemoteEgressRule list \<Rightarrow> InputError + egress_plan" where
  "plan_egress egresses rules =
     fold_res (plan_step egresses)
       \<lparr>ep_policy_for_site = Map.empty, ep_routes_for_site = Map.empty,
        ep_destinations_for_site = Map.empty, ep_gateway_sites = []\<rparr> rules"

subsection \<open>The first applicable rule decides\<close>

text \<open>
  The reference: a rule applies to a source site and a destination, and of the rules in their
  order the first that applies is the effective one.
\<close>

definition rule_destinations :: "ServicePolicyRuleV1 \<Rightarrow> RoutePrefix list" where
  "rule_destinations rule = map (\<lambda>p. RoutePrefix (network p) (prefix_len p))
     (normalized_policy_destinations (rule_destination_prefixes rule))"

definition rule_egress :: "ServicePolicyRuleV1 \<Rightarrow> uuid option" where
  "rule_egress rule = (case rule_action rule of LocalEgress \<Rightarrow> None | RemoteEgress e \<Rightarrow> Some e)"

definition rule_sources ::
  "uuid list \<Rightarrow> (uuid \<Rightarrow> EgressV1 option) \<Rightarrow> ServicePolicyRuleV1 \<Rightarrow> uuid list" where
  "rule_sources sites egresses rule =
     filter (\<lambda>site. \<forall>e egress. rule_egress rule = Some e \<longrightarrow> egresses e = Some egress \<longrightarrow> site \<noteq> eg_site_id egress)
       (if rule_source_site_ids rule = [] then sites else rule_source_site_ids rule)"

definition rule_applies ::
  "uuid list \<Rightarrow> (uuid \<Rightarrow> EgressV1 option) \<Rightarrow> uuid \<times> RoutePrefix \<Rightarrow> PolicyRefV1 \<times> ServicePolicyRuleV1 \<Rightarrow> bool" where
  "rule_applies sites egresses key r \<longleftrightarrow>
     fst key \<in> set (rule_sources sites egresses (snd r)) \<and> snd key \<in> set (rule_destinations (snd r))"

definition effective_rule ::
  "(PolicyRefV1 \<times> ServicePolicyRuleV1) list \<Rightarrow> uuid list \<Rightarrow> (uuid \<Rightarrow> EgressV1 option) \<Rightarrow>
     uuid \<times> RoutePrefix \<Rightarrow> (PolicyRefV1 \<times> ServicePolicyRuleV1) option" where
  "effective_rule rules sites egresses key = find (rule_applies sites egresses key) (sort_rules rules)"

text \<open>The loops visit the items \<open>(rule, site, destination)\<close> in this order.\<close>

type_synonym egress_item = "(PolicyRefV1 \<times> ServicePolicyRuleV1) \<times> uuid \<times> RoutePrefix"

definition item_rule :: "egress_item \<Rightarrow> EffectiveRemoteEgressRule list" where
  "item_rule i = (case rule_egress (snd (fst i)) of None \<Rightarrow> []
     | Some e \<Rightarrow> [\<lparr>ere_policy_ref = fst (fst i), ere_priority = rule_priority (snd (fst i)),
         ere_source_site_id = fst (snd i), ere_destination = snd (snd i), ere_egress_id = e\<rparr>])"

definition decided :: "egress_item list \<Rightarrow> decisions \<times> EffectiveRemoteEgressRule list \<Rightarrow> bool" where
  "decided items = (\<lambda>(decisions, selected).
     (\<forall>k. decisions k = map_option (\<lambda>i. (rule_priority (snd (fst i)), rule_egress (snd (fst i))))
        (find (\<lambda>i. snd i = k) items)) \<and>
     set selected = {e. \<exists>k i. find (\<lambda>i. snd i = k) items = Some i \<and> e \<in> set (item_rule i)} \<and>
     distinct (map (\<lambda>e. (ere_source_site_id e, ere_destination e)) selected) \<and>
     (\<forall>i j. find (\<lambda>i. snd i = snd j) items = Some i \<longrightarrow> j \<in> set items \<longrightarrow>
        rule_priority (snd (fst i)) = rule_priority (snd (fst j)) \<longrightarrow>
        rule_egress (snd (fst i)) = rule_egress (snd (fst j))))"

lemma found_after_update:
  assumes "F K = None"
  shows "{e. \<exists>k i. (if k = K then Some I else F k) = Some i \<and> e \<in> G i} =
    {e. \<exists>k i. F k = Some i \<and> e \<in> G i} \<union> G I"
  using assms by (auto split: if_splits) (metis option.distinct(1))

lemma item_rule_key: "e \<in> set (item_rule i) \<Longrightarrow> (ere_source_site_id e, ere_destination e) = snd i"
  by (auto simp: item_rule_def split: option.splits)

lemma new_egress_destination_eq:
  "new_egress_destination n l = Inr p \<Longrightarrow> p = RoutePrefix n l"
  by (auto simp: new_egress_destination_def route_prefix_new_with_default_def Let_def split: if_splits)

lemma decide_decided:
  assumes "decided items state"
    and "decide policy_ref rule (rule_egress rule) state (site, prefix) = Inr state'"
  shows "decided (items @ [((policy_ref, rule), site, RoutePrefix (network prefix) (prefix_len prefix))]) state'"
proof -
  obtain decisions selected where state: "state = (decisions, selected)" by (cases state)
  let ?k = "(site, RoutePrefix (network prefix) (prefix_len prefix))"
  let ?i = "((policy_ref, rule), ?k)"
  have inv: "decisions k = map_option (\<lambda>i. (rule_priority (snd (fst i)), rule_egress (snd (fst i))))
      (find (\<lambda>i. snd i = k) items)"
    "set selected = {e. \<exists>k i. find (\<lambda>i. snd i = k) items = Some i \<and> e \<in> set (item_rule i)}"
    "distinct (map (\<lambda>e. (ere_source_site_id e, ere_destination e)) selected)"
    "find (\<lambda>i. snd i = snd j) items = Some i \<Longrightarrow> j \<in> set items \<Longrightarrow>
      rule_priority (snd (fst i)) = rule_priority (snd (fst j)) \<Longrightarrow>
      rule_egress (snd (fst i)) = rule_egress (snd (fst j))" for k i j
    using assms(1) unfolding decided_def state by blast+
  show ?thesis
  proof (cases "find (\<lambda>i. snd i = ?k) items")
    case (Some i0)
    with assms(2) inv(1) [of ?k] have same: "state' = state"
      "rule_priority (snd (fst i0)) = rule_priority rule \<Longrightarrow> rule_egress (snd (fst i0)) = rule_egress rule"
      by (auto simp: decide_def state dest: new_egress_destination_eq split: if_splits)
    have find: "find (\<lambda>i. snd i = k) (items @ [?i]) = find (\<lambda>i. snd i = k) items" for k
      using Some by (cases i0) (auto simp: find_append split: option.splits)
    show ?thesis
      unfolding same state decided_def prod.case find
      using inv Some same(2) by auto
  next
    case None
    with assms(2) inv(1) [of ?k] have state': "state' = (decisions(?k \<mapsto> (rule_priority rule, rule_egress rule)),
        selected @ item_rule ?i)"
      by (auto simp: decide_def state item_rule_def dest!: new_egress_destination_eq split: option.splits)
    have find: "find (\<lambda>i. snd i = k) (items @ [?i]) =
        (if k = ?k then Some ?i else find (\<lambda>i. snd i = k) items)" for k
      using None by (auto simp: find_append split: option.splits)
    have fresh: "?k \<notin> (\<lambda>e. (ere_source_site_id e, ere_destination e)) ` set selected"
    proof
      assume "?k \<in> (\<lambda>e. (ere_source_site_id e, ere_destination e)) ` set selected"
      then obtain e k i where i: "find (\<lambda>i. snd i = k) items = Some i" "e \<in> set (item_rule i)"
        "(ere_source_site_id e, ere_destination e) = ?k" unfolding inv(2) by auto
      from find_SomeD [OF i(1)] have "i \<in> set items" by blast
      moreover have "snd i = ?k" using item_rule_key [OF i(2)] i(3) by simp
      ultimately show False using None unfolding find_None_iff by blast
    qed
    have "distinct (map (\<lambda>e. (ere_source_site_id e, ere_destination e)) (selected @ item_rule ?i))"
      using inv(3) fresh by (auto simp: item_rule_def split: option.splits)
    moreover have "set (selected @ item_rule ?i) =
        {e. \<exists>k i. (if k = ?k then Some ?i else find (\<lambda>i. snd i = k) items) = Some i \<and> e \<in> set (item_rule i)}"
      unfolding found_after_update [of "\<lambda>k. find (\<lambda>i. snd i = k) items" ?k, OF None] set_append inv(2) ..
    moreover have "rule_egress (snd (fst i)) = rule_egress (snd (fst j))"
      if "(if snd j = ?k then Some ?i else find (\<lambda>i. snd i = snd j) items) = Some i"
        "j \<in> set (items @ [?i])" "rule_priority (snd (fst i)) = rule_priority (snd (fst j))" for i j
      using that None inv(4) [of j i] by (cases j) (auto simp: find_None_iff split: if_splits)
    ultimately show ?thesis
      unfolding state' decided_def prod.case find using inv(1) by auto
  qed
qed

definition rule_items ::
  "uuid list \<Rightarrow> (uuid \<Rightarrow> EgressV1 option) \<Rightarrow> PolicyRefV1 \<times> ServicePolicyRuleV1 \<Rightarrow> egress_item list" where
  "rule_items sites egresses r =
     concat (map (\<lambda>site. map (\<lambda>d. (r, site, d)) (rule_destinations (snd r)))
       (rule_sources sites egresses (snd r)))"

lemma remote_egress_ok:
  assumes "remote_egress egresses rule = Inr remote"
  shows "map_option fst remote = rule_egress rule" and
    "source_sites sites rule remote = rule_sources sites egresses rule"
  using assms
  by (auto simp: remote_egress_def rule_egress_def rule_sources_def source_sites_def Let_def
      split: PolicyActionV1.splits option.splits intro!: filter_cong)

lemma decides_decided:
  assumes "fold_res (decide policy_ref rule (rule_egress rule)) state ps = Inr state'"
    and "decided items state"
  shows "decided (items @ map (\<lambda>(site, p). ((policy_ref, rule), site, RoutePrefix (network p) (prefix_len p))) ps) state'"
  using assms
proof (induction ps arbitrary: items state)
  case (Cons sp ps)
  obtain site p where sp: "sp = (site, p)" by (cases sp)
  from Cons.prems(1) obtain u where "decide policy_ref rule (rule_egress rule) state (site, p) = Inr u"
    and rest: "fold_res (decide policy_ref rule (rule_egress rule)) u ps = Inr state'"
    unfolding sp fold_res_Cons_ok by blast
  from Cons.IH [OF rest decide_decided [OF Cons.prems(2) this(1)]] show ?case by (simp add: sp)
qed simp

lemma rule_step_decided:
  assumes "rule_step sites egresses state r = Inr state'" and "decided items state"
  shows "decided (items @ rule_items sites egresses r) state'"
proof -
  obtain policy_ref rule where r: "r = (policy_ref, rule)" by (cases r)
  from assms(1) obtain remote where remote: "remote_egress egresses rule = Inr remote"
    and loop: "fold_res (decide policy_ref rule (rule_egress rule)) state
      (concat (map (\<lambda>site. map (Pair site) (normalized_policy_destinations (rule_destination_prefixes rule)))
        (rule_sources sites egresses rule))) = Inr state'"
    by (auto simp: rule_step_def r Let_def remote_egress_ok)
  from decides_decided [OF loop assms(2)] show ?thesis
    by (simp add: rule_items_def rule_destinations_def r map_concat comp_def)
qed

lemma rules_decided:
  assumes "fold_res (rule_step sites egresses) state rules = Inr state'" and "decided items state"
  shows "decided (items @ concat (map (rule_items sites egresses) rules)) state'"
  using assms
proof (induction rules arbitrary: items state)
  case (Cons r rules)
  from Cons.prems(1) obtain u where u: "rule_step sites egresses state r = Inr u"
    and rest: "fold_res (rule_step sites egresses) u rules = Inr state'"
    unfolding fold_res_Cons_ok by blast
  from Cons.IH [OF rest rule_step_decided [OF u Cons.prems(2)]] show ?case by simp
qed simp

lemma find_rule_items:
  "find (\<lambda>i. snd i = k) (rule_items sites egresses r) =
     (if rule_applies sites egresses k r then Some (r, k) else None)"
proof (cases "rule_applies sites egresses k r")
  case True
  have "(r, k) \<in> set (rule_items sites egresses r)"
    using True by (cases k) (auto simp: rule_items_def rule_applies_def)
  then have "find (\<lambda>i. snd i = k) (rule_items sites egresses r) \<noteq> None"
    unfolding find_None_iff by (cases r; cases k) auto
  then obtain i where i: "find (\<lambda>i. snd i = k) (rule_items sites egresses r) = Some i" by blast
  have "i = (r, k)" using find_SomeD [OF i] by (auto simp: rule_items_def)
  with i True show ?thesis by simp
next
  case False
  then show ?thesis by (auto simp: find_None_iff rule_items_def rule_applies_def)
qed

lemma find_rules_items:
  "find (\<lambda>i. snd i = k) (concat (map (rule_items sites egresses) rules)) =
     map_option (\<lambda>r. (r, k)) (find (rule_applies sites egresses k) rules)"
  by (induction rules) (auto simp: find_append find_rule_items)


subsection \<open>The plan per site\<close>

definition disjoint_prefixes :: "RoutePrefix list \<Rightarrow> bool" where
  "disjoint_prefixes ds \<longleftrightarrow> sorted ds \<and> distinct ds \<and>
     (\<forall>p \<in> set ds. \<forall>q \<in> set ds. p \<noteq> q \<longrightarrow> \<not> route_prefix_overlaps p q)"

definition plan_routes :: "egress_plan \<Rightarrow> uuid \<Rightarrow> RemoteRouteV1 list" where
  "plan_routes plan site = entry_or_default (ep_routes_for_site plan site)"

definition plan_destinations :: "egress_plan \<Rightarrow> uuid \<Rightarrow> RoutePrefix list" where
  "plan_destinations plan site = entry_or_default (ep_destinations_for_site plan site)"

text \<open>What one effective rule contributes.\<close>

definition rule_planned :: "(uuid \<Rightarrow> EgressV1 option) \<Rightarrow> egress_plan \<Rightarrow> EffectiveRemoteEgressRule \<Rightarrow> bool" where
  "rule_planned egresses plan e \<longleftrightarrow> (\<exists>egress. egresses (ere_egress_id e) = Some egress \<and>
     (\<forall>site \<in> {ere_source_site_id e, eg_site_id egress}.
        ep_policy_for_site plan site = Some (ere_policy_ref e) \<and>
        ere_destination e \<in> set (plan_destinations plan site)) \<and>
     eg_site_id egress \<in> set (ep_gateway_sites plan) \<and>
     \<lparr>rr_destination_prefix = ere_destination e, rr_owner_site_id = eg_site_id egress,
      rr_owner_attachment_ids = [eg_attachment_id egress]\<rparr> \<in> set (plan_routes plan (ere_source_site_id e)))"

definition plan_grows :: "egress_plan \<Rightarrow> egress_plan \<Rightarrow> bool" where
  "plan_grows a b \<longleftrightarrow> ep_policy_for_site a \<subseteq>\<^sub>m ep_policy_for_site b \<and>
     set (ep_gateway_sites a) \<subseteq> set (ep_gateway_sites b) \<and>
     (\<forall>site. set (plan_destinations a site) \<subseteq> set (plan_destinations b site) \<and>
             set (plan_routes a site) \<subseteq> set (plan_routes b site)) \<and>
     ((\<forall>site. disjoint_prefixes (plan_destinations a site)) \<longrightarrow>
      (\<forall>site. disjoint_prefixes (plan_destinations b site)))"

lemma plan_grows_trans: "plan_grows a b \<Longrightarrow> plan_grows b c \<Longrightarrow> plan_grows a c"
  unfolding plan_grows_def by (meson map_le_trans subset_trans)

lemma rule_planned_mono:
  assumes "rule_planned egresses a e" and "plan_grows a b"
  shows "rule_planned egresses b e"
proof -
  have "ep_policy_for_site b site = Some r" if "ep_policy_for_site a site = Some r" for site r
    using assms(2) that unfolding plan_grows_def map_le_def by (metis domI)
  moreover have "set (plan_destinations a site) \<subseteq> set (plan_destinations b site)"
    "set (plan_routes a site) \<subseteq> set (plan_routes b site)"
    "set (ep_gateway_sites a) \<subseteq> set (ep_gateway_sites b)" for site
    using assms(2) by (simp_all add: plan_grows_def)
  moreover obtain egress where "egresses (ere_egress_id e) = Some egress"
    "\<forall>site \<in> {ere_source_site_id e, eg_site_id egress}.
        ep_policy_for_site a site = Some (ere_policy_ref e) \<and>
        ere_destination e \<in> set (plan_destinations a site)"
    "eg_site_id egress \<in> set (ep_gateway_sites a)"
    "\<lparr>rr_destination_prefix = ere_destination e, rr_owner_site_id = eg_site_id egress,
      rr_owner_attachment_ids = [eg_attachment_id egress]\<rparr> \<in> set (plan_routes a (ere_source_site_id e))"
    using assms(1) unfolding rule_planned_def by (elim exE conjE)
  ultimately show ?thesis unfolding rule_planned_def by (intro exI [of _ egress] conjI ballI) blast+
qed

lemma merge_one:
  assumes "merge_egress_destinations ds [a] = Inr ds'"
  shows "set ds' = insert a (set ds)" and "disjoint_prefixes ds \<Longrightarrow> disjoint_prefixes ds'"
proof -
  from assms have "a \<in> set ds \<and> ds' = sort ds \<or> a \<notin> set ds \<and> ds' = sort (ds @ [a]) \<and>
      (\<forall>x \<in> set ds. \<not> route_prefix_overlaps x a)"
    by (auto simp: merge_egress_destinations_def list_ex_iff split: if_splits)
  then show "set ds' = insert a (set ds)" by auto
  assume "disjoint_prefixes ds"
  then have "\<forall>p \<in> set ds. \<forall>q \<in> set ds. p \<noteq> q \<longrightarrow> \<not> route_prefix_overlaps p q" "distinct ds"
    by (simp_all add: disjoint_prefixes_def)
  with \<open>a \<in> set ds \<and> ds' = sort ds \<or> a \<notin> set ds \<and> ds' = sort (ds @ [a]) \<and>
      (\<forall>x \<in> set ds. \<not> route_prefix_overlaps x a)\<close>
  show "disjoint_prefixes ds'"
  proof (elim disjE conjE)
    assume new: "a \<notin> set ds" "ds' = sort (ds @ [a])" "\<forall>x \<in> set ds. \<not> route_prefix_overlaps x a"
    then have "\<forall>x \<in> set ds. \<not> route_prefix_overlaps a x" using route_prefix_overlaps_sym by blast
    with new \<open>distinct ds\<close> \<open>\<forall>p \<in> set ds. \<forall>q \<in> set ds. p \<noteq> q \<longrightarrow> \<not> route_prefix_overlaps p q\<close>
    show ?thesis by (simp add: disjoint_prefixes_def)
  qed (simp_all add: disjoint_prefixes_def)
qed

lemma authorise_site_ok:
  assumes "authorise_site message site r plan = Inr plan'"
  shows "plan_grows plan plan' \<and> ep_policy_for_site plan' site = Some r"
  using assms
  by (auto simp: authorise_site_def plan_grows_def plan_destinations_def plan_routes_def map_le_def
      split: option.splits if_splits)

lemma add_destination_ok:
  assumes "add_destination site d plan = Inr plan'"
  shows "plan_grows plan plan' \<and> d \<in> set (plan_destinations plan' site)"
proof -
  from assms obtain ds where m: "merge_egress_destinations (plan_destinations plan site) [d] = Inr ds"
    and plan': "plan' = plan\<lparr>ep_destinations_for_site := (ep_destinations_for_site plan)(site \<mapsto> ds)\<rparr>"
    by (auto simp: add_destination_def plan_destinations_def)
  have "plan_destinations plan' s = (if s = site then ds else plan_destinations plan s)" for s
    by (simp add: plan' plan_destinations_def entry_or_default_def)
  with merge_one [OF m] show ?thesis by (auto simp: plan_grows_def plan' plan_routes_def)
qed

lemma add_egress_route_ok:
  assumes "add_egress_route site d egress plan = Inr plan'"
  shows "plan_grows plan plan' \<and> \<lparr>rr_destination_prefix = d, rr_owner_site_id = eg_site_id egress,
      rr_owner_attachment_ids = [eg_attachment_id egress]\<rparr> \<in> set (plan_routes plan' site)"
  using assms
  by (auto simp: add_egress_route_def Let_def plan_grows_def plan_destinations_def plan_routes_def
      entry_or_default_def split: if_splits)

lemma plan_step_ok:
  assumes "plan_step egresses plan e = Inr plan'"
  shows "plan_grows plan plan' \<and> rule_planned egresses plan' e"
proof -
  from assms obtain egress p1 p2 p3 p4 p5 where e: "egresses (ere_egress_id e) = Some egress"
    and 1: "authorise_site ''Egress Site has conflicting remote egress policies''
      (eg_site_id egress) (ere_policy_ref e) plan = Inr p1"
    and 2: "p2 = p1\<lparr>ep_gateway_sites := List.insert (eg_site_id egress) (ep_gateway_sites p1)\<rparr>"
    and 3: "add_destination (eg_site_id egress) (ere_destination e) p2 = Inr p3"
    and 4: "authorise_site ''source Site has conflicting effective remote egress policies''
      (ere_source_site_id e) (ere_policy_ref e) p3 = Inr p4"
    and 5: "add_destination (ere_source_site_id e) (ere_destination e) p4 = Inr p5"
    and 6: "add_egress_route (ere_source_site_id e) (ere_destination e) egress p5 = Inr plan'"
    by (auto simp: plan_step_def Let_def)
  note ok = authorise_site_ok [OF 1] add_destination_ok [OF 3] authorise_site_ok [OF 4]
    add_destination_ok [OF 5] add_egress_route_ok [OF 6]
  have g12: "plan_grows p1 p2" and gw: "eg_site_id egress \<in> set (ep_gateway_sites p2)"
    by (auto simp: 2 plan_grows_def plan_destinations_def plan_routes_def)
  have grows: "plan_grows p1 plan'" "plan_grows p2 plan'" "plan_grows p3 plan'" "plan_grows p4 plan'"
    "plan_grows p5 plan'" "plan_grows plan plan'"
    using ok g12 by (meson plan_grows_trans)+
  have pol: "ep_policy_for_site plan' site = Some r"
    if "plan_grows p plan'" "ep_policy_for_site p site = Some r" for p site r
    using that unfolding plan_grows_def map_le_def by (metis domI)
  have "ep_policy_for_site plan' (eg_site_id egress) = Some (ere_policy_ref e)"
    "ep_policy_for_site plan' (ere_source_site_id e) = Some (ere_policy_ref e)"
    using pol grows ok by blast+
  moreover have "ere_destination e \<in> set (plan_destinations plan' (eg_site_id egress))"
    "ere_destination e \<in> set (plan_destinations plan' (ere_source_site_id e))"
    "eg_site_id egress \<in> set (ep_gateway_sites plan')"
    using grows ok gw unfolding plan_grows_def by blast+
  ultimately show ?thesis using grows(6) ok e by (auto simp: rule_planned_def)
qed

text \<open>
  C21: when the rules can be planned, the destinations of every site are sorted and pairwise
  disjoint, and every effective rule is in the plan: its source and its egress site carry the
  destination under the policy of the rule, the source has the route to the attachment of the
  egress, and the egress site is a gateway.
\<close>

theorem plan_egress_carries_rules:
  assumes "plan_egress egresses rules = Inr plan"
  shows "(\<forall>site. disjoint_prefixes (plan_destinations plan site)) \<and>
    (\<forall>e \<in> set rules. rule_planned egresses plan e)"
proof -
  let ?empty = "\<lparr>ep_policy_for_site = Map.empty, ep_routes_for_site = Map.empty,
        ep_destinations_for_site = Map.empty, ep_gateway_sites = []\<rparr>"
  have "plan_grows p plan \<and> (\<forall>e \<in> set es. rule_planned egresses plan e)"
    if "fold_res (plan_step egresses) p es = Inr plan" for p es
    using that
  proof (induction es arbitrary: p)
    case Nil
    then show ?case by (simp add: plan_grows_def)
  next
    case (Cons e es)
    then obtain u where u: "plan_step egresses p e = Inr u" and "fold_res (plan_step egresses) u es = Inr plan"
      unfolding fold_res_Cons_ok by blast
    with Cons.IH have "plan_grows u plan" "\<forall>e \<in> set es. rule_planned egresses plan e" by blast+
    with plan_step_ok [OF u] show ?case by (auto intro: plan_grows_trans rule_planned_mono)
  qed
  from this [OF assms [unfolded plan_egress_def]]
  have "plan_grows ?empty plan" "\<forall>e \<in> set rules. rule_planned egresses plan e" by blast+
  then show ?thesis
    by (simp add: plan_grows_def plan_destinations_def entry_or_default_def disjoint_prefixes_def)
qed

end
