(* ===== verification/Control_Topology.thy ===== *)
theory Control_Topology
  imports Sdwan_Repository
begin

section \<open>The topology tables (\<open>ensure_control_topology\<close> of \<open>crates/cloud-db/src/sdwan.rs\<close>)\<close>

text \<open>
  Before a segment is published the active documents of the management graph are written into
  the tables of the route contract: sites, site prefixes, nodes, the segment and its
  attachments. Each \<open>INSERT ... ON DUPLICATE KEY UPDATE\<close> is an \<open>upsert_row\<close>: the unique keys of
  the table are tried in the order of its indexes, the row that has the first repeated key is
  updated, and an update that then repeats a key of another row is an error. The foreign keys
  between these tables are kept; those into the identity tables are left out. Names are
  compared through the parameter \<open>collate\<close>, the sort key of the collation of the server.
\<close>

definition upsert_row ::
  "('r \<Rightarrow> 'r \<Rightarrow> bool) list \<Rightarrow> ('r \<Rightarrow> 'r \<Rightarrow> 'r) \<Rightarrow> 'r \<Rightarrow> 'r list \<Rightarrow> SdwanError + 'r list" where
  "upsert_row keys update row table =
     (case find (\<lambda>k. list_ex (k row) table) keys of
        None \<Rightarrow> Inr (table @ [row])
      | Some k \<Rightarrow>
          bind_res (ok_or (List.extract (k row) table) Database) (\<lambda>(before, old, after).
          if list_ex (\<lambda>x. list_ex (\<lambda>key. key (update old row) x) keys) (before @ after)
          then Inl Database else Inr (before @ update old row # after)))"

subsection \<open>Sites and prefixes\<close>

definition site_keys :: "(string \<Rightarrow> string) \<Rightarrow> (site_row \<Rightarrow> site_row \<Rightarrow> bool) list" where
  "site_keys collate =
     [\<lambda>a b. sir_id a = sir_id b,
      \<lambda>a b. sir_tenant_id a = sir_tenant_id b \<and> collate (sir_name a) = collate (sir_name b)]"

definition update_site :: "site_row \<Rightarrow> site_row \<Rightarrow> site_row" where
  "update_site old new =
     old\<lparr>sir_name := sir_name new, sir_kind := sir_kind new, sir_state := sir_state new\<rparr>"

definition upsert_site ::
  "(string \<Rightarrow> string) \<Rightarrow> uuid \<Rightarrow> topology_tables \<Rightarrow> ControlResourceV1 \<Rightarrow> SdwanError + topology_tables" where
  "upsert_site collate tenant t r =
     (case cr_resource r of
        Site site \<Rightarrow>
          bind_res (upsert_row (site_keys collate) update_site
            \<lparr>sir_id = md_id (cr_metadata r), sir_tenant_id = tenant, sir_name = st_name site,
             sir_kind = st_kind site, sir_state = md_state (cr_metadata r)\<rparr> (tt_sites t))
            (\<lambda>sites. Inr (t\<lparr>tt_sites := sites\<rparr>))
      | _ \<Rightarrow> Inr t)"

definition site_prefix_keys :: "(site_prefix_row \<Rightarrow> site_prefix_row \<Rightarrow> bool) list" where
  "site_prefix_keys =
     [\<lambda>a b. spr_id a = spr_id b,
      \<lambda>a b. spr_tenant_id a = spr_tenant_id b \<and> spr_network a = spr_network b \<and>
        spr_prefix_len a = spr_prefix_len b]"

definition update_site_prefix :: "site_prefix_row \<Rightarrow> site_prefix_row \<Rightarrow> site_prefix_row" where
  "update_site_prefix old new =
     old\<lparr>spr_site_id := spr_site_id new, spr_network := spr_network new,
         spr_prefix_len := spr_prefix_len new, spr_active := spr_active new\<rparr>"

definition upsert_site_prefix ::
  "uuid \<Rightarrow> topology_tables \<Rightarrow> ControlResourceV1 \<Rightarrow> SdwanError + topology_tables" where
  "upsert_site_prefix tenant t r =
     (case cr_resource r of
        Prefix prefix \<Rightarrow>
          bind_res (guard (px_site_id prefix \<notin> sir_id ` set (tt_sites t)) Database) (\<lambda>_.
          bind_res (upsert_row site_prefix_keys update_site_prefix
            \<lparr>spr_id = md_id (cr_metadata r), spr_tenant_id = tenant, spr_site_id = px_site_id prefix,
             spr_network = network (px_prefix prefix),
             spr_prefix_len = prefix_len (px_prefix prefix),
             spr_active = (md_state (cr_metadata r) = Active)\<rparr> (tt_site_prefixes t))
            (\<lambda>prefixes. Inr (t\<lparr>tt_site_prefixes := prefixes\<rparr>)))
      | _ \<Rightarrow> Inr t)"

subsection \<open>Nodes and their pool\<close>

definition hub_pool ::
  "uuid \<Rightarrow> nat \<Rightarrow> uuid \<Rightarrow> topology_tables \<Rightarrow> uuid \<times> topology_tables" where
  "hub_pool tenant now new_pool t =
     (case sort_key npr_created_at (sort_key npr_id
        (filter (\<lambda>p. npr_tenant_id p = Some tenant \<and> npr_active p) (tt_node_pools t))) of
        pool # _ \<Rightarrow> (npr_id pool, t)
      | [] \<Rightarrow> (new_pool, t\<lparr>tt_node_pools := tt_node_pools t @
          [\<lparr>npr_id = new_pool, npr_tenant_id = Some tenant, npr_service_class = ''PRIVATE'',
            npr_name = ''cloud-private-'' @ uuid_string tenant, npr_audience = ''tenant-private'',
            npr_active = True, npr_created_at = now\<rparr>]\<rparr>))"

definition node_keys :: "(node_row \<Rightarrow> node_row \<Rightarrow> bool) list" where
  "node_keys =
     [\<lambda>a b. ndr_id a = ndr_id b,
      \<lambda>a b. ndr_node_id a = ndr_node_id b,
      \<lambda>a b. ndr_tenant_id a = ndr_tenant_id b \<and> ndr_device_id a = ndr_device_id b \<and>
        ndr_device_key_id a = ndr_device_key_id b \<and>
        None \<notin> {ndr_tenant_id a, ndr_device_id a, ndr_device_key_id a}]"

definition update_node :: "node_row \<Rightarrow> node_row \<Rightarrow> node_row" where
  "update_node old new =
     old\<lparr>ndr_tenant_id := ndr_tenant_id new, ndr_node_pool_id := ndr_node_pool_id new,
         ndr_node_id := ndr_node_id new, ndr_device_id := ndr_device_id new,
         ndr_device_key_id := ndr_device_key_id new, ndr_status := ndr_status new\<rparr>"

fun node_status :: "ResourceState \<Rightarrow> NodeStatus" where
  "node_status Active = NodeActive"
| "node_status Disabled = NodeDraining"
| "node_status Deleted = NodeRevoked"

definition upsert_node ::
  "uuid \<Rightarrow> uuid \<Rightarrow> topology_tables \<Rightarrow> ControlResourceV1 \<Rightarrow> SdwanError + topology_tables" where
  "upsert_node tenant pool t r =
     (case cr_resource r of
        Node node \<Rightarrow>
          bind_res (upsert_row node_keys update_node
            \<lparr>ndr_id = md_id (cr_metadata r), ndr_tenant_id = Some tenant,
             ndr_device_id = Some (nd_device_id node),
             ndr_device_key_id = Some (nd_device_key_id node), ndr_node_pool_id = pool,
             ndr_node_id = uuid_string (md_id (cr_metadata r)),
             ndr_status = node_status (md_state (cr_metadata r))\<rparr> (tt_nodes t))
            (\<lambda>nodes. Inr (t\<lparr>tt_nodes := nodes\<rparr>))
      | _ \<Rightarrow> Inr t)"

subsection \<open>The segment and its attachments\<close>

definition segment_keys :: "(string \<Rightarrow> string) \<Rightarrow> (segment_row \<Rightarrow> segment_row \<Rightarrow> bool) list" where
  "segment_keys collate =
     [\<lambda>a b. sgr_id a = sgr_id b,
      \<lambda>a b. sgr_tenant_id a = sgr_tenant_id b \<and> collate (sgr_name a) = collate (sgr_name b),
      \<lambda>a b. sgr_tenant_id a = sgr_tenant_id b \<and> sgr_id a = sgr_id b]"

definition update_segment :: "segment_row \<Rightarrow> segment_row \<Rightarrow> segment_row" where
  "update_segment old new =
     old\<lparr>sgr_name := sgr_name new, sgr_hub_node_pool_id := sgr_hub_node_pool_id new,
         sgr_overlay_network := sgr_overlay_network new,
         sgr_overlay_prefix_len := sgr_overlay_prefix_len new, sgr_state := sgr_state new\<rparr>"

definition control_segment_row :: "uuid \<Rightarrow> uuid \<Rightarrow> uuid \<Rightarrow> ResourceState \<Rightarrow> SegmentV1 \<Rightarrow> segment_row" where
  "control_segment_row tenant segment pool state v =
     \<lparr>sgr_id = segment, sgr_tenant_id = tenant, sgr_name = sg_name v, sgr_hub_node_pool_id = pool,
      sgr_overlay_network = network (sg_overlay_prefix v),
      sgr_overlay_prefix_len = prefix_len (sg_overlay_prefix v), sgr_state = state,
      sgr_current_generation = 0, sgr_current_content_hash = zero_hash\<rparr>"

fun control_segment :: "uuid \<Rightarrow> ControlResourceV1 list \<Rightarrow> (ResourceState \<times> SegmentV1) option" where
  "control_segment segment [] = None"
| "control_segment segment (r # rs) =
     (case cr_resource r of
        Segment v \<Rightarrow> if md_id (cr_metadata r) = segment then Some (md_state (cr_metadata r), v)
                     else control_segment segment rs
      | _ \<Rightarrow> control_segment segment rs)"

definition revoke_attachments :: "uuid \<Rightarrow> uuid \<Rightarrow> attachment_row list \<Rightarrow> attachment_row list" where
  "revoke_attachments tenant segment = map (\<lambda>a.
     if atr_tenant_id a = tenant \<and> atr_segment_id a = segment \<and> live_attachment a
     then a\<lparr>atr_state := WRevoked\<rparr> else a)"

definition owns_address :: "attachment_row \<Rightarrow> bool" where
  "owns_address a \<longleftrightarrow> atr_state a = WActive \<or> atr_state a = WStandby"

definition attachment_keys :: "(attachment_row \<Rightarrow> attachment_row \<Rightarrow> bool) list" where
  "attachment_keys =
     [\<lambda>a b. atr_id a = atr_id b,
      \<lambda>a b. atr_tenant_id a = atr_tenant_id b \<and> atr_segment_id a = atr_segment_id b \<and>
        owns_address a \<and> owns_address b \<and>
        atr_overlay_router_ipv4 a = atr_overlay_router_ipv4 b]"

definition update_attachment :: "attachment_row \<Rightarrow> attachment_row \<Rightarrow> attachment_row" where
  "update_attachment old new =
     old\<lparr>atr_site_id := atr_site_id new, atr_device_id := atr_device_id new,
         atr_device_key_id := atr_device_key_id new,
         atr_overlay_router_ipv4 := atr_overlay_router_ipv4 new, atr_state := atr_state new,
         atr_epoch_floor := atr_epoch_floor new\<rparr>"

fun attachment_state :: "ResourceState \<Rightarrow> AttachmentStateWrite" where
  "attachment_state Active = WActive"
| "attachment_state Disabled = WDisabled"
| "attachment_state Deleted = WRevoked"

fun node_of :: "uuid \<Rightarrow> ControlResourceV1 list \<Rightarrow> NodeV1 option" where
  "node_of i [] = None"
| "node_of i (r # rs) =
     (case cr_resource r of
        Node v \<Rightarrow> if md_id (cr_metadata r) = i then Some v else node_of i rs
      | _ \<Rightarrow> node_of i rs)"

definition control_attachment_row ::
  "uuid \<Rightarrow> ControlResourceV1 \<Rightarrow> AttachmentV1 \<Rightarrow> NodeV1 \<Rightarrow> attachment_row" where
  "control_attachment_row tenant r v node =
     \<lparr>atr_id = md_id (cr_metadata r), atr_tenant_id = tenant, atr_segment_id = at_segment_id v,
      atr_site_id = Some (at_site_id v), atr_is_device = True,
      atr_device_id = Some (nd_device_id node), atr_device_key_id = Some (nd_device_key_id node),
      atr_overlay_router_ipv4 = at_overlay_router_ipv4 v,
      atr_state = attachment_state (md_state (cr_metadata r)), atr_epoch_floor = at_epoch_floor v\<rparr>"

definition upsert_attachment ::
  "uuid \<Rightarrow> ControlResourceV1 list \<Rightarrow> segment_row list \<Rightarrow> topology_tables \<Rightarrow> ControlResourceV1 \<Rightarrow>
     SdwanError + topology_tables" where
  "upsert_attachment tenant resources segments t r =
     (case cr_resource r of
        Attachment v \<Rightarrow>
          bind_res (ok_or (node_of (at_node_id v) resources) InvalidScope) (\<lambda>node.
          bind_res (guard (at_segment_id v \<notin> sgr_id ` set segments \<or>
            at_site_id v \<notin> sir_id ` set (tt_sites t)) Database) (\<lambda>_.
          bind_res (upsert_row attachment_keys update_attachment
            (control_attachment_row tenant r v node) (tt_attachments t))
            (\<lambda>attachments. Inr (t\<lparr>tt_attachments := attachments\<rparr>))))
      | _ \<Rightarrow> Inr t)"

subsection \<open>The transaction\<close>

definition ensure_control_topology ::
  "(string \<Rightarrow> string) \<Rightarrow> nat \<Rightarrow> uuid \<Rightarrow> uuid \<Rightarrow> uuid \<Rightarrow> ControlResourceV1 list \<Rightarrow> route_db \<Rightarrow>
     SdwanError + route_db" where
  "ensure_control_topology collate now new_pool tenant segment resources d =
     bind_res (ok_or (control_segment segment resources) SegmentNotFound) (\<lambda>(state, v).
     bind_res (fold_res (upsert_site collate tenant) (db_topology d) resources) (\<lambda>t1.
     bind_res (fold_res (upsert_site_prefix tenant) t1 resources) (\<lambda>t2.
     let (pool, t3) = hub_pool tenant now new_pool t2 in
     bind_res (fold_res (upsert_node tenant pool) t3 resources) (\<lambda>t4.
     bind_res (upsert_row (segment_keys collate) update_segment
       (control_segment_row tenant segment pool state v) (db_segments d)) (\<lambda>segments.
     bind_res (fold_res (upsert_attachment tenant resources segments)
       (t4\<lparr>tt_attachments := revoke_attachments tenant segment (tt_attachments t4)\<rparr>) resources) (\<lambda>t5.
     Inr (d\<lparr>db_segments := segments, db_topology := t5\<rparr>)))))))"

end
