(* ===== verification/Segment_Snapshot.thy ===== *)
theory Segment_Snapshot
  imports Control_Store Control_Topology
begin

section \<open>The input of a publication (\<open>segment_snapshot\<close> of \<open>crates/cloud-db/src/control.rs\<close>)\<close>

text \<open>
  The worker that holds a job reads the management graph of its segment: every active document
  the segment or one of its resources leads to by references, with the endpoints through which
  each path candidate can be reached. Reading a snapshot also runs the topology transaction.
  The parser of the quota documents (\<open>serde_json\<close>) is a parameter; a hash map filled from an
  iterator is an association list in which the last entry of a key counts.
\<close>

subsection \<open>Endpoints of path candidates\<close>

definition hash_map :: "('k \<times> 'v) list \<Rightarrow> 'k \<Rightarrow> 'v option" where
  "hash_map entries = map_of (rev entries)"

definition hash_insert :: "'k \<Rightarrow> 'v \<Rightarrow> ('k \<times> 'v) list \<Rightarrow> ('k \<times> 'v) list" where
  "hash_insert k v entries = filter (\<lambda>e. fst e \<noteq> k) entries @ [(k, v)]"

datatype RuntimeTransportPreset = RtCurrent | RtBbrV1 | RtAggressive

record RuntimeTransportBinding =
  tb_candidate_id :: uuid
  tb_endpoint_id :: uuid
  tb_service_node_id :: uuid
  tb_service_node_key_id :: uuid
  tb_service_device_id :: uuid
  tb_service_device_key_id :: uuid
  tb_node_pool_id :: uuid
  tb_entitlement_id :: uuid
  tb_entitlement_rate_limit :: u64
  tb_endpoint :: socket_addr
  tb_server_name :: string
  tb_server_cert_sha256 :: hash32
  tb_transport_preset :: RuntimeTransportPreset

record SegmentControlSnapshot =
  sn_tenant_id :: uuid
  sn_segment_id :: uuid
  sn_desired_revision :: u64
  sn_policy_only :: bool
  sn_resources :: "ControlResourceV1 list"
  sn_transport_bindings :: "(uuid \<times> RuntimeTransportBinding list) list"

fun transport_preset_value :: "RuntimeTransportPreset \<Rightarrow> string" where
  "transport_preset_value RtCurrent = ''CURRENT''"
| "transport_preset_value RtBbrV1 = ''BBR_V1''"
| "transport_preset_value RtAggressive = ''AGGRESSIVE''"

definition parse_transport_preset :: "string \<Rightarrow> ControlStoreError + RuntimeTransportPreset" where
  "parse_transport_preset value =
     (if value = ''CURRENT'' then Inr RtCurrent
      else if value = ''BBR_V1'' then Inr RtBbrV1
      else if value = ''AGGRESSIVE'' then Inr RtAggressive
      else Inl CsInvalidTransition)"

definition UNMETERED_PRIVATE_TUNNEL_MAX_BYTES_PER_SECOND :: u64 where
  "UNMETERED_PRIVATE_TUNNEL_MAX_BYTES_PER_SECOND = 1250000000"

text \<open>The rates of a quota document are \<open>(upload_rate_bps, download_rate_bps)\<close>; zero is unlimited.\<close>

definition entitlement_rate_limit ::
  "(string \<Rightarrow> (u64 \<times> u64) option) \<Rightarrow> string \<Rightarrow> ControlStoreError + u64" where
  "entitlement_rate_limit parse_quota quota =
     bind_res (ok_or (parse_quota quota) CsInvalidTransition) (\<lambda>(upload, download).
     let rates = filter (\<lambda>rate. rate \<noteq> 0) [upload, download];
         bytes_per_second =
           (case rates of [] \<Rightarrow> UNMETERED_PRIVATE_TUNNEL_MAX_BYTES_PER_SECOND
            | r # rs \<Rightarrow> fold min rs r div 8)
     in if bytes_per_second = 0 then Inl CsInvalidTransition else Inr bytes_per_second)"

text \<open>The join of the query: the endpoints of the active node of a device, with its entitlement.\<close>

definition binding_rows ::
  "uuid \<Rightarrow> NodeV1 \<Rightarrow> topology_tables \<Rightarrow> (node_row \<times> entitlement_row \<times> endpoint_row) list" where
  "binding_rows tenant node t =
     sort_key (\<lambda>(n, en, ep). edr_id ep)
       [(n, en, ep).
         n \<leftarrow> tt_nodes t, ndr_tenant_id n = Some tenant \<and> ndr_device_id n = Some (nd_device_id node) \<and>
           ndr_device_key_id n = Some (nd_device_key_id node) \<and> ndr_status n = NodeActive,
         v \<leftarrow> tt_active_devices t, v = (tenant, nd_device_id node),
         k \<leftarrow> tt_active_keys t, k = (tenant, nd_device_id node, nd_device_key_id node),
         np \<leftarrow> tt_node_pools t, npr_id np = ndr_node_pool_id n \<and> npr_tenant_id np = Some tenant \<and>
           npr_active np,
         en \<leftarrow> tt_entitlements t, enr_tenant_id en = tenant \<and> enr_node_pool_id en = npr_id np \<and>
           enr_service_permission en = ''private.tun.connect'' \<and> enr_status en = ''ACTIVE'',
         sub \<leftarrow> tt_subscriptions t, sbr_id sub = enr_subscription_id en \<and> sbr_tenant_id sub = tenant \<and>
           sbr_status sub \<in> {''TRIAL'', ''ACTIVE''},
         ep \<leftarrow> tt_endpoints t, edr_node_id ep = ndr_id n \<and> edr_active ep \<and>
           edr_transport ep = Some ''CANDY_QUIC_UDP'']"

definition binding_of ::
  "(string \<Rightarrow> (u64 \<times> u64) option) \<Rightarrow> uuid \<Rightarrow> NodeV1 \<Rightarrow> node_row \<times> entitlement_row \<times> endpoint_row \<Rightarrow>
     ControlStoreError + RuntimeTransportBinding" where
  "binding_of parse_quota candidate node = (\<lambda>(n, en, ep).
     bind_res (ok_or (edr_server_cert_sha256 ep) CsDatabase) (\<lambda>pin.
     bind_res (entitlement_rate_limit parse_quota (enr_quota_json en)) (\<lambda>limit.
     bind_res (ok_or (parse_socket_addr (edr_endpoint ep)) CsInvalidTransition) (\<lambda>endpoint.
     bind_res (ok_or (edr_server_name ep) CsDatabase) (\<lambda>server_name.
     bind_res (guard (length pin \<noteq> 32) CsInvalidTransition) (\<lambda>_.
     bind_res (ok_or (edr_transport_preset ep) CsDatabase) (\<lambda>value.
     bind_res (parse_transport_preset value) (\<lambda>preset.
     Inr \<lparr>tb_candidate_id = candidate, tb_endpoint_id = edr_id ep, tb_service_node_id = ndr_id n,
          tb_service_node_key_id = nd_device_key_id node, tb_service_device_id = nd_device_id node,
          tb_service_device_key_id = nd_device_key_id node, tb_node_pool_id = ndr_node_pool_id n,
          tb_entitlement_id = enr_id en, tb_entitlement_rate_limit = limit,
          tb_endpoint = endpoint, tb_server_name = server_name, tb_server_cert_sha256 = pin,
          tb_transport_preset = preset\<rparr>))))))))"

text \<open>The loop over the rows, which refuses an endpoint that comes twice.\<close>

definition collect_bindings ::
  "(string \<Rightarrow> (u64 \<times> u64) option) \<Rightarrow> uuid \<Rightarrow> NodeV1 \<Rightarrow> (node_row \<times> entitlement_row \<times> endpoint_row) list \<Rightarrow>
     ControlStoreError + RuntimeTransportBinding list" where
  "collect_bindings parse_quota candidate node rows =
     fold_res (\<lambda>bindings row.
       if edr_id (snd (snd row)) \<in> tb_endpoint_id ` set bindings then Inl CsInvalidTransition
       else bind_res (binding_of parse_quota candidate node row) (\<lambda>b. Inr (bindings @ [b])))
     [] rows"

definition graph_nodes :: "ControlResourceV1 list \<Rightarrow> uuid \<Rightarrow> NodeV1 option" where
  "graph_nodes resources = hash_map (List.map_filter (\<lambda>r.
     case cr_resource r of Node v \<Rightarrow> Some (md_id (cr_metadata r), v) | _ \<Rightarrow> None) resources)"

definition graph_relays :: "ControlResourceV1 list \<Rightarrow> uuid \<Rightarrow> RelayV1 option" where
  "graph_relays resources = hash_map (List.map_filter (\<lambda>r.
     case cr_resource r of Relay v \<Rightarrow> Some (md_id (cr_metadata r), v) | _ \<Rightarrow> None) resources)"

definition relay_matches ::
  "ControlResourceV1 list \<Rightarrow> PathCandidateV1 \<Rightarrow> NodeV1 \<Rightarrow> ControlStoreError + unit" where
  "relay_matches resources candidate node =
     (if pc_kind candidate = Relayed
      then bind_res (ok_or (Option.bind (Option.bind (pc_relay_id candidate) (graph_relays resources))
          (\<lambda>relay. graph_nodes resources (rl_service_node_id relay))) CsReferenceConflict) (\<lambda>relay_node.
        guard (nd_device_id relay_node \<noteq> nd_device_id node \<or>
          nd_device_key_id relay_node \<noteq> nd_device_key_id node) CsReferenceConflict)
      else Inr ())"

definition candidate_bindings ::
  "(string \<Rightarrow> (u64 \<times> u64) option) \<Rightarrow> uuid \<Rightarrow> ControlResourceV1 list \<Rightarrow> topology_tables \<Rightarrow>
     (uuid \<times> RuntimeTransportBinding list) list \<Rightarrow> ControlResourceV1 \<Rightarrow>
     ControlStoreError + (uuid \<times> RuntimeTransportBinding list) list" where
  "candidate_bindings parse_quota tenant resources t result r =
     (case cr_resource r of
        PathCandidate candidate \<Rightarrow>
          bind_res (ok_or (graph_nodes resources (pc_transport_node_id candidate)) CsReferenceConflict) (\<lambda>node.
          let rows = binding_rows tenant node t in
          bind_res (guard (length rows > 8) CsInvalidTransition) (\<lambda>_.
          if rows = [] then Inr result
          else bind_res (relay_matches resources candidate node) (\<lambda>_.
            bind_res (collect_bindings parse_quota (md_id (cr_metadata r)) node rows) (\<lambda>bindings.
            Inr (hash_insert (md_id (cr_metadata r)) bindings result)))))
      | _ \<Rightarrow> Inr result)"

definition load_transport_bindings ::
  "(string \<Rightarrow> (u64 \<times> u64) option) \<Rightarrow> uuid \<Rightarrow> ControlResourceV1 list \<Rightarrow> topology_tables \<Rightarrow>
     ControlStoreError + (uuid \<times> RuntimeTransportBinding list) list" where
  "load_transport_bindings parse_quota tenant resources t =
     fold_res (candidate_bindings parse_quota tenant resources t) [] resources"

subsection \<open>The snapshot\<close>

text \<open>
  The mode of a job: a policy job also carries transport changes that were never published, and
  then activates as a tunnel change.
\<close>

definition snapshot_mode :: "job_row \<Rightarrow> job_db \<Rightarrow> string" where
  "snapshot_mode j d =
     (if jr_activation_mode j = ''POLICY_ONLY'' \<and>
         transport_change_pending (jr_tenant_id j) (jr_segment_id j) d
      then ''TUNNEL'' else jr_activation_mode j)"

definition snapshot_job :: "uuid \<Rightarrow> uuid \<Rightarrow> u64 \<Rightarrow> job_db \<Rightarrow> (u64 \<times> string) option" where
  "snapshot_job tenant segment revision d =
     Option.bind (find_head tenant segment d) (\<lambda>head.
       map_option (\<lambda>j. (hr_desired_revision head, snapshot_mode j d))
         (find (\<lambda>j. same_segment tenant segment j \<and> jr_desired_revision j = revision) (jd_jobs d)))"

definition graph_roots :: "uuid \<Rightarrow> uuid \<Rightarrow> control_db \<Rightarrow> resource_key list" where
  "graph_roots tenant segment d =
     map (\<lambda>r. (crr_kind r, crr_id r)) (filter (\<lambda>r. crr_tenant_id r = tenant \<and> crr_state r = Active \<and>
       ((crr_kind r = KSegment \<and> crr_id r = segment) \<or> crr_segment_id r = Some segment)) (cd_resources d))"

definition graph_rows :: "uuid \<Rightarrow> uuid \<Rightarrow> control_db \<Rightarrow> resource_row list" where
  "graph_rows tenant segment d =
     (let edges = map (\<lambda>f. (rfr_source f, rfr_target f))
            (filter (\<lambda>f. rfr_tenant_id f = tenant) (cd_references d));
          keys = closure edges (graph_roots tenant segment d)
      in sort_key (\<lambda>r. kind_index (crr_kind r)) (sort_key crr_id
           (filter (\<lambda>r. crr_tenant_id r = tenant \<and> crr_state r = Active \<and>
              (crr_kind r, crr_id r) \<in> set keys) (cd_resources d))))"

definition topology_failure :: "SdwanError \<Rightarrow> ControlStoreError" where
  "topology_failure e = (if e = Database then CsDatabase else CsInvalidResource [])"

text \<open>
  The checks and reads of the first transaction, then the topology transaction, then the
  bindings. The topology transaction commits on its own, so its rows stay when a later part
  fails: the result comes with the database in either case.
\<close>

definition snapshot_resources ::
  "store_ext \<Rightarrow> uuid \<Rightarrow> uuid \<Rightarrow> u64 \<Rightarrow> control_db \<Rightarrow>
     ControlStoreError + (bool \<times> ControlResourceV1 list)" where
  "snapshot_resources ext tenant segment desired_revision d =
     bind_res (guard (is_nil tenant \<or> is_nil segment \<or> desired_revision = 0) CsInvalidRequest) (\<lambda>_.
     bind_res (ok_or (snapshot_job tenant segment desired_revision (cd_jobs d)) CsNotFound) (\<lambda>(head, mode).
     bind_res (guard (head < desired_revision) CsInvalidTransition) (\<lambda>_.
     bind_res (if mode = ''TUNNEL'' then Inr False else if mode = ''POLICY_ONLY'' then Inr True
               else Inl CsInvalidTransition) (\<lambda>policy_only.
     bind_res (map_res (\<lambda>r. decode_resource ext (crr_document r)) (graph_rows tenant segment d)) (\<lambda>resources.
     Inr (policy_only, resources))))))"

definition segment_snapshot ::
  "store_ext \<Rightarrow> (string \<Rightarrow> (u64 \<times> u64) option) \<Rightarrow> (string \<Rightarrow> string) \<Rightarrow> nat \<Rightarrow> uuid \<Rightarrow>
     uuid \<Rightarrow> uuid \<Rightarrow> u64 \<Rightarrow> control_db \<Rightarrow> (ControlStoreError + SegmentControlSnapshot) \<times> control_db" where
  "segment_snapshot ext parse_quota collate now new_pool tenant segment desired_revision d =
     (case snapshot_resources ext tenant segment desired_revision d of
        Inl e \<Rightarrow> (Inl e, d)
      | Inr (policy_only, resources) \<Rightarrow>
          (case ensure_control_topology collate now new_pool tenant segment resources (cd_routes d) of
             Inl e \<Rightarrow> (Inl (topology_failure e), d)
           | Inr routes \<Rightarrow>
               (bind_res (load_transport_bindings parse_quota tenant resources (db_topology routes)) (\<lambda>bindings.
                bind_res (guard (\<not> list_ex (\<lambda>r. md_id (cr_metadata r) = segment \<and>
                  is_segment (cr_resource r)) resources) CsNotFound) (\<lambda>_.
                Inr \<lparr>sn_tenant_id = tenant, sn_segment_id = segment,
                     sn_desired_revision = desired_revision, sn_policy_only = policy_only,
                     sn_resources = resources, sn_transport_bindings = bindings\<rparr>)),
                d\<lparr>cd_routes := routes\<rparr>)))"

end
