(* ===== verification/Route_Publication.thy ===== *)
theory Route_Publication
  imports Route_Encoding Sdwan_Repository
begin

section \<open>Building and publishing routes (\<open>crates/cloud-worker/src/route_publication.rs\<close>)\<close>

text \<open>
  From the attachments of a segment to the signed objects of one generation: compiling the
  routes, sealing every object through the Core module, building one projection per active
  device attachment, and the write handed to the repository. The Core module and the signing
  primitive are the parameter \<open>core_ext\<close>; \<open>sort_unstable_by_key\<close> is \<open>sort_key\<close> (the two
  agree where the keys differ, which the code checks or which holds for route prefixes).
\<close>

subsection \<open>Sealing\<close>

datatype ObjectType = SEGMENT_SNAPSHOT_V1 | SITE_PROJECTION_V1 | SHARED_HUB_ADMISSION_V1
  | MESH_MEMBERSHIP_V1 | DYNAMIC_ROUTE_SNAPSHOT_V1 | FABRIC_ASSIGNMENT_V1 | ROUTE_ENVELOPE_V1
  | OtherObject u32

datatype RoutePublicationError =
    InvalidGeneration | InactiveOwner | OverlappingOwnership | IncompleteProjectionSet
  | ProjectionAttachmentMismatch | UnroutablePeerPath | ExpansionScopeMismatch
  | MissingReverseRoute | CoreError string | CorePrepareFailed ObjectType string
  | CoreUnexpectedType ObjectType ObjectType | RouteRepository SdwanError

record PreparedObject =
  po_object_type :: ObjectType
  po_payload :: "u8 list"
  po_signing_transcript :: "u8 list"

record core_ext =
  ce_json_to_vec :: "json \<Rightarrow> string + u8 list"
  ce_prepare :: "u8 list \<Rightarrow> string + PreparedObject"
  ce_route_content_hash :: "ObjectType \<Rightarrow> u8 list \<Rightarrow> string + hash32"
  ce_assemble :: "ObjectType \<Rightarrow> u8 list \<Rightarrow> u8 list \<Rightarrow> u8 list \<Rightarrow> string + u8 list"
  ce_validate :: "ObjectType \<Rightarrow> u8 list \<Rightarrow> u8 list \<Rightarrow> string + unit"
  ce_sign :: "u8 list \<Rightarrow> u8 list \<Rightarrow> u8 list"
  ce_public_key :: "u8 list \<Rightarrow> u8 list"

record RouteSigner =
  rs_key_id :: "u8 list"
  rs_signing_key :: "u8 list"

record 'a SealedRouteObject =
  sealed_source :: 'a
  sealed_content_hash :: hash32
  sealed_envelope :: "u8 list"

definition build_request :: "u8 list \<Rightarrow> json \<Rightarrow> json" where
  "build_request key_id object = JObj
     [(''schema'', JStr ''candy-core-cloud-build-v1''),
      (''signing_key_id_hex'', JStr (hex key_id)), (''object'', object)]"

definition module_seal ::
  "core_ext \<Rightarrow> u8 list \<Rightarrow> u8 list \<Rightarrow> ObjectType \<Rightarrow> 'a \<Rightarrow> json \<Rightarrow>
     RoutePublicationError + 'a SealedRouteObject" where
  "module_seal core key_id signing_key object_type source object =
     bind_res (map_err CoreError (ce_json_to_vec core (build_request key_id object))) (\<lambda>request.
     bind_res (map_err (CorePrepareFailed object_type) (ce_prepare core request)) (\<lambda>prepared.
     bind_res (guard (po_object_type prepared \<noteq> object_type)
       (CoreUnexpectedType (po_object_type prepared) object_type)) (\<lambda>_.
     let signature = ce_sign core signing_key (po_signing_transcript prepared) in
     bind_res (map_err CoreError
       (ce_route_content_hash core object_type (po_payload prepared))) (\<lambda>content_hash.
     bind_res (map_err CoreError
       (ce_assemble core object_type key_id (po_payload prepared) signature)) (\<lambda>raw.
     bind_res (map_err CoreError
       (ce_validate core ROUTE_ENVELOPE_V1 raw (ce_public_key core signing_key))) (\<lambda>_.
     Inr \<lparr>sealed_source = source, sealed_content_hash = content_hash,
          sealed_envelope = raw\<rparr>))))))"

definition signer_ready :: "RouteSigner \<Rightarrow> bool" where
  "signer_ready s \<longleftrightarrow> rs_key_id s \<noteq> [] \<and> length (rs_key_id s) \<le> 64"

definition signer_new :: "string \<Rightarrow> u8 list \<Rightarrow> RouteSigner" where
  "signer_new key_id signing_key = \<lparr>rs_key_id = str_bytes key_id, rs_signing_key = signing_key\<rparr>"

definition sign_segment_snapshot ::
  "core_ext \<Rightarrow> RouteSigner \<Rightarrow> SegmentRouteSnapshotV1 \<Rightarrow>
     RoutePublicationError + SegmentRouteSnapshotV1 SealedRouteObject" where
  "sign_segment_snapshot core s o1 =
     module_seal core (rs_key_id s) (rs_signing_key s) SEGMENT_SNAPSHOT_V1 o1
       (segment_snapshot_json o1)"

definition sign_site_projection ::
  "core_ext \<Rightarrow> RouteSigner \<Rightarrow> SiteRouteProjectionV1 \<Rightarrow>
     RoutePublicationError + SiteRouteProjectionV1 SealedRouteObject" where
  "sign_site_projection core s o1 =
     module_seal core (rs_key_id s) (rs_signing_key s) SITE_PROJECTION_V1 o1
       (site_projection_json o1)"

definition sign_shared_hub_admission ::
  "core_ext \<Rightarrow> RouteSigner \<Rightarrow> SharedHubAdmissionPolicyV1 \<Rightarrow>
     RoutePublicationError + SharedHubAdmissionPolicyV1 SealedRouteObject" where
  "sign_shared_hub_admission core s o1 =
     module_seal core (rs_key_id s) (rs_signing_key s) SHARED_HUB_ADMISSION_V1 o1
       (shared_hub_admission_json o1)"

definition sign_mesh_membership ::
  "core_ext \<Rightarrow> RouteSigner \<Rightarrow> MeshMembershipProjectionV1 \<Rightarrow>
     RoutePublicationError + MeshMembershipProjectionV1 SealedRouteObject" where
  "sign_mesh_membership core s o1 =
     module_seal core (rs_key_id s) (rs_signing_key s) MESH_MEMBERSHIP_V1 o1
       (mesh_membership_json o1)"

definition sign_dynamic_route_snapshot ::
  "core_ext \<Rightarrow> RouteSigner \<Rightarrow> DynamicRouteSnapshotV1 \<Rightarrow>
     RoutePublicationError + DynamicRouteSnapshotV1 SealedRouteObject" where
  "sign_dynamic_route_snapshot core s o1 =
     module_seal core (rs_key_id s) (rs_signing_key s) DYNAMIC_ROUTE_SNAPSHOT_V1 o1
       (dynamic_route_snapshot_json o1)"

definition sign_fabric_assignment ::
  "core_ext \<Rightarrow> RouteSigner \<Rightarrow> HubFabricAssignmentV1 \<Rightarrow>
     RoutePublicationError + HubFabricAssignmentV1 SealedRouteObject" where
  "sign_fabric_assignment core s o1 =
     module_seal core (rs_key_id s) (rs_signing_key s) FABRIC_ASSIGNMENT_V1 o1
       (fabric_assignment_json o1)"

subsection \<open>Inputs and outputs\<close>

record DeviceProjectionInput =
  dpi_publication_id :: uuid
  dpi_attachment_id :: AttachmentId
  dpi_projection_id :: PolicyId
  dpi_projection_generation :: u64
  dpi_previous_hash :: hash32
  dpi_local_transport_node :: "TransportNodeIdentityV1 option"
  dpi_path_policy :: PathSelectionPolicyV1
  dpi_peer_paths :: "PeerPathCandidateV1 list"
  dpi_egress_routes :: "RemoteRouteV1 list"
  dpi_egress_destination_prefixes :: "RoutePrefix list"
  dpi_coherent_manifest :: CoherentPolicyManifestV1
  dpi_max_inner_mtu :: u16
  dpi_resources :: PacketResourcePolicyV1

record RoutePublicationInput =
  rpi_publication_id :: uuid
  rpi_audit_event_id :: uuid
  rpi_actor_id :: string
  rpi_tenant_id :: TenantId
  rpi_segment_id :: SegmentId
  rpi_generation :: u64
  rpi_previous_hash :: hash32
  rpi_segment_overlay_prefix :: RoutePrefix
  rpi_attachments :: "SegmentAttachmentV1 list"
  rpi_not_before :: u64
  rpi_expires_at :: u64
  rpi_stale_until :: u64
  rpi_projections :: "DeviceProjectionInput list"

record BuiltDeviceProjection =
  bdp_publication_id :: uuid
  bdp_sealed :: "SiteRouteProjectionV1 SealedRouteObject"

record BuiltRoutePublication =
  brp_publication_id :: uuid
  brp_audit_event_id :: uuid
  brp_actor_id :: string
  brp_segment :: "SegmentRouteSnapshotV1 SealedRouteObject"
  brp_projections :: "BuiltDeviceProjection list"

datatype BuiltExpansionPublication =
    SharedHub uuid "SharedHubAdmissionPolicyV1 SealedRouteObject"
  | Mesh uuid "MeshMembershipProjectionV1 SealedRouteObject"
  | DynamicRoute uuid "DynamicRouteSnapshotV1 SealedRouteObject"
  | FabricAssignmentPub uuid "HubFabricAssignmentV1 SealedRouteObject"

subsection \<open>Compiling the routes\<close>

text \<open>
  The inner loop over the prefixes of one active attachment with a site. \<open>add_owner\<close> is the
  \<open>push\<close> on the first route with the prefix (\<open>iter_mut().find\<close>).
\<close>

fun add_owner :: "RoutePrefix \<Rightarrow> AttachmentId \<Rightarrow> SegmentRouteV1 list \<Rightarrow> SegmentRouteV1 list" where
  "add_owner p a [] = []"
| "add_owner p a (r # rs) =
     (if sr_destination_prefix r = p
      then r\<lparr>sr_owner_attachment_ids := sr_owner_attachment_ids r @ [a]\<rparr> # rs
      else r # add_owner p a rs)"

definition route_prefix_step ::
  "AttachmentId \<Rightarrow> SiteId \<Rightarrow> SegmentRouteV1 list \<Rightarrow> RoutePrefix \<Rightarrow>
     RoutePublicationError + SegmentRouteV1 list" where
  "route_prefix_step attachment site routes p =
     (case find (\<lambda>r. sr_destination_prefix r = p) routes of
        Some route \<Rightarrow>
          if sr_owner_site_id route \<noteq> Some site then Inl OverlappingOwnership
          else Inr (add_owner p attachment routes)
      | None \<Rightarrow>
          if list_ex (\<lambda>r. route_prefix_overlaps (sr_destination_prefix r) p) routes
          then Inl OverlappingOwnership
          else Inr (routes @ [\<lparr>sr_destination_prefix = p, sr_owner_site_id = Some site,
                               sr_owner_attachment_ids = [attachment]\<rparr>]))"

definition route_attachment_step ::
  "SegmentRouteV1 list \<Rightarrow> SegmentAttachmentV1 \<Rightarrow> RoutePublicationError + SegmentRouteV1 list" where
  "route_attachment_step routes a =
     (if sa_local_prefixes a \<noteq> [] \<and> sa_state a \<noteq> AttActive then Inl InactiveOwner
      else if sa_state a \<noteq> AttActive then Inr routes
      else (case sa_site_id a of None \<Rightarrow> Inr routes
            | Some site \<Rightarrow>
                fold_res (route_prefix_step (sa_attachment_id a) site) routes
                  (sa_local_prefixes a)))"

definition compile_routes ::
  "SegmentAttachmentV1 list \<Rightarrow> RoutePublicationError + SegmentRouteV1 list" where
  "compile_routes attachments =
     bind_res (fold_res route_attachment_step [] attachments) (\<lambda>routes.
       Inr (map (\<lambda>r. r\<lparr>sr_owner_attachment_ids := sort (sr_owner_attachment_ids r)\<rparr>)
              (sort_key sr_destination_prefix routes)))"

definition peer_paths_cover_remote_route_owners ::
  "RemoteRouteV1 list \<Rightarrow> PeerPathCandidateV1 list \<Rightarrow> bool" where
  "peer_paths_cover_remote_route_owners remote_routes peer_paths =
     (let peer_attachments =
        set (map (\<lambda>path. (ppc_peer_site_id path, ppc_peer_attachment_id path)) peer_paths)
      in list_all (\<lambda>route. list_all (\<lambda>a. (rr_owner_site_id route, a) \<in> peer_attachments)
           (rr_owner_attachment_ids route)) remote_routes)"

subsection \<open>Building a publication\<close>

definition is_active_device :: "SegmentAttachmentV1 \<Rightarrow> bool" where
  "is_active_device a \<longleftrightarrow> sa_state a = AttActive \<and>
     (case sa_principal a of PrDevice _ _ \<Rightarrow> True | PrNode _ _ \<Rightarrow> False)"

definition remote_routes_for ::
  "SegmentRouteV1 list \<Rightarrow> SiteId \<Rightarrow> RemoteRouteV1 list \<Rightarrow>
     RoutePublicationError + RemoteRouteV1 list" where
  "remote_routes_for routes site egress =
     bind_res (map_res (\<lambda>route. case sr_owner_site_id route of
         None \<Rightarrow> Inl OverlappingOwnership
       | Some owner \<Rightarrow> Inr \<lparr>rr_destination_prefix = sr_destination_prefix route,
           rr_owner_site_id = owner,
           rr_owner_attachment_ids = sr_owner_attachment_ids route\<rparr>)
       (filter (\<lambda>route. sr_owner_site_id route \<noteq> Some site) routes))
     (\<lambda>remote. Inr (sort_key rr_destination_prefix (remote @ egress)))"

definition build_projection ::
  "core_ext \<Rightarrow> RouteSigner \<Rightarrow> RoutePublicationInput \<Rightarrow> SegmentRouteV1 list \<Rightarrow>
     SegmentAttachmentV1 list \<Rightarrow> hash32 \<Rightarrow> DeviceProjectionInput \<Rightarrow>
     RoutePublicationError + BuiltDeviceProjection" where
  "build_projection core signer input routes device_attachments segment_hash plan =
     bind_res (ok_or (find (\<lambda>a. sa_attachment_id a = dpi_attachment_id plan) device_attachments)
       ProjectionAttachmentMismatch) (\<lambda>a.
     bind_res (guard (is_nil (dpi_publication_id plan)) ProjectionAttachmentMismatch) (\<lambda>_.
     bind_res (case sa_principal a of PrDevice d k \<Rightarrow> Inr (d, k)
               | PrNode _ _ \<Rightarrow> Inl ProjectionAttachmentMismatch) (\<lambda>(device_id, device_key_id).
     bind_res (ok_or (sa_site_id a) ProjectionAttachmentMismatch) (\<lambda>site_id.
     bind_res (remote_routes_for routes site_id (dpi_egress_routes plan)) (\<lambda>remote_routes.
     bind_res (guard (remote_routes = []) MissingReverseRoute) (\<lambda>_.
     bind_res (guard (\<not> peer_paths_cover_remote_route_owners remote_routes (dpi_peer_paths plan))
       UnroutablePeerPath) (\<lambda>_.
     bind_res (sign_site_projection core signer
       \<lparr>srp_tenant_id = rpi_tenant_id input, srp_segment_id = rpi_segment_id input,
        srp_segment_generation = rpi_generation input, srp_segment_content_hash = segment_hash,
        srp_site_id = site_id, srp_attachment_id = sa_attachment_id a,
        srp_device_id = device_id, srp_device_key_id = device_key_id,
        srp_local_transport_node = dpi_local_transport_node plan,
        srp_overlay_router_ipv4 = sa_overlay_router_ipv4 a,
        srp_local_prefixes = sa_local_prefixes a, srp_remote_routes = remote_routes,
        srp_egress_destination_prefixes = dpi_egress_destination_prefixes plan,
        srp_path_policy = dpi_path_policy plan, srp_peer_paths = dpi_peer_paths plan,
        srp_coherent_manifest = dpi_coherent_manifest plan,
        srp_max_inner_mtu = dpi_max_inner_mtu plan, srp_resources = dpi_resources plan,
        srp_epoch_floor = sa_epoch_floor a, srp_not_before = rpi_not_before input,
        srp_expires_at = rpi_expires_at input, srp_stale_until = rpi_stale_until input,
        srp_projection_id = dpi_projection_id plan,
        srp_projection_generation = dpi_projection_generation plan,
        srp_previous_hash = dpi_previous_hash plan\<rparr>) (\<lambda>sealed.
     Inr \<lparr>bdp_publication_id = dpi_publication_id plan, bdp_sealed = sealed\<rparr>))))))))"

definition build_route_publication ::
  "core_ext \<Rightarrow> RoutePublicationInput \<Rightarrow> RouteSigner \<Rightarrow>
     RoutePublicationError + BuiltRoutePublication" where
  "build_route_publication core input signer =
     bind_res (guard (rpi_generation input = 0 \<or> is_nil (rpi_publication_id input) \<or>
       is_nil (rpi_audit_event_id input) \<or> rpi_actor_id input = []) InvalidGeneration) (\<lambda>_.
     let attachments = sort_key sa_attachment_id (rpi_attachments input) in
     bind_res (compile_routes attachments) (\<lambda>routes.
     let device_attachments = filter is_active_device attachments in
     bind_res (guard (length (rpi_projections input) \<noteq> length device_attachments)
       IncompleteProjectionSet) (\<lambda>_.
     bind_res (sign_segment_snapshot core signer
       \<lparr>ss_tenant_id = rpi_tenant_id input, ss_segment_id = rpi_segment_id input,
        ss_segment_generation = rpi_generation input,
        ss_segment_overlay_prefix = rpi_segment_overlay_prefix input,
        ss_attachments = attachments, ss_routes = routes,
        ss_not_before = rpi_not_before input, ss_expires_at = rpi_expires_at input,
        ss_stale_until = rpi_stale_until input,
        ss_previous_hash = rpi_previous_hash input\<rparr>) (\<lambda>segment.
     let plans = sort_key dpi_attachment_id (rpi_projections input) in
     bind_res (guard (adjacent_equal (map dpi_attachment_id plans)) IncompleteProjectionSet) (\<lambda>_.
     bind_res (map_res (build_projection core signer input routes device_attachments
       (sealed_content_hash segment)) plans) (\<lambda>projections.
     Inr \<lparr>brp_publication_id = rpi_publication_id input,
          brp_audit_event_id = rpi_audit_event_id input, brp_actor_id = rpi_actor_id input,
          brp_segment = segment, brp_projections = projections\<rparr>))))))"

subsection \<open>The write for the repository\<close>

fun runtime_path_kind :: "PeerPathKindV1 \<Rightarrow> RuntimePathKind" where
  "runtime_path_kind PathDirect = RtDirect"
| "runtime_path_kind PathRelay = RtRelay"

text \<open>Pairs of identifiers in their lexicographic order: \<open>sort_unstable\<close>, then \<open>dedup\<close>.\<close>

definition transport_node_pairs :: "PeerPathCandidateV1 list \<Rightarrow> (uuid \<times> uuid) list" where
  "transport_node_pairs paths = remdups_adj (sort_key fst (sort_key snd
     (map (\<lambda>path. (tni_node_id (ppc_transport_node path),
                   tni_node_key_id (ppc_transport_node path))) paths)))"

definition projection_write :: "BuiltDeviceProjection \<Rightarrow> SiteProjectionPublicationWrite" where
  "projection_write built =
     (let p = sealed_source (bdp_sealed built) in
      \<lparr>pw_publication_id = bdp_publication_id built, pw_projection_id = srp_projection_id p,
       pw_tenant_id = srp_tenant_id p, pw_segment_id = srp_segment_id p,
       pw_site_id = srp_site_id p, pw_attachment_id = srp_attachment_id p,
       pw_device_id = srp_device_id p, pw_device_key_id = srp_device_key_id p,
       pw_segment_generation = srp_segment_generation p,
       pw_segment_content_hash = srp_segment_content_hash p,
       pw_projection_generation = srp_projection_generation p,
       pw_previous_hash = srp_previous_hash p,
       pw_object = \<lparr>so_content_hash = sealed_content_hash (bdp_sealed built),
         so_signed_envelope = sealed_envelope (bdp_sealed built)\<rparr>,
       pw_transport_nodes = transport_node_pairs (srp_peer_paths p),
       pw_runtime_paths = map (\<lambda>path. \<lparr>rpw_candidate_id = ppc_candidate_id path,
         rpw_peer_attachment_id = ppc_peer_attachment_id path,
         rpw_path_kind = runtime_path_kind (ppc_kind path)\<rparr>) (srp_peer_paths p)\<rparr>)"

fun expansion_parts ::
  "BuiltExpansionPublication \<Rightarrow> ExpansionObjectPublicationWrite" where
  "expansion_parts (SharedHub i s) =
     \<lparr>ew_publication_id = i, ew_kind = SharedHubAdmission,
      ew_policy_id = ha_policy_id (sealed_source s),
      ew_tenant_id = ha_tenant_id (sealed_source s),
      ew_segment_id = ha_segment_id (sealed_source s),
      ew_generation = ha_policy_generation (sealed_source s),
      ew_segment_generation = ha_segment_generation (sealed_source s),
      ew_segment_content_hash = ha_segment_content_hash (sealed_source s),
      ew_site_id = None, ew_attachment_id = None,
      ew_object = \<lparr>so_content_hash = sealed_content_hash s,
        so_signed_envelope = sealed_envelope s\<rparr>\<rparr>"
| "expansion_parts (Mesh i s) =
     \<lparr>ew_publication_id = i, ew_kind = MeshMembership,
      ew_policy_id = mm_projection_id (sealed_source s),
      ew_tenant_id = mm_tenant_id (sealed_source s),
      ew_segment_id = mm_segment_id (sealed_source s),
      ew_generation = mm_projection_generation (sealed_source s),
      ew_segment_generation = mm_segment_generation (sealed_source s),
      ew_segment_content_hash = mm_segment_content_hash (sealed_source s),
      ew_site_id = Some (mm_local_site_id (sealed_source s)),
      ew_attachment_id = Some (mm_local_attachment_id (sealed_source s)),
      ew_object = \<lparr>so_content_hash = sealed_content_hash s,
        so_signed_envelope = sealed_envelope s\<rparr>\<rparr>"
| "expansion_parts (DynamicRoute i s) =
     \<lparr>ew_publication_id = i, ew_kind = DynamicRouteSnapshot,
      ew_policy_id = ds_policy_id (sealed_source s),
      ew_tenant_id = ds_tenant_id (sealed_source s),
      ew_segment_id = ds_segment_id (sealed_source s),
      ew_generation = ds_generation (sealed_source s),
      ew_segment_generation = ds_base_segment_generation (sealed_source s),
      ew_segment_content_hash = ds_base_segment_content_hash (sealed_source s),
      ew_site_id = None, ew_attachment_id = None,
      ew_object = \<lparr>so_content_hash = sealed_content_hash s,
        so_signed_envelope = sealed_envelope s\<rparr>\<rparr>"
| "expansion_parts (FabricAssignmentPub i s) =
     \<lparr>ew_publication_id = i, ew_kind = FabricAssignment,
      ew_policy_id = hf_policy_id (sealed_source s),
      ew_tenant_id = hf_tenant_id (sealed_source s),
      ew_segment_id = hf_segment_id (sealed_source s),
      ew_generation = hf_generation (sealed_source s),
      ew_segment_generation = hf_segment_generation (sealed_source s),
      ew_segment_content_hash = hf_segment_content_hash (sealed_source s),
      ew_site_id = None, ew_attachment_id = None,
      ew_object = \<lparr>so_content_hash = sealed_content_hash s,
        so_signed_envelope = sealed_envelope s\<rparr>\<rparr>"

definition expansion_write ::
  "BuiltRoutePublication \<Rightarrow> BuiltExpansionPublication \<Rightarrow>
     RoutePublicationError + ExpansionObjectPublicationWrite" where
  "expansion_write b expansion =
     (let e = expansion_parts expansion; segment = sealed_source (brp_segment b) in
      if is_nil (ew_publication_id e) \<or> ew_tenant_id e \<noteq> ss_tenant_id segment \<or>
         ew_segment_id e \<noteq> ss_segment_id segment \<or>
         ew_segment_generation e \<noteq> ss_segment_generation segment \<or>
         ew_segment_content_hash e \<noteq> sealed_content_hash (brp_segment b)
      then Inl ExpansionScopeMismatch else Inr e)"

definition database_write_with_expansions ::
  "BuiltRoutePublication \<Rightarrow> BuiltExpansionPublication list \<Rightarrow>
     RoutePublicationError + SegmentPublicationWrite" where
  "database_write_with_expansions b expansions =
     (let segment = sealed_source (brp_segment b); generation = ss_segment_generation segment in
      bind_res (ok_or (checked_sub generation 1) InvalidGeneration) (\<lambda>previous.
      bind_res (map_res (expansion_write b) expansions) (\<lambda>es.
      Inr \<lparr>sw_publication_id = brp_publication_id b, sw_tenant_id = ss_tenant_id segment,
           sw_segment_id = ss_segment_id segment, sw_expected_previous_generation = previous,
           sw_expected_previous_hash = ss_previous_hash segment, sw_generation = generation,
           sw_policy_only = False, sw_expires_at = ss_expires_at segment,
           sw_stale_until = ss_stale_until segment,
           sw_snapshot = \<lparr>so_content_hash = sealed_content_hash (brp_segment b),
             so_signed_envelope = sealed_envelope (brp_segment b)\<rparr>,
           sw_projections = map projection_write (brp_projections b), sw_expansions = es,
           sw_audit_event_id = brp_audit_event_id b, sw_actor_id = brp_actor_id b\<rparr>)))"

definition database_write ::
  "BuiltRoutePublication \<Rightarrow> RoutePublicationError + SegmentPublicationWrite" where
  "database_write b = database_write_with_expansions b []"

text \<open>\<open>RoutePublisher::publish\<close>\<close>

definition publisher_publish ::
  "core_ext \<Rightarrow> RouteSigner \<Rightarrow> bool \<Rightarrow> (u8 list \<Rightarrow> u8 list) \<Rightarrow> RoutePublicationInput \<Rightarrow>
     route_db \<Rightarrow> RoutePublicationError + (PublicationOutcome \<times> route_db)" where
  "publisher_publish core signer policy_isolation sha input d =
     bind_res (build_route_publication core input signer) (\<lambda>built.
     bind_res (database_write built) (\<lambda>w.
     map_err RouteRepository (publish policy_isolation sha w d)))"

end
