(* ===== verification/Generation_Queue.thy ===== *)
theory Generation_Queue
  imports Generation_Jobs
begin

section \<open>The job queue refines a lease queue\<close>

text \<open>
  The specification of the queue is a small transition system: a job waits, is held by a
  worker, is done or has failed, and a job of a segment is taken only after every job with a
  smaller revision has come to rest. That at most one job of a segment is held is proved for
  the specification, and every operation of \<open>GenerationJobRepository\<close> is shown to be a
  sequence of its steps. The rows themselves keep the \<open>CHECK\<close> constraints of the table.
\<close>

subsection \<open>The specification\<close>

datatype status = Waiting | Held | Done | Failed

type_synonym queue = "uuid \<rightharpoonup> (uuid \<times> uuid) \<times> u64 \<times> status"

definition at_rest :: "status \<Rightarrow> bool" where
  "at_rest s \<longleftrightarrow> s = Done \<or> s = Failed"

definition first_in_line :: "queue \<Rightarrow> uuid \<times> uuid \<Rightarrow> u64 \<Rightarrow> bool" where
  "first_in_line q k r \<longleftrightarrow> (\<forall>i r' s. q i = Some (k, r', s) \<longrightarrow> r' < r \<longrightarrow> at_rest s)"

definition newest :: "queue \<Rightarrow> uuid \<times> uuid \<Rightarrow> u64 \<Rightarrow> bool" where
  "newest q k r \<longleftrightarrow> (\<forall>i r' s. q i = Some (k, r', s) \<longrightarrow> r' \<le> r)"

inductive queue_step :: "queue \<Rightarrow> queue \<Rightarrow> bool" where
  add: "q i = None \<Longrightarrow> (\<And>j r' s. q j = Some (k, r', s) \<Longrightarrow> r' < r) \<Longrightarrow>
    queue_step q (q(i \<mapsto> (k, r, Waiting)))"
| take: "q i = Some (k, r, s) \<Longrightarrow> s = Waiting \<or> s = Held \<Longrightarrow> first_in_line q k r \<Longrightarrow>
    queue_step q (q(i \<mapsto> (k, r, Held)))"
| release: "q i = Some (k, r, Held) \<Longrightarrow> s \<noteq> Held \<Longrightarrow> queue_step q (q(i \<mapsto> (k, r, s)))"
| cancel: "q i = Some (k, r, Waiting) \<Longrightarrow> queue_step q (q(i \<mapsto> (k, r, Failed)))"
| reopen: "q i = Some (k, r, Failed) \<Longrightarrow> newest q k r \<Longrightarrow>
    queue_step q (q(i \<mapsto> (k, r, Waiting)))"

inductive_cases queue_stepE: "queue_step q q'"

definition revisions_differ :: "queue \<Rightarrow> bool" where
  "revisions_differ q \<longleftrightarrow>
     (\<forall>i j k r s t. q i = Some (k, r, s) \<longrightarrow> q j = Some (k, r, t) \<longrightarrow> i = j)"

definition held_first :: "queue \<Rightarrow> bool" where
  "held_first q \<longleftrightarrow> (\<forall>i k r. q i = Some (k, r, Held) \<longrightarrow> first_in_line q k r)"

definition queue_inv :: "queue \<Rightarrow> bool" where
  "queue_inv q \<longleftrightarrow> revisions_differ q \<and> held_first q"

lemma held_firstD: "held_first q \<Longrightarrow> q i = Some (k, r, Held) \<Longrightarrow> first_in_line q k r"
  unfolding held_first_def by blast

lemma first_in_lineD: "first_in_line q k r \<Longrightarrow> q i = Some (k, r', s) \<Longrightarrow> r' < r \<Longrightarrow> at_rest s"
  unfolding first_in_line_def by blast

lemma newestD: "newest q k r \<Longrightarrow> q i = Some (k, r', s) \<Longrightarrow> r' \<le> r"
  unfolding newest_def by blast

lemma queue_inv_empty: "queue_inv Map.empty"
  by (simp add: queue_inv_def revisions_differ_def held_first_def)

lemma revisions_differ_step:
  assumes "queue_step q q'" and "revisions_differ q"
  shows "revisions_differ q'"
  using assms(1)
proof cases
  case (add i k r)
  have fresh: "q j \<noteq> Some (k, r, s)" for j s
    using add(3) [of j r s] by auto
  with add(1) assms(2) show ?thesis
    unfolding revisions_differ_def by (auto split: if_splits)
next
  case (take i k r s)
  with assms(2) show ?thesis unfolding revisions_differ_def by (auto split: if_splits)
next
  case (release i k r s)
  with assms(2) show ?thesis unfolding revisions_differ_def by (auto split: if_splits)
next
  case (cancel i k r)
  with assms(2) show ?thesis unfolding revisions_differ_def by (auto split: if_splits)
next
  case (reopen i k r)
  with assms(2) show ?thesis unfolding revisions_differ_def by (auto split: if_splits)
qed

text \<open>A changed entry keeps the order when it is at rest, was not before, or is the newest.\<close>

lemma first_in_line_update:
  assumes "first_in_line q k r" and "k' = k \<Longrightarrow> r' < r \<Longrightarrow> at_rest s'"
  shows "first_in_line (q(i \<mapsto> (k', r', s'))) k r"
  using assms unfolding first_in_line_def by (auto split: if_splits)

lemma held_first_step:
  assumes "queue_step q q'" and "held_first q"
  shows "held_first q'"
  unfolding held_first_def
proof (intro allI impI)
  fix j k r
  assume held: "q' j = Some (k, r, Held)"
  from assms(1) show "first_in_line q' k r"
  proof cases
    case (add i k' r')
    with held have old: "q j = Some (k, r, Held)" by (auto split: if_splits)
    with assms(2) have "first_in_line q k r" by (rule held_firstD)
    moreover have "\<not> r' < r" if "k' = k" using add(3) [of j r Held] old that by auto
    ultimately show ?thesis unfolding add(1) by (intro first_in_line_update) auto
  next
    case (take i k' r' s)
    show ?thesis
    proof (cases "j = i")
      case True
      with held take show ?thesis by (auto intro!: first_in_line_update)
    next
      case False
      with held take have "first_in_line q k r" using assms(2) by (auto dest: held_firstD)
      with take show ?thesis
        by (auto intro!: first_in_line_update dest!: first_in_lineD simp: at_rest_def)
    qed
  next
    case (release i k' r' s)
    from held release have "j \<noteq> i" and "first_in_line q k r"
      using assms(2) by (auto dest: held_firstD split: if_splits)
    with release show ?thesis
      by (auto intro!: first_in_line_update dest!: first_in_lineD simp: at_rest_def)
  next
    case (cancel i k' r')
    from held cancel have "j \<noteq> i" and "first_in_line q k r"
      using assms(2) by (auto dest: held_firstD split: if_splits)
    with cancel show ?thesis by (auto intro!: first_in_line_update simp: at_rest_def)
  next
    case (reopen i k' r')
    from held reopen have "q j = Some (k, r, Held)" and "first_in_line q k r"
      using assms(2) by (auto dest: held_firstD split: if_splits)
    with reopen(3) have "\<not> r' < r" if "k' = k" using that by (auto dest: newestD)
    with reopen(1) \<open>first_in_line q k r\<close> show ?thesis by (auto intro!: first_in_line_update)
  qed
qed

lemma queue_inv_steps: "queue_step\<^sup>*\<^sup>* q q' \<Longrightarrow> queue_inv q \<Longrightarrow> queue_inv q'"
  by (induction rule: rtranclp_induct)
    (auto simp: queue_inv_def intro: revisions_differ_step held_first_step)

lemma one_holder:
  assumes "queue_inv q" and "q i = Some (k, r, Held)" and "q j = Some (k, r', Held)"
  shows "i = j"
proof -
  from assms(1) have first: "first_in_line q k r" "first_in_line q k r'"
    using assms(2,3) by (auto simp: queue_inv_def dest: held_firstD)
  have "\<not> r' < r" "\<not> r < r'"
    using first_in_lineD [OF first(1) assms(3)] first_in_lineD [OF first(2) assms(2)]
    by (auto simp: at_rest_def)
  then have "r = r'" by simp
  with assms show ?thesis unfolding queue_inv_def revisions_differ_def by blast
qed

subsection \<open>Rows\<close>

text \<open>The \<open>CHECK\<close> constraints of the table.\<close>

definition row_ok :: "job_row \<Rightarrow> bool" where
  "row_ok j \<longleftrightarrow> jr_desired_revision j > 0 \<and>
     (jr_state j = JobLeased \<longleftrightarrow> jr_lease_owner j \<noteq> None) \<and>
     (jr_state j = JobLeased \<longleftrightarrow> jr_lease_until j \<noteq> None) \<and>
     (jr_state j = JobPublished \<longleftrightarrow> jr_published_generation j \<noteq> None) \<and>
     (jr_state j = JobPublished \<longleftrightarrow> jr_published_content_hash j \<noteq> None) \<and>
     (jr_state j = JobPublished \<longrightarrow> jr_last_error_code j = None) \<and>
     (jr_state j \<in> {JobRetry, JobPermanentFailure} \<longrightarrow> jr_last_error_code j \<noteq> None) \<and>
     jr_activation_mode j \<in> {''TUNNEL'', ''POLICY_ONLY''}"

definition segment_of :: "job_row \<Rightarrow> uuid \<times> uuid" where
  "segment_of j = (jr_tenant_id j, jr_segment_id j)"

definition head_key :: "head_row \<Rightarrow> uuid \<times> uuid" where
  "head_key h = (hr_tenant_id h, hr_segment_id h)"

lemma same_segment_iff: "same_segment t s j \<longleftrightarrow> segment_of j = (t, s)"
  by (auto simp: same_segment_def segment_of_def)

lemma head_at_iff: "head_at t s r h \<longleftrightarrow> head_key h = (t, s) \<and> hr_desired_revision h = r"
  by (auto simp: head_at_def head_key_def)

definition jobs_inv :: "job_db \<Rightarrow> bool" where
  "jobs_inv d \<longleftrightarrow> distinct (map jr_id (jd_jobs d)) \<and>
     distinct (map (\<lambda>j. (segment_of j, jr_desired_revision j)) (jd_jobs d)) \<and>
     distinct (map head_key (jd_heads d)) \<and>
     (\<forall>j \<in> set (jd_jobs d). row_ok j \<and>
        (\<exists>h \<in> set (jd_heads d). head_key h = segment_of j \<and>
           jr_desired_revision j \<le> hr_desired_revision h))"

lemma jobs_inv_empty: "jobs_inv empty_jobs"
  by (simp add: jobs_inv_def empty_jobs_def)

fun status_of :: "GenerationJobState \<Rightarrow> status" where
  "status_of JobPending = Waiting"
| "status_of JobRetry = Waiting"
| "status_of JobLeased = Held"
| "status_of JobPublished = Done"
| "status_of JobPermanentFailure = Failed"

definition abs_job :: "job_row \<Rightarrow> (uuid \<times> uuid) \<times> u64 \<times> status" where
  "abs_job j = (segment_of j, jr_desired_revision j, status_of (jr_state j))"

definition abs_queue :: "job_db \<Rightarrow> queue" where
  "abs_queue d = map_of (map (\<lambda>j. (jr_id j, abs_job j)) (jd_jobs d))"

lemma at_rest_status [simp]: "at_rest (status_of s) \<longleftrightarrow> s = JobPublished \<or> s = JobPermanentFailure"
  by (cases s) (simp_all add: at_rest_def)

lemma status_of_iff [simp]:
  "status_of s = Held \<longleftrightarrow> s = JobLeased" "status_of s = Failed \<longleftrightarrow> s = JobPermanentFailure"
  "status_of s = Done \<longleftrightarrow> s = JobPublished" "status_of s = Waiting \<longleftrightarrow> s = JobPending \<or> s = JobRetry"
  by (cases s; simp)+

lemma abs_queue_Some:
  "abs_queue d i = Some a \<Longrightarrow> \<exists>j \<in> set (jd_jobs d). jr_id j = i \<and> abs_job j = a"
  by (auto simp: abs_queue_def dest!: map_of_SomeD)

lemma abs_queue_row:
  assumes "jobs_inv d" and "j \<in> set (jd_jobs d)"
  shows "abs_queue d (jr_id j) = Some (abs_job j)"
proof -
  have "distinct (map fst (map (\<lambda>j. (jr_id j, abs_job j)) (jd_jobs d)))"
    using assms(1) by (simp add: jobs_inv_def comp_def)
  then show ?thesis unfolding abs_queue_def using assms(2) by (intro map_of_is_SomeI) auto
qed

subsection \<open>One row changes\<close>

definition swap_row :: "job_row \<Rightarrow> job_row \<Rightarrow> job_db \<Rightarrow> job_db" where
  "swap_row j k d = d\<lparr>jd_jobs := map (\<lambda>x. if x = j then k else x) (jd_jobs d)\<rparr>"

text \<open>The columns no update touches.\<close>

definition same_key :: "job_row \<Rightarrow> job_row \<Rightarrow> bool" where
  "same_key j k \<longleftrightarrow> jr_id k = jr_id j \<and> segment_of k = segment_of j \<and>
     jr_desired_revision k = jr_desired_revision j"

lemma swap_row_inv:
  assumes "jobs_inv d" and "same_key j k" and "row_ok k"
  shows "jobs_inv (swap_row j k d)"
proof -
  have "map jr_id (jd_jobs (swap_row j k d)) = map jr_id (jd_jobs d)"
    and "map (\<lambda>j. (segment_of j, jr_desired_revision j)) (jd_jobs (swap_row j k d)) =
      map (\<lambda>j. (segment_of j, jr_desired_revision j)) (jd_jobs d)"
    using assms(2) by (auto simp: swap_row_def same_key_def)
  moreover have "\<exists>h \<in> set (jd_heads d). head_key h = segment_of x \<and>
      jr_desired_revision x \<le> hr_desired_revision h" "row_ok x"
    if x: "x \<in> set (jd_jobs (swap_row j k d))" for x
  proof -
    from x obtain y where y: "y \<in> set (jd_jobs d)" "x = (if y = j then k else y)"
      by (auto simp: swap_row_def)
    with assms(1) have "row_ok y" "\<exists>h \<in> set (jd_heads d). head_key h = segment_of y \<and>
      jr_desired_revision y \<le> hr_desired_revision h" by (auto simp: jobs_inv_def)
    then show "\<exists>h \<in> set (jd_heads d). head_key h = segment_of x \<and>
      jr_desired_revision x \<le> hr_desired_revision h" "row_ok x"
      using y(2) assms(2,3) by (auto simp: same_key_def)
  qed
  moreover have "jd_heads (swap_row j k d) = jd_heads d" by (simp add: swap_row_def)
  ultimately show ?thesis
    using assms(1) unfolding jobs_inv_def by (simp only: simp_thms) blast
qed

lemma abs_swap_row:
  assumes "jobs_inv d" and "j \<in> set (jd_jobs d)" and "same_key j k"
  shows "abs_queue (swap_row j k d) = (abs_queue d)(jr_id j \<mapsto> abs_job k)"
proof -
  have ids: "inj_on jr_id (set (jd_jobs d))"
    using assms(1) by (simp add: jobs_inv_def distinct_map)
  have "map_of (map (\<lambda>x. (jr_id x, abs_job x)) (map (\<lambda>x. if x = j then k else x) xs)) =
      (if j \<in> set xs then (map_of (map (\<lambda>x. (jr_id x, abs_job x)) xs))(jr_id j \<mapsto> abs_job k)
       else map_of (map (\<lambda>x. (jr_id x, abs_job x)) xs))"
    if "set xs \<subseteq> set (jd_jobs d)" for xs
    using that
  proof (induction xs)
    case (Cons x xs)
    have "jr_id x \<noteq> jr_id j" if "x \<noteq> j"
      using ids Cons.prems assms(2) that by (auto dest: inj_onD)
    with Cons assms(3) show ?case by (auto simp: same_key_def fun_upd_twist)
  qed simp
  from this [of "jd_jobs d"] assms(2) show ?thesis
    by (simp add: abs_queue_def swap_row_def)
qed

lemma update_where_swap:
  assumes "jobs_inv d" and "update_where p f d = (n, d')" and "\<And>j. p j \<Longrightarrow> jr_id j = i"
  shows "(n = 0 \<and> d' = d) \<or> (\<exists>j \<in> set (jd_jobs d). p j \<and> n = 1 \<and> d' = swap_row j (f j) d)"
proof (cases "\<exists>j \<in> set (jd_jobs d). p j")
  case False
  then have "filter p (jd_jobs d) = []" "map (\<lambda>j. if p j then f j else j) (jd_jobs d) = jd_jobs d"
    by (auto simp: filter_empty_conv intro: map_idI)
  with assms(2) show ?thesis by (auto simp: update_where_def)
next
  case True
  then obtain j where j: "j \<in> set (jd_jobs d)" "p j" by blast
  have only: "x = j" if "x \<in> set (jd_jobs d)" "p x" for x
    using assms(1) assms(3) [OF that(2)] assms(3) [OF j(2)] that(1) j(1)
    by (auto simp: jobs_inv_def distinct_map dest: inj_onD)
  then have eq: "p x \<longleftrightarrow> x = j" if "x \<in> set (jd_jobs d)" for x
    using j(2) that by blast
  then have "map (\<lambda>x. if p x then f x else x) (jd_jobs d) =
      map (\<lambda>x. if x = j then f j else x) (jd_jobs d)"
    by auto
  moreover have "filter p (jd_jobs d) = filter (\<lambda>x. x = j) (jd_jobs d)"
    using eq by (auto intro: filter_cong)
  moreover have "length (filter (\<lambda>x. x = j) (jd_jobs d)) = 1"
  proof -
    have "distinct (jd_jobs d)" using assms(1) by (auto simp: jobs_inv_def distinct_map)
    then have "card (set (filter (\<lambda>x. x = j) (jd_jobs d))) = length (filter (\<lambda>x. x = j) (jd_jobs d))"
      by (intro distinct_card distinct_filter)
    moreover have "set (filter (\<lambda>x. x = j) (jd_jobs d)) = {j}" using j(1) by auto
    ultimately show ?thesis by simp
  qed
  ultimately show ?thesis using assms(2) j by (auto simp: update_where_def swap_row_def)
qed

lemma update_one_swap:
  assumes "jobs_inv d" and "update_one e p f d = Inr d'" and "\<And>j. p j \<Longrightarrow> jr_id j = i"
  obtains j where "j \<in> set (jd_jobs d)" and "p j" and "d' = swap_row j (f j) d"
proof -
  obtain n where "update_where p f d = (n, d')" "n = 1"
    using assms(2) by (auto simp: update_one_def split: prod.splits if_splits)
  with update_where_swap [OF assms(1) this(1) assms(3)] that show thesis by auto
qed

subsection \<open>Every operation is a run of the specification\<close>

definition queue_run :: "job_db \<Rightarrow> job_db \<Rightarrow> bool" where
  "queue_run d d' \<longleftrightarrow> jobs_inv d' \<and> queue_step\<^sup>*\<^sup>* (abs_queue d) (abs_queue d')"

lemma queue_run_refl: "jobs_inv d \<Longrightarrow> queue_run d d"
  by (simp add: queue_run_def)

lemma queue_run_trans: "queue_run d e \<Longrightarrow> queue_run e f \<Longrightarrow> queue_run d f"
  by (auto simp: queue_run_def)

lemma queue_run_swap:
  assumes "jobs_inv d" and "j \<in> set (jd_jobs d)" and "same_key j k" and "row_ok k"
    and "queue_step\<^sup>*\<^sup>* (abs_queue d) ((abs_queue d)(jr_id j \<mapsto> abs_job k))"
  shows "queue_run d (swap_row j k d)"
  using assms by (auto simp: queue_run_def swap_row_inv abs_swap_row)

lemma jobs_inv_row: "jobs_inv d \<Longrightarrow> j \<in> set (jd_jobs d) \<Longrightarrow> row_ok j"
  by (simp add: jobs_inv_def)

lemma job_by_id:
  "jobs_inv d \<Longrightarrow> j \<in> set (jd_jobs d) \<Longrightarrow> k \<in> set (jd_jobs d) \<Longrightarrow> jr_id j = jr_id k \<Longrightarrow> j = k"
  by (auto simp: jobs_inv_def distinct_map dest: inj_onD)

lemma jobs_inv_head:
  assumes "jobs_inv d" and "j \<in> set (jd_jobs d)" and "h \<in> set (jd_heads d)"
    and "head_key h = segment_of j"
  shows "jr_desired_revision j \<le> hr_desired_revision h"
proof -
  obtain h' where h': "h' \<in> set (jd_heads d)" "head_key h' = segment_of j"
    "jr_desired_revision j \<le> hr_desired_revision h'"
    using assms(1,2) by (auto simp: jobs_inv_def)
  have "inj_on head_key (set (jd_heads d))" using assms(1) by (simp add: jobs_inv_def distinct_map)
  then have "h' = h" using assms(3,4) h'(1,2) by (simp add: inj_onD)
  with h'(3) show ?thesis by simp
qed

text \<open>Inserting the job of the next revision of a segment.\<close>

lemma insert_next_revision:
  assumes inv: "jobs_inv d" and h: "h \<in> set (jd_heads d)" "head_at t s current h"
    and next_rev: "checked_add current 1 = Some desired"
    and ins: "insert_job (new_job_row i t s desired hash (mode_name m) clock)
      (move_head t s current desired d) = Inr d'"
  shows "queue_run d d'" and "\<And>g. g \<in> set (jd_heads d) \<Longrightarrow> head_key g \<noteq> (t, s) \<Longrightarrow> g \<in> set (jd_heads d')"
proof -
  let ?row = "new_job_row i t s desired hash (mode_name m) clock"
  from ins have fresh: "\<forall>x \<in> set (jd_jobs d). \<not> job_conflict ?row x"
    and jobs: "jd_jobs d' = jd_jobs d @ [?row]"
    and heads: "jd_heads d' = map (\<lambda>h. if head_at t s current h
      then h\<lparr>hr_desired_revision := desired\<rparr> else h) (jd_heads d)"
    by (auto simp: insert_job_def insert_row_ok move_head_def)
  have gt: "current < desired" by (rule checked_add_succ_gt [OF next_rev])
  have seg: "segment_of ?row = (t, s)" "jr_desired_revision ?row = desired" "jr_id ?row = i"
    by (simp_all add: segment_of_def new_job_row_def)
  have below: "jr_desired_revision x < desired"
    if "x \<in> set (jd_jobs d)" "segment_of x = (t, s)" for x
    using jobs_inv_head [OF inv that(1) h(1)] h(2) that(2) gt by (auto simp: head_at_iff)
  have keys: "map head_key (jd_heads d') = map head_key (jd_heads d)"
    by (auto simp: heads head_key_def)
  have "\<exists>h \<in> set (jd_heads d'). head_key h = segment_of x \<and>
      jr_desired_revision x \<le> hr_desired_revision h" if x: "x \<in> set (jd_jobs d')" for x
  proof (cases "segment_of x = (t, s)")
    case True
    have "h\<lparr>hr_desired_revision := desired\<rparr> \<in> set (jd_heads d')" using h by (force simp: heads)
    moreover have "jr_desired_revision x \<le> desired"
      using x below True seg by (auto simp: jobs intro: less_imp_le)
    moreover have "head_key (h\<lparr>hr_desired_revision := desired\<rparr>) = segment_of x"
      using h(2) True by (simp add: head_at_iff head_key_def)
    ultimately show ?thesis by (intro bexI [of _ "h\<lparr>hr_desired_revision := desired\<rparr>"]) auto
  next
    case False
    with x seg have "x \<in> set (jd_jobs d)" by (auto simp: jobs)
    with inv obtain g where "g \<in> set (jd_heads d)" "head_key g = segment_of x"
      "jr_desired_revision x \<le> hr_desired_revision g" by (auto simp: jobs_inv_def)
    moreover then have "g \<in> set (jd_heads d')" using False by (force simp: heads head_at_iff)
    ultimately show ?thesis by blast
  qed
  moreover have "row_ok ?row"
    using gt by (auto simp: row_ok_def new_job_row_def mode_name_def intro: le_less_trans word_zero_le)
  moreover have "i \<notin> jr_id ` set (jd_jobs d)"
    using fresh by (auto simp: job_conflict_def new_job_row_def)
  moreover have "((t, s), desired) \<notin> (\<lambda>j. (segment_of j, jr_desired_revision j)) ` set (jd_jobs d)"
    using below by fastforce
  ultimately have inv': "jobs_inv d'"
    using inv seg unfolding jobs_inv_def keys by (auto simp: jobs)
  have "abs_queue d' = (abs_queue d)(i \<mapsto> ((t, s), desired, Waiting))"
  proof -
    have "abs_queue d i = None"
      using \<open>i \<notin> jr_id ` set (jd_jobs d)\<close> by (auto dest!: abs_queue_Some simp flip: not_Some_eq)
    then show ?thesis
      by (auto simp: abs_queue_def jobs abs_job_def seg map_add_def fun_eq_iff new_job_row_def
          segment_of_def split: option.splits)
  qed
  moreover have "queue_step (abs_queue d) ((abs_queue d)(i \<mapsto> ((t, s), desired, Waiting)))"
  proof (rule queue_step.add)
    show "abs_queue d i = None"
      using \<open>i \<notin> jr_id ` set (jd_jobs d)\<close> by (auto dest!: abs_queue_Some simp flip: not_Some_eq)
    show "r' < desired" if "abs_queue d j = Some ((t, s), r', st)" for j r' st
      using abs_queue_Some [OF that] below by (auto simp: abs_job_def)
  qed
  ultimately show "queue_run d d'" using inv' by (auto simp: queue_run_def)
  show "g \<in> set (jd_heads d')" if "g \<in> set (jd_heads d)" "head_key g \<noteq> (t, s)" for g
    using that by (force simp: heads head_at_iff)
qed

lemma find_head_Some:
  "find_head t s d = Some h \<Longrightarrow> h \<in> set (jd_heads d) \<and> head_key h = (t, s)"
  by (auto simp: find_head_def head_key_def dest: find_SomeD)

lemma find_head_None: "find_head t s d = None \<longleftrightarrow> (\<forall>h \<in> set (jd_heads d). head_key h \<noteq> (t, s))"
  by (auto simp: find_head_def find_None_iff head_key_def)

lemma ensure_head_run:
  assumes "jobs_inv d"
  shows "queue_run d (ensure_head t s d)"
proof (cases "find_head t s d")
  case None
  let ?e = "ensure_head t s d"
  from None have heads: "jd_heads ?e = jd_heads d @
      [\<lparr>hr_tenant_id = t, hr_segment_id = s, hr_desired_revision = 0\<rparr>]" and jobs: "jd_jobs ?e = jd_jobs d"
    by (simp_all add: ensure_head_def)
  have "distinct (map head_key (jd_heads ?e))"
    using assms None by (auto simp: heads jobs_inv_def find_head_None) (auto simp: head_key_def)
  then have "jobs_inv ?e"
    using assms unfolding jobs_inv_def jobs by (auto simp: heads)
  then show ?thesis by (simp add: queue_run_def abs_queue_def jobs)
qed (simp add: ensure_head_def queue_run_refl assms)

lemma enqueue_run:
  assumes "jobs_inv d" and "enqueue_generation clock fresh t s hash policy_only d = Inr d'"
  shows "queue_run d d'"
proof -
  note run = ensure_head_run [OF assms(1), of t s]
  from assms(2) obtain h where h: "find_head t s (ensure_head t s d) = Some h"
    by (auto simp: enqueue_generation_def Let_def)
  have h': "h \<in> set (jd_heads (ensure_head t s d))" "head_at t s (hr_desired_revision h) h"
    using find_head_Some [OF h] by (auto simp: head_at_iff)
  from assms(2) h consider "d' = ensure_head t s d"
    | desired where "checked_add (hr_desired_revision h) 1 = Some desired"
      "insert_job (new_job_row fresh t s desired hash (mode_name policy_only) clock)
        (move_head t s (hr_desired_revision h) desired (ensure_head t s d)) = Inr d'"
    by (auto simp: enqueue_generation_def Let_def split: if_splits)
  then show ?thesis
  proof cases
    case 1
    with run show ?thesis by simp
  next
    case (2 desired)
    have "jobs_inv (ensure_head t s d)" using run by (simp add: queue_run_def)
    from insert_next_revision(1) [OF this h' 2] run show ?thesis by (rule queue_run_trans [rotated])
  qed
qed

lemma claim_order_set [simp]: "set (claim_order jobs) = set jobs"
  by (simp add: claim_order_def)

lemma claimable_set: "set (claimable now jobs) = {j \<in> set jobs. due now j \<and> \<not> blocked jobs j}"
  by (auto simp: claimable_def)

lemma not_blocked_first:
  assumes "\<not> blocked (jd_jobs d) j"
  shows "first_in_line (abs_queue d) (segment_of j) (jr_desired_revision j)"
  unfolding first_in_line_def
proof (intro allI impI)
  fix i r s
  assume "abs_queue d i = Some (segment_of j, r, s)" and "r < jr_desired_revision j"
  then obtain e where "e \<in> set (jd_jobs d)" "segment_of e = segment_of j"
    "jr_desired_revision e < jr_desired_revision j" "s = status_of (jr_state e)"
    by (auto simp: abs_job_def dest!: abs_queue_Some)
  with assms show "at_rest s"
    by (auto simp: blocked_def list_ex_iff same_segment_iff segment_of_def terminal_def)
qed

text \<open>What a successful claim does.\<close>

lemma claim_next_Some:
  assumes "jobs_inv d" and "claim_next owner now ttl d = Inr (Some job, d')"
  obtains row where "row \<in> set (jd_jobs d)" and "due now row" and "\<not> blocked (jd_jobs d) row"
    and "d' = swap_row row (leased_row (gj_attempt_count job) owner (now + int ttl) row) d"
    and "job = \<lparr>gj_id = jr_id row, gj_tenant_id = jr_tenant_id row,
      gj_segment_id = jr_segment_id row, gj_desired_revision = jr_desired_revision row,
      gj_policy_only = (jr_activation_mode row = ''POLICY_ONLY''),
      gj_attempt_count = gj_attempt_count job, gj_lease_owner = owner,
      gj_lease_until = now + int ttl\<rparr>"
    and "unat (gj_attempt_count job) = unat (jr_attempt_count row) + 1"
proof -
  obtain row rest where rows: "claimable now (jd_jobs d) = row # rest"
    using assms(2) by (cases "claimable now (jd_jobs d)") (auto simp: claim_next_def Let_def)
  with assms(2) obtain attempt policy where
    attempt: "checked_add (jr_attempt_count row) 1 = Some attempt"
    and upd: "update_one CsLeaseLost (\<lambda>j. jr_id j = jr_id row)
      (leased_row attempt owner (now + int ttl)) d = Inr d'"
    and policy: "parse_mode (jr_activation_mode row) = Inr policy"
    and job: "job = \<lparr>gj_id = jr_id row, gj_tenant_id = jr_tenant_id row,
      gj_segment_id = jr_segment_id row, gj_desired_revision = jr_desired_revision row,
      gj_policy_only = policy, gj_attempt_count = attempt, gj_lease_owner = owner,
      gj_lease_until = now + int ttl\<rparr>"
    by (auto simp: claim_next_def Let_def from_std_def split: if_splits)
  have row: "row \<in> set (jd_jobs d)" "due now row" "\<not> blocked (jd_jobs d) row"
    using claimable_set [of now "jd_jobs d"] rows by auto
  obtain j where j: "j \<in> set (jd_jobs d)" "jr_id j = jr_id row"
    "d' = swap_row j (leased_row attempt owner (now + int ttl) j) d"
    by (rule update_one_swap [OF assms(1) upd]) auto
  have "j = row" using assms(1) j(1,2) row(1) by (auto simp: jobs_inv_def distinct_map dest: inj_onD)
  moreover have "policy = (jr_activation_mode row = ''POLICY_ONLY'')"
    using policy by (auto simp: parse_mode_def split: if_splits)
  moreover have "unat attempt = unat (jr_attempt_count row) + 1"
    using checked_add_Some(1) [OF attempt] by simp
  ultimately show thesis using that [OF row] j(3) job by simp
qed

lemma claim_run:
  assumes "jobs_inv d" and "claim_next owner now ttl d = Inr (res, d')"
  shows "queue_run d d'"
proof (cases res)
  case None
  with assms(2) have "d' = d"
    by (cases "claimable now (jd_jobs d)") (auto simp: claim_next_def Let_def)
  with assms(1) show ?thesis by (simp add: queue_run_refl)
next
  case (Some job)
  from claim_next_Some [OF assms(1) assms(2) [unfolded Some]] obtain row where
    row: "row \<in> set (jd_jobs d)" "due now row" "\<not> blocked (jd_jobs d) row"
    and d': "d' = swap_row row (leased_row (gj_attempt_count job) owner (now + int ttl) row) d" .
  let ?k = "leased_row (gj_attempt_count job) owner (now + int ttl) row"
  have "queue_step (abs_queue d) ((abs_queue d)(jr_id row \<mapsto>
      (segment_of row, jr_desired_revision row, Held)))"
  proof (rule queue_step.take)
    show "abs_queue d (jr_id row) =
        Some (segment_of row, jr_desired_revision row, status_of (jr_state row))"
      using abs_queue_row [OF assms(1) row(1)] by (simp add: abs_job_def)
    show "status_of (jr_state row) = Waiting \<or> status_of (jr_state row) = Held"
      using row(2) by (auto simp: due_def)
  qed (rule not_blocked_first [OF row(3)])
  moreover have "same_key row ?k" "abs_job ?k = (segment_of row, jr_desired_revision row, Held)"
    by (simp_all add: same_key_def leased_row_def segment_of_def abs_job_def)
  moreover have "row_ok ?k"
    using jobs_inv_row [OF assms(1) row(1)] row(2) by (auto simp: row_ok_def leased_row_def due_def)
  ultimately show ?thesis unfolding d' using assms(1) row(1) by (intro queue_run_swap) auto
qed

text \<open>Renewing, completing and failing change the row whose lease the job holds.\<close>

lemma holds_lease_update:
  assumes "jobs_inv d" and "update_one e (holds_lease job now) f d = Inr d'"
  obtains j where "j \<in> set (jd_jobs d)" and "holds_lease job now j" and "d' = swap_row j (f j) d"
  using assms by (rule update_one_swap [where i = "gj_id job"]) (auto simp: holds_lease_def)

lemma release_run:
  assumes "jobs_inv d" and "update_one e (holds_lease job now) f d = Inr d'"
    and "\<And>j. same_key j (f j)" and "\<And>j. row_ok j \<Longrightarrow> jr_state j = JobLeased \<Longrightarrow> row_ok (f j)"
  shows "queue_run d d'"
proof -
  from assms(1,2) obtain j where j: "j \<in> set (jd_jobs d)" "holds_lease job now j"
    and d': "d' = swap_row j (f j) d" by (rule holds_lease_update)
  from j(2) have leased: "jr_state j = JobLeased" by (simp add: holds_lease_def)
  have abs: "abs_queue d (jr_id j) = Some (segment_of j, jr_desired_revision j, Held)"
    using abs_queue_row [OF assms(1) j(1)] leased by (simp add: abs_job_def)
  have "queue_step\<^sup>*\<^sup>* (abs_queue d) ((abs_queue d)(jr_id j \<mapsto> abs_job (f j)))"
  proof (cases "jr_state (f j) = JobLeased")
    case True
    then have "abs_job (f j) = (segment_of j, jr_desired_revision j, Held)"
      using assms(3) [of j] by (simp add: abs_job_def same_key_def)
    with abs show ?thesis by (simp add: fun_upd_idem)
  next
    case False
    then have "queue_step (abs_queue d) ((abs_queue d)(jr_id j \<mapsto>
        (segment_of j, jr_desired_revision j, status_of (jr_state (f j)))))"
      by (intro queue_step.release abs) auto
    then show ?thesis using assms(3) [of j] by (auto simp: abs_job_def same_key_def)
  qed
  then show ?thesis
    unfolding d' using assms(1,3) assms(4) [OF jobs_inv_row [OF assms(1) j(1)] leased] j(1)
    by (intro queue_run_swap) auto
qed

lemma renew_run:
  assumes "jobs_inv d" and "renew job now ttl d = Inr (until, d')"
  shows "queue_run d d'"
proof -
  from assms(2) obtain delta where "update_one CsLeaseLost (holds_lease job now)
      (\<lambda>j. j\<lparr>jr_lease_until := Some (now + delta)\<rparr>) d = Inr d'"
    by (auto simp: renew_def)
  from assms(1) this show ?thesis
    by (rule release_run) (auto simp: same_key_def segment_of_def row_ok_def)
qed

lemma job_publish_run:
  assumes "jobs_inv d" and "job_publish job now g h d = Inr d'"
  shows "queue_run d d'"
proof -
  from assms(2) have "update_one CsLeaseLost (holds_lease job now) (published_row g h) d = Inr d'"
    by (simp add: job_publish_def)
  from assms(1) this show ?thesis
    by (rule release_run) (auto simp: same_key_def segment_of_def row_ok_def published_row_def)
qed

lemma job_fail_run:
  assumes "jobs_inv d" and "job_fail job now failure d = Inr d'"
  shows "queue_run d d'"
proof -
  from assms(2) obtain state at code where st: "state = JobRetry \<or> state = JobPermanentFailure"
    and upd: "update_one CsLeaseLost (holds_lease job now) (released_row state at code) d = Inr d'"
    by (cases failure) (auto simp: job_fail_def)
  from assms(1) upd show ?thesis
    by (rule release_run) (use st in \<open>auto simp: same_key_def segment_of_def row_ok_def released_row_def\<close>)
qed

text \<open>
  The renewal scan. The head of a row not yet processed is still where the query found it, or
  the next revision of its segment has been inserted already (then a second insertion fails).
\<close>

definition head_stands :: "job_db \<Rightarrow> (uuid \<times> uuid) \<times> u64 \<Rightarrow> bool" where
  "head_stands d = (\<lambda>(k, r). \<exists>h \<in> set (jd_heads d). head_key h = k \<and> hr_desired_revision h = r)"

definition next_inserted :: "job_db \<Rightarrow> (uuid \<times> uuid) \<times> u64 \<Rightarrow> bool" where
  "next_inserted d = (\<lambda>(k, r). \<exists>j \<in> set (jd_jobs d). segment_of j = k \<and> jr_desired_revision j = r + 1)"

lemma head_stands_at: "head_stands d ((t, s), r) \<longleftrightarrow> (\<exists>h \<in> set (jd_heads d). head_at t s r h)"
  by (auto simp: head_stands_def head_at_iff)

lemma insert_job_jobs:
  assumes "insert_job (new_job_row i t s r hash m clock) d = Inr d'"
  shows "jd_jobs d' = jd_jobs d @ [new_job_row i t s r hash m clock]"
    and "\<forall>j \<in> set (jd_jobs d). \<not> job_conflict (new_job_row i t s r hash m clock) j"
    and "jd_heads d' = jd_heads d"
  using assms by (auto simp: insert_job_def insert_row_ok)

lemma insert_next_stands:
  assumes inv: "jobs_inv d" and "head_stands d ((t, s), r)" and "checked_add r 1 = Some desired"
    and ins: "insert_job (new_job_row i t s desired hash (mode_name m) clock)
      (move_head t s r desired d) = Inr e"
    and k: "head_stands d k \<or> next_inserted d k"
  shows "head_stands e k \<or> next_inserted e k"
proof -
  obtain h where h: "h \<in> set (jd_heads d)" "head_at t s r h"
    using assms(2) by (auto simp: head_stands_at)
  have jobs: "jd_jobs e = jd_jobs d @ [new_job_row i t s desired hash (mode_name m) clock]"
    using insert_job_jobs(1) [OF ins] by (simp add: move_head_def)
  consider "next_inserted d k" | "head_stands d k" "fst k \<noteq> (t, s)" | "head_stands d k" "fst k = (t, s)"
    using k by blast
  then show ?thesis
  proof cases
    case 1
    then show ?thesis by (auto simp: next_inserted_def jobs)
  next
    case 2
    then show ?thesis
      using insert_next_revision(2) [OF inv h assms(3) ins] by (auto simp: head_stands_def)
  next
    case 3
    then obtain g where g: "g \<in> set (jd_heads d)" "head_key g = (t, s)" "hr_desired_revision g = snd k"
      by (auto simp: head_stands_def split_beta)
    moreover have "inj_on head_key (set (jd_heads d))"
      using inv by (simp add: jobs_inv_def distinct_map)
    ultimately have "g = h" using h by (simp add: inj_onD head_at_iff)
    with g h have "snd k = r" by (simp add: head_at_iff)
    with 3 checked_add_Some(2) [OF assms(3)] show ?thesis
      by (auto simp: next_inserted_def jobs split_beta segment_of_def new_job_row_def)
  qed
qed

definition refresh_key :: "refresh_row \<Rightarrow> (uuid \<times> uuid) \<times> u64" where
  "refresh_key row = ((rfr_tenant_id row, rfr_segment_id row), rfr_desired_revision row)"

lemma refresh_one_run:
  assumes inv: "jobs_inv d" and "refresh_one sha clock fresh (n, d) (index, row) = Inr (m, e)"
    and stands: "head_stands d (refresh_key row) \<or> next_inserted d (refresh_key row)"
  shows "queue_run d e"
    and "head_stands d k \<or> next_inserted d k \<Longrightarrow> head_stands e k \<or> next_inserted e k"
proof -
  let ?t = "rfr_tenant_id row" and ?s = "rfr_segment_id row" and ?r = "rfr_desired_revision row"
  from assms(2) obtain desired where
    desired: "checked_add ?r 1 = Some desired"
    and ins: "insert_job (new_job_row (fresh index) ?t ?s desired (refresh_hash sha ?t ?s desired)
       (mode_name (\<not> rfr_transport_change_pending row)) clock) (move_head ?t ?s ?r desired d) = Inr e"
    by (auto simp: refresh_one_def Let_def)
  have "\<not> next_inserted d (refresh_key row)"
    using insert_job_jobs(2) [OF ins] checked_add_Some(2) [OF desired]
    by (auto simp: next_inserted_def refresh_key_def job_conflict_def same_segment_iff
        new_job_row_def move_head_def)
  with stands have st: "head_stands d ((?t, ?s), ?r)" by (simp add: refresh_key_def)
  then obtain h where h: "h \<in> set (jd_heads d)" "head_at ?t ?s ?r h" by (auto simp: head_stands_at)
  show "queue_run d e" by (rule insert_next_revision(1) [OF inv h desired ins])
  show "head_stands e k \<or> next_inserted e k" if "head_stands d k \<or> next_inserted d k"
    by (rule insert_next_stands [OF inv st desired ins that])
qed

lemma expiring_rows_stand:
  "row \<in> set (expiring_rows threshold r d) \<Longrightarrow> head_stands d (refresh_key row)"
  by (auto simp: expiring_rows_def head_stands_def refresh_key_def head_key_def)

lemma refresh_run:
  assumes "jobs_inv d" and "refresh_expiring sha clock fresh now before limit r d = Inr (n, d')"
  shows "queue_run d d'"
proof -
  from assms(2) obtain delta where
    fold: "fold_res (refresh_one sha clock fresh) (0, d) (enumerate 0 (take (unat limit)
      (expiring_order (expiring_rows (unix_seconds (now + delta)) r d)))) = Inr (n, d')"
    by (auto simp: refresh_expiring_def Let_def)
  define rows where "rows = take (unat limit)
    (expiring_order (expiring_rows (unix_seconds (now + delta)) r d))"
  note fold = fold [folded rows_def]
  have rows: "set rows \<subseteq> set (expiring_rows (unix_seconds (now + delta)) r d)"
    by (auto simp: rows_def expiring_order_def dest!: in_set_takeD)
  define I where "I = (\<lambda>(m :: u16, e). queue_run d e \<and>
    (\<forall>row \<in> set rows. head_stands e (refresh_key row) \<or> next_inserted e (refresh_key row)))"
  have "I (n, d')"
  proof (rule fold_res_invariant [OF fold])
    show "I (0, d)"
      using assms(1) rows expiring_rows_stand by (auto simp: I_def queue_run_refl)
    show "I t" if "x \<in> set (enumerate 0 rows)" "I s" "refresh_one sha clock fresh s x = Inr t" for s x t
    proof -
      obtain m e where s: "s = (m, e)" by (cases s)
      obtain index row where x: "x = (index, row)" by (cases x)
      with that(1) have row: "row \<in> set rows" by (auto simp: in_set_enumerate_eq)
      obtain m' e' where t: "t = (m', e')" by (cases t)
      have run: "queue_run d e" and st: "\<forall>row \<in> set rows. head_stands e (refresh_key row) \<or>
          next_inserted e (refresh_key row)"
        using that(2) by (auto simp: I_def s)
      have "jobs_inv e" using run by (simp add: queue_run_def)
      note step = refresh_one_run [OF this that(3) [unfolded s x t] bspec [OF st row]]
      from step(1) step(2) st run show ?thesis by (auto simp: I_def t intro: queue_run_trans)
    qed
  qed
  then show ?thesis by (simp add: I_def)
qed

text \<open>The recovery scan: the jobs of the heads belong to different segments.\<close>

definition job_key :: "job_row \<Rightarrow> (uuid \<times> uuid) \<times> u64" where
  "job_key j = (segment_of j, jr_desired_revision j)"

lemma head_jobs_set:
  "j \<in> set (head_jobs control d) \<Longrightarrow> j \<in> set (jd_jobs d) \<and> head_stands d (job_key j)"
  by (auto simp: head_jobs_def head_stands_def job_key_def same_segment_iff head_key_def)

lemma head_jobs_distinct:
  assumes "jobs_inv d"
  shows "distinct (map segment_of (head_jobs control d))"
proof -
  let ?of = "\<lambda>h. filter (\<lambda>j. same_segment (hr_tenant_id h) (hr_segment_id h) j \<and>
     jr_desired_revision j = hr_desired_revision h \<and>
     (jr_tenant_id j, jr_segment_id j) \<in> set control) (jd_jobs d)"
  have one: "length (?of h) \<le> 1" for h :: head_row
  proof -
    have "distinct (map job_key (jd_jobs d))" using assms by (simp add: jobs_inv_def job_key_def [abs_def])
    then have "distinct (map job_key (?of h))" by (rule distinct_map_filter)
    moreover have "set (map job_key (?of h)) \<subseteq> {(head_key h, hr_desired_revision h)}"
      by (auto simp: job_key_def same_segment_iff head_key_def)
    ultimately have "length (map job_key (?of h)) \<le> card {(head_key h, hr_desired_revision h)}"
      using card_mono [of "{(head_key h, hr_desired_revision h)}" "set (map job_key (?of h))"]
      by (simp only: distinct_card [symmetric] finite.intros)
    then show ?thesis by simp
  qed
  have seg: "segment_of j = head_key h" if "j \<in> set (?of h)" for j and h :: head_row
    using that by (auto simp: same_segment_iff head_key_def)
  have "distinct (map segment_of (concat (map ?of hs)))" if "distinct (map head_key hs)" for hs
    using that
  proof (induction hs)
    case (Cons h hs)
    have "distinct (map segment_of (?of h))"
      using one [of h] by (cases "?of h") (auto simp: Suc_le_eq)
    moreover have "segment_of ` set (?of h) \<inter> segment_of ` set (concat (map ?of hs)) = {}"
    proof -
      have "segment_of j \<noteq> segment_of j'" if "j \<in> set (?of h)" "j' \<in> set (?of h')" "h' \<in> set hs" for j j' h'
        using seg [OF that(1)] seg [OF that(2)] Cons.prems that(3) by (auto simp: image_iff)
      then show ?thesis by (fastforce simp only: set_concat set_map)
    qed
    ultimately show ?case using Cons by simp
  qed simp
  then show ?thesis unfolding head_jobs_def using assms by (simp add: jobs_inv_def)
qed

lemma reopen_run:
  assumes inv: "jobs_inv d" and "head_stands d (job_key row)"
    and upd: "update_where (\<lambda>j. jr_id j = jr_id row \<and> jr_state j = JobPermanentFailure)
      (recovered_row clock) d = (n, e)"
    and row: "row \<in> set (jd_jobs d) \<or> (\<exists>x \<in> set (jd_jobs d). same_key row x)"
  shows "queue_run d e"
proof -
  from update_where_swap [OF inv upd] consider "e = d"
    | j where "j \<in> set (jd_jobs d)" "jr_id j = jr_id row" "jr_state j = JobPermanentFailure"
      "e = swap_row j (recovered_row clock j) d" by blast
  then show ?thesis
  proof cases
    case (2 j)
    obtain x where x: "x \<in> set (jd_jobs d)" "same_key row x"
      using row by (auto simp: same_key_def)
    then have "x = j" using 2(1,2) by (intro job_by_id [OF inv]) (auto simp: same_key_def)
    with x(2) have key: "job_key j = job_key row" by (simp add: same_key_def job_key_def)
    have "newest (abs_queue d) (segment_of j) (jr_desired_revision j)"
      unfolding newest_def
    proof (intro allI impI)
      fix i r s
      assume "abs_queue d i = Some (segment_of j, r, s)"
      then obtain y where "y \<in> set (jd_jobs d)" "segment_of y = segment_of j" "jr_desired_revision y = r"
        by (auto simp: abs_job_def dest!: abs_queue_Some)
      moreover obtain h where "h \<in> set (jd_heads d)" "head_key h = segment_of j"
        "hr_desired_revision h = jr_desired_revision j"
        using assms(2) key by (auto simp: head_stands_def job_key_def)
      ultimately show "r \<le> jr_desired_revision j" using jobs_inv_head [OF inv] by metis
    qed
    then have "queue_step (abs_queue d) ((abs_queue d)(jr_id j \<mapsto>
        (segment_of j, jr_desired_revision j, Waiting)))"
      using abs_queue_row [OF inv 2(1)] 2(3)
      by (intro queue_step.reopen) (simp_all add: abs_job_def)
    moreover have "row_ok (recovered_row clock j)" "same_key j (recovered_row clock j)"
      "abs_job (recovered_row clock j) = (segment_of j, jr_desired_revision j, Waiting)"
      using jobs_inv_row [OF inv 2(1)] 2(3)
      by (auto simp: row_ok_def recovered_row_def released_row_def same_key_def segment_of_def abs_job_def)
    ultimately show ?thesis
      unfolding 2(4) using inv 2(1) by (intro queue_run_swap) auto
  qed (simp add: queue_run_refl inv)
qed

lemma recover_one_run:
  assumes inv: "jobs_inv d" and st: "head_stands d (job_key row)"
    and row: "\<exists>x \<in> set (jd_jobs d). same_key row x"
    and step: "recover_one sha clock fresh r (n, d) (index, row) = Inr (m, e)"
  shows "queue_run d e"
    and "segment_of y \<noteq> segment_of row \<Longrightarrow> head_stands d (job_key y) \<Longrightarrow> head_stands e (job_key y)"
    and "\<exists>x \<in> set (jd_jobs d). same_key y x \<Longrightarrow> \<exists>x \<in> set (jd_jobs e). same_key y x"
proof -
  let ?t = "jr_tenant_id row" and ?s = "jr_segment_id row" and ?r = "jr_desired_revision row"
  have key: "job_key row = ((?t, ?s), ?r)" by (simp add: job_key_def segment_of_def)
  consider (skip) "e = d"
    | (reopen) k where "update_where (\<lambda>j. jr_id j = jr_id row \<and> jr_state j = JobPermanentFailure)
      (recovered_row clock) d = (k, e)"
    | (reconcile) revision hash where "checked_add ?r 1 = Some revision"
      "insert_job (new_job_row (fresh index) ?t ?s revision hash (mode_name False) clock)
        (move_head ?t ?s ?r revision d) = Inr e"
    using step by (auto simp: recover_one_def Let_def mode_name_def split: if_splits prod.splits)
  then have "queue_run d e \<and>
    (segment_of y \<noteq> segment_of row \<longrightarrow> head_stands d (job_key y) \<longrightarrow> head_stands e (job_key y)) \<and>
    ((\<exists>x \<in> set (jd_jobs d). same_key y x) \<longrightarrow> (\<exists>x \<in> set (jd_jobs e). same_key y x))"
  proof cases
    case skip
    then show ?thesis by (simp add: queue_run_refl inv)
  next
    case (reopen k)
    let ?f = "\<lambda>j. if jr_id j = jr_id row \<and> jr_state j = JobPermanentFailure
      then recovered_row clock j else j"
    from reopen have heads: "jd_heads e = jd_heads d" and jobs: "jd_jobs e = map ?f (jd_jobs d)"
      by (auto simp: update_where_def)
    have keep: "\<exists>x \<in> set (jd_jobs e). same_key y x" if "\<exists>x \<in> set (jd_jobs d). same_key y x"
    proof -
      from that obtain x where x: "x \<in> set (jd_jobs d)" "same_key y x" by blast
      have "same_key y (?f x)"
        using x(2) by (simp add: same_key_def recovered_row_def released_row_def segment_of_def)
      moreover have "?f x \<in> set (jd_jobs e)" unfolding jobs set_map using x(1) by (rule imageI)
      ultimately show ?thesis by blast
    qed
    from reopen_run [OF inv st reopen] row heads keep show ?thesis
      by (simp add: head_stands_def)
  next
    case (reconcile revision hash)
    obtain h where h: "h \<in> set (jd_heads d)" "head_at ?t ?s ?r h"
      using st by (auto simp: key head_stands_at)
    note ins = insert_next_revision [OF inv h reconcile]
    have "jd_jobs e = jd_jobs d @ [new_job_row (fresh index) ?t ?s revision hash (mode_name False) clock]"
      using insert_job_jobs(1) [OF reconcile(2)] by (simp add: move_head_def)
    with ins show ?thesis by (auto simp: head_stands_def job_key_def segment_of_def)
  qed
  then show "queue_run d e"
    and "segment_of y \<noteq> segment_of row \<Longrightarrow> head_stands d (job_key y) \<Longrightarrow> head_stands e (job_key y)"
    and "\<exists>x \<in> set (jd_jobs d). same_key y x \<Longrightarrow> \<exists>x \<in> set (jd_jobs e). same_key y x"
    by blast+
qed

lemma recover_loop_run:
  assumes "fold_res (recover_one sha clock fresh r) (n, d) xs = Inr (m, d')" and "jobs_inv d"
    and "distinct (map (\<lambda>x. segment_of (snd x)) xs)"
    and "\<And>x. x \<in> set xs \<Longrightarrow> head_stands d (job_key (snd x)) \<and> (\<exists>y \<in> set (jd_jobs d). same_key (snd x) y)"
  shows "queue_run d d'"
  using assms
proof (induction xs arbitrary: n d)
  case Nil
  then show ?case by (simp add: queue_run_refl)
next
  case (Cons x xs)
  obtain index row where x: "x = (index, row)" by (cases x)
  from Cons.prems(1) obtain k e where step: "recover_one sha clock fresh r (n, d) (index, row) = Inr (k, e)"
    and rest: "fold_res (recover_one sha clock fresh r) (k, e) xs = Inr (m, d')"
    unfolding fold_res_Cons_ok x by auto
  have "head_stands d (job_key row)" "\<exists>y \<in> set (jd_jobs d). same_key row y"
    using Cons.prems(4) [of x] by (simp_all add: x)
  note one = recover_one_run [OF Cons.prems(2) this step]
  have "queue_run e d'"
  proof (rule Cons.IH [OF rest])
    show "jobs_inv e" using one(1) by (simp add: queue_run_def)
    show "distinct (map (\<lambda>x. segment_of (snd x)) xs)" using Cons.prems(3) by simp
    show "head_stands e (job_key (snd z)) \<and> (\<exists>y \<in> set (jd_jobs e). same_key (snd z) y)"
      if z: "z \<in> set xs" for z
    proof -
      have "segment_of (snd z) \<noteq> segment_of row"
        using Cons.prems(3) z by (auto simp: x) (metis image_eqI)
      with one(2,3) Cons.prems(4) [of z] z show ?thesis by auto
    qed
  qed
  with one(1) show ?case by (rule queue_run_trans)
qed

lemma recover_run:
  assumes "jobs_inv d"
    and "recover_route_input_head_failures sha clock fresh control r d = Inr (n, d')"
  shows "queue_run d d'"
proof (rule recover_loop_run)
  show "fold_res (recover_one sha clock fresh r) (0, d) (enumerate 0 (head_jobs control d)) = Inr (n, d')"
    using assms(2) by (simp add: recover_route_input_head_failures_def)
  have "map (\<lambda>x. segment_of (snd x)) (enumerate 0 xs) = map segment_of xs" for xs
    by (rule nth_equalityI) (simp_all add: nth_enumerate_eq)
  then show "distinct (map (\<lambda>x. segment_of (snd x)) (enumerate 0 (head_jobs control d)))"
    using head_jobs_distinct [OF assms(1)] by simp
  show "head_stands d (job_key (snd x)) \<and> (\<exists>y \<in> set (jd_jobs d). same_key (snd x) y)"
    if "x \<in> set (enumerate 0 (head_jobs control d))" for x
  proof -
    from that have "snd x \<in> set (head_jobs control d)"
      by (simp add: in_set_enumerate_eq) (metis nth_mem)
    from head_jobs_set [OF this] show ?thesis by (auto simp: same_key_def)
  qed
qed (rule assms(1))

text \<open>Giving up the open jobs of a deleted segment, one after the other.\<close>

lemma retired_row_run:
  assumes "jobs_inv d" and "j \<in> set (jd_jobs d)" and "open_job j"
  shows "queue_run d (swap_row j (retired_row j) d)"
proof (rule queue_run_swap [OF assms(1,2)])
  show "same_key j (retired_row j)" by (simp add: same_key_def retired_row_def segment_of_def)
  show "row_ok (retired_row j)"
    using jobs_inv_row [OF assms(1,2)] by (simp add: row_ok_def retired_row_def)
  have a: "abs_job (retired_row j) = (segment_of j, jr_desired_revision j, Failed)"
    by (simp add: abs_job_def retired_row_def segment_of_def)
  have "abs_queue d (jr_id j) = Some (segment_of j, jr_desired_revision j, Waiting) \<or>
      abs_queue d (jr_id j) = Some (segment_of j, jr_desired_revision j, Held)"
    using abs_queue_row [OF assms(1,2)] assms(3) by (auto simp: abs_job_def open_job_def)
  then show "queue_step\<^sup>*\<^sup>* (abs_queue d) ((abs_queue d)(jr_id j \<mapsto> abs_job (retired_row j)))"
    unfolding a by (auto intro: cancel release)
qed

lemma retire_rows_run:
  assumes "jobs_inv d" and "set xs \<subseteq> {j \<in> set (jd_jobs d). open_job j}" and "distinct xs"
  shows "queue_run d (d\<lparr>jd_jobs := map (\<lambda>j. if j \<in> set xs then retired_row j else j) (jd_jobs d)\<rparr>)"
  using assms(2,3)
proof (induction xs)
  case Nil
  then show ?case using queue_run_refl [OF assms(1)] by simp
next
  case (Cons x xs)
  let ?e = "d\<lparr>jd_jobs := map (\<lambda>j. if j \<in> set xs then retired_row j else j) (jd_jobs d)\<rparr>"
  have run: "queue_run d ?e" using Cons by simp
  have "x \<in> (\<lambda>j. if j \<in> set xs then retired_row j else j) ` set (jd_jobs d)"
    using Cons.prems by (intro image_eqI [of _ _ x]) auto
  then have x: "x \<in> set (jd_jobs ?e)" by simp
  have "retired_row j \<noteq> x" if "j \<in> set (jd_jobs d)" for j
    using Cons.prems by (auto simp: retired_row_def open_job_def)
  then have "swap_row x (retired_row x) ?e =
      d\<lparr>jd_jobs := map (\<lambda>j. if j \<in> set (x # xs) then retired_row j else j) (jd_jobs d)\<rparr>"
    using Cons.prems by (auto simp: swap_row_def)
  with retired_row_run [OF _ x] run Cons.prems show ?case
    using queue_run_trans [OF run] by (auto simp: queue_run_def)
qed

lemma retire_run:
  assumes "jobs_inv d"
  shows "queue_run d (retire_jobs t s d)"
proof -
  let ?p = "\<lambda>j. same_segment t s j \<and> open_job j"
  have "distinct (filter ?p (jd_jobs d))" using assms by (auto simp: jobs_inv_def distinct_map)
  then have "queue_run d (d\<lparr>jd_jobs := map (\<lambda>j. if j \<in> set (filter ?p (jd_jobs d))
      then retired_row j else j) (jd_jobs d)\<rparr>)"
    by (intro retire_rows_run [OF assms]) auto
  also have "d\<lparr>jd_jobs := map (\<lambda>j. if j \<in> set (filter ?p (jd_jobs d))
      then retired_row j else j) (jd_jobs d)\<rparr> = retire_jobs t s d"
    by (simp add: retire_jobs_def)
  finally show ?thesis .
qed

subsection \<open>Reachable queues\<close>

inductive job_step :: "job_db \<Rightarrow> job_db \<Rightarrow> bool" where
  enqueue: "enqueue_generation clock fresh t s hash policy_only d = Inr d' \<Longrightarrow> job_step d d'"
| refresh: "refresh_expiring sha clock ids now before limit r d = Inr (n, d') \<Longrightarrow> job_step d d'"
| recover: "recover_route_input_head_failures sha clock ids control r d = Inr (m, d') \<Longrightarrow>
    job_step d d'"
| claim: "claim_next owner now ttl d = Inr (res, d') \<Longrightarrow> job_step d d'"
| renewal: "renew job now ttl d = Inr (until, d') \<Longrightarrow> job_step d d'"
| completion: "job_publish job now g h d = Inr d' \<Longrightarrow> job_step d d'"
| failure: "job_fail job now f d = Inr d' \<Longrightarrow> job_step d d'"
| retirement: "job_step d (retire_jobs t s d)"

lemma job_step_run: "job_step d d' \<Longrightarrow> jobs_inv d \<Longrightarrow> queue_run d d'"
  by (induction rule: job_step.induct)
    (auto intro: enqueue_run refresh_run recover_run claim_run renew_run job_publish_run job_fail_run
      retire_run)

lemma job_steps_run: "job_step\<^sup>*\<^sup>* d d' \<Longrightarrow> jobs_inv d \<Longrightarrow> queue_run d d'"
proof (induction rule: rtranclp_induct)
  case (step e f)
  then have "queue_run d e" by blast
  moreover from this have "queue_run e f"
    using job_step_run [OF step.hyps(2)] by (simp add: queue_run_def)
  ultimately show ?case by (rule queue_run_trans)
qed (simp add: queue_run_refl)

lemma abs_queue_empty: "abs_queue empty_jobs = Map.empty"
  by (simp add: abs_queue_def empty_jobs_def)

lemma reachable_jobs:
  assumes "job_step\<^sup>*\<^sup>* empty_jobs d"
  shows "jobs_inv d" and "queue_inv (abs_queue d)"
  using job_steps_run [OF assms jobs_inv_empty] queue_inv_steps [OF _ queue_inv_empty]
  by (auto simp: queue_run_def abs_queue_empty)

text \<open>
  C4: every sequence of operations on a reachable queue is a sequence of steps of the lease
  queue: jobs are added with growing revisions, taken in the order of the revisions, released
  by whoever holds them, given up when their segment is deleted, and only the newest failed
  job is ever reopened.
\<close>

theorem operations_refine_lease_queue:
  assumes "job_step\<^sup>*\<^sup>* empty_jobs d" and "job_step\<^sup>*\<^sup>* d d'"
  shows "queue_step\<^sup>*\<^sup>* (abs_queue d) (abs_queue d')"
  using job_steps_run [OF assms(2) reachable_jobs(1) [OF assms(1)]] by (simp add: queue_run_def)

text \<open>
  C6: publications of a segment are serialised: in every reachable queue at most one job of a
  segment is leased, and every job of the segment with a smaller revision has been published
  or has failed for good.
\<close>

theorem one_leased_job_per_segment:
  assumes "job_step\<^sup>*\<^sup>* empty_jobs d" and "j \<in> set (jd_jobs d)" and "jr_state j = JobLeased"
    and "k \<in> set (jd_jobs d)" and "same_segment (jr_tenant_id j) (jr_segment_id j) k"
  shows "(jr_state k = JobLeased \<longrightarrow> k = j) \<and>
    (jr_desired_revision k < jr_desired_revision j \<longrightarrow> terminal k)"
proof -
  note inv = reachable_jobs [OF assms(1)]
  have seg: "segment_of k = segment_of j" using assms(5) by (simp add: same_segment_iff segment_of_def)
  have j: "abs_queue d (jr_id j) = Some (segment_of j, jr_desired_revision j, Held)"
    using abs_queue_row [OF inv(1) assms(2)] assms(3) by (simp add: abs_job_def)
  have k: "abs_queue d (jr_id k) = Some (segment_of j, jr_desired_revision k, status_of (jr_state k))"
    using abs_queue_row [OF inv(1) assms(4)] seg by (simp add: abs_job_def)
  have "k = j" if "jr_state k = JobLeased"
  proof (rule job_by_id [OF inv(1) assms(4,2)])
    show "jr_id k = jr_id j" by (rule one_holder [OF inv(2) _ j]) (simp add: k that)
  qed
  moreover have "terminal k" if "jr_desired_revision k < jr_desired_revision j"
  proof -
    have "held_first (abs_queue d)" using inv(2) by (simp add: queue_inv_def)
    then have "first_in_line (abs_queue d) (segment_of j) (jr_desired_revision j)"
      using j by (rule held_firstD)
    from first_in_lineD [OF this, OF k that] show ?thesis by (simp add: terminal_def)
  qed
  ultimately show ?thesis by blast
qed

text \<open>
  No operation can be refused by a \<open>CHECK\<close> constraint or leave a row the worker cannot
  read: in every reachable queue the rows satisfy all constraints of the table, the ids and
  the revisions of a segment are pairwise different, and no revision is beyond its head.
\<close>

theorem reachable_rows_satisfy_checks:
  assumes "job_step\<^sup>*\<^sup>* empty_jobs d"
  shows "list_all row_ok (jd_jobs d) \<and> distinct (map jr_id (jd_jobs d)) \<and>
    distinct (map (\<lambda>j. (jr_tenant_id j, jr_segment_id j, jr_desired_revision j)) (jd_jobs d)) \<and>
    list_all (\<lambda>j. case find_head (jr_tenant_id j) (jr_segment_id j) d of
        None \<Rightarrow> False | Some h \<Rightarrow> jr_desired_revision j \<le> hr_desired_revision h) (jd_jobs d)"
proof -
  note inv = reachable_jobs(1) [OF assms]
  have "distinct (map (\<lambda>j. (jr_tenant_id j, jr_segment_id j, jr_desired_revision j)) (jd_jobs d))"
    using inv unfolding jobs_inv_def segment_of_def distinct_map inj_on_def by blast
  moreover have "case find_head (jr_tenant_id j) (jr_segment_id j) d of
      None \<Rightarrow> False | Some h \<Rightarrow> jr_desired_revision j \<le> hr_desired_revision h"
    if j: "j \<in> set (jd_jobs d)" for j
  proof (cases "find_head (jr_tenant_id j) (jr_segment_id j) d")
    case None
    moreover obtain h where "h \<in> set (jd_heads d)" "head_key h = segment_of j"
      using inv j unfolding jobs_inv_def by blast
    ultimately show ?thesis by (simp add: find_head_None segment_of_def)
  next
    case (Some h)
    with jobs_inv_head [OF inv j] find_head_Some [OF Some] show ?thesis by (simp add: segment_of_def)
  qed
  ultimately show ?thesis using inv by (simp add: jobs_inv_def list_all_iff)
qed

subsection \<open>Progress\<close>

lemma update_one_ok:
  assumes "jobs_inv d" and "j \<in> set (jd_jobs d)" and "p j" and "\<And>x. p x \<Longrightarrow> jr_id x = jr_id j"
  shows "update_one e p f d = Inr (swap_row j (f j) d)"
proof -
  obtain n d' where upd: "update_where p f d = (n, d')" by (cases "update_where p f d")
  have "n \<noteq> 0" using upd assms(2,3) by (auto simp: update_where_def filter_empty_conv)
  with update_where_swap [OF assms(1) upd assms(4)] obtain k where
    k: "k \<in> set (jd_jobs d)" "p k" "n = 1" "d' = swap_row k (f k) d" by auto
  have "k = j" using job_by_id [OF assms(1) k(1) assms(2)] assms(4) [OF k(2)] by simp
  with upd k(3,4) show ?thesis by (simp add: update_one_def)
qed

lemma update_one_none:
  assumes "\<And>x. x \<in> set (jd_jobs d) \<Longrightarrow> \<not> p x"
  shows "update_one e p f d = Inl e"
proof -
  have "filter p (jd_jobs d) = []" using assms by (simp add: filter_empty_conv)
  then show ?thesis by (simp add: update_one_def update_where_def)
qed

lemma validate_lease_std:
  assumes "validate_lease owner ttl = Inr ()"
  shows "from_std ttl = Some (int ttl)"
  using assms by (auto simp: validate_lease_def from_std_def MAX_LEASE_TTL_def nanos_per_sec_def)

lemma claim_next_progress:
  assumes "jobs_inv d" and "validate_lease owner ttl = Inr ()" and "claimable now (jd_jobs d) \<noteq> []"
    and "\<And>j. j \<in> set (jd_jobs d) \<Longrightarrow> unat (jr_attempt_count j) < 2 ^ 32 - 1"
  shows "\<exists>job d'. claim_next owner now ttl d = Inr (Some job, d')"
proof -
  obtain row rest where rows: "claimable now (jd_jobs d) = row # rest"
    using assms(3) by (cases "claimable now (jd_jobs d)") auto
  then have row: "row \<in> set (jd_jobs d)" using claimable_set [of now "jd_jobs d"] by auto
  have "checked_add (jr_attempt_count row) 1 = Some (jr_attempt_count row + 1)"
    using assms(4) [OF row] by (simp add: checked_add_def)
  moreover have "update_one CsLeaseLost (\<lambda>j. jr_id j = jr_id row)
      (leased_row (jr_attempt_count row + 1) owner (now + int ttl)) d =
      Inr (swap_row row (leased_row (jr_attempt_count row + 1) owner (now + int ttl) row) d)"
    by (rule update_one_ok [OF assms(1) row]) auto
  moreover have "\<exists>m. parse_mode (jr_activation_mode row) = Inr m"
    using jobs_inv_row [OF assms(1) row] by (auto simp: row_ok_def parse_mode_def)
  ultimately show ?thesis
    using assms(2) rows validate_lease_std [OF assms(2)] by (auto simp: claim_next_def Let_def)
qed

text \<open>Among the open jobs of a segment, the one with the smallest revision is not blocked.\<close>

lemma open_job_unblocked:
  assumes "j \<in> set jobs" and "\<not> terminal j"
  shows "\<exists>k \<in> set jobs. \<not> terminal k \<and> \<not> blocked jobs k"
  using assms
proof (induction "unat (jr_desired_revision j)" arbitrary: j rule: less_induct)
  case less
  show ?case
  proof (cases "blocked jobs j")
    case True
    then obtain e where "e \<in> set jobs" "\<not> terminal e" "jr_desired_revision e < jr_desired_revision j"
      by (auto simp: blocked_def list_ex_iff)
    then show ?thesis using less.hyps by (auto simp: word_less_nat_alt)
  qed (use less.prems in blast)
qed

lemma open_job_due:
  assumes "row_ok j" and "\<not> terminal j"
  shows "\<exists>T. \<forall>now \<ge> T. due now j"
proof (cases "jr_state j = JobLeased")
  case True
  then obtain u where "jr_lease_until j = Some u" using assms(1) by (auto simp: row_ok_def)
  with True show ?thesis by (auto simp: due_def)
next
  case False
  with assms(2) have "jr_state j = JobPending \<or> jr_state j = JobRetry"
    by (cases "jr_state j") (auto simp: terminal_def)
  then show ?thesis by (auto simp: due_def)
qed

text \<open>
  C23: no job is stuck: as long as a reachable queue has a job that is neither published nor
  failed for good, there is a time from which on every claim with a valid lease gets a job,
  whatever crashed workers have left leased (attempt counters permitting).
\<close>

theorem open_jobs_are_claimed:
  assumes "job_step\<^sup>*\<^sup>* empty_jobs d" and "j \<in> set (jd_jobs d)" and "\<not> terminal j"
    and "validate_lease owner ttl = Inr ()"
    and "\<forall>k \<in> set (jd_jobs d). unat (jr_attempt_count k) < 2 ^ 32 - 1"
  shows "\<exists>T. \<forall>now \<ge> T. \<exists>job d'. claim_next owner now ttl d = Inr (Some job, d')"
proof -
  note inv = reachable_jobs(1) [OF assms(1)]
  obtain k where k: "k \<in> set (jd_jobs d)" "\<not> terminal k" "\<not> blocked (jd_jobs d) k"
    using open_job_unblocked [OF assms(2,3)] by blast
  obtain T where T: "\<And>now. now \<ge> T \<Longrightarrow> due now k"
    using open_job_due [OF jobs_inv_row [OF inv k(1)] k(2)] by blast
  have "claimable now (jd_jobs d) \<noteq> []" if "now \<ge> T" for now
    using claimable_set [of now "jd_jobs d"] k T [OF that] by force
  then show ?thesis using claim_next_progress [OF inv assms(4)] assms(5) by blast
qed

subsection \<open>Fencing\<close>

lemma leased_rows:
  assumes "jobs_inv d" and "claim_next owner now ttl d = Inr (Some job, d')"
    and "x \<in> set (jd_jobs d')" and "jr_id x = gj_id job"
  shows "jr_lease_owner x = Some owner \<and> jr_lease_until x = Some (gj_lease_until job) \<and>
    jr_state x = JobLeased"
proof -
  from claim_next_Some [OF assms(1,2)] obtain row where row: "row \<in> set (jd_jobs d)"
    and d': "d' = swap_row row (leased_row (gj_attempt_count job) owner (now + int ttl) row) d"
    and job: "job = \<lparr>gj_id = jr_id row, gj_tenant_id = jr_tenant_id row,
      gj_segment_id = jr_segment_id row, gj_desired_revision = jr_desired_revision row,
      gj_policy_only = (jr_activation_mode row = ''POLICY_ONLY''),
      gj_attempt_count = gj_attempt_count job, gj_lease_owner = owner,
      gj_lease_until = now + int ttl\<rparr>" by metis
  have ids: "gj_id job = jr_id row" "gj_lease_until job = now + int ttl"
    by (subst job, simp)+
  have "y = row" if "y \<in> set (jd_jobs d)" "jr_id y = jr_id row" for y
    using job_by_id [OF assms(1) that(1) row that(2)] .
  with assms(3,4) show ?thesis
    by (auto simp: d' swap_row_def ids leased_row_def split: if_splits)
qed


text \<open>
  A lease is enough to finish: before it runs out the holder's completion is accepted, the
  job becomes published with the reported generation and hash, and no other job changes.
\<close>

theorem claimed_job_completes:
  assumes "job_step\<^sup>*\<^sup>* empty_jobs d" and "claim_next owner now ttl d = Inr (Some job, d')"
    and "t < gj_lease_until job" and "g \<noteq> 0" and "h \<noteq> zero_hash"
  shows "\<exists>d'' j. job_publish job t g h d' = Inr d'' \<and> j \<in> set (jd_jobs d'') \<and>
    jr_id j = gj_id job \<and> jr_state j = JobPublished \<and> jr_published_generation j = Some g \<and>
    jr_published_content_hash j = Some h \<and>
    filter (\<lambda>k. jr_id k \<noteq> gj_id job) (jd_jobs d'') = filter (\<lambda>k. jr_id k \<noteq> gj_id job) (jd_jobs d)"
proof -
  note inv = reachable_jobs(1) [OF assms(1)]
  have inv': "jobs_inv d'" using claim_run [OF inv assms(2)] by (simp add: queue_run_def)
  from claim_next_Some [OF inv assms(2)] obtain row where row: "row \<in> set (jd_jobs d)"
    and d': "d' = swap_row row (leased_row (gj_attempt_count job) owner (now + int ttl) row) d"
    and job: "gj_id job = jr_id row" "gj_lease_owner job = owner" "gj_lease_until job = now + int ttl"
    by (metis GenerationJob.select_convs(1,7,8))
  let ?k = "leased_row (gj_attempt_count job) owner (now + int ttl) row"
  have k: "?k \<in> set (jd_jobs d')" "jr_id ?k = jr_id row" "holds_lease job t ?k"
    using row assms(3) by (auto simp: d' swap_row_def holds_lease_def leased_row_def job)
  have "job_publish job t g h d' = Inr (swap_row ?k (published_row g h ?k) d')"
    using assms(4,5) update_one_ok [where p = "holds_lease job t", OF inv' k(1,3)] k(2)
    by (auto simp: job_publish_def holds_lease_def job)
  moreover have "published_row g h ?k \<in> set (jd_jobs (swap_row ?k (published_row g h ?k) d'))"
    using k(1) by (force simp: swap_row_def)
  moreover have "filter (\<lambda>k. jr_id k \<noteq> jr_id row) (jd_jobs (swap_row a b e)) =
      filter (\<lambda>k. jr_id k \<noteq> jr_id row) (jd_jobs e)" if "jr_id a = jr_id row" "jr_id b = jr_id row" for a b e
  proof -
    have "filter (\<lambda>k. jr_id k \<noteq> jr_id row) (map (\<lambda>x. if x = a then b else x) xs) =
        filter (\<lambda>k. jr_id k \<noteq> jr_id row) xs" for xs
      using that by (induction xs) auto
    then show ?thesis by (simp add: swap_row_def)
  qed
  ultimately show ?thesis
    using k(2) by (auto simp: job d' published_row_def leased_row_def)
qed

subsection \<open>Witnesses\<close>

definition wit_queue :: job_db where
  "wit_queue = \<lparr>jd_heads = [\<lparr>hr_tenant_id = 1, hr_segment_id = 2, hr_desired_revision = 1\<rparr>],
     jd_jobs = [new_job_row 7 1 2 1 (replicate 32 5) ''TUNNEL'' 100]\<rparr>"

definition wit_job :: GenerationJob where
  "wit_job = \<lparr>gj_id = 7, gj_tenant_id = 1, gj_segment_id = 2, gj_desired_revision = 1,
     gj_policy_only = False, gj_attempt_count = 1, gj_lease_owner = ''w'', gj_lease_until = 220\<rparr>"

definition wit_leased :: job_db where
  "wit_leased = wit_queue\<lparr>jd_jobs := map (leased_row 1 ''w'' 220) (jd_jobs wit_queue)\<rparr>"

lemma wit_enqueue: "enqueue_generation 100 7 1 2 (replicate 32 5) False empty_jobs = Inr wit_queue"
  by (simp add: enqueue_generation_def ensure_head_def find_head_def empty_jobs_def checked_add_def
      insert_job_def insert_row_def move_head_def head_at_def wit_queue_def mode_name_def)

lemma wit_claim: "claim_next ''w'' 200 20 wit_queue = Inr (Some wit_job, wit_leased)"
  by (simp add: claim_next_def wit_queue_def wit_job_def wit_leased_def validate_lease_def
      MAX_ACTOR_LEN_def MAX_LEASE_TTL_def nanos_per_sec_def from_std_def claimable_def
      claim_order_def due_def blocked_def new_job_row_def same_segment_def checked_add_def
      update_one_def update_where_def parse_mode_def)

lemma wit_reached: "job_step\<^sup>*\<^sup>* empty_jobs wit_queue" "job_step\<^sup>*\<^sup>* empty_jobs wit_leased"
    "job_step\<^sup>*\<^sup>* wit_queue wit_leased"
  using job_step.enqueue [OF wit_enqueue] job_step.claim [OF wit_claim] by auto

theorem operations_refine_lease_queue_witness:
  "queue_step\<^sup>*\<^sup>* (abs_queue wit_queue) (abs_queue wit_leased) \<and>
   abs_queue wit_queue 7 = Some ((1, 2), 1, Waiting) \<and> abs_queue wit_leased 7 = Some ((1, 2), 1, Held)"
  using operations_refine_lease_queue [OF wit_reached(1,3)]
  by (simp add: abs_queue_def wit_queue_def wit_leased_def abs_job_def segment_of_def
      new_job_row_def leased_row_def)

theorem one_leased_job_per_segment_witness:
  "terminal (hd (jd_jobs wit_leased)) \<or> jr_state (hd (jd_jobs wit_leased)) = JobLeased"
proof -
  let ?j = "hd (jd_jobs wit_leased)"
  have j: "?j \<in> set (jd_jobs wit_leased)" "jr_state ?j = JobLeased"
    by (simp_all add: wit_leased_def wit_queue_def leased_row_def)
  have "same_segment (jr_tenant_id ?j) (jr_segment_id ?j) ?j" by (simp add: same_segment_def)
  from one_leased_job_per_segment [OF wit_reached(2) j j(1) this] j(2) show ?thesis by simp
qed

theorem reachable_rows_satisfy_checks_witness: "list_all row_ok (jd_jobs wit_leased)"
  using reachable_rows_satisfy_checks [OF wit_reached(2)] by blast

theorem open_jobs_are_claimed_witness:
  "\<exists>T. \<forall>now \<ge> T. \<exists>job d'. claim_next ''v'' now 20 wit_leased = Inr (Some job, d')"
proof (rule open_jobs_are_claimed [OF wit_reached(2)])
  show "hd (jd_jobs wit_leased) \<in> set (jd_jobs wit_leased)" "\<not> terminal (hd (jd_jobs wit_leased))"
    "\<forall>k \<in> set (jd_jobs wit_leased). unat (jr_attempt_count k) < 2 ^ 32 - 1"
    by (simp_all add: wit_leased_def wit_queue_def leased_row_def terminal_def)
  show "validate_lease ''v'' 20 = Inr ()"
    by (simp add: validate_lease_def MAX_ACTOR_LEN_def MAX_LEASE_TTL_def nanos_per_sec_def)
qed


theorem claimed_job_completes_witness:
  "\<exists>d'' j. job_publish wit_job 210 3 (replicate 32 1) wit_leased = Inr d'' \<and> j \<in> set (jd_jobs d'') \<and>
     jr_published_generation j = Some 3"
proof -
  have "replicate 32 (1 :: u8) \<noteq> zero_hash" by (simp add: zero_hash_def replicate_eq_replicate)
  moreover have "210 < gj_lease_until wit_job" by (simp add: wit_job_def)
  ultimately show ?thesis
    using claimed_job_completes [OF wit_reached(1) wit_claim, of 210 3 "replicate 32 1"] by auto
qed

end
