(* ===== verification/Generation_Loop.thy ===== *)
theory Generation_Loop
  imports Generation_Queue Route_Types
begin

section \<open>The publication worker (\<open>crates/cloud-worker/src/generation_loop.rs\<close>)\<close>

text \<open>
  The traits \<open>GenerationJobQueue\<close> and \<open>GenerationPublisher\<close>, one iteration of the worker, the
  lanes and the two scanners with their back-off, and the names under which the lanes hold
  leases. A clock reading (\<open>Utc::now()\<close>) is an argument. While a publisher works other
  workers use the queue, so a publisher is a function from the job and the queue it leaves
  behind to its answer and the queue it finds when it is done. Logging is left out, and the
  lanes are sequences of iteration results: \<open>tokio\<close>'s scheduling and the shutdown channel
  are not modelled.
\<close>

subsection \<open>Traits and results\<close>

record PublishedGeneration =
  pgn_generation :: u64
  pgn_content_hash :: hash32

datatype PublicationFailure = PfRetryable string nat | PfPermanent string

record 'q GenerationJobQueue =
  q_recover_failed_heads :: "'q \<Rightarrow> ControlStoreError + (nat \<times> 'q)"
  q_refresh_expiring :: "instant \<Rightarrow> nat \<Rightarrow> u16 \<Rightarrow> 'q \<Rightarrow> ControlStoreError + (u16 \<times> 'q)"
  q_claim_next :: "string \<Rightarrow> instant \<Rightarrow> nat \<Rightarrow> 'q \<Rightarrow> ControlStoreError + (GenerationJob option \<times> 'q)"
  q_publish :: "GenerationJob \<Rightarrow> instant \<Rightarrow> PublishedGeneration \<Rightarrow> 'q \<Rightarrow> ControlStoreError + 'q"
  q_fail :: "GenerationJob \<Rightarrow> instant \<Rightarrow> JobFailure \<Rightarrow> 'q \<Rightarrow> ControlStoreError + 'q"

definition repository_queue ::
  "(u8 list \<Rightarrow> u8 list) \<Rightarrow> instant \<Rightarrow> (nat \<Rightarrow> uuid) \<Rightarrow> (uuid \<times> uuid) list \<Rightarrow> route_db \<Rightarrow>
     job_db GenerationJobQueue" where
  "repository_queue sha clock fresh control r =
     \<lparr>q_recover_failed_heads = recover_route_input_head_failures sha clock fresh control r,
      q_refresh_expiring = (\<lambda>now before limit. refresh_expiring sha clock fresh now before limit r),
      q_claim_next = claim_next,
      q_publish = (\<lambda>job now result.
        job_publish job now (pgn_generation result) (pgn_content_hash result)),
      q_fail = job_fail\<rparr>"

datatype RunOutcome =
  PublisherUnavailable | Idle | OutcomePublished | RetryScheduled | OutcomePermanentFailure

datatype WorkerLoopError =
  WStorage ControlStoreError | WInvalidRetryDelay | WInvalidPollInterval | WInvalidConcurrency | WTask

subsection \<open>The adapter\<close>

fun control_error_code :: "ControlStoreError \<Rightarrow> string" where
  "control_error_code (CsInvalidResource _) = ''INVALID_RESOURCE''"
| "control_error_code CsInvalidRequest = ''INVALID_REQUEST''"
| "control_error_code CsNotFound = ''NOT_FOUND''"
| "control_error_code CsRevisionConflict = ''REVISION_CONFLICT''"
| "control_error_code CsReferenceConflict = ''REFERENCE_CONFLICT''"
| "control_error_code CsIdempotencyConflict = ''IDEMPOTENCY_CONFLICT''"
| "control_error_code CsIdempotencyReplayExpired = ''IDEMPOTENCY_REPLAY_EXPIRED''"
| "control_error_code CsLeaseLost = ''LEASE_LOST''"
| "control_error_code CsInvalidTransition = ''INVALID_TRANSITION''"
| "control_error_code CsDatabase = ''DATABASE''"

definition snapshot_failure :: "ControlStoreError \<Rightarrow> PublicationFailure" where
  "snapshot_failure error =
     (let code = ''CONTROL_SNAPSHOT_'' @ control_error_code error in
      case error of
        CsInvalidResource _ \<Rightarrow> PfPermanent code
      | CsInvalidRequest \<Rightarrow> PfPermanent code
      | CsNotFound \<Rightarrow> PfPermanent code
      | CsReferenceConflict \<Rightarrow> PfPermanent code
      | CsInvalidTransition \<Rightarrow> PfPermanent code
      | _ \<Rightarrow> PfRetryable code (5 * nanos_per_sec))"

definition adapter_publish ::
  "(uuid \<Rightarrow> uuid \<Rightarrow> u64 \<Rightarrow> ControlStoreError + 's) \<Rightarrow>
     ('s \<Rightarrow> PublicationFailure + PublishedGeneration) \<Rightarrow> GenerationJob \<Rightarrow>
     PublicationFailure + PublishedGeneration" where
  "adapter_publish segment_snapshot publish_snapshot job =
     bind_res (map_err snapshot_failure (segment_snapshot (gj_tenant_id job) (gj_segment_id job)
       (gj_desired_revision job))) publish_snapshot"

subsection \<open>Failure codes\<close>

definition MAX_CODE_LEN :: nat where "MAX_CODE_LEN = 80"

text \<open>The loop over the bytes, with the text so far and \<open>previous_separator\<close>.\<close>

fun normalize_loop :: "string \<Rightarrow> bool \<Rightarrow> string \<Rightarrow> string" where
  "normalize_loop normalized previous_separator [] = normalized"
| "normalize_loop normalized previous_separator (byte # bytes) =
     (if is_ascii_alphanumeric byte
      then if length normalized = MAX_CODE_LEN then normalized
           else normalize_loop (normalized @ [to_ascii_uppercase byte]) False bytes
      else if previous_separator then normalize_loop normalized previous_separator bytes
      else if length normalized = MAX_CODE_LEN then normalized
      else normalize_loop (normalized @ [CHR ''_'']) True bytes)"

function pop_separators :: "string \<Rightarrow> string" where
  "pop_separators s =
     (if s \<noteq> [] \<and> last s = CHR ''_'' then pop_separators (butlast s) else s)"
  by auto
termination by (relation "measure length") auto

declare pop_separators.simps [simp del]

definition normalize_failure_code :: "string \<Rightarrow> string" where
  "normalize_failure_code code =
     (let normalized = pop_separators (normalize_loop [] False code) in
      if normalized = [] then ''PUBLICATION_FAILURE'' else normalized)"

subsection \<open>One iteration\<close>

record GenerationWorker =
  gw_owner_id :: string
  gw_lease_ttl :: nat

definition worker_new :: "string \<Rightarrow> nat \<Rightarrow> WorkerLoopError + GenerationWorker" where
  "worker_new owner_id lease_ttl =
     (if owner_id = [] \<or> lease_ttl = 0 \<or> lease_ttl > 300 * nanos_per_sec
      then Inl (WStorage CsInvalidRequest)
      else Inr \<lparr>gw_owner_id = owner_id, gw_lease_ttl = lease_ttl\<rparr>)"

text \<open>
  What is written to the queue for the answer of the publisher; \<open>t1\<close> and \<open>t2\<close> are the
  successive clock readings. An error leaves the queue as it is.
\<close>

definition receipt ::
  "'q GenerationJobQueue \<Rightarrow> instant \<Rightarrow> instant \<Rightarrow> GenerationJob \<Rightarrow>
     PublicationFailure + PublishedGeneration \<Rightarrow> 'q \<Rightarrow> WorkerLoopError + (RunOutcome \<times> 'q)" where
  "receipt q t1 t2 job answer d =
     (case answer of
        Inr result \<Rightarrow>
          bind_res (map_err WStorage (q_publish q job t1 result d)) (\<lambda>d'. Inr (OutcomePublished, d'))
      | Inl (PfRetryable code retry_after) \<Rightarrow>
          if retry_after = 0 \<or> retry_after > 3600 * nanos_per_sec
          then bind_res (map_err WStorage
                 (q_fail q job t1 (FailPermanent ''PUBLICATION_RETRY_DELAY_INVALID'') d))
                 (\<lambda>d'. Inr (OutcomePermanentFailure, d'))
          else bind_res (ok_or (from_std retry_after) WInvalidRetryDelay) (\<lambda>delta.
               bind_res (map_err WStorage
                 (q_fail q job t2 (FailRetry (normalize_failure_code code) (t1 + delta)) d))
                 (\<lambda>d'. Inr (RetryScheduled, d')))
      | Inl (PfPermanent code) \<Rightarrow>
          bind_res (map_err WStorage
            (q_fail q job t1 (FailPermanent (normalize_failure_code code)) d))
            (\<lambda>d'. Inr (OutcomePermanentFailure, d')))"

definition run_claimed_once ::
  "'q GenerationJobQueue \<Rightarrow> bool \<Rightarrow> GenerationWorker \<Rightarrow>
     (GenerationJob \<Rightarrow> 'q \<Rightarrow> (PublicationFailure + PublishedGeneration) \<times> 'q) \<Rightarrow>
     instant \<Rightarrow> instant \<Rightarrow> instant \<Rightarrow> 'q \<Rightarrow> (WorkerLoopError + RunOutcome) \<times> 'q" where
  "run_claimed_once q ready w publisher now t1 t2 d =
     (if \<not> ready then (Inr PublisherUnavailable, d)
      else case q_claim_next q (gw_owner_id w) now (gw_lease_ttl w) d of
        Inl e \<Rightarrow> (Inl (WStorage e), d)
      | Inr (None, d1) \<Rightarrow> (Inr Idle, d1)
      | Inr (Some job, d1) \<Rightarrow>
          (case publisher job d1 of (answer, d2) \<Rightarrow>
             (case receipt q t1 t2 job answer d2 of
                Inl e \<Rightarrow> (Inl e, d2)
              | Inr (outcome, d3) \<Rightarrow> (Inr outcome, d3))))"

text \<open>A renewal scan that fails or runs out of time leaves the jobs as they are.\<close>

definition worker_refresh ::
  "'q GenerationJobQueue \<Rightarrow> bool \<Rightarrow> instant \<Rightarrow> 'q \<Rightarrow> 'q" where
  "worker_refresh q timed_out now d =
     (if timed_out then d
      else case q_refresh_expiring q now
             (unat PUBLICATION_REFRESH_LEAD_SECONDS * nanos_per_sec) 32 d of
        Inl _ \<Rightarrow> d | Inr (_, d') \<Rightarrow> d')"

definition run_once ::
  "'q GenerationJobQueue \<Rightarrow> bool \<Rightarrow> bool \<Rightarrow> GenerationWorker \<Rightarrow>
     (GenerationJob \<Rightarrow> 'q \<Rightarrow> (PublicationFailure + PublishedGeneration) \<times> 'q) \<Rightarrow>
     instant \<Rightarrow> instant \<Rightarrow> instant \<Rightarrow> 'q \<Rightarrow> (WorkerLoopError + RunOutcome) \<times> 'q" where
  "run_once q timed_out ready w publisher now t1 t2 d =
     (if \<not> ready then (Inr PublisherUnavailable, d)
      else run_claimed_once q ready w publisher now t1 t2 (worker_refresh q timed_out now d))"

subsection \<open>Lanes and scanners\<close>

datatype iteration = IterDone RunOutcome | IterFailed WorkerLoopError | IterTimeout

definition bump :: "u32 \<Rightarrow> u32" where
  "bump failures = (if failures = -1 then failures else failures + 1)"

definition backoff :: "u32 \<Rightarrow> u32 \<Rightarrow> nat" where
  "backoff cap failures = unat (push_bit (unat (min failures cap)) (1 :: u64)) * nanos_per_sec"

text \<open>The pause after an iteration (none after work was done) and the failure counter.\<close>

definition lane_delay :: "nat \<Rightarrow> u32 \<Rightarrow> iteration \<Rightarrow> nat option \<times> u32" where
  "lane_delay poll_interval failures result =
     (case result of
        IterDone outcome \<Rightarrow>
          (if outcome \<in> {OutcomePublished, RetryScheduled, OutcomePermanentFailure} then None
           else Some poll_interval, 0)
      | _ \<Rightarrow> (Some (backoff 5 (bump failures)), bump failures))"

fun run_lane :: "nat \<Rightarrow> u32 \<Rightarrow> iteration list \<Rightarrow> nat option list" where
  "run_lane poll_interval failures [] = []"
| "run_lane poll_interval failures (result # results) =
     (case lane_delay poll_interval failures result of
        (delay, failures') \<Rightarrow> delay # run_lane poll_interval failures' results)"

text \<open>The recovery scanner ends with its first successful scan.\<close>

fun run_recovery_scanner :: "u32 \<Rightarrow> (ControlStoreError + nat) option list \<Rightarrow> nat list" where
  "run_recovery_scanner failures [] = []"
| "run_recovery_scanner failures (scan # scans) =
     (case scan of
        Some (Inr _) \<Rightarrow> []
      | _ \<Rightarrow> backoff 6 (bump failures) # run_recovery_scanner (bump failures) scans)"

definition lane_worker :: "GenerationWorker \<Rightarrow> uuid \<Rightarrow> nat \<Rightarrow> GenerationWorker" where
  "lane_worker w run_id lane =
     w\<lparr>gw_owner_id := uuid_string run_id @ '':lane-'' @ decimal lane\<rparr>"

definition lane_workers ::
  "GenerationWorker \<Rightarrow> uuid \<Rightarrow> nat \<Rightarrow> nat \<Rightarrow> WorkerLoopError + GenerationWorker list" where
  "lane_workers w run_id poll_interval concurrency =
     (if poll_interval = 0 then Inl WInvalidPollInterval
      else if concurrency < 1 \<or> 32 < concurrency then Inl WInvalidConcurrency
      else Inr (map (lane_worker w run_id) [0..<concurrency]))"

section \<open>What the worker guarantees\<close>

subsection \<open>Failure codes\<close>

fun single_separators :: "string \<Rightarrow> bool" where
  "single_separators (x # y # zs) \<longleftrightarrow> \<not> (x = CHR ''_'' \<and> y = CHR ''_'') \<and> single_separators (y # zs)"
| "single_separators _ \<longleftrightarrow> True"

lemma single_separators_snoc:
  "single_separators (s @ [c]) \<longleftrightarrow>
     single_separators s \<and> \<not> (s \<noteq> [] \<and> last s = CHR ''_'' \<and> c = CHR ''_'')"
  by (induction s rule: single_separators.induct) auto

lemma single_separators_butlast: "single_separators s \<Longrightarrow> single_separators (butlast s)"
  by (cases s rule: rev_cases) (simp_all add: single_separators_snoc)

definition code_text :: "string \<Rightarrow> bool" where
  "code_text s \<longleftrightarrow> length s \<le> MAX_CODE_LEN \<and> list_all code_byte s \<and> single_separators s"

lemma upper_code_byte:
  assumes "is_ascii_alphanumeric c"
  shows "code_byte (to_ascii_uppercase c)" and "to_ascii_uppercase c \<noteq> CHR ''_''"
  using to_ascii_uppercase_alnum [OF assms]
  by (auto simp: code_byte_def ascii_defs)

lemma normalize_loop_text:
  assumes "code_text acc" and "prev \<longleftrightarrow> acc \<noteq> [] \<and> last acc = CHR ''_''"
  shows "code_text (normalize_loop acc prev s)"
  using assms
proof (induction acc prev s rule: normalize_loop.induct)
  case (2 acc prev b bs)
  consider (full) "length acc = MAX_CODE_LEN" "is_ascii_alphanumeric b \<or> \<not> prev"
    | (alnum) "is_ascii_alphanumeric b" "length acc \<noteq> MAX_CODE_LEN"
    | (skip) "\<not> is_ascii_alphanumeric b" "prev"
    | (sep) "\<not> is_ascii_alphanumeric b" "\<not> prev" "length acc \<noteq> MAX_CODE_LEN"
    by blast
  then show ?case
  proof cases
    case full
    with "2.prems" show ?thesis by (cases "is_ascii_alphanumeric b") auto
  next
    case alnum
    with "2.prems" upper_code_byte [OF alnum(1)]
    have "code_text (acc @ [to_ascii_uppercase b])" by (auto simp: code_text_def single_separators_snoc)
    with alnum upper_code_byte(2) [OF alnum(1)] show ?thesis by (simp add: "2.IH"(1))
  next
    case skip
    with "2.prems" show ?thesis using "2.IH"(2) by simp
  next
    case sep
    with "2.prems" have "code_text (acc @ [CHR ''_''])"
      by (auto simp: code_text_def single_separators_snoc code_byte_def)
    with sep show ?thesis by (simp add: "2.IH"(3))
  qed
qed simp

lemma pop_separators_text: "code_text s \<Longrightarrow> code_text (pop_separators s)"
proof (induction s rule: pop_separators.induct)
  case (1 s)
  have "code_text (butlast s)"
    using "1.prems" by (auto simp: code_text_def list_all_iff single_separators_butlast dest: in_set_butlastD)
  with 1 show ?case by (subst pop_separators.simps) simp
qed

lemma pop_separators_last: "pop_separators s \<noteq> [] \<Longrightarrow> last (pop_separators s) \<noteq> CHR ''_''"
proof (induction s rule: pop_separators.induct)
  case (1 s)
  show ?case
  proof (cases "s \<noteq> [] \<and> last s = CHR ''_''")
    case True
    then have "pop_separators s = pop_separators (butlast s)" by (subst pop_separators.simps) simp
    with 1 True show ?thesis by simp
  next
    case False
    then have "pop_separators s = s" by (subst pop_separators.simps) auto
    with False "1.prems" show ?thesis by auto
  qed
qed

definition normal_code :: "string \<Rightarrow> bool" where
  "normal_code s \<longleftrightarrow> s \<noteq> [] \<and> code_text s \<and> last s \<noteq> CHR ''_''"

lemma normalize_normal: "normal_code (normalize_failure_code s)"
proof -
  let ?n = "pop_separators (normalize_loop [] False s)"
  have "code_text ?n"
    by (intro pop_separators_text normalize_loop_text) (simp_all add: code_text_def)
  moreover have "normal_code ''PUBLICATION_FAILURE''"
    by (simp add: normal_code_def code_text_def MAX_CODE_LEN_def code_byte_def ascii_defs)
  ultimately show ?thesis
    using pop_separators_last by (auto simp: normalize_failure_code_def normal_code_def Let_def)
qed

lemma code_byte_cases:
  assumes "code_byte c"
  shows "c = CHR ''_'' \<and> \<not> is_ascii_alphanumeric c \<or>
    c \<noteq> CHR ''_'' \<and> is_ascii_alphanumeric c \<and> to_ascii_uppercase c = c"
  using assms by (auto simp: code_byte_def to_ascii_uppercase_def ascii_defs)

lemma normalize_loop_id:
  assumes "list_all code_byte s" and "single_separators s" and "length acc + length s \<le> MAX_CODE_LEN"
    and "prev \<Longrightarrow> s \<noteq> [] \<Longrightarrow> hd s \<noteq> CHR ''_''"
  shows "normalize_loop acc prev s = acc @ s"
  using assms
proof (induction s arbitrary: acc prev)
  case (Cons c s)
  have rest: "list_all code_byte s" "single_separators s" "length acc \<noteq> MAX_CODE_LEN"
    using Cons.prems by (cases s; auto)+
  have "c = CHR ''_'' \<Longrightarrow> s \<noteq> [] \<Longrightarrow> hd s \<noteq> CHR ''_''"
    using Cons.prems(2) by (cases s) auto
  then show ?case
    using code_byte_cases [of c] Cons.prems rest Cons.IH [of "acc @ [c]" True] Cons.IH [of "acc @ [c]" False]
    by auto
qed simp


subsection \<open>The queue contract\<close>

text \<open>What the worker relies on of a \<open>GenerationJobQueue\<close>, and what it gives for it.\<close>

fun failure_state :: "JobFailure \<Rightarrow> GenerationJobState" where
  "failure_state (FailRetry _ _) = JobRetry"
| "failure_state (FailPermanent _) = JobPermanentFailure"

text \<open>The outcome a publisher's answer calls for, and the state it leaves the job in.\<close>

fun answer_outcome :: "PublicationFailure + PublishedGeneration \<Rightarrow> RunOutcome" where
  "answer_outcome (Inr _) = OutcomePublished"
| "answer_outcome (Inl (PfPermanent _)) = OutcomePermanentFailure"
| "answer_outcome (Inl (PfRetryable _ retry_after)) =
     (if retry_after = 0 \<or> retry_after > 3600 * nanos_per_sec then OutcomePermanentFailure
      else RetryScheduled)"

fun outcome_state :: "RunOutcome \<Rightarrow> GenerationJobState option" where
  "outcome_state OutcomePublished = Some JobPublished"
| "outcome_state RetryScheduled = Some JobRetry"
| "outcome_state OutcomePermanentFailure = Some JobPermanentFailure"
| "outcome_state _ = None"

text \<open>
  An answer is proper when it reports a generation and a hash, and when a delayed retry lies
  beyond the second clock reading.
\<close>

definition proper_answer ::
  "instant \<Rightarrow> instant \<Rightarrow> PublicationFailure + PublishedGeneration \<Rightarrow> bool" where
  "proper_answer t1 t2 answer \<longleftrightarrow>
     (case answer of
        Inr result \<Rightarrow> pgn_generation result \<noteq> 0 \<and> pgn_content_hash result \<noteq> zero_hash
      | Inl (PfRetryable _ retry_after) \<Rightarrow> retry_after = 0 \<or> t2 < t1 + int retry_after
      | Inl (PfPermanent _) \<Rightarrow> True)"

locale job_queue =
  fixes q :: "'q GenerationJobQueue"
    and ok :: "'q \<Rightarrow> bool"
    and state_of :: "'q \<Rightarrow> uuid \<Rightarrow> GenerationJobState option"
  assumes publish_records: "ok d \<Longrightarrow> q_publish q job now res d = Inr d' \<Longrightarrow>
        ok d' \<and> state_of d' (gj_id job) = Some JobPublished"
    and publish_refused: "ok d \<Longrightarrow> q_publish q job now res d = Inl e \<Longrightarrow>
        pgn_generation res \<noteq> 0 \<Longrightarrow> pgn_content_hash res \<noteq> zero_hash \<Longrightarrow> e = CsLeaseLost"
    and fail_records: "ok d \<Longrightarrow> q_fail q job now f d = Inr d' \<Longrightarrow>
        ok d' \<and> state_of d' (gj_id job) = Some (failure_state f)"
    and fail_refused: "ok d \<Longrightarrow> q_fail q job now f d = Inl e \<Longrightarrow>
        failure_validate f now = Inr () \<Longrightarrow> e = CsLeaseLost"
begin

lemma receipt_ok:
  assumes "ok d" and "receipt q t1 t2 job answer d = Inr (out, d')"
  shows "ok d' \<and> out = answer_outcome answer \<and> state_of d' (gj_id job) = outcome_state out"
proof (cases answer)
  case (Inl failure)
  then show ?thesis
    using assms fail_records [OF assms(1)]
    by (cases failure) (auto simp: receipt_def split: if_splits)
next
  case (Inr res)
  then show ?thesis using assms publish_records [OF assms(1)] by (auto simp: receipt_def)
qed

lemma receipt_refused:
  assumes "ok d" and "proper_answer t1 t2 answer" and "receipt q t1 t2 job answer d = Inl e"
  shows "e = WStorage CsLeaseLost"
proof -
  have code: "failure_validate (FailPermanent (normalize_failure_code c)) now = Inr ()" for c now
    using normalize_normal [of c]
    by (auto simp: failure_validate_def normal_code_def code_text_def MAX_ERROR_CODE_LEN_def MAX_CODE_LEN_def)
  have invalid: "failure_validate (FailPermanent ''PUBLICATION_RETRY_DELAY_INVALID'') now = Inr ()" for now
    by (simp add: failure_validate_def MAX_ERROR_CODE_LEN_def code_byte_def ascii_defs)
  show ?thesis
  proof (cases answer)
    case (Inr res)
    with assms publish_refused [OF assms(1)] show ?thesis
      by (auto simp: receipt_def proper_answer_def bind_res_err map_err_def split: sum.splits)
  next
    case (Inl failure)
    show ?thesis
    proof (cases failure)
      case (PfPermanent c)
      with Inl assms(3) fail_refused [OF assms(1) _ code] show ?thesis
        by (auto simp: receipt_def bind_res_err map_err_def split: sum.splits)
    next
      case (PfRetryable c after)
      have "from_std after = Some (int after)" if "after \<le> 3600 * nanos_per_sec"
        using that by (simp add: from_std_def nanos_per_sec_def)
      moreover have "failure_validate (FailRetry (normalize_failure_code c) (t1 + int after)) t2 = Inr ()"
        if "after \<noteq> 0"
        using assms(2) code [of c t2] that Inl PfRetryable
        by (auto simp: failure_validate_def proper_answer_def)
      ultimately show ?thesis
        using Inl PfRetryable assms(3) fail_refused [OF assms(1)] invalid
        by (auto simp: receipt_def bind_res_err map_err_def split: sum.splits if_splits)
    qed
  qed
qed

lemma run_records:
  assumes "ok d2" and "q_claim_next q (gw_owner_id w) now (gw_lease_ttl w) d = Inr (Some job, d1)"
    and "publisher job d1 = (answer, d2)" and "proper_answer t1 t2 answer"
  shows "case run_claimed_once q True w publisher now t1 t2 d of
      (Inr out, d3) \<Rightarrow> out = answer_outcome answer \<and> state_of d3 (gj_id job) = outcome_state out
    | (Inl e, d3) \<Rightarrow> e = WStorage CsLeaseLost \<and> d3 = d2"
proof (cases "receipt q t1 t2 job answer d2")
  case (Inl e)
  with receipt_refused [OF assms(1,4)] show ?thesis by (simp add: run_claimed_once_def assms(2,3))
next
  case (Inr res)
  with receipt_ok [OF assms(1)] show ?thesis
    by (cases res) (simp add: run_claimed_once_def assms(2,3))
qed

end

definition job_state :: "job_db \<Rightarrow> uuid \<Rightarrow> GenerationJobState option" where
  "job_state d i = map_option jr_state (find (\<lambda>j. jr_id j = i) (jd_jobs d))"

lemma job_state_row:
  assumes "jobs_inv d" and "j \<in> set (jd_jobs d)"
  shows "job_state d (jr_id j) = Some (jr_state j)"
proof -
  obtain k where k: "find (\<lambda>x. jr_id x = jr_id j) (jd_jobs d) = Some k"
    using assms(2) by (cases "find (\<lambda>x. jr_id x = jr_id j) (jd_jobs d)") (auto simp: find_None_iff)
  then have "k = j" using job_by_id [OF assms(1) _ assms(2)] find_SomeD [OF k] by blast
  with k show ?thesis by (simp add: job_state_def)
qed

lemma lease_update_state:
  assumes "jobs_inv d" and "update_one e (holds_lease job now) f d = Inr d'" and "jobs_inv d'"
    and "\<And>j. jr_id (f j) = jr_id j"
  shows "\<exists>j. job_state d' (gj_id job) = Some (jr_state (f j))"
proof -
  from assms(1,2) obtain j where j: "j \<in> set (jd_jobs d)" "holds_lease job now j" "d' = swap_row j (f j) d"
    by (rule holds_lease_update)
  have "f j \<in> set (jd_jobs d')" using j(1) unfolding j(3) by (force simp: swap_row_def)
  from job_state_row [OF assms(3) this] assms(4) j(2) show ?thesis by (auto simp: holds_lease_def)
qed

lemma update_one_err: "update_one e p f d = Inl e' \<Longrightarrow> e' = e"
  by (auto simp: update_one_def split: prod.splits if_splits)

interpretation repository: job_queue "repository_queue sha clock fresh control r" jobs_inv job_state
  for sha clock fresh control r
proof
  fix d job now and res :: PublishedGeneration and d'
  assume inv: "jobs_inv d"
    and "q_publish (repository_queue sha clock fresh control r) job now res d = Inr d'"
  then have pub: "job_publish job now (pgn_generation res) (pgn_content_hash res) d = Inr d'"
    by (simp add: repository_queue_def)
  have inv': "jobs_inv d'" using job_publish_run [OF inv pub] by (simp add: queue_run_def)
  have "update_one CsLeaseLost (holds_lease job now)
      (published_row (pgn_generation res) (pgn_content_hash res)) d = Inr d'"
    using pub by (simp add: job_publish_def)
  from lease_update_state [OF inv this inv'] inv'
  show "jobs_inv d' \<and> job_state d' (gj_id job) = Some JobPublished"
    by (auto simp: published_row_def)
next
  fix d job now f d'
  assume inv: "jobs_inv d" and "q_fail (repository_queue sha clock fresh control r) job now f d = Inr d'"
  then have fail: "job_fail job now f d = Inr d'" by (simp add: repository_queue_def)
  have inv': "jobs_inv d'" using job_fail_run [OF inv fail] by (simp add: queue_run_def)
  have "update_one CsLeaseLost (holds_lease job now) (case f of
      FailRetry code at \<Rightarrow> released_row JobRetry at code
    | FailPermanent code \<Rightarrow> released_row JobPermanentFailure now code) d = Inr d'"
    using fail by (simp add: job_fail_def)
  from lease_update_state [OF inv this inv'] inv'
  show "jobs_inv d' \<and> job_state d' (gj_id job) = Some (failure_state f)"
    by (cases f) (auto simp: released_row_def)
qed (auto simp: repository_queue_def job_publish_def job_fail_def bind_res_err dest: update_one_err)


subsection \<open>Lanes\<close>

lemma decimal_nonempty: "decimal n \<noteq> []"
  by (subst decimal.simps) simp

lemma decimal_inject: "decimal m = decimal n \<longleftrightarrow> m = n"
proof (induction m arbitrary: n rule: decimal.induct)
  case (1 m)
  have small: "decimal k = [char_of (48 + k)]" if "k < 10" for k
    using that by (subst decimal.simps) simp
  have large: "decimal k = decimal (k div 10) @ [char_of (48 + k mod 10)]" if "\<not> k < 10" for k
    using that by (subst decimal.simps) simp
  have digit: "char_of (48 + a) = (char_of (48 + b) :: char) \<longleftrightarrow> a = b" if "a < 10" "b < 10" for a b :: nat
  proof -
    have "byte_of (char_of (48 + a)) = 48 + a" "byte_of (char_of (48 + b)) = 48 + b"
      by (rule byte_of_char_of, use that in simp)+
    then show ?thesis by (metis add_left_cancel)
  qed
  show ?case
  proof (cases "m < 10"; cases "n < 10")
    assume "\<not> m < 10" "\<not> n < 10"
    then have "decimal m = decimal n \<longleftrightarrow> m div 10 = n div 10 \<and> m mod 10 = n mod 10"
      using "1.IH" digit by (simp add: large)
    then show ?thesis by (metis mod_div_mult_eq)
  next
    assume "m < 10" "\<not> n < 10"
    then show ?thesis using decimal_nonempty [of "n div 10"] by (auto simp: small large)
  next
    assume "\<not> m < 10" "n < 10"
    then show ?thesis using decimal_nonempty [of "m div 10"] by (auto simp: small large)
  qed (simp add: small digit)
qed

lemma decimal_length: "n < 100 \<Longrightarrow> length (decimal n) \<le> 2"
  by (subst decimal.simps) (subst decimal.simps, auto)

lemma lane_owner_length: "lane < 100 \<Longrightarrow> length (gw_owner_id (lane_worker w run_id lane)) \<le> 44"
  using decimal_length [of lane] by (simp add: lane_worker_def uuid_string_def Let_def)

text \<open>
  The lanes of a worker are fenced against each other: when the worker and the concurrency
  are accepted, every lane claims under a valid lease and no two lanes share an owner.
\<close>

theorem lanes_have_distinct_owners:
  assumes "worker_new owner ttl = Inr w" and "lane_workers w run_id poll n = Inr lanes"
  shows "length lanes = n \<and> distinct (map gw_owner_id lanes) \<and>
    (\<forall>lane \<in> set lanes. validate_lease (gw_owner_id lane) (gw_lease_ttl lane) = Inr ())"
proof -
  have w: "gw_lease_ttl w = ttl" "ttl \<noteq> 0" "ttl \<le> 300 * nanos_per_sec"
    using assms(1) by (auto simp: worker_new_def split: if_splits)
  have lanes: "lanes = map (lane_worker w run_id) [0..<n]" "n \<le> 32"
    using assms(2) by (auto simp: lane_workers_def split: if_splits)
  have "distinct (map gw_owner_id lanes)"
    by (auto simp: lanes distinct_map inj_on_def lane_worker_def decimal_inject)
  moreover have "validate_lease (gw_owner_id (lane_worker w run_id k)) ttl = Inr ()" if "k < n" for k
  proof -
    have "length (gw_owner_id (lane_worker w run_id k)) \<le> 44"
      using that lanes(2) by (intro lane_owner_length) simp
    moreover have "gw_owner_id (lane_worker w run_id k) \<noteq> []" by (simp add: lane_worker_def)
    ultimately show ?thesis
      using w by (simp add: validate_lease_def MAX_ACTOR_LEN_def MAX_LEASE_TTL_def)
  qed
  ultimately show ?thesis using w(1) by (auto simp: lanes) (simp add: lane_worker_def)
qed

text \<open>Back-off: bounded, and growing with the number of failures in a row.\<close>

lemma backoff_bounds:
  assumes "cap < 64"
  shows "backoff cap failures = 2 ^ unat (min failures cap) * nanos_per_sec"
    and "backoff cap failures \<le> 2 ^ unat cap * nanos_per_sec"
proof -
  have pow: "unat (2 ^ k :: u64) = 2 ^ k" if "k < 64" for k
  proof -
    have "unat (2 ^ k :: u64) = unat (of_nat (2 ^ k) :: u64)" by simp
    also have "\<dots> = 2 ^ k mod 2 ^ 64" by (subst unat_of_nat) simp
    also have "\<dots> = 2 ^ k" by (rule mod_less, rule power_strict_increasing) (use that in simp_all)
    finally show ?thesis .
  qed
  have "unat (min failures cap) < 64"
    using assms by (auto simp: word_less_nat_alt min_def word_le_nat_alt)
  then show eq: "backoff cap failures = 2 ^ unat (min failures cap) * nanos_per_sec"
    by (simp add: backoff_def push_bit_eq_mult pow)
  have "unat (min failures cap) \<le> unat cap" by (auto simp: min_def word_le_nat_alt)
  then show "backoff cap failures \<le> 2 ^ unat cap * nanos_per_sec"
    unfolding eq by (intro mult_right_mono power_increasing) auto
qed

subsection \<open>Witnesses\<close>

definition wit_worker :: GenerationWorker where
  "wit_worker = \<lparr>gw_owner_id = ''w'', gw_lease_ttl = 20\<rparr>"


theorem lanes_have_distinct_owners_witness:
  "distinct (map gw_owner_id (map (lane_worker wit_worker 5) [0..<4]))"
proof -
  have "worker_new ''w'' 20 = Inr wit_worker"
    by (simp add: worker_new_def wit_worker_def nanos_per_sec_def)
  moreover have "lane_workers wit_worker 5 2 4 = Inr (map (lane_worker wit_worker 5) [0..<4])"
    by (simp add: lane_workers_def)
  ultimately show ?thesis using lanes_have_distinct_owners by blast
qed

end
