(* ===== verification/Control_Publisher.thy ===== *)
theory Control_Publisher
  imports Egress_Selection Segment_Snapshot Route_Publication Generation_Loop
begin

section \<open>From the management graph to a publication (\<open>control_publisher.rs\<close>)\<close>

text \<open>
  \<open>ControlRoutePublisher\<close>: from the snapshot of a segment it computes the attachments that take
  part, the peer paths with their endpoints and the egress plan, builds the signed objects and
  publishes them. The database, SHA-256, the serialisers and the Core module are the parameters
  of the parts it calls; \<open>ge_lock\<close> and \<open>ge_refresh\<close> are what the lock of the provider directory
  and \<open>refresh_geo_provider\<close> answer for the policy with the given id. Hash maps are HOL maps where
  only \<open>get\<close> is used on them. Log lines are left out.
\<close>

subsection \<open>Policies\<close>

record geo_env =
  ge_settings :: "GeoProviderError + GeoProviderSettings option"
  ge_lock :: "uuid \<Rightarrow> InputError + unit"
  ge_refresh :: "uuid \<Rightarrow> GeoProviderSettings \<Rightarrow> InputError + geo_dir"

definition service_policy_ref ::
  "control_ext \<Rightarrow> uuid \<Rightarrow> ServicePolicyV1 \<Rightarrow> InputError + PolicyRefV1" where
  "service_policy_ref ext resource_id policy =
     bind_res (map_err (\<lambda>_. Bail ''service policy hash failed'') (data_plane_hash ext policy)) (\<lambda>hash.
     Inr \<lparr>pref_policy_id = resource_id, pref_generation = sp_generation policy,
          pref_content_hash = hash\<rparr>)"

definition service_policy_ref_with_geo ::
  "control_ext \<Rightarrow> uuid \<Rightarrow> ServicePolicyV1 \<Rightarrow> (uuid \<times> hash32) list \<Rightarrow> InputError + PolicyRefV1" where
  "service_policy_ref_with_geo ext resource_id policy geo_digests =
     bind_res (service_policy_ref ext resource_id policy) (\<lambda>reference.
     Inr (if geo_digests = [] then reference
          else reference\<lparr>pref_content_hash := sha256 ext (pref_content_hash reference @
            concat (map (\<lambda>(rule, digest). uuid_bytes rule @ digest) geo_digests))\<rparr>))"

definition enabled_settings :: "GeoProviderSettings option \<Rightarrow> InputError + GeoProviderSettings" where
  "enabled_settings settings =
     bind_res (ok_or settings (Bail ''Geo policy requires a platform Geo provider configuration'')) (\<lambda>s.
     bind_res (guard (\<not> gs_enabled s) (Bail ''platform Geo provider is disabled'')) (\<lambda>_. Inr s))"

definition check_selector ::
  "GeoProviderSettings option \<Rightarrow> geo_dir \<Rightarrow> PolicyGeoSelectorV1 \<Rightarrow> InputError + unit" where
  "check_selector settings dir selector =
     bind_res (enabled_settings settings) (\<lambda>s.
     bind_res (guard (gs_provider s \<noteq> geo_provider selector)
       (Bail (''Geo policy provider '' @ geo_provider selector @ '' is not enabled on the platform''))) (\<lambda>_.
     bind_res (guard (list_ex (\<lambda>country. \<not> list_ex (\<lambda>allowed. lowercase allowed = lowercase country)
         (gs_countries s)) (geo_countries selector))
       (Bail ''Geo policy selects a country outside the platform provider scope'')) (\<lambda>_.
     validate_geo_provider_metadata s dir)))"

definition expand_policy_rule ::
  "control_ext \<Rightarrow> GeoProviderSettings option \<Rightarrow> geo_dir \<Rightarrow> ServicePolicyRuleV1 \<Rightarrow>
     InputError + (ServicePolicyRuleV1 \<times> hash32 option)" where
  "expand_policy_rule ext settings dir rule =
     bind_res (case rule_destination_geo rule of None \<Rightarrow> Inr () | Some s \<Rightarrow> check_selector settings dir s)
       (\<lambda>_. expand_geo_rule (sha256 ext) dir rule)"

text \<open>
  One policy: its rules with their selectors expanded, under the reference that covers the
  expansion. Without a country selector no directory is read.
\<close>

definition policy_rules ::
  "control_ext \<Rightarrow> geo_env \<Rightarrow> GeoProviderSettings option \<Rightarrow> uuid \<Rightarrow> ServicePolicyV1 \<Rightarrow>
     InputError + (PolicyRefV1 \<times> ServicePolicyRuleV1) list" where
  "policy_rules ext geo settings policy_id policy =
     bind_res (if list_ex (\<lambda>rule. rule_destination_geo rule \<noteq> None) (sp_rules policy)
       then bind_res (ge_lock geo policy_id) (\<lambda>_.
            bind_res (enabled_settings settings) (ge_refresh geo policy_id))
       else Inr Map.empty) (\<lambda>dir.
     bind_res (map_res (expand_policy_rule ext settings dir) (sp_rules policy)) (\<lambda>expanded.
     let geo_digests = sort_key fst (List.map_filter (\<lambda>(rule, digest).
           map_option (Pair (rule_id rule)) digest) expanded) in
     bind_res (service_policy_ref_with_geo ext policy_id policy geo_digests) (\<lambda>policy_ref.
     map_res (\<lambda>(rule, _).
       if (case rule_action rule of RemoteEgress _ \<Rightarrow> True | LocalEgress \<Rightarrow> False) \<and>
          rule_destination_prefixes rule = []
       then Inl (Bail ''remote egress policy requires an explicit CIDR or GeoIP destination selector'')
       else Inr (policy_ref, rule)) expanded)))"

subsection \<open>The graph of the snapshot\<close>

definition is_active :: "ControlResourceV1 \<Rightarrow> bool" where
  "is_active r \<longleftrightarrow> md_state (cr_metadata r) = Active"

definition graph_segment :: "SegmentControlSnapshot \<Rightarrow> SegmentV1 option" where
  "graph_segment sn =
     (case List.map_filter (\<lambda>r. case cr_resource r of
          Segment v \<Rightarrow> if md_id (cr_metadata r) = sn_segment_id sn then Some v else None
        | _ \<Rightarrow> None) (sn_resources sn) of
        [] \<Rightarrow> None | vs \<Rightarrow> Some (last vs))"

definition active_nodes :: "SegmentControlSnapshot \<Rightarrow> uuid \<Rightarrow> NodeV1 option" where
  "active_nodes sn = graph_nodes (filter is_active (sn_resources sn))"

definition active_relays :: "SegmentControlSnapshot \<Rightarrow> uuid \<Rightarrow> RelayV1 option" where
  "active_relays sn = graph_relays (filter is_active (sn_resources sn))"

definition active_egresses :: "SegmentControlSnapshot \<Rightarrow> uuid \<Rightarrow> EgressV1 option" where
  "active_egresses sn = hash_map (List.map_filter (\<lambda>r.
     case cr_resource r of Egress v \<Rightarrow> Some (md_id (cr_metadata r), v) | _ \<Rightarrow> None)
     (filter is_active (sn_resources sn)))"

definition segment_attachments ::
  "SegmentControlSnapshot \<Rightarrow> (ControlResourceV1 \<times> AttachmentV1) list" where
  "segment_attachments sn = List.map_filter (\<lambda>r. case cr_resource r of
     Attachment v \<Rightarrow> if at_segment_id v = sn_segment_id sn then Some (r, v) else None
   | _ \<Rightarrow> None) (sn_resources sn)"

definition segment_prefixes :: "SegmentControlSnapshot \<Rightarrow> PrefixV1 list" where
  "segment_prefixes sn = List.map_filter (\<lambda>r. case cr_resource r of
     Prefix v \<Rightarrow> if px_segment_id v = sn_segment_id sn then Some v else None
   | _ \<Rightarrow> None) (filter is_active (sn_resources sn))"

definition segment_peers :: "SegmentControlSnapshot \<Rightarrow> (ControlResourceV1 \<times> PeerV1) list" where
  "segment_peers sn = List.map_filter (\<lambda>r. case cr_resource r of
     Peer v \<Rightarrow> if pe_segment_id v = sn_segment_id sn then Some (r, v) else None
   | _ \<Rightarrow> None) (filter is_active (sn_resources sn))"

definition segment_paths :: "SegmentControlSnapshot \<Rightarrow> (ControlResourceV1 \<times> PathCandidateV1) list" where
  "segment_paths sn = List.map_filter (\<lambda>r. case cr_resource r of
     PathCandidate v \<Rightarrow> if pc_segment_id v = sn_segment_id sn then Some (r, v) else None
   | _ \<Rightarrow> None) (filter is_active (sn_resources sn))"

definition segment_policies :: "SegmentControlSnapshot \<Rightarrow> (uuid \<times> ServicePolicyV1) list" where
  "segment_policies sn = List.map_filter (\<lambda>r. case cr_resource r of
     ServicePolicy v \<Rightarrow> if sp_segment_id v = sn_segment_id sn then Some (md_id (cr_metadata r), v) else None
   | _ \<Rightarrow> None) (filter is_active (sn_resources sn))"

definition active_attachments :: "SegmentControlSnapshot \<Rightarrow> (ControlResourceV1 \<times> AttachmentV1) list" where
  "active_attachments sn = filter (\<lambda>(r, _). is_active r) (segment_attachments sn)"

text \<open>Paths whose peer and both attachments are active.\<close>

definition live_paths :: "SegmentControlSnapshot \<Rightarrow> (ControlResourceV1 \<times> PathCandidateV1) list" where
  "live_paths sn =
     (let peers = map (\<lambda>(r, _). md_id (cr_metadata r)) (segment_peers sn);
          attachments = map (\<lambda>(r, _). md_id (cr_metadata r)) (active_attachments sn)
      in filter (\<lambda>(_, p). pc_peer_id p \<in> set peers \<and> pc_source_attachment_id p \<in> set attachments \<and>
           pc_destination_attachment_id p \<in> set attachments) (segment_paths sn))"

subsection \<open>Attachments and who takes part\<close>

definition core_attachment ::
  "SegmentControlSnapshot \<Rightarrow> ControlResourceV1 \<times> AttachmentV1 \<Rightarrow> InputError + SegmentAttachmentV1 option" where
  "core_attachment sn = (\<lambda>(r, v).
     case active_nodes sn (at_node_id v) of
       None \<Rightarrow> if is_active r then Inl (Readiness NodeIdentity) else Inr None
     | Some node \<Rightarrow>
         bind_res (map_res (\<lambda>p. map_err (\<lambda>_. Bail ''invalid canonical IPv4 prefix'')
             (route_prefix_new (network (px_prefix p)) (prefix_len (px_prefix p))))
           (filter (\<lambda>p. px_site_id p = at_site_id v) (segment_prefixes sn))) (\<lambda>local.
         Inr (Some \<lparr>sa_attachment_id = md_id (cr_metadata r), sa_site_id = Some (at_site_id v),
           sa_principal = PrDevice (nd_device_id node) (nd_device_key_id node),
           sa_overlay_router_ipv4 = at_overlay_router_ipv4 v, sa_local_prefixes = local,
           sa_state = (if is_active r then AttActive else AttRevoked),
           sa_epoch_floor = at_epoch_floor v\<rparr>)))"

definition core_attachments :: "SegmentControlSnapshot \<Rightarrow> InputError + SegmentAttachmentV1 list" where
  "core_attachments sn =
     bind_res (map_res (core_attachment sn) (segment_attachments sn))
       (\<lambda>rs. Inr (List.map_filter (\<lambda>r. r) rs))"

definition route_owners :: "SegmentAttachmentV1 list \<Rightarrow> uuid set" where
  "route_owners attachments = set (map sa_attachment_id
     (filter (\<lambda>a. sa_state a = AttActive \<and> sa_local_prefixes a \<noteq> []) attachments))"

definition path_targets_route_owner :: "PathCandidateV1 \<Rightarrow> uuid set \<Rightarrow> bool" where
  "path_targets_route_owner path owners \<longleftrightarrow> pc_destination_attachment_id path \<in> owners"

definition path_connects_participants :: "PathCandidateV1 \<Rightarrow> uuid set \<Rightarrow> bool" where
  "path_connects_participants path participants \<longleftrightarrow>
     pc_source_attachment_id path \<in> participants \<and> pc_destination_attachment_id path \<in> participants"

definition path_belongs_to_projection :: "uuid \<Rightarrow> PathCandidateV1 \<Rightarrow> uuid set \<Rightarrow> bool" where
  "path_belongs_to_projection source path participants \<longleftrightarrow>
     pc_source_attachment_id path = source \<and> path_connects_participants path participants"

text \<open>
  The owners, and every other source whose paths lead to all owners. \<open>destinations_by_source\<close>
  groups the destinations by source.
\<close>

definition destinations_by_source :: "uuid set \<Rightarrow> PathCandidateV1 list \<Rightarrow> uuid \<Rightarrow> uuid set option" where
  "destinations_by_source owners paths = fold (\<lambda>p m.
     if pc_destination_attachment_id p \<in> owners
     then m(pc_source_attachment_id p \<mapsto> insert (pc_destination_attachment_id p)
       (case m (pc_source_attachment_id p) of None \<Rightarrow> {} | Some ds \<Rightarrow> ds))
     else m) paths Map.empty"

definition participating_attachments :: "uuid set \<Rightarrow> PathCandidateV1 list \<Rightarrow> uuid set" where
  "participating_attachments owners paths =
     owners \<union> {source \<in> set (map pc_source_attachment_id paths).
       case destinations_by_source owners paths source of
         None \<Rightarrow> False
       | Some ds \<Rightarrow> source \<notin> owners \<and> (\<forall>owner \<in> owners. owner \<in> ds)}"

definition dialer_step ::
  "(uuid \<Rightarrow> uuid option) \<Rightarrow> (uuid \<Rightarrow> bool) \<Rightarrow> (uuid \<Rightarrow> (uuid \<times> bool) option) \<Rightarrow> PathCandidateV1 \<Rightarrow>
     InputError + (uuid \<Rightarrow> (uuid \<times> bool) option)" where
  "dialer_step attachment_nodes known direct_peers path =
     (if pc_kind path \<noteq> Direct then Inr direct_peers
      else
        bind_res (ok_or (attachment_nodes (pc_source_attachment_id path))
          (Bail ''direct path source Attachment is missing'')) (\<lambda>source.
        bind_res (ok_or (attachment_nodes (pc_destination_attachment_id path))
          (Bail ''direct path destination Attachment is missing'')) (\<lambda>destination.
        bind_res (guard (pc_transport_node_id path \<noteq> source \<and> pc_transport_node_id path \<noteq> destination)
          (Bail ''direct path transport Node is not one of its endpoint Nodes'')) (\<lambda>_.
        bind_res (guard (\<not> known (pc_transport_node_id path))
          (Bail ''direct path transport Node is missing'')) (\<lambda>_.
        case direct_peers (pc_peer_id path) of
          None \<Rightarrow> Inr (direct_peers(pc_peer_id path \<mapsto>
            (pc_transport_node_id path, pc_transport_node_id path \<noteq> source)))
        | Some (node, has_dialer) \<Rightarrow>
            if node \<noteq> pc_transport_node_id path
            then Inl (Bail ''direct peer has conflicting transport Nodes'')
            else Inr (direct_peers(pc_peer_id path \<mapsto>
              (node, has_dialer \<or> pc_transport_node_id path \<noteq> source))))))))"

definition validate_direct_dialers ::
  "PathCandidateV1 list \<Rightarrow> (uuid \<Rightarrow> uuid option) \<Rightarrow> (uuid \<Rightarrow> bool) \<Rightarrow> InputError + unit" where
  "validate_direct_dialers paths attachment_nodes known =
     bind_res (fold_res (dialer_step attachment_nodes known) Map.empty paths) (\<lambda>direct_peers.
     guard (list_ex (\<lambda>p. case direct_peers (pc_peer_id p) of None \<Rightarrow> False
         | Some (_, has_dialer) \<Rightarrow> \<not> has_dialer) paths)
       (Bail ''direct peer must use one transport Node with exactly one outbound side''))"

subsection \<open>Peer paths\<close>

record QuotaBoundPeerPathCandidate =
  qb_peer_path :: PeerPathCandidateV1
  qb_entitlement_rate_limit :: u64

fun peer_path_kind :: "PathCandidateKindV1 \<Rightarrow> PeerPathKindV1" where
  "peer_path_kind Direct = PathDirect"
| "peer_path_kind Relayed = PathRelay"

fun peer_endpoint :: "socket_addr \<Rightarrow> PeerEndpointV1" where
  "peer_endpoint (SocketV4 ip port) = EpIpv4 ip port"
| "peer_endpoint (SocketV6 ip port) = EpIpv6 ip port"

fun transport_preset :: "RuntimeTransportPreset \<Rightarrow> TransportPresetV1" where
  "transport_preset RtCurrent = Current"
| "transport_preset RtBbrV1 = BbrV1"
| "transport_preset RtAggressive = Aggressive"

definition expand_transport ::
  "control_ext \<Rightarrow> ControlResourceV1 \<Rightarrow> PathCandidateV1 \<Rightarrow> SiteId \<Rightarrow> AttachmentId \<Rightarrow> hash32 \<Rightarrow>
     RuntimeTransportBinding \<Rightarrow> InputError + QuotaBoundPeerPathCandidate" where
  "expand_transport ext r v peer_site peer_attachment authorization_hash t =
     bind_res (guard (tb_candidate_id t \<noteq> md_id (cr_metadata r))
       (Bail ''transport binding does not match its path resource'')) (\<lambda>_.
     Inr \<lparr>qb_peer_path =
          \<lparr>ppc_candidate_id = runtime_path_candidate_id (sha256 ext) (md_id (cr_metadata r)) (tb_endpoint_id t),
           ppc_peer_site_id = peer_site, ppc_peer_attachment_id = peer_attachment,
           ppc_kind = peer_path_kind (pc_kind v),
           ppc_relay_node = (if pc_kind v = Relayed
             then Some \<lparr>rni_node_id = tb_service_node_id t, rni_node_key_id = tb_service_node_key_id t\<rparr>
             else None),
           ppc_node_pool_id = tb_node_pool_id t,
           ppc_transport_node = \<lparr>tni_node_id = tb_service_node_id t,
             tni_node_key_id = tb_service_node_key_id t\<rparr>,
           ppc_endpoint = peer_endpoint (tb_endpoint t), ppc_server_name = tb_server_name t,
           ppc_server_cert_sha256 = tb_server_cert_sha256 t,
           ppc_transport_preset = transport_preset (tb_transport_preset t),
           ppc_priority = pc_priority v,
           ppc_authorization = \<lparr>pref_policy_id = md_id (cr_metadata r),
             pref_generation = md_revision (cr_metadata r), pref_content_hash = authorization_hash\<rparr>\<rparr>,
         qb_entitlement_rate_limit = tb_entitlement_rate_limit t\<rparr>)"

definition expand_path ::
  "control_ext \<Rightarrow> SegmentControlSnapshot \<Rightarrow> ControlResourceV1 \<times> PathCandidateV1 \<Rightarrow>
     InputError + QuotaBoundPeerPathCandidate list" where
  "expand_path ext sn = (\<lambda>(r, v).
     bind_res (ok_or (find (\<lambda>(a, _). md_id (cr_metadata a) = pc_destination_attachment_id v)
         (segment_attachments sn))
       (Bail ''Path candidate references a missing destination Attachment'')) (\<lambda>(_, peer).
     bind_res (ok_or (hash_map (sn_transport_bindings sn) (md_id (cr_metadata r)))
       (Readiness TransportIdentity)) (\<lambda>transports.
     bind_res (case pc_relay_id v of None \<Rightarrow> Inr ()
       | Some relay_id \<Rightarrow>
           bind_res (ok_or (active_relays sn relay_id) (Bail ''relay path references a missing Relay'')) (\<lambda>relay.
           guard (active_nodes sn (rl_service_node_id relay) = None) (Readiness NodeIdentity))) (\<lambda>_.
     bind_res (guard ((pc_kind v = Relayed) \<noteq> (pc_relay_id v \<noteq> None))
       (Bail ''path candidate relay binding does not match its kind'')) (\<lambda>_.
     bind_res (map_err (\<lambda>_. Bail ''path candidate hash failed'') (document_hash ext (cr_resource r))) (\<lambda>hash.
     map_res (expand_transport ext r v (at_site_id peer) (pc_destination_attachment_id v) hash) transports))))))"

definition sort_peer_paths :: "PeerPathCandidateV1 list \<Rightarrow> PeerPathCandidateV1 list" where
  "sort_peer_paths paths =
     sort_key ppc_peer_site_id (sort_key ppc_peer_attachment_id (sort_key ppc_priority
       (sort_key (\<lambda>c. path_kind_u64 (ppc_kind c)) (sort_key ppc_candidate_id paths))))"

definition effective_projection_rate_limit :: "u64 list \<Rightarrow> InputError + u64" where
  "effective_projection_rate_limit limits =
     bind_res (fold_res (\<lambda>effective limit.
         if limit = 0 then Inl (Bail ''projection contains a zero outbound entitlement rate limit'')
         else Inr (Some (case effective of None \<Rightarrow> limit | Some current \<Rightarrow> min current limit)))
       None limits)
     (\<lambda>effective. ok_or effective (Bail ''projection has no outbound entitlement rate limit''))"

subsection \<open>Projections\<close>

fun path_selection_policy :: "PeerPathPolicyV1 \<Rightarrow> PathSelectionPolicyV1" where
  "path_selection_policy DirectOnly = PolDirectOnly"
| "path_selection_policy DirectPreferred = PolDirectPreferred"
| "path_selection_policy RelayRequired = PolRelayRequired"

definition policy_for ::
  "SegmentControlSnapshot \<Rightarrow> SiteId \<Rightarrow> SiteId \<Rightarrow> InputError + PathSelectionPolicyV1" where
  "policy_for sn a b =
     bind_res (ok_or (find (\<lambda>(_, p). (pe_site_a_id p = a \<and> pe_site_b_id p = b) \<or>
         (pe_site_a_id p = b \<and> pe_site_b_id p = a)) (segment_peers sn)) (Readiness PeerPolicy))
       (\<lambda>(_, p). Inr (path_selection_policy (pe_path_policy p)))"

definition stable_uuid :: "(u8 list \<Rightarrow> u8 list) \<Rightarrow> uuid \<Rightarrow> uuid \<Rightarrow> u64 \<Rightarrow> uuid" where
  "stable_uuid sha a b generation =
     uuid_of_digest (sha (uuid_bytes a @ uuid_bytes b @ be_bytes_u64 generation))"

definition next_projection ::
  "uuid \<Rightarrow> uuid \<Rightarrow> uuid \<Rightarrow> route_db \<Rightarrow> InputError + (u64 \<times> hash32)" where
  "next_projection tenant segment attachment d =
     bind_res (map_err (RouteTables ''load site projection head'')
       (projection_head tenant segment attachment d)) (\<lambda>head.
     case head of
       None \<Rightarrow> Inr (1, zero_hash)
     | Some (generation, hash) \<Rightarrow>
         bind_res (ok_or (checked_add generation 1) (Bail ''projection generation overflow''))
           (\<lambda>next. Inr (next, hash)))"

definition local_transport_node ::
  "SegmentControlSnapshot \<Rightarrow> NodeV1 \<Rightarrow> TransportNodeIdentityV1 option" where
  "local_transport_node sn node =
     map_option (\<lambda>b. \<lparr>tni_node_id = tb_service_node_id b, tni_node_key_id = tb_service_node_key_id b\<rparr>)
       (find (\<lambda>b. tb_service_device_id b = nd_device_id node \<and>
          tb_service_device_key_id b = nd_device_key_id node)
         (concat (map snd (sn_transport_bindings sn))))"

definition packet_resources :: "u64 \<Rightarrow> PacketResourcePolicyV1" where
  "packet_resources max_bytes_per_second =
     \<lparr>prp_max_route_prefixes = of_nat MAX_GEO_ROUTE_PREFIXES, prp_max_queue_packets = 4096,
      prp_max_queue_bytes = 16 * 1024 * 1024, prp_replay_window_packets = 4096,
      prp_max_packets_per_second = 100000, prp_max_bytes_per_second = max_bytes_per_second,
      prp_allowed_traffic_classes = 1\<rparr>"

text \<open>The paths of one attachment: what its participating paths expand to, in path order.\<close>

definition projection_paths ::
  "(ControlResourceV1 \<times> PathCandidateV1) list \<Rightarrow> QuotaBoundPeerPathCandidate list list \<Rightarrow> uuid set \<Rightarrow>
     uuid \<Rightarrow> QuotaBoundPeerPathCandidate list" where
  "projection_paths paths expanded participants attachment =
     concat (map snd (filter (\<lambda>((_, p), _). path_belongs_to_projection attachment p participants)
       (zip paths expanded)))"

definition device_projection ::
  "control_ext \<Rightarrow> SegmentControlSnapshot \<Rightarrow> egress_plan \<Rightarrow> u64 \<Rightarrow>
     (ControlResourceV1 \<times> PathCandidateV1) list \<Rightarrow> QuotaBoundPeerPathCandidate list list \<Rightarrow> uuid set \<Rightarrow>
     route_db \<Rightarrow> ControlResourceV1 \<times> AttachmentV1 \<Rightarrow> InputError + DeviceProjectionInput" where
  "device_projection ext sn plan generation paths expanded participants d = (\<lambda>(r, v).
     let i = md_id (cr_metadata r); site = at_site_id v;
         candidates = projection_paths paths expanded participants i;
         peer_paths = sort_peer_paths (map qb_peer_path candidates) in
     bind_res (ok_or (active_nodes sn (at_node_id v)) (Bail ''Attachment Node is missing'')) (\<lambda>node.
     bind_res (guard (peer_paths = []) (Readiness PathCandidates)) (\<lambda>_.
     bind_res (effective_projection_rate_limit (map qb_entitlement_rate_limit candidates)) (\<lambda>limit.
     bind_res (next_projection (sn_tenant_id sn) (sn_segment_id sn) i d) (\<lambda>(projection_generation, previous_hash).
     bind_res (policy_for sn site (ppc_peer_site_id (hd peer_paths))) (\<lambda>path_policy.
     Inr \<lparr>dpi_publication_id = stable_uuid (sha256 ext) (sn_segment_id sn) i (sn_desired_revision sn),
          dpi_attachment_id = i, dpi_projection_id = i,
          dpi_projection_generation = projection_generation, dpi_previous_hash = previous_hash,
          dpi_local_transport_node = local_transport_node sn node, dpi_path_policy = path_policy,
          dpi_peer_paths = peer_paths, dpi_egress_routes = plan_routes plan site,
          dpi_egress_destination_prefixes = plan_destinations plan site,
          dpi_coherent_manifest = \<lparr>cm_generation = generation, cm_peer_paths_hash = zero_hash,
            cm_dns_projection = None, cm_egress_authorization = ep_policy_for_site plan site,
            cm_egress_gateway = (site \<in> set (ep_gateway_sites plan))\<rparr>,
          dpi_max_inner_mtu = 1300, dpi_resources = packet_resources limit\<rparr>))))))"

subsection \<open>The input of the route builder\<close>

definition next_generation :: "uuid \<Rightarrow> uuid \<Rightarrow> route_db \<Rightarrow> InputError + (u64 \<times> hash32)" where
  "next_generation tenant segment d =
     bind_res (map_err (RouteTables ''load segment publication head'') (current_head tenant segment d))
       (\<lambda>(current, hash).
     bind_res (ok_or (checked_add current 1) (Bail ''segment generation overflow'')) (\<lambda>generation.
     bind_res (guard ((current = 0 \<and> hash \<noteq> zero_hash) \<or> (current \<noteq> 0 \<and> hash = zero_hash))
       (Bail (''segment publication head '' @ decimal (unat current) @ '' has an invalid content hash''))) (\<lambda>_.
     Inr (generation, hash))))"

definition revoke_outsiders :: "uuid set \<Rightarrow> SegmentAttachmentV1 \<Rightarrow> SegmentAttachmentV1" where
  "revoke_outsiders participants a =
     (if sa_state a = AttActive \<and> sa_attachment_id a \<notin> participants
      then a\<lparr>sa_state := AttRevoked\<rparr> else a)"

text \<open>The egress plan: the policies in the order of the snapshot, then selection and planning.\<close>

definition snapshot_plan ::
  "control_ext \<Rightarrow> geo_env \<Rightarrow> SegmentControlSnapshot \<Rightarrow> InputError + egress_plan" where
  "snapshot_plan ext geo sn =
     bind_res (map_err (\<lambda>e. Bail (''load platform Geo provider settings: '' @ geo_error_text e))
       (ge_settings geo)) (\<lambda>settings.
     bind_res (map_res (\<lambda>(i, policy). policy_rules ext geo settings i policy) (segment_policies sn)) (\<lambda>rules.
     bind_res (guard (graph_segment sn = None)
       (Bail ''control snapshot is missing its Segment resource'')) (\<lambda>_.
     bind_res (select_remote_egress_rules (concat rules)
       (remdups (map (\<lambda>(_, v). at_site_id v) (active_attachments sn))) (active_egresses sn)) (\<lambda>selected.
     plan_egress (active_egresses sn) selected))))"

definition build_input ::
  "control_ext \<Rightarrow> geo_env \<Rightarrow> u64 \<Rightarrow> SegmentControlSnapshot \<Rightarrow> route_db \<Rightarrow> InputError + RoutePublicationInput" where
  "build_input ext geo now sn d =
     bind_res (next_generation (sn_tenant_id sn) (sn_segment_id sn) d) (\<lambda>(generation, previous_hash).
     bind_res (snapshot_plan ext geo sn) (\<lambda>plan.
     bind_res (core_attachments sn) (\<lambda>attachments.
     let paths = live_paths sn;
         attachment_nodes = hash_map (map (\<lambda>(r, v). (md_id (cr_metadata r), at_node_id v)) (segment_attachments sn));
         owners = route_owners attachments in
     bind_res (validate_direct_dialers (map snd paths) attachment_nodes
       (\<lambda>i. active_nodes sn i \<noteq> None)) (\<lambda>_.
     let participants = participating_attachments owners
           (filter (\<lambda>p. path_targets_route_owner p owners) (map snd paths));
         taking_part = filter (\<lambda>(_, p). path_connects_participants p participants) paths in
     bind_res (map_res (expand_path ext sn) taking_part) (\<lambda>expanded.
     bind_res (map_res (device_projection ext sn plan generation taking_part expanded participants d)
       (filter (\<lambda>(r, _). md_id (cr_metadata r) \<in> participants) (active_attachments sn))) (\<lambda>projections.
     bind_res (ok_or (graph_segment sn) (Bail ''control snapshot is missing its Segment resource'')) (\<lambda>segment.
     bind_res (map_err (\<lambda>_. Bail ''invalid canonical IPv4 prefix'')
       (route_prefix_new (network (sg_overlay_prefix segment)) (prefix_len (sg_overlay_prefix segment)))) (\<lambda>overlay.
     Inr \<lparr>rpi_publication_id = stable_uuid (sha256 ext) (sn_tenant_id sn) (sn_segment_id sn) (sn_desired_revision sn),
          rpi_audit_event_id = stable_uuid (sha256 ext) (sn_segment_id sn) (sn_tenant_id sn)
            (sn_desired_revision sn XOR 0xa5a5),
          rpi_actor_id = ''cloud-worker'', rpi_tenant_id = sn_tenant_id sn,
          rpi_segment_id = sn_segment_id sn, rpi_generation = generation,
          rpi_previous_hash = previous_hash, rpi_segment_overlay_prefix = overlay,
          rpi_attachments = map (revoke_outsiders participants) attachments, rpi_not_before = now,
          rpi_expires_at = now + ROUTE_PUBLICATION_VALIDITY_SECONDS,
          rpi_stale_until = now + ROUTE_PUBLICATION_STALE_SECONDS,
          rpi_projections = projections\<rparr>))))))))"

subsection \<open>Publishing a snapshot\<close>

fun sdwan_error_code :: "SdwanError \<Rightarrow> string" where
  "sdwan_error_code InvalidScope = ''ROUTE_DB_INVALID_SCOPE''"
| "sdwan_error_code ScopeMismatch = ''ROUTE_DB_SCOPE_MISMATCH''"
| "sdwan_error_code SdwanInvalidPrefix = ''ROUTE_DB_INVALID_PREFIX''"
| "sdwan_error_code OverlappingPrefix = ''ROUTE_DB_OVERLAPPING_PREFIX''"
| "sdwan_error_code DuplicateRouterAddress = ''ROUTE_DB_DUPLICATE_ROUTER_ADDRESS''"
| "sdwan_error_code PrincipalMismatch = ''ROUTE_DB_PRINCIPAL_MISMATCH''"
| "sdwan_error_code UnsignedObject = ''ROUTE_DB_UNSIGNED_OBJECT''"
| "sdwan_error_code GenerationGap = ''ROUTE_DB_GENERATION_GAP''"
| "sdwan_error_code MissingProjection = ''ROUTE_DB_MISSING_PROJECTION''"
| "sdwan_error_code DuplicateProjection = ''ROUTE_DB_DUPLICATE_PROJECTION''"
| "sdwan_error_code DivergentReplay = ''ROUTE_DB_DIVERGENT_REPLAY''"
| "sdwan_error_code InvalidContentHash = ''ROUTE_DB_INVALID_CONTENT_HASH''"
| "sdwan_error_code SegmentNotFound = ''ROUTE_DB_SEGMENT_NOT_FOUND''"
| "sdwan_error_code RolloutPending = ''ROUTE_DB_ROLLOUT_PENDING''"
| "sdwan_error_code Database = ''ROUTE_DB_DATABASE''"

definition classify_publish_error :: "SdwanError \<Rightarrow> PublicationFailure" where
  "classify_publish_error e =
     (if e = Database \<or> e = RolloutPending
      then PfRetryable (sdwan_error_code e) (5 * nanos_per_sec) else PfPermanent (sdwan_error_code e))"

fun readiness_code :: "InputReadinessError \<Rightarrow> string" where
  "readiness_code PathCandidates = ''ROUTE_INPUT_WAITING_FOR_PATHS''"
| "readiness_code TransportIdentity = ''ROUTE_INPUT_WAITING_FOR_TRANSPORT''"
| "readiness_code PeerPolicy = ''ROUTE_INPUT_WAITING_FOR_PEER_POLICY''"
| "readiness_code NodeIdentity = ''ROUTE_INPUT_WAITING_FOR_NODE''"

fun classify_input_error :: "InputError \<Rightarrow> PublicationFailure" where
  "classify_input_error (Readiness e) = PfRetryable (readiness_code e) (5 * nanos_per_sec)"
| "classify_input_error GeoBusy = PfRetryable ''ROUTE_INPUT_GEO_PROVIDER_BUSY'' (1 * nanos_per_sec)"
| "classify_input_error (RouteTables message e) =
     (if e = Database then PfRetryable (''ROUTE_INPUT_'' @ message) (5 * nanos_per_sec)
      else PfPermanent (''ROUTE_INPUT_'' @ message))"
| "classify_input_error (Http message) = PfRetryable (''ROUTE_INPUT_'' @ message) (5 * nanos_per_sec)"
| "classify_input_error (Io message) = PfRetryable (''ROUTE_INPUT_'' @ message) (5 * nanos_per_sec)"
| "classify_input_error (Bail message) = PfPermanent (''ROUTE_INPUT_'' @ message)"

fun object_type_number :: "ObjectType \<Rightarrow> nat" where
  "object_type_number ROUTE_ENVELOPE_V1 = 0x100"
| "object_type_number SEGMENT_SNAPSHOT_V1 = 0x101"
| "object_type_number SITE_PROJECTION_V1 = 0x102"
| "object_type_number SHARED_HUB_ADMISSION_V1 = 0x103"
| "object_type_number MESH_MEMBERSHIP_V1 = 0x104"
| "object_type_number DYNAMIC_ROUTE_SNAPSHOT_V1 = 0x105"
| "object_type_number FABRIC_ASSIGNMENT_V1 = 0x106"
| "object_type_number (OtherObject n) = unat n"

fun route_error_text :: "RoutePublicationError \<Rightarrow> string" where
  "route_error_text InvalidGeneration = ''publication generation is invalid''"
| "route_error_text InactiveOwner = ''a route owner is not ACTIVE''"
| "route_error_text OverlappingOwnership = ''route ownership overlaps across Sites''"
| "route_error_text IncompleteProjectionSet = ''every active DeviceAttachment requires exactly one projection''"
| "route_error_text ProjectionAttachmentMismatch = ''projection does not bind the selected DeviceAttachment''"
| "route_error_text UnroutablePeerPath = ''projection has a remote route owner without a peer path''"
| "route_error_text ExpansionScopeMismatch = ''expansion object does not bind the selected Segment publication''"
| "route_error_text MissingReverseRoute = ''every device projection requires a reverse route''"
| "route_error_text (CoreError message) = ''Core module route operation failed: '' @ message"
| "route_error_text (CorePrepareFailed ty message) = ''Core module route operation failed: object type '' @
     decimal (object_type_number ty) @ '' prepare failed: '' @ message"
| "route_error_text (CoreUnexpectedType actual expected) =
     ''Core module route operation failed: Core returned object type '' @
     decimal (object_type_number actual) @ '', expected '' @ decimal (object_type_number expected)"
| "route_error_text (RouteRepository _) = ''SD-WAN repository rejected the publication''"

record publisher_ext =
  pe_control :: control_ext
  pe_core :: core_ext
  pe_signer :: RouteSigner
  pe_collate :: "string \<Rightarrow> string"
  pe_policy_isolation :: bool

text \<open>
  The publication of a snapshot after the topology transaction: the answer for a snapshot that
  was published before, or build, sign and publish.
\<close>

definition publish_built ::
  "publisher_ext \<Rightarrow> geo_env \<Rightarrow> u64 \<Rightarrow> SegmentControlSnapshot \<Rightarrow> route_db \<Rightarrow>
     PublicationFailure + (PublishedGeneration \<times> route_db)" where
  "publish_built ext geo now sn d =
     bind_res (map_err classify_input_error (build_input (pe_control ext) geo now sn d)) (\<lambda>input.
     bind_res (map_err (\<lambda>e. PfPermanent (''ROUTE_BUILD_'' @ route_error_text e))
       (build_route_publication (pe_core ext) input (pe_signer ext))) (\<lambda>built.
     bind_res (map_err (\<lambda>e. PfPermanent (''ROUTE_DB_WRITE_'' @ route_error_text e)) (database_write built)) (\<lambda>w.
     bind_res (map_err classify_publish_error (publish (pe_policy_isolation ext) (sha256 (pe_control ext))
       (w\<lparr>sw_policy_only := sn_policy_only sn\<rparr>) d)) (\<lambda>(_, d').
     Inr (\<lparr>pgn_generation = ss_segment_generation (sealed_source (brp_segment built)),
           pgn_content_hash = sealed_content_hash (brp_segment built)\<rparr>, d')))))"

definition publish_snapshot ::
  "publisher_ext \<Rightarrow> geo_env \<Rightarrow> nat \<Rightarrow> uuid \<Rightarrow> u64 \<Rightarrow> SegmentControlSnapshot \<Rightarrow> route_db \<Rightarrow>
     (PublicationFailure + PublishedGeneration) \<times> route_db" where
  "publish_snapshot ext geo created new_pool now sn d =
     (case ensure_control_topology (pe_collate ext) created new_pool (sn_tenant_id sn) (sn_segment_id sn)
             (sn_resources sn) d of
        Inl e \<Rightarrow> (Inl (classify_publish_error e), d)
      | Inr d1 \<Rightarrow>
          (case published_generation (sn_tenant_id sn) (sn_segment_id sn)
                  (stable_uuid (sha256 (pe_control ext)) (sn_tenant_id sn) (sn_segment_id sn)
                     (sn_desired_revision sn)) d1 of
             Inl e \<Rightarrow> (Inl (classify_publish_error e), d1)
           | Inr (Some (generation, content_hash)) \<Rightarrow>
               (Inr \<lparr>pgn_generation = generation, pgn_content_hash = content_hash\<rparr>, d1)
           | Inr None \<Rightarrow>
               (case publish_built ext geo now sn d1 of
                  Inl f \<Rightarrow> (Inl f, d1)
                | Inr (published, d2) \<Rightarrow> (Inr published, d2))))"

end
