(* ===== verification/Sdwan_Chain.thy ===== *)
theory Sdwan_Chain
  imports Sdwan_Repository "HOL-Library.Sublist"
begin

section \<open>The publication history is a hash chain\<close>

text \<open>
  Every segment and every attachment has a log of generations. The contract of such a log is
  the locale \<open>generation_log\<close>: a step of the database leaves it alone or appends the next
  generation, which names the hash of the one before. It is interpreted for the segment
  publications and for the site projections of the repository; the properties are that the
  logs stay chains, that the stored heads are their ends, that history is never rewritten,
  that a replay changes nothing and that two publications cannot claim one generation.
\<close>

subsection \<open>Chains\<close>

type_synonym link = "u64 \<times> hash32 \<times> hash32"

fun chain :: "nat \<Rightarrow> hash32 \<Rightarrow> link list \<Rightarrow> bool" where
  "chain n h [] \<longleftrightarrow> True"
| "chain n h ((generation, previous, content) # rows) \<longleftrightarrow>
     unat generation = n + 1 \<and> previous = h \<and> content \<noteq> zero_hash \<and> chain (n + 1) content rows"

definition chain_end :: "link list \<Rightarrow> hash32" where
  "chain_end rows = (if rows = [] then zero_hash else snd (snd (last rows)))"

definition extends :: "link list \<Rightarrow> link \<Rightarrow> bool" where
  "extends rows = (\<lambda>(generation, previous, content).
     unat generation = length rows + 1 \<and> previous = chain_end rows \<and> content \<noteq> zero_hash)"

lemma chain_snoc:
  "chain n h (rows @ [(g, p, c)]) \<longleftrightarrow>
     chain n h rows \<and> unat g = n + length rows + 1 \<and>
     p = (if rows = [] then h else snd (snd (last rows))) \<and> c \<noteq> zero_hash"
  by (induction n h rows rule: chain.induct) auto

lemma chain_extend:
  "chain 0 zero_hash rows \<Longrightarrow> extends rows r \<Longrightarrow> chain 0 zero_hash (rows @ [r])"
  by (cases r) (auto simp: chain_snoc extends_def chain_end_def)

lemma chain_nth_generation:
  "chain n h rows \<Longrightarrow> i < length rows \<Longrightarrow> unat (fst (rows ! i)) = n + 1 + i"
proof (induction n h rows arbitrary: i rule: chain.induct)
  case (2 n h g p c rows)
  then show ?case by (cases i) auto
qed simp

locale generation_log =
  fixes rows :: "'db \<Rightarrow> 'k \<Rightarrow> link list"
    and inv :: "'db \<Rightarrow> bool"
    and step :: "'db \<Rightarrow> 'db \<Rightarrow> bool"
  assumes step_inv: "inv d \<Longrightarrow> step d d' \<Longrightarrow> inv d'"
    and step_rows: "inv d \<Longrightarrow> step d d' \<Longrightarrow>
          rows d' k = rows d k \<or> (\<exists>r. rows d' k = rows d k @ [r] \<and> extends (rows d k) r)"
begin

lemma reach_inv: "step\<^sup>*\<^sup>* d d' \<Longrightarrow> inv d \<Longrightarrow> inv d'"
  by (induction rule: rtranclp_induct) (auto intro: step_inv)

lemma reach_chain:
  assumes "step\<^sup>*\<^sup>* d d'" and "inv d" and "chain 0 zero_hash (rows d k)"
  shows "chain 0 zero_hash (rows d' k)"
  using assms(1)
proof (induction rule: rtranclp_induct)
  case (step d1 d2)
  with assms(2) have "inv d1" by (auto intro: reach_inv)
  from step_rows [OF this step(2), of k] step(3) show ?case
    by (auto intro: chain_extend)
qed (rule assms(3))

text \<open>History is append-only.\<close>

lemma reach_prefix:
  assumes "step\<^sup>*\<^sup>* d d'" and "inv d"
  shows "prefix (rows d k) (rows d' k)"
  using assms(1)
proof (induction rule: rtranclp_induct)
  case (step d1 d2)
  with assms(2) have "inv d1" by (auto intro: reach_inv)
  from step_rows [OF this step(2), of k] step(3) show ?case
    by (auto intro: prefix_order.trans)
qed simp

end

subsection \<open>What a successful publication writes\<close>

lemma fold_insert_row_ok:
  "fold_res (\<lambda>t x. insert_row c (f x) t) t xs = Inr t' \<Longrightarrow> t' = t @ map f xs"
proof (induction xs arbitrary: t)
  case (Cons x xs)
  from Cons.prems have "fold_res (\<lambda>t x. insert_row c (f x) t) (t @ [f x]) xs = Inr t'"
    by (auto simp: fold_res_Cons_ok insert_row_ok simp del: fold_res.simps)
  from Cons.IH [OF this] show ?case by simp
qed simp

definition member_row_of :: "uuid \<Rightarrow> nat \<times> SiteProjectionPublicationWrite \<Rightarrow> member_row" where
  "member_row_of publication = (\<lambda>(index, p).
     \<lparr>mbr_tenant_id = pw_tenant_id p, mbr_segment_publication_id = publication,
      mbr_projection_publication_id = pw_publication_id p,
      mbr_projection_id = pw_projection_id p, mbr_attachment_id = pw_attachment_id p,
      mbr_rollout_ordinal = of_nat (index + 1)\<rparr>)"

definition path_rows_of :: "SiteProjectionPublicationWrite list \<Rightarrow> path_row list" where
  "path_rows_of ps = concat (map (\<lambda>p. map (path_row_of p) (pw_runtime_paths p)) ps)"

lemma insert_projection_ok:
  assumes "insert_projection i p o1 d = Inr d'"
  shows "db_projections d' = db_projections d @ [projection_row_of i p]"
    and "db_members d' = db_members d @
      [\<lparr>mbr_tenant_id = pw_tenant_id p, mbr_segment_publication_id = i,
        mbr_projection_publication_id = pw_publication_id p,
        mbr_projection_id = pw_projection_id p, mbr_attachment_id = pw_attachment_id p,
        mbr_rollout_ordinal = o1\<rparr>]"
    and "db_paths d' = db_paths d @ map (path_row_of p) (pw_runtime_paths p)"
    and "pw_publication_id p \<notin> pjr_id ` set (db_projections d)"
    and "db_segments d' = db_segments d" "db_publications d' = db_publications d"
      "db_expansions d' = db_expansions d" "db_topology d' = db_topology d"
proof -
  from assms obtain ts ps where
    row: "\<forall>x \<in> set (db_projections d). \<not> projection_conflict (projection_row_of i p) x"
    and paths: "fold_res (\<lambda>t path. insert_row path_conflict (path_row_of p path) t)
       (db_paths d) (pw_runtime_paths p) = Inr ps"
    and d': "d' = d\<lparr>db_projections := db_projections d @ [projection_row_of i p],
      db_members := db_members d @
        [\<lparr>mbr_tenant_id = pw_tenant_id p, mbr_segment_publication_id = i,
          mbr_projection_publication_id = pw_publication_id p,
          mbr_projection_id = pw_projection_id p, mbr_attachment_id = pw_attachment_id p,
          mbr_rollout_ordinal = o1\<rparr>],
      db_transports := ts, db_paths := ps\<rparr>"
    by (auto simp: insert_projection_def insert_row_ok)
  show "db_paths d' = db_paths d @ map (path_row_of p) (pw_runtime_paths p)"
    using fold_insert_row_ok [OF paths] d' by simp
  show "pw_publication_id p \<notin> pjr_id ` set (db_projections d)"
    using row by (auto simp: projection_conflict_def projection_row_of_def)
qed (use assms in \<open>auto simp: insert_projection_def insert_row_ok\<close>)

lemma insert_projections_ok:
  assumes "fold_res (\<lambda>d (index, p).
      bind_res (ok_or (to_u32 (index + 1)) InvalidScope)
        (\<lambda>o1. insert_projection i p o1 d)) d (enumerate k ps) = Inr d'"
  shows "db_projections d' = db_projections d @ map (projection_row_of i) ps \<and>
    db_members d' = db_members d @ map (member_row_of i) (enumerate k ps) \<and>
    db_paths d' = db_paths d @ path_rows_of ps \<and>
    pw_publication_id ` set ps \<inter> pjr_id ` set (db_projections d) = {} \<and>
    db_segments d' = db_segments d \<and> db_publications d' = db_publications d \<and>
    db_expansions d' = db_expansions d \<and> db_topology d' = db_topology d"
  using assms
proof (induction ps arbitrary: k d)
  case Nil
  then show ?case by (simp add: path_rows_of_def)
next
  case (Cons p ps)
  then obtain o1 d1 where o1: "to_u32 (k + 1) = Some o1"
    and d1: "insert_projection i p o1 d = Inr d1"
    and rest: "fold_res (\<lambda>d (index, p).
      bind_res (ok_or (to_u32 (index + 1)) InvalidScope)
        (\<lambda>o1. insert_projection i p o1 d)) d1 (enumerate (Suc k) ps) = Inr d'"
    by (auto simp: fold_res_Cons_ok simp del: fold_res.simps)
  from o1 have "o1 = of_nat (k + 1)" by (auto simp: to_u32_def split: if_splits)
  with Cons.IH [OF rest] insert_projection_ok [OF d1] show ?case
    by (auto simp: member_row_of_def path_rows_of_def projection_row_of_def)
qed

lemma insert_expansions_ok:
  assumes "fold_res (\<lambda>d e. insert_expansion i e d) d es = Inr d'"
  shows "db_expansions d' = db_expansions d @ map (expansion_row_of i) es \<and>
    db_segments d' = db_segments d \<and> db_publications d' = db_publications d \<and>
    db_projections d' = db_projections d \<and> db_members d' = db_members d \<and>
    db_paths d' = db_paths d \<and> db_topology d' = db_topology d"
  using assms
proof (induction es arbitrary: d)
  case (Cons e es)
  then obtain d1 where d1: "insert_expansion i e d = Inr d1"
    and rest: "fold_res (\<lambda>d e. insert_expansion i e d) d1 es = Inr d'"
    by (auto simp: fold_res_Cons_ok simp del: fold_res.simps)
  with Cons.IH [OF rest] show ?case
    by (auto simp: insert_expansion_def insert_row_ok)
qed simp

text \<open>The tables a history is read from, after a publication.\<close>

definition advanced_segments :: "SegmentPublicationWrite \<Rightarrow> segment_row list \<Rightarrow> segment_row list" where
  "advanced_segments w = map (\<lambda>r. if head_matches w r
     then r\<lparr>sgr_current_generation := sw_generation w,
            sgr_current_content_hash := so_content_hash (sw_snapshot w)\<rparr> else r)"

lemma policy_only_gate_ok:
  assumes "policy_only_gate pol sha w g d = Inr d'"
  shows "db_segments d' = db_segments d" "db_publications d' = db_publications d"
    "db_projections d' = db_projections d" "db_members d' = db_members d"
    "db_paths d' = db_paths d" "db_expansions d' = db_expansions d" "db_topology d' = db_topology d"
  using assms by (auto simp: policy_only_gate_def split: if_splits)

lemma publish_rows_ok:
  assumes "publish_rows w d = Inr d'"
  shows "db_publications d' = db_publications d @ [publication_row_of w]"
    and "db_projections d' = db_projections d @
      map (projection_row_of (sw_publication_id w)) (sw_projections w)"
    and "db_members d' = db_members d @
      map (member_row_of (sw_publication_id w)) (enumerate 0 (sw_projections w))"
    and "db_paths d' = db_paths d @ path_rows_of (sw_projections w)"
    and "db_expansions d' = db_expansions d @
      map (expansion_row_of (sw_publication_id w)) (sw_expansions w)"
    and "db_segments d' = advanced_segments w (db_segments d)"
    and "pw_publication_id ` set (sw_projections w) \<inter> pjr_id ` set (db_projections d) = {}"
proof -
  from assms obtain as ps d1 d2 d3 where
    ps: "insert_row publication_conflict (publication_row_of w) (db_publications d) = Inr ps"
    and d1: "insert_projections (sw_publication_id w) (sw_projections w)
      (d\<lparr>db_audits := as, db_publications := ps\<rparr>) = Inr d1"
    and d2: "fold_res (\<lambda>d e. insert_expansion (sw_publication_id w) e d) d1 (sw_expansions w) = Inr d2"
    and d3: "insert_rollout w d2 = Inr d3" and d': "advance_head w d3 = Inr d'"
    unfolding publish_rows_def by (auto simp only: bind_res_ok)
  from d3 have d3: "db_segments d3 = db_segments d2" "db_publications d3 = db_publications d2"
    "db_projections d3 = db_projections d2" "db_members d3 = db_members d2"
    "db_paths d3 = db_paths d2" "db_expansions d3 = db_expansions d2"
    by (auto simp: insert_rollout_def insert_row_ok split: if_splits)
  from d' have d': "d' = d3\<lparr>db_segments := advanced_segments w (db_segments d3)\<rparr>"
    by (auto simp: advance_head_def advanced_segments_def split: if_splits)
  from ps have ps: "ps = db_publications d @ [publication_row_of w]"
    by (simp add: insert_row_ok)
  note facts = insert_projections_ok [OF d1 [unfolded insert_projections_def]]
    insert_expansions_ok [OF d2]
  show "db_publications d' = db_publications d @ [publication_row_of w]"
    and "db_projections d' = db_projections d @
      map (projection_row_of (sw_publication_id w)) (sw_projections w)"
    and "db_members d' = db_members d @
      map (member_row_of (sw_publication_id w)) (enumerate 0 (sw_projections w))"
    and "db_paths d' = db_paths d @ path_rows_of (sw_projections w)"
    and "db_expansions d' = db_expansions d @
      map (expansion_row_of (sw_publication_id w)) (sw_expansions w)"
    and "db_segments d' = advanced_segments w (db_segments d)"
    and "pw_publication_id ` set (sw_projections w) \<inter> pjr_id ` set (db_projections d) = {}"
    using facts by (simp_all add: d' d3 ps)
qed

lemma publish_publishedE:
  assumes "publish pol sha w d = Inr (Published, d')"
  obtains segment where
    "publication_validate w = Inr ()"
    "\<not> publication_exists (sw_publication_id w) d"
    "find_segment (sw_tenant_id w) (sw_segment_id w) d = Some segment"
    "head_matches w segment" "segment \<in> set (db_segments d)"
    "validate_projection_heads w d = Inr ()"
    "db_publications d' = db_publications d @ [publication_row_of w]"
    "db_projections d' = db_projections d @
      map (projection_row_of (sw_publication_id w)) (sw_projections w)"
    "db_members d' = db_members d @
      map (member_row_of (sw_publication_id w)) (enumerate 0 (sw_projections w))"
    "db_paths d' = db_paths d @ path_rows_of (sw_projections w)"
    "db_expansions d' = db_expansions d @
      map (expansion_row_of (sw_publication_id w)) (sw_expansions w)"
    "db_segments d' = advanced_segments w (db_segments d)"
    "pw_publication_id ` set (sw_projections w) \<inter> pjr_id ` set (db_projections d) = {}"
proof -
  from assms obtain segment d1 where
    v: "publication_validate w = Inr ()" "\<not> publication_exists (sw_publication_id w) d"
    and f: "find_segment (sw_tenant_id w) (sw_segment_id w) d = Some segment"
      "sgr_current_generation segment = sw_expected_previous_generation w"
      "sgr_current_content_hash segment = sw_expected_previous_hash w"
    and g: "policy_only_gate pol sha w (sgr_current_generation segment) d = Inr d1"
    and h: "validate_projection_heads w d1 = Inr ()" and p: "publish_rows w d1 = Inr d'"
    by (auto simp: publish_def split: if_splits)
  have s: "head_matches w segment" "segment \<in> set (db_segments d)"
    using f find_SomeD by (fastforce simp: find_segment_def head_matches_def)+
  have "validate_projection_heads w d = Inr ()"
    using h by (simp add: validate_projection_heads_def projection_rows_def
        policy_only_gate_ok [OF g])
  with that v f(1) s publish_rows_ok [OF p, unfolded policy_only_gate_ok [OF g]] show thesis
    by blast
qed

lemma publish_replayedE:
  assumes "publish pol sha w d = Inr (Replayed, d')"
  shows "publication_validate w = Inr ()" "publication_exists (sw_publication_id w) d"
    "publication_matches w d = Inr True" "d' = d"
  using assms by (auto simp: publish_def split: if_splits)


subsection \<open>The logs of the repository\<close>

definition segment_log :: "route_db \<Rightarrow> uuid \<times> uuid \<Rightarrow> link list" where
  "segment_log d = (\<lambda>(tenant, segment).
     map (\<lambda>r. (pbr_generation r, pbr_expected_previous_hash r, pbr_content_hash r))
       (filter (\<lambda>r. pbr_tenant_id r = tenant \<and> pbr_segment_id r = segment) (db_publications d)))"

definition link_of :: "projection_row \<Rightarrow> link" where
  "link_of r = (pjr_projection_generation r, pjr_previous_hash r, pjr_content_hash r)"

definition projection_log :: "route_db \<Rightarrow> uuid \<times> uuid \<times> uuid \<Rightarrow> link list" where
  "projection_log d = (\<lambda>(tenant, segment, attachment).
     map link_of (projection_rows tenant segment attachment d))"

definition head_at_end :: "route_db \<Rightarrow> segment_row \<Rightarrow> bool" where
  "head_at_end d r \<longleftrightarrow>
     unat (sgr_current_generation r) = length (segment_log d (sgr_tenant_id r, sgr_id r)) \<and>
     sgr_current_content_hash r = chain_end (segment_log d (sgr_tenant_id r, sgr_id r))"

definition db_inv :: "route_db \<Rightarrow> bool" where
  "db_inv d \<longleftrightarrow>
     distinct (map sgr_id (db_segments d)) \<and>
     (\<forall>r \<in> set (db_segments d). head_at_end d r) \<and>
     (\<forall>p \<in> set (db_publications d). \<exists>r \<in> set (db_segments d). sgr_id r = pbr_segment_id p) \<and>
     (\<forall>k. chain 0 zero_hash (segment_log d k)) \<and> (\<forall>k. chain 0 zero_hash (projection_log d k)) \<and>
     (\<forall>p \<in> set (db_publications d). length (pbr_content_hash p) = 32) \<and>
     (\<forall>p \<in> set (db_projections d). length (pjr_content_hash p) = 32)"

text \<open>Rust's \<open>[u8; 32]\<close>.\<close>

definition write_typed :: "SegmentPublicationWrite \<Rightarrow> bool" where
  "write_typed w \<longleftrightarrow> length (so_content_hash (sw_snapshot w)) = 32 \<and>
     list_all (\<lambda>p. length (so_content_hash (pw_object p)) = 32) (sw_projections w)"

text \<open>
  A step is a publication, the creation of a segment at generation 0 under a new id, or any
  change by the rest of the system, which leaves the heads and the published objects alone.
\<close>

inductive route_step :: "route_db \<Rightarrow> route_db \<Rightarrow> bool" where
  publication: "write_typed w \<Longrightarrow> publish pol sha w d = Inr (out, d') \<Longrightarrow> route_step d d'"
| new_segment: "sgr_id r \<notin> sgr_id ` set (db_segments d) \<Longrightarrow> sgr_current_generation r = 0 \<Longrightarrow>
    sgr_current_content_hash r = zero_hash \<Longrightarrow>
    route_step d (d\<lparr>db_segments := db_segments d @ [r]\<rparr>)"
| environment: "map (\<lambda>r. (sgr_id r, sgr_tenant_id r, sgr_current_generation r,
      sgr_current_content_hash r)) (db_segments d') =
    map (\<lambda>r. (sgr_id r, sgr_tenant_id r, sgr_current_generation r,
      sgr_current_content_hash r)) (db_segments d) \<Longrightarrow>
    db_publications d' = db_publications d \<Longrightarrow> db_projections d' = db_projections d \<Longrightarrow>
    db_members d' = db_members d \<Longrightarrow> db_paths d' = db_paths d \<Longrightarrow>
    db_expansions d' = db_expansions d \<Longrightarrow> route_step d d'"

inductive_cases route_stepE: "route_step d d'"

lemma segment_log_snoc:
  assumes "db_publications d' = db_publications d @ [publication_row_of w]"
  shows "segment_log d' k = segment_log d k @
    (if k = (sw_tenant_id w, sw_segment_id w)
     then [(sw_generation w, sw_expected_previous_hash w, so_content_hash (sw_snapshot w))] else [])"
  using assms by (cases k) (auto simp: segment_log_def publication_row_of_def)

lemma segment_log_extends:
  assumes "publish pol sha w d = Inr (Published, d')" and "db_inv d"
  shows "extends (segment_log d (sw_tenant_id w, sw_segment_id w))
    (sw_generation w, sw_expected_previous_hash w, so_content_hash (sw_snapshot w))"
proof -
  from assms(1) obtain r where v: "publication_validate w = Inr ()"
    and r: "head_matches w r" "r \<in> set (db_segments d)" by (rule publish_publishedE)
  from r assms(2) have "unat (sw_expected_previous_generation w) =
      length (segment_log d (sw_tenant_id w, sw_segment_id w))"
    and "sw_expected_previous_hash w = chain_end (segment_log d (sw_tenant_id w, sw_segment_id w))"
    by (auto simp: db_inv_def head_at_end_def head_matches_def)
  with publication_validate_facts(1,4) [OF v] show ?thesis
    by (auto simp: extends_def dest: checked_add_Some(1))
qed

lemma filter_unique_key:
  assumes "distinct (map f xs)"
  shows "filter (\<lambda>x. f x = a \<and> Q x) xs = [] \<or> (\<exists>x \<in> set xs. f x = a \<and> filter (\<lambda>x. f x = a \<and> Q x) xs = [x])"
  using assms by (induction xs) (auto simp: filter_empty_conv image_iff)

lemma chain_sorted_generations:
  assumes "chain 0 zero_hash (map link_of rows)"
  shows "sorted (map pjr_projection_generation rows)"
proof -
  have "unat (pjr_projection_generation (rows ! i)) = 1 + i" if "i < length rows" for i
    using chain_nth_generation [OF assms, of i] that by (simp add: link_of_def)
  then show ?thesis
    by (auto simp: sorted_iff_nth_mono word_le_nat_alt)
qed

lemma highest_row_sorted:
  "sorted (map pjr_projection_generation rows) \<Longrightarrow> rows \<noteq> [] \<Longrightarrow> highest_row rows = Some (last rows)"
  by (induction rows) auto

lemma projection_heads_extend:
  assumes "validate_projection_heads w d = Inr ()" and "p \<in> set (sw_projections w)"
    and "projection_fields_check w p = Inr ()" and "db_inv d"
  shows "extends (projection_log d (pw_tenant_id p, pw_segment_id p, pw_attachment_id p))
    (link_of (projection_row_of i p))"
proof -
  let ?rows = "projection_rows (pw_tenant_id p) (pw_segment_id p) (pw_attachment_id p) d"
  have chain: "chain 0 zero_hash (map link_of ?rows)"
    using assms(4) unfolding db_inv_def projection_log_def by (metis old.prod.case)
  have nz: "so_content_hash (pw_object p) \<noteq> zero_hash"
    using assms(3) by (auto simp: projection_fields_check_def signed_object_validate_def)
  show ?thesis
  proof (cases "?rows = []")
    case True
    with assms(1,2) nz show ?thesis
      by (auto simp: validate_projection_heads_def projection_log_def extends_def link_of_def
          chain_end_def projection_row_of_def)
  next
    case False
    then have high: "highest_row ?rows = Some (last ?rows)"
      by (intro highest_row_sorted chain_sorted_generations chain)
    from assms(1,2) have
      "checked_add (pjr_projection_generation (last ?rows)) 1 = Some (pw_projection_generation p)"
      "pw_previous_hash p = pjr_content_hash (last ?rows)"
      by (auto simp: validate_projection_heads_def high decode_hash_def dest!: bspec split: if_splits)
    moreover have "unat (pjr_projection_generation (last ?rows)) = length ?rows"
      using chain_nth_generation [OF chain, of "length ?rows - 1"] False
      by (simp add: last_conv_nth link_of_def)
    ultimately show ?thesis
      using False nz by (auto simp: projection_log_def extends_def link_of_def chain_end_def
          projection_row_of_def last_map dest: checked_add_Some(1))
  qed
qed

lemma projection_log_publish:
  assumes pub: "publish pol sha w d = Inr (Published, d')" and "db_inv d"
  shows "projection_log d' k = projection_log d k \<or>
    (\<exists>r. projection_log d' k = projection_log d k @ [r] \<and> extends (projection_log d k) r)"
proof -
  obtain t s a where k: "k = (t, s, a)" by (cases k)
  from pub have v: "publication_validate w = Inr ()" and h: "validate_projection_heads w d = Inr ()"
    and pr: "db_projections d' = db_projections d @
      map (projection_row_of (sw_publication_id w)) (sw_projections w)"
    by (rule publish_publishedE, blast)+
  let ?new = "filter (\<lambda>p. pw_attachment_id p = a \<and> pw_tenant_id p = t \<and> pw_segment_id p = s)
    (sw_projections w)"
  have log: "projection_log d' k = projection_log d k @
      map (link_of \<circ> projection_row_of (sw_publication_id w)) ?new"
    by (simp add: projection_log_def projection_rows_def k pr filter_map comp_def
        projection_row_of_def conj_commute conj_left_commute)
  from filter_unique_key [OF publication_validate_facts(8) [OF v], of a
      "\<lambda>p. pw_tenant_id p = t \<and> pw_segment_id p = s"]
  show ?thesis
  proof
    assume "\<exists>p \<in> set (sw_projections w). pw_attachment_id p = a \<and> ?new = [p]"
    then obtain p where p: "p \<in> set (sw_projections w)" "?new = [p]" by blast
    then have "p \<in> set ?new" by simp
    then have "k = (pw_tenant_id p, pw_segment_id p, pw_attachment_id p)" by (simp add: k)
    with projection_heads_extend [OF h p(1) publication_validate_facts(5) [OF v p(1)] assms(2)]
    show ?thesis using log p(2) by auto
  qed (simp add: log)
qed


subsection \<open>Every step keeps the invariant\<close>

lemma advanced_segments_ids [simp]: "map sgr_id (advanced_segments w rs) = map sgr_id rs"
  by (simp add: advanced_segments_def)

lemma heads_after_publication:
  assumes pub: "publish pol sha w d = Inr (Published, d')" and inv: "db_inv d"
  shows "\<forall>r \<in> set (db_segments d'). head_at_end d' r"
proof
  fix r'
  assume "r' \<in> set (db_segments d')"
  from pub obtain r0 where v: "publication_validate w = Inr ()"
    and r0: "head_matches w r0" "r0 \<in> set (db_segments d)"
    and pb: "db_publications d' = db_publications d @ [publication_row_of w]"
    and sg: "db_segments d' = advanced_segments w (db_segments d)"
    by (rule publish_publishedE)
  note ext = segment_log_extends [OF pub inv]
  from \<open>r' \<in> _\<close> sg obtain r where r: "r \<in> set (db_segments d)"
    "r' = (if head_matches w r then r\<lparr>sgr_current_generation := sw_generation w,
       sgr_current_content_hash := so_content_hash (sw_snapshot w)\<rparr> else r)"
    by (auto simp: advanced_segments_def)
  show "head_at_end d' r'"
  proof (cases "sgr_id r = sw_segment_id w")
    case True
    have "distinct (map sgr_id (db_segments d))" using inv by (simp add: db_inv_def)
    then have "r = r0"
      using True r(1) r0 by (auto simp: head_matches_def distinct_map inj_on_def)
    with r r0(1) ext show ?thesis
      by (auto simp: head_at_end_def segment_log_snoc [OF pb] head_matches_def extends_def
          chain_end_def)
  next
    case False
    with r have "r' = r" by (simp add: head_matches_def)
    with r(1) inv False show ?thesis
      by (auto simp: db_inv_def head_at_end_def segment_log_snoc [OF pb])
  qed
qed

lemma db_inv_publication:
  assumes pub: "publish pol sha w d = Inr (out, d')" and "write_typed w" and inv: "db_inv d"
  shows "db_inv d'"
proof (cases out)
  case Replayed
  with pub inv show ?thesis by (auto dest: publish_replayedE(4))
next
  case Published
  with pub have pub: "publish pol sha w d = Inr (Published, d')" by simp
  from pub obtain r0 where v: "publication_validate w = Inr ()"
    and r0: "head_matches w r0" "r0 \<in> set (db_segments d)"
    and pb: "db_publications d' = db_publications d @ [publication_row_of w]"
    and pj: "db_projections d' = db_projections d @
      map (projection_row_of (sw_publication_id w)) (sw_projections w)"
    and sg: "db_segments d' = advanced_segments w (db_segments d)"
    by (rule publish_publishedE)
  have ids: "sgr_id ` set (db_segments d') = sgr_id ` set (db_segments d)"
    unfolding sg by (metis advanced_segments_ids image_set)
  have "\<forall>k. chain 0 zero_hash (segment_log d' k)"
    using inv segment_log_extends [OF pub inv]
    by (auto simp: segment_log_snoc [OF pb] db_inv_def intro: chain_extend)
  moreover have "\<forall>k. chain 0 zero_hash (projection_log d' k)"
    using inv projection_log_publish [OF pub inv] by (metis chain_extend db_inv_def)
  moreover have "\<forall>p \<in> set (db_publications d'). \<exists>r \<in> set (db_segments d'). sgr_id r = pbr_segment_id p"
  proof
    fix p
    assume "p \<in> set (db_publications d')"
    then have "pbr_segment_id p \<in> sgr_id ` set (db_segments d)"
      using inv r0 by (auto simp: pb db_inv_def publication_row_of_def head_matches_def)
        (metis image_eqI)+
    then show "\<exists>r \<in> set (db_segments d'). sgr_id r = pbr_segment_id p"
      using ids by (metis imageE)
  qed
  ultimately show ?thesis
    using inv heads_after_publication [OF pub inv] assms(2)
    by (auto simp: db_inv_def sg pb pj write_typed_def list_all_iff publication_row_of_def
        projection_row_of_def)
qed

lemma log_cong:
  "db_publications d' = db_publications d \<Longrightarrow> segment_log d' = segment_log d"
  "db_projections d' = db_projections d \<Longrightarrow> projection_log d' = projection_log d"
  by (auto simp: segment_log_def projection_log_def projection_rows_def)

lemma db_inv_new_segment:
  assumes "sgr_id r \<notin> sgr_id ` set (db_segments d)" and "sgr_current_generation r = 0"
    and "sgr_current_content_hash r = zero_hash" and inv: "db_inv d"
  shows "db_inv (d\<lparr>db_segments := db_segments d @ [r]\<rparr>)"
proof -
  have "segment_log d (sgr_tenant_id r, sgr_id r) = []"
    using assms(1) inv by (auto simp: segment_log_def filter_empty_conv db_inv_def) (metis image_eqI)
  then have "head_at_end d r" using assms(2,3) by (simp add: head_at_end_def chain_end_def)
  moreover have "head_at_end (d\<lparr>db_segments := db_segments d @ [r]\<rparr>) = head_at_end d"
    by (simp add: head_at_end_def fun_eq_iff log_cong [of "d\<lparr>db_segments := _\<rparr>" d])
  ultimately show ?thesis
    using assms(1) inv
    by (auto simp: db_inv_def log_cong [of "d\<lparr>db_segments := _\<rparr>" d])
qed

lemma db_inv_environment:
  assumes same: "map (\<lambda>r. (sgr_id r, sgr_tenant_id r, sgr_current_generation r,
      sgr_current_content_hash r)) (db_segments d') =
    map (\<lambda>r. (sgr_id r, sgr_tenant_id r, sgr_current_generation r,
      sgr_current_content_hash r)) (db_segments d)"
    and pb: "db_publications d' = db_publications d" and pj: "db_projections d' = db_projections d"
    and inv: "db_inv d"
  shows "db_inv d'"
proof -
  note logs = log_cong(1) [OF pb] log_cong(2) [OF pj]
  let ?f = "\<lambda>r :: segment_row. (sgr_id r, sgr_tenant_id r, sgr_current_generation r,
      sgr_current_content_hash r)"
  have ids: "map sgr_id (db_segments d') = map sgr_id (db_segments d)"
    using arg_cong [OF same, of "map fst"] by (simp add: comp_def)
  have "head_at_end d' r" if r: "r \<in> set (db_segments d')" for r
  proof -
    from r have "?f r \<in> set (map ?f (db_segments d'))" by auto
    then obtain q where "q \<in> set (db_segments d)" "?f r = ?f q"
      unfolding same by auto
    with inv show ?thesis by (auto simp: db_inv_def head_at_end_def logs)
  qed
  moreover have "sgr_id ` set (db_segments d') = sgr_id ` set (db_segments d)"
    using ids by (metis image_set)
  ultimately show ?thesis
    using inv by (auto simp: db_inv_def logs pb pj ids) (metis imageE image_eqI)
qed

lemma db_inv_step: "db_inv d \<Longrightarrow> route_step d d' \<Longrightarrow> db_inv d'"
  by (erule route_stepE) (auto intro: db_inv_publication db_inv_new_segment db_inv_environment)

interpretation segments: generation_log segment_log db_inv route_step
proof (unfold_locales, rule db_inv_step)
  fix d d' k
  assume inv: "db_inv d" and step: "route_step d d'"
  from step show "segment_log d' k = segment_log d k \<or>
      (\<exists>r. segment_log d' k = segment_log d k @ [r] \<and> extends (segment_log d k) r)"
  proof (cases rule: route_step.cases)
    case (publication w pol sha out)
    show ?thesis
    proof (cases out)
      case Published
      with publication have pub: "publish pol sha w d = Inr (Published, d')" by simp
      then have "db_publications d' = db_publications d @ [publication_row_of w]"
        by (rule publish_publishedE)
      from segment_log_snoc [OF this, of k] segment_log_extends [OF pub inv]
      show ?thesis by auto
    qed (use publication in \<open>auto dest: publish_replayedE(4)\<close>)
  next
    case (new_segment r)
    then have same: "db_publications d' = db_publications d" "db_projections d' = db_projections d"
      by simp_all
    show ?thesis using log_cong(1) [OF same(1)] by simp
  next
    case environment
    show ?thesis using log_cong(1) [OF environment(2)] by simp
  qed
qed

interpretation projections: generation_log projection_log db_inv route_step
proof (unfold_locales, rule db_inv_step)
  fix d d' k
  assume inv: "db_inv d" and step: "route_step d d'"
  from step show "projection_log d' k = projection_log d k \<or>
      (\<exists>r. projection_log d' k = projection_log d k @ [r] \<and> extends (projection_log d k) r)"
  proof (cases rule: route_step.cases)
    case (publication w pol sha out)
    show ?thesis
    proof (cases out)
      case Published
      with publication projection_log_publish inv show ?thesis by blast
    qed (use publication in \<open>auto dest: publish_replayedE(4)\<close>)
  next
    case (new_segment r)
    then have same: "db_publications d' = db_publications d" "db_projections d' = db_projections d"
      by simp_all
    show ?thesis using log_cong(2) [OF same(2)] by simp
  next
    case environment
    show ?thesis using log_cong(2) [OF environment(3)] by simp
  qed
qed


subsection \<open>References between the tables\<close>

definition refs_ok :: "route_db \<Rightarrow> bool" where
  "refs_ok d \<longleftrightarrow>
     mbr_segment_publication_id ` set (db_members d) \<subseteq> pbr_id ` set (db_publications d) \<and>
     exr_segment_publication_id ` set (db_expansions d) \<subseteq> pbr_id ` set (db_publications d) \<and>
     pcr_projection_publication_id ` set (db_paths d) \<subseteq> pjr_id ` set (db_projections d) \<and>
     distinct (map pjr_id (db_projections d))"

lemma map_pjr_id_rows: "map pjr_id (map (projection_row_of i) ps) = map pw_publication_id ps"
  by (simp add: projection_row_of_def)

lemma refs_ok_publication:
  assumes "publish pol sha w d = Inr (out, d')" and "refs_ok d"
  shows "refs_ok d'"
proof (cases out)
  case Replayed
  with assms show ?thesis by (auto dest: publish_replayedE(4))
next
  case Published
  with assms(1) have pub: "publish pol sha w d = Inr (Published, d')" by simp
  then have v: "publication_validate w = Inr ()"
    and t: "db_publications d' = db_publications d @ [publication_row_of w]"
      "db_projections d' = db_projections d @
        map (projection_row_of (sw_publication_id w)) (sw_projections w)"
      "db_members d' = db_members d @
        map (member_row_of (sw_publication_id w)) (enumerate 0 (sw_projections w))"
      "db_paths d' = db_paths d @ path_rows_of (sw_projections w)"
      "db_expansions d' = db_expansions d @
        map (expansion_row_of (sw_publication_id w)) (sw_expansions w)"
    and fresh: "pw_publication_id ` set (sw_projections w) \<inter> pjr_id ` set (db_projections d) = {}"
    by (rule publish_publishedE, blast)+
  have "distinct (map pjr_id (db_projections d'))"
    using assms(2) publication_validate_facts(7) [OF v] fresh
    by (auto simp: t(2) refs_ok_def map_pjr_id_rows simp del: map_map)
  moreover have "mbr_segment_publication_id ` set (db_members d') \<subseteq> pbr_id ` set (db_publications d')"
    using assms(2) by (auto simp: refs_ok_def t publication_row_of_def member_row_of_def)
  moreover have "exr_segment_publication_id ` set (db_expansions d') \<subseteq>
      pbr_id ` set (db_publications d')"
    using assms(2) by (auto simp: refs_ok_def t publication_row_of_def expansion_row_of_def)
  moreover have "pcr_projection_publication_id ` set (db_paths d') \<subseteq> pjr_id ` set (db_projections d')"
  proof -
    have "pcr_projection_publication_id ` set (path_rows_of (sw_projections w)) \<subseteq>
        pw_publication_id ` set (sw_projections w)"
      by (auto simp: path_rows_of_def path_row_of_def)
    moreover have "pjr_id ` set (db_projections d') =
        pjr_id ` set (db_projections d) \<union> pw_publication_id ` set (sw_projections w)"
      by (simp add: t(2) image_Un image_image projection_row_of_def)
    ultimately show ?thesis using assms(2) by (auto simp: refs_ok_def t(4))
  qed
  ultimately show ?thesis by (simp add: refs_ok_def)
qed

lemma refs_ok_step: "refs_ok d \<Longrightarrow> route_step d d' \<Longrightarrow> refs_ok d'"
  by (erule route_stepE) (erule refs_ok_publication, assumption, simp_all add: refs_ok_def)

lemma find_snoc_fresh: "\<forall>x \<in> set xs. \<not> P x \<Longrightarrow> P y \<Longrightarrow> find P (xs @ [y]) = Some y"
  by (induction xs) auto

lemma sort_key_map: "sort_key k (map f xs) = map f (sort_key (k \<circ> f) xs)"
proof -
  have "insort_key k (f x) (map f ys) = map f (insort_key (k \<circ> f) x ys)" for x ys
    by (induction ys) auto
  then show ?thesis by (induction xs) auto
qed

lemma matches_sorted_map:
  assumes "\<And>x. x \<in> set xs \<Longrightarrow> ok (f x) x" and "ka \<circ> f = kb"
  shows "matches_sorted ok ka kb (map f xs) xs"
proof -
  have "list_all (\<lambda>(x, y). ok x y) (zip (map f ys) ys)" if "set ys \<subseteq> set xs" for ys
    using that assms(1) by (induction ys) auto
  then show ?thesis by (simp add: matches_sorted_def sort_key_map assms(2))
qed

lemma path_row_of_fields [simp]:
  "pcr_tenant_id (path_row_of p x) = pw_tenant_id p"
  "pcr_projection_publication_id (path_row_of p x) = pw_publication_id p"
  by (simp_all add: path_row_of_def)

lemma path_rows_of_simps [simp]:
  "path_rows_of [] = []"
  "path_rows_of (p # ps) = map (path_row_of p) (pw_runtime_paths p) @ path_rows_of ps"
  by (simp_all add: path_rows_of_def)

lemma stored_paths_other:
  "pw_publication_id p \<notin> pw_publication_id ` set ps \<Longrightarrow>
     filter (\<lambda>r. pcr_tenant_id r = pw_tenant_id p \<and>
       pcr_projection_publication_id r = pw_publication_id p) (path_rows_of ps) = []"
  by (induction ps) (auto simp: filter_empty_conv)

lemma stored_paths_fresh:
  assumes "distinct (map pw_publication_id ps)" and "p \<in> set ps"
  shows "filter (\<lambda>r. pcr_tenant_id r = pw_tenant_id p \<and>
      pcr_projection_publication_id r = pw_publication_id p) (path_rows_of ps) =
    map (path_row_of p) (pw_runtime_paths p)"
  using assms
proof (induction ps)
  case (Cons q ps)
  show ?case
  proof (cases "p = q")
    case True
    with Cons.prems show ?thesis by (simp add: stored_paths_other)
  next
    case False
    with Cons.prems have "pw_publication_id q \<noteq> pw_publication_id p" by (auto simp: image_iff)
    with Cons False show ?thesis by simp
  qed
qed simp

lemma filter_id_unique:
  assumes "distinct (map f xs)" and "x \<in> set xs"
  shows "filter (\<lambda>y. f x = f y) xs = [x]"
  using assms by (induction xs) (auto simp: filter_empty_conv image_iff)

lemma member_projections_fresh:
  assumes "distinct (map pjr_id (db_projections d))"
    and "\<forall>m \<in> set ms. mbr_segment_publication_id m \<noteq> i"
    and "db_members d = ms @ map (member_row_of i) (enumerate k ps)"
    and "set (map (projection_row_of i) ps) \<subseteq> set (db_projections d)"
  shows "member_projections i d = map (projection_row_of i) ps"
proof -
  have "concat (map (\<lambda>m. if mbr_segment_publication_id m = i
      then concat (map (\<lambda>p. if mbr_projection_publication_id m = pjr_id p then [p] else [])
        (db_projections d)) else []) (map (member_row_of i) (enumerate k ps))) =
      map (projection_row_of i) ps"
    using assms(4)
  proof (induction ps arbitrary: k)
    case (Cons p ps)
    have "concat (map (\<lambda>q. if pw_publication_id p = pjr_id q then [q] else []) xs) =
        filter (\<lambda>q. pjr_id (projection_row_of i p) = pjr_id q) xs" for xs
      by (induction xs) (auto simp: projection_row_of_def)
    from this [of "db_projections d"] filter_id_unique [OF assms(1), of "projection_row_of i p"]
      Cons.prems
    have "concat (map (\<lambda>q. if pw_publication_id p = pjr_id q then [q] else []) (db_projections d)) =
        [projection_row_of i p]" by simp
    with Cons show ?case by (simp add: member_row_of_def)
  qed simp
  moreover have "concat (map (\<lambda>m. if mbr_segment_publication_id m = i
      then concat (map (\<lambda>p. if mbr_projection_publication_id m = pjr_id p then [p] else [])
        (db_projections d)) else []) ms) = []"
    using assms(2) by simp
  ultimately show ?thesis
    unfolding member_projections_def assms(3) by (simp del: map_map)
qed

lemma replay_matches:
  assumes pub: "publish pol sha w d = Inr (Published, d')" and refs: "refs_ok d"
  shows "publication_matches w d' = Inr True"
proof -
  let ?i = "sw_publication_id w" and ?ps = "sw_projections w"
  from pub have v: "publication_validate w = Inr ()"
    and new: "\<not> publication_exists ?i d"
    and t: "db_publications d' = db_publications d @ [publication_row_of w]"
      "db_projections d' = db_projections d @ map (projection_row_of ?i) ?ps"
      "db_members d' = db_members d @ map (member_row_of ?i) (enumerate 0 ?ps)"
      "db_paths d' = db_paths d @ path_rows_of ?ps"
      "db_expansions d' = db_expansions d @ map (expansion_row_of ?i) (sw_expansions w)"
    and fresh: "pw_publication_id ` set ?ps \<inter> pjr_id ` set (db_projections d) = {}"
    by (rule publish_publishedE, blast)+
  from new have new: "?i \<notin> pbr_id ` set (db_publications d)"
    by (auto simp: publication_exists_def list_ex_iff)
  have row: "find (\<lambda>r. pbr_id r = ?i) (db_publications d') = Some (publication_row_of w)"
    unfolding t(1) using new by (intro find_snoc_fresh) (auto simp: publication_row_of_def image_iff)
  have members: "member_projections ?i d' = map (projection_row_of ?i) ?ps"
  proof (rule member_projections_fresh)
    show "distinct (map pjr_id (db_projections d'))"
      using refs_ok_publication [OF pub refs] by (simp add: refs_ok_def)
    show "\<forall>m \<in> set (db_members d). mbr_segment_publication_id m \<noteq> ?i"
      using refs new unfolding refs_ok_def by (metis image_eqI subsetD)
  qed (auto simp: t)
  have paths: "stored_paths p d' = map (path_row_of p) (pw_runtime_paths p)" if p: "p \<in> set ?ps" for p
  proof -
    have "filter (\<lambda>r. pcr_tenant_id r = pw_tenant_id p \<and>
        pcr_projection_publication_id r = pw_publication_id p) (db_paths d) = []"
      using refs fresh p unfolding refs_ok_def filter_empty_conv
      by (metis (no_types, lifting) disjoint_iff image_eqI subsetD)
    with stored_paths_fresh [OF publication_validate_facts(7) [OF v] p] show ?thesis
      by (simp add: stored_paths_def t(4))
  qed
  have exps: "filter (\<lambda>r. exr_segment_publication_id r = ?i) (db_expansions d') =
      map (expansion_row_of ?i) (sw_expansions w)"
  proof -
    have "filter (\<lambda>r. exr_segment_publication_id r = ?i) (db_expansions d) = []"
      using refs new unfolding refs_ok_def filter_empty_conv by (metis image_eqI subsetD)
    then show ?thesis by (simp add: t(5) expansion_row_of_def comp_def)
  qed
  have "matches_sorted (\<lambda>r p. projection_matches r p \<and>
      matches_sorted (path_matches p) pcr_candidate_id rpw_candidate_id (stored_paths p d')
        (pw_runtime_paths p)) pjr_id pw_publication_id (member_projections ?i d') ?ps"
    unfolding members
    by (rule matches_sorted_map)
      (auto simp: projection_matches_def projection_row_of_def paths path_matches_def
        path_row_of_def fun_eq_iff intro!: matches_sorted_map)
  moreover have "matches_sorted expansion_matches exr_id ew_publication_id
      (filter (\<lambda>r. exr_segment_publication_id r = ?i) (db_expansions d')) (sw_expansions w)"
    unfolding exps by (rule matches_sorted_map)
      (auto simp: expansion_matches_def expansion_row_of_def fun_eq_iff)
  moreover have "header_matches (publication_row_of w) w"
    by (simp add: header_matches_def publication_row_of_def)
  ultimately show ?thesis by (simp add: publication_matches_def row)
qed

subsection \<open>Reading the heads\<close>

lemma unat_eq_of_nat_D: "unat w = n \<Longrightarrow> w = of_nat n"
  by auto

lemma chain_link [simp]:
  "chain n h (link_of r # links) \<longleftrightarrow> unat (pjr_projection_generation r) = n + 1 \<and>
     pjr_previous_hash r = h \<and> pjr_content_hash r \<noteq> zero_hash \<and>
     chain (n + 1) (pjr_content_hash r) links"
  by (simp add: link_of_def)

lemma projection_head_loop_chain:
  assumes "chain n h (map link_of rows)" and "n + length rows < 2 ^ 64 - 1" and "length h = 32"
    and "n = 0 \<Longrightarrow> h = zero_hash"
    and "\<forall>r \<in> set rows. length (pjr_content_hash r) = 32"
  shows "projection_head_loop (of_nat (n + 1)) h head rows =
    Inr (if rows = [] then head
         else Some (of_nat (n + length rows), pjr_content_hash (last rows)))"
  using assms
proof (induction rows arbitrary: n h head)
  case (Cons r rows)
  let ?g = "pjr_projection_generation r"
  from Cons.prems have g: "unat ?g = n + 1" "pjr_previous_hash r = h"
      "pjr_content_hash r \<noteq> zero_hash" "chain (n + 1) (pjr_content_hash r) (map link_of rows)"
      "length (pjr_content_hash r) = 32"
    by auto
  have eq: "?g = of_nat (n + 1)" using g(1) by (metis unat_eq_of_nat_D)
  have one: "?g = 1 \<longleftrightarrow> n = 0" using g(1) by (auto simp: word_unat_eq_iff)
  have gt: "1 < ?g \<longleftrightarrow> n \<noteq> 0" using g(1) by (auto simp: word_less_nat_alt)
  have "checked_add ?g 1 = Some (of_nat (n + 1 + 1))"
    using Cons.prems(2) g(1) eq by (simp add: checked_add_def)
  moreover have "projection_head_loop (of_nat (n + 1 + 1)) (pjr_content_hash r)
      (Some (?g, pjr_content_hash r)) rows =
      Inr (if rows = [] then Some (?g, pjr_content_hash r)
           else Some (of_nat (n + 1 + length rows), pjr_content_hash (last rows)))"
    using Cons.prems g by (intro Cons.IH) auto
  moreover have "projection_head_loop ?g h head (r # rows) =
      projection_head_loop next (pjr_content_hash r) (Some (?g, pjr_content_hash r)) rows"
    if "checked_add ?g 1 = Some next" for "next"
    using that Cons.prems(3,4) g one gt by (auto simp: decode_hash_def Let_def)
  ultimately show ?case
    by (simp only: eq [symmetric] list.simps last.simps length_Cons add_Suc_right if_False
        if_True add_Suc add_0_right Suc_eq_plus1 split: if_split) (simp add: eq)
qed simp

text \<open>Without overlaps in the list, two prefixes that overlap are the same entry.\<close>

lemma has_overlap_common:
  assumes "\<not> has_overlap (map f xs)" and "list_all (\<lambda>x. db_prefix_ok (f x)) xs"
    and "x \<in> set xs" "y \<in> set xs" and "db_prefix_overlaps (f x) (f y)"
  shows "x = y"
  using assms
proof (induction xs)
  case (Cons z zs)
  have "db_prefix_overlaps (f y) (f x)"
    using Cons.prems by (auto simp: list_all_iff db_prefix.overlaps_sym)
  with Cons show ?case by (auto simp: list_ex_iff)
qed simp

subsection \<open>Properties\<close>

definition empty_db :: "topology_tables \<Rightarrow> route_db" where
  "empty_db t = \<lparr>db_segments = [], db_publications = [], db_projections = [], db_members = [],
     db_transports = [], db_paths = [], db_expansions = [], db_rollouts = [], db_audits = [],
     db_topology = t\<rparr>"

lemma empty_db_inv: "db_inv (empty_db t)" "refs_ok (empty_db t)"
  by (auto simp: db_inv_def refs_ok_def empty_db_def segment_log_def projection_log_def
      projection_rows_def)

lemma reachable_inv:
  assumes "route_step\<^sup>*\<^sup>* (empty_db t) d"
  shows "db_inv d" and "refs_ok d"
proof -
  show "db_inv d" using segments.reach_inv [OF assms] empty_db_inv by blast
  from assms show "refs_ok d"
    by (induction rule: rtranclp_induct) (auto intro: refs_ok_step empty_db_inv)
qed

text \<open>The head of an active segment in a reachable database.\<close>

lemma head_of_reachable:
  assumes "route_step\<^sup>*\<^sup>* (empty_db t) d" and "find_segment tenant segment d = Some r"
  shows "chain 0 zero_hash (segment_log d (tenant, segment)) \<and>
    current_head tenant segment d =
      Inr (of_nat (length (segment_log d (tenant, segment))),
           chain_end (segment_log d (tenant, segment)))"
proof -
  note inv = reachable_inv(1) [OF assms(1)]
  let ?log = "segment_log d (tenant, segment)"
  have r: "r \<in> set (db_segments d)" "sgr_tenant_id r = tenant" "sgr_id r = segment"
    using find_SomeD [OF assms(2) [unfolded find_segment_def]] by auto
  then have head: "unat (sgr_current_generation r) = length ?log"
      "sgr_current_content_hash r = chain_end ?log" and chain: "chain 0 zero_hash ?log"
    using inv by (auto simp: db_inv_def head_at_end_def)
  have "chain_end ?log = zero_hash \<longleftrightarrow> ?log = []"
  proof (cases ?log rule: rev_cases)
    case (snoc xs x)
    with chain show ?thesis by (cases x) (auto simp: chain_end_def chain_snoc)
  qed (simp add: chain_end_def)
  moreover have "length (chain_end ?log) = 32"
  proof -
    have "\<forall>x \<in> set ?log. length (snd (snd x)) = 32"
      using inv by (auto simp: db_inv_def segment_log_def)
    then show ?thesis by (auto simp: chain_end_def)
  qed
  moreover have "sgr_current_generation r = of_nat (length ?log)"
    by (rule unat_eq_of_nat_D [OF head(1)])
  moreover have "sgr_current_generation r = 0 \<longleftrightarrow> ?log = []"
    using head(1) by (metis length_0_conv unat_eq_zero)
  ultimately show ?thesis
    using assms(2) chain head(2)
    by (auto simp: current_head_def decode_hash_def Let_def word_gt_0)
qed

text \<open>
  C3: in every database reached from an empty one, the publications of a segment form a hash
  chain 1, 2, 3, ..., and the head \<open>current_head\<close> reports for an active segment is the number
  of its publications with the content hash of the last; the query never finds it corrupt.
\<close>

theorem reachable_head_consistent:
  assumes "route_step\<^sup>*\<^sup>* (empty_db t) d" and "find_segment tenant segment d = Some r"
  shows "chain 0 zero_hash (segment_log d (tenant, segment)) \<and>
    current_head tenant segment d =
      Inr (of_nat (length (segment_log d (tenant, segment))),
           chain_end (segment_log d (tenant, segment)))"
  using assms by (rule head_of_reachable)

text \<open>
  C18: in every database reached from an empty one, \<open>projection_head\<close> of an attachment never
  reports corruption: it is the number of projections published for the attachment with the
  content hash of the last one, and nothing before the first (as long as the generation
  counter has room).
\<close>

theorem reachable_projection_head:
  assumes "route_step\<^sup>*\<^sup>* (empty_db t) d"
    and "length (projection_log d (tenant, segment, attachment)) < 2 ^ 64 - 1"
  shows "projection_head tenant segment attachment d =
    Inr (let log = projection_log d (tenant, segment, attachment) in
         if log = [] then None else Some (of_nat (length log), chain_end log))"
proof -
  note inv = reachable_inv(1) [OF assms(1)]
  let ?rows = "projection_rows tenant segment attachment d"
  have chain: "chain 0 zero_hash (map link_of ?rows)"
    using inv unfolding db_inv_def projection_log_def by (metis old.prod.case)
  have hashes: "\<forall>r \<in> set ?rows. length (pjr_content_hash r) = 32"
    using inv by (auto simp: db_inv_def projection_rows_def)
  have "sort_key pjr_projection_generation ?rows = ?rows"
    using chain_sorted_generations [OF chain] by (rule sort_key_id_if_sorted)
  with projection_head_loop_chain [OF chain, of None] assms(2) hashes show ?thesis
    by (auto simp: projection_head_def projection_log_def chain_end_def Let_def last_map link_of_def)
qed

text \<open>
  C17: history is append-only: whatever happens to a reachable database, the published
  generations of every segment and of every attachment stay where they are, with their hashes.
\<close>

theorem publication_history_append_only:
  assumes "route_step\<^sup>*\<^sup>* (empty_db t) d" and "route_step\<^sup>*\<^sup>* d d'"
  shows "prefix (segment_log d k) (segment_log d' k) \<and>
    prefix (projection_log d j) (projection_log d' j)"
  using segments.reach_prefix [OF assms(2) reachable_inv(1) [OF assms(1)]]
    projections.reach_prefix [OF assms(2) reachable_inv(1) [OF assms(1)]] by blast

text \<open>
  C16: a publication can be retried: after it succeeded, sending the same write again, under
  any isolation setting, is answered \<open>Replayed\<close> and leaves the database as it is.
\<close>

theorem publish_retry_is_replay:
  assumes "route_step\<^sup>*\<^sup>* (empty_db t) d" and "publish pol sha w d = Inr (Published, d')"
  shows "publish pol' sha' w d' = Inr (Replayed, d')"
proof -
  from assms(2) have "publication_validate w = Inr ()" and
    "db_publications d' = db_publications d @ [publication_row_of w]"
    by (rule publish_publishedE, blast)+
  moreover from this have "publication_exists (sw_publication_id w) d'"
    by (simp add: publication_exists_def publication_row_of_def)
  ultimately show ?thesis
    using replay_matches [OF assms(2) reachable_inv(2) [OF assms(1)]] by (simp add: publish_def)
qed

lemma published_segment_found:
  assumes "publish pol sha w d = Inr (Published, d')"
  shows "\<exists>q. find_segment (sw_tenant_id w) (sw_segment_id w) d' = Some q"
proof -
  from assms obtain r where f: "find_segment (sw_tenant_id w) (sw_segment_id w) d = Some r"
    and r: "head_matches w r" and sg: "db_segments d' = advanced_segments w (db_segments d)"
    by (rule publish_publishedE)
  let ?r = "r\<lparr>sgr_current_generation := sw_generation w,
    sgr_current_content_hash := so_content_hash (sw_snapshot w)\<rparr>"
  have "r \<in> set (db_segments d)" "sgr_active r"
    using find_SomeD [OF f [unfolded find_segment_def]] by auto
  with r have "?r \<in> set (db_segments d')"
    unfolding sg advanced_segments_def by (auto simp: image_iff)
  with \<open>sgr_active r\<close> r have "find_segment (sw_tenant_id w) (sw_segment_id w) d' \<noteq> None"
    unfolding find_segment_def find_None_iff head_matches_def by (auto intro!: exI [of _ ?r])
  then show ?thesis by blast
qed

text \<open>
  Two publications cannot claim the same generation of a segment: after one succeeded, a
  valid write with another publication id for the same generation of the same segment is
  refused with \<open>GenerationGap\<close>.
\<close>

theorem publish_generation_exclusive:
  assumes "route_step\<^sup>*\<^sup>* (empty_db t) d" and "publish pol sha w d = Inr (Published, d')"
    and "publication_validate v = Inr ()"
    and "sw_tenant_id v = sw_tenant_id w" and "sw_segment_id v = sw_segment_id w"
    and "sw_generation v = sw_generation w"
    and "\<not> publication_exists (sw_publication_id v) d'"
  shows "publish pol' sha' v d' = Inl GenerationGap"
proof -
  from assms(2) have pb: "db_publications d' = db_publications d @ [publication_row_of w]"
    by (rule publish_publishedE)
  obtain q where q: "find_segment (sw_tenant_id w) (sw_segment_id w) d' = Some q"
    using published_segment_found [OF assms(2)] by blast
  note inv = reachable_inv(1) [OF assms(1)]
  have "head_at_end d' q" "sgr_tenant_id q = sw_tenant_id w" "sgr_id q = sw_segment_id w"
    using heads_after_publication [OF assms(2) inv] find_SomeD [OF q [unfolded find_segment_def]]
    by auto
  then have "unat (sgr_current_generation q) = unat (sw_generation w)"
    using segment_log_extends [OF assms(2) inv]
    by (simp add: head_at_end_def segment_log_snoc [OF pb] extends_def)
  then have "sgr_current_generation q = sw_generation w" by (simp add: word_unat_eq_iff)
  moreover have "sw_expected_previous_generation v \<noteq> sw_generation w"
    using checked_add_succ_gt [OF publication_validate_facts(1) [OF assms(3)]] assms(6) by auto
  ultimately show ?thesis
    using assms(3-7) q by (simp add: publish_def)
qed


text \<open>
  An accepted topology has pairwise disjoint site prefixes (so an address belongs to at
  most one of them), pairwise different attachments and router addresses, and every device
  attachment announces only prefixes of its own site.
\<close>

theorem topology_validate_guarantees:
  assumes "topology_validate t = Inr ()"
    and "list_all (\<lambda>sp. db_prefix_ok (spw_prefix sp)) (tw_site_prefixes t)"
  shows "distinct (map saw_id (tw_attachments t)) \<and>
    distinct (map saw_overlay_router_ipv4 (tw_attachments t)) \<and>
    (\<forall>p \<in> set (tw_site_prefixes t). \<forall>q \<in> set (tw_site_prefixes t). \<forall>a.
       prefix_covers (db_network (spw_prefix p)) (db_prefix_len (spw_prefix p)) a \<longrightarrow>
       prefix_covers (db_network (spw_prefix q)) (db_prefix_len (spw_prefix q)) a \<longrightarrow> p = q) \<and>
    (\<forall>at \<in> set (tw_attachments t). \<forall>site. saw_site_id at = Some site \<longrightarrow>
       (\<forall>l \<in> set (saw_local_prefixes at). \<exists>sp \<in> set (tw_site_prefixes t).
          spw_site_id sp = site \<and> spw_prefix sp = l))"
proof -
  from assms(1) have px: "distinct (map spw_id (tw_site_prefixes t))"
      "\<not> has_overlap (map spw_prefix (tw_site_prefixes t))"
    and at: "distinct (map saw_id (tw_attachments t))"
      "distinct (map saw_overlay_router_ipv4 (tw_attachments t))"
      "\<forall>a \<in> set (tw_attachments t). attachment_principal_check t a = Inr ()"
    by (auto simp: topology_validate_def topology_prefixes_ok dest!: topology_attachments_ok)
  have disjoint: "p = q"
    if "p \<in> set (tw_site_prefixes t)" "q \<in> set (tw_site_prefixes t)"
      "prefix_covers (db_network (spw_prefix p)) (db_prefix_len (spw_prefix p)) a"
      "prefix_covers (db_network (spw_prefix q)) (db_prefix_len (spw_prefix q)) a" for p q a
  proof (rule has_overlap_common [OF px(2) assms(2) that(1,2)])
    show "db_prefix_overlaps (spw_prefix p) (spw_prefix q)"
      using that assms(2) by (auto simp: list_all_iff db_prefix.overlaps_common_address)
  qed
  have "\<exists>sp \<in> set (tw_site_prefixes t). spw_site_id sp = site \<and> spw_prefix sp = l"
    if "a \<in> set (tw_attachments t)" "saw_site_id a = Some site" "l \<in> set (saw_local_prefixes a)" for a site l
    using bspec [OF at(3) that(1)] that(2,3)
    by (auto simp: attachment_principal_check_def list_ex_iff
        split: AttachmentPrincipalWrite.splits if_splits)
  with at(1,2) disjoint show ?thesis by blast
qed

subsection \<open>Witnesses\<close>

definition wit_topology :: topology_tables where
  "wit_topology = \<lparr>tt_attachments = [\<lparr>atr_id = 21, atr_tenant_id = 2, atr_segment_id = 3,
       atr_site_id = Some 4, atr_is_device = True, atr_device_id = Some 5,
       atr_device_key_id = Some 6, atr_overlay_router_ipv4 = 0x0A000001, atr_state = WActive,
       atr_epoch_floor = 1\<rparr>],
     tt_sites = [\<lparr>sir_id = 4, sir_tenant_id = 2, sir_name = ''s'', sir_kind = Edge,
       sir_state = Active\<rparr>],
     tt_site_prefixes = [\<lparr>spr_id = 7, spr_tenant_id = 2, spr_site_id = 4,
       spr_network = 0x0A010000, spr_prefix_len = 16, spr_active = True\<rparr>],
     tt_node_pools = [], tt_nodes = [], tt_endpoints = [], tt_subscriptions = [],
     tt_entitlements = [], tt_organizations = [], tt_tenants = [],
     tt_devices = [\<lparr>dvr_id = 5, dvr_tenant_id = 2, dvr_display_name = ''d'', dvr_active = True,
       dvr_last_seen_at = None\<rparr>],
     tt_active_keys = [(2, 5, 6)], tt_status = []\<rparr>"

definition wit_segment :: segment_row where
  "wit_segment = \<lparr>sgr_id = 3, sgr_tenant_id = 2, sgr_name = ''n'', sgr_hub_node_pool_id = 8,
     sgr_overlay_network = 0x0A000000, sgr_overlay_prefix_len = 24, sgr_state = Active,
     sgr_current_generation = 0,
     sgr_current_content_hash = zero_hash\<rparr>"

definition wit_db :: route_db where
  "wit_db = (empty_db wit_topology)\<lparr>db_segments := [wit_segment]\<rparr>"

definition wit_object :: SignedObjectWrite where
  "wit_object = \<lparr>so_content_hash = replicate 32 1, so_signed_envelope = [1]\<rparr>"

definition wit_projection_write :: SiteProjectionPublicationWrite where
  "wit_projection_write = \<lparr>pw_publication_id = 31, pw_projection_id = 32, pw_tenant_id = 2,
     pw_segment_id = 3, pw_site_id = 4, pw_attachment_id = 21, pw_device_id = 5,
     pw_device_key_id = 6, pw_segment_generation = 1,
     pw_segment_content_hash = replicate 32 1, pw_projection_generation = 1,
     pw_previous_hash = zero_hash, pw_object = wit_object, pw_transport_nodes = [(41, 42)],
     pw_runtime_paths = [\<lparr>rpw_candidate_id = 51, rpw_peer_attachment_id = 22,
       rpw_path_kind = RtDirect\<rparr>]\<rparr>"

definition wit_write :: "uuid \<Rightarrow> SegmentPublicationWrite" where
  "wit_write i = \<lparr>sw_publication_id = i, sw_tenant_id = 2, sw_segment_id = 3,
     sw_expected_previous_generation = 0, sw_expected_previous_hash = zero_hash,
     sw_generation = 1, sw_policy_only = False, sw_expires_at = 10, sw_stale_until = 20,
     sw_snapshot = wit_object, sw_projections = [wit_projection_write], sw_expansions = [],
     sw_audit_event_id = 61, sw_actor_id = ''w''\<rparr>"

lemma wit_hash_not_zero: "replicate 32 (1 :: u8) \<noteq> zero_hash" "zero_hash \<noteq> replicate 32 (1 :: u8)"
  by (simp_all add: zero_hash_def)

lemma wit_write_valid: "i \<noteq> 0 \<Longrightarrow> publication_validate (wit_write i) = Inr ()"
  by (simp add: publication_validate_def publication_header_check_def projection_step_def
      projection_fields_check_def projection_paths_check_def signed_object_validate_def
      wit_write_def wit_projection_write_def wit_object_def is_nil_def checked_add_def
      wit_hash_not_zero MAX_ACTOR_ID_LEN_def MAX_SIGNED_ENVELOPE_LEN_def MAX_PROJECTIONS_def
      MAX_EXPANSION_OBJECTS_def MAX_RUNTIME_PATHS_def first_err.simps)

lemma wit_publish: "\<exists>d. publish False (\<lambda>b. b) (wit_write 11) wit_db = Inr (Published, d)"
proof -
  have seg: "find_segment 2 3 wit_db = Some wit_segment"
    by (simp add: find_segment_def wit_db_def wit_segment_def)
  have own: "validate_projection_ownership (wit_write 11) wit_db = Inr ()"
    by (simp add: validate_projection_ownership_def required_route_owners_def
        ownership_matches_def live_attachment_def tt_active_sites_def tt_active_devices_def tt_active_prefixes_def wit_db_def wit_topology_def empty_db_def
        wit_write_def wit_projection_write_def Let_def)
  have heads: "validate_projection_heads (wit_write 11) wit_db = Inr ()"
    by (simp add: validate_projection_heads_def projection_rows_def wit_db_def empty_db_def
        wit_write_def wit_projection_write_def)
  have "\<exists>d. publish_rows (wit_write 11) wit_db = Inr d"
    by (simp add: publish_rows_def insert_row_def insert_projections_def insert_projection_def
        to_u32_def insert_rollout_def advance_head_def head_matches_def wit_db_def empty_db_def
        wit_segment_def wit_write_def wit_projection_write_def)
  moreover have "\<not> publication_exists 11 wit_db"
    by (simp add: publication_exists_def wit_db_def empty_db_def)
  moreover have "sw_tenant_id (wit_write 11) = 2" "sw_segment_id (wit_write 11) = 3"
    "sw_publication_id (wit_write 11) = 11" "\<not> sw_policy_only (wit_write 11)"
    "sw_expected_previous_generation (wit_write 11) = sgr_current_generation wit_segment"
    "sw_expected_previous_hash (wit_write 11) = sgr_current_content_hash wit_segment"
    by (simp_all add: wit_write_def wit_segment_def)
  ultimately show ?thesis
    using own heads seg
    by (auto simp: publish_def wit_write_valid policy_only_gate_def)
qed


lemma wit_reach: "route_step\<^sup>*\<^sup>* (empty_db wit_topology) wit_db"
proof -
  have "route_step (empty_db wit_topology)
      ((empty_db wit_topology)\<lparr>db_segments := db_segments (empty_db wit_topology) @ [wit_segment]\<rparr>)"
    by (rule new_segment) (simp_all add: empty_db_def wit_segment_def)
  then show ?thesis by (simp add: wit_db_def empty_db_def)
qed

lemma wit_published:
  obtains d where "publish False (\<lambda>b. b) (wit_write 11) wit_db = Inr (Published, d)"
    and "route_step\<^sup>*\<^sup>* (empty_db wit_topology) d"
    and "segment_log d (2, 3) = [(1, zero_hash, replicate 32 1)]"
    and "projection_log d (2, 3, 21) = [(1, zero_hash, replicate 32 1)]"
    and "find_segment 2 3 d \<noteq> None"
proof -
  obtain d where pub: "publish False (\<lambda>b. b) (wit_write 11) wit_db = Inr (Published, d)"
    using wit_publish by blast
  have "write_typed (wit_write 11)"
    by (simp add: write_typed_def wit_write_def wit_object_def wit_projection_write_def)
  then have "route_step wit_db d" using pub by (rule publication)
  with wit_reach have reach: "route_step\<^sup>*\<^sup>* (empty_db wit_topology) d" by simp
  from pub have
    pb: "db_publications d = db_publications wit_db @ [publication_row_of (wit_write 11)]"
    and pj: "db_projections d = db_projections wit_db @ map (projection_row_of
      (sw_publication_id (wit_write 11))) (sw_projections (wit_write 11))"
    and sg: "db_segments d = advanced_segments (wit_write 11) (db_segments wit_db)"
    by (rule publish_publishedE, blast)+
  show thesis
  proof (rule that [OF pub reach])
    show "segment_log d (2, 3) = [(1, zero_hash, replicate 32 1)]"
      by (simp add: segment_log_snoc [OF pb])
        (simp add: segment_log_def wit_db_def empty_db_def wit_write_def wit_object_def)
    show "projection_log d (2, 3, 21) = [(1, zero_hash, replicate 32 1)]"
      by (simp add: projection_log_def projection_rows_def pj wit_db_def empty_db_def wit_write_def
          wit_projection_write_def projection_row_of_def link_of_def wit_object_def)
    show "find_segment 2 3 d \<noteq> None"
      by (simp add: find_segment_def sg advanced_segments_def wit_db_def wit_segment_def)
  qed
qed

theorem reachable_head_consistent_witness:
  "\<exists>d. route_step\<^sup>*\<^sup>* (empty_db wit_topology) d \<and>
     current_head 2 3 d = Inr (1, replicate 32 1)"
proof -
  obtain d where d: "route_step\<^sup>*\<^sup>* (empty_db wit_topology) d"
      "segment_log d (2, 3) = [(1, zero_hash, replicate 32 1)]" "find_segment 2 3 d \<noteq> None"
    by (rule wit_published)
  then show ?thesis
    using reachable_head_consistent [OF d(1)] by (auto simp: chain_end_def)
qed

theorem reachable_projection_head_witness:
  "\<exists>d. route_step\<^sup>*\<^sup>* (empty_db wit_topology) d \<and>
     projection_head 2 3 21 d = Inr (Some (1, replicate 32 1))"
proof -
  obtain d where d: "route_step\<^sup>*\<^sup>* (empty_db wit_topology) d"
      "projection_log d (2, 3, 21) = [(1, zero_hash, replicate 32 1)]"
    by (rule wit_published)
  then have "length (projection_log d (2, 3, 21)) < 2 ^ 64 - 1" by simp
  from reachable_projection_head [OF d(1) this] d show ?thesis
    by (auto simp: chain_end_def Let_def)
qed

theorem publication_history_append_only_witness:
  "\<exists>d. route_step\<^sup>*\<^sup>* wit_db d \<and> segment_log d (2, 3) \<noteq> [] \<and>
     prefix (segment_log wit_db (2, 3)) (segment_log d (2, 3))"
proof -
  obtain d where d: "publish False (\<lambda>b. b) (wit_write 11) wit_db = Inr (Published, d)"
      "segment_log d (2, 3) = [(1, zero_hash, replicate 32 1)]"
    by (rule wit_published)
  have "write_typed (wit_write 11)"
    by (simp add: write_typed_def wit_write_def wit_object_def wit_projection_write_def)
  then have "route_step\<^sup>*\<^sup>* wit_db d" using d(1) by (auto intro: publication)
  with publication_history_append_only [OF wit_reach this, of "(2, 3)"] d(2) show ?thesis
    by (intro exI [of _ d]) simp
qed

theorem publish_retry_is_replay_witness:
  "\<exists>d. publish False (\<lambda>b. b) (wit_write 11) wit_db = Inr (Published, d) \<and>
     publish True (\<lambda>b. b) (wit_write 11) d = Inr (Replayed, d)"
proof -
  obtain d where d: "publish False (\<lambda>b. b) (wit_write 11) wit_db = Inr (Published, d)"
    by (rule wit_published)
  then show ?thesis using publish_retry_is_replay [OF wit_reach d] by blast
qed

theorem publish_generation_exclusive_witness:
  "\<exists>d. publish False (\<lambda>b. b) (wit_write 11) wit_db = Inr (Published, d) \<and>
     publish False (\<lambda>b. b) (wit_write 12) d = Inl GenerationGap"
proof -
  obtain d where d: "publish False (\<lambda>b. b) (wit_write 11) wit_db = Inr (Published, d)"
    by (rule wit_published)
  then have "db_publications d = db_publications wit_db @ [publication_row_of (wit_write 11)]"
    by (rule publish_publishedE)
  then have "\<not> publication_exists (sw_publication_id (wit_write 12)) d"
    by (simp add: publication_exists_def wit_db_def empty_db_def publication_row_of_def
        wit_write_def)
  moreover have "sw_tenant_id (wit_write 12) = sw_tenant_id (wit_write 11)"
    "sw_segment_id (wit_write 12) = sw_segment_id (wit_write 11)"
    "sw_generation (wit_write 12) = sw_generation (wit_write 11)"
    by (simp_all add: wit_write_def)
  ultimately show ?thesis
    using d publish_generation_exclusive [OF wit_reach d wit_write_valid, of 12] by auto
qed


definition wit_topology_write :: SdwanTopologyWrite where
  "wit_topology_write = \<lparr>tw_tenant_id = 2, tw_segment_id = 3,
     tw_site_prefixes = [\<lparr>spw_id = 71, spw_tenant_id = 2, spw_site_id = 4,
       spw_prefix = DbPrefix 0x0A010000 16\<rparr>, \<lparr>spw_id = 72, spw_tenant_id = 2, spw_site_id = 8,
       spw_prefix = DbPrefix 0x0A020000 16\<rparr>],
     tw_attachments = [\<lparr>saw_id = 21, saw_tenant_id = 2, saw_segment_id = 3, saw_site_id = Some 4,
       saw_principal = WDevice 5 6, saw_overlay_router_ipv4 = 0x64400001,
       saw_local_prefixes = [DbPrefix 0x0A010000 16], saw_state = WActive,
       saw_epoch_floor = 1\<rparr>]\<rparr>"

theorem topology_validate_guarantees_witness:
  "distinct (map saw_id (tw_attachments wit_topology_write)) \<and>
   topology_validate wit_topology_write = Inr ()"
proof -
  have "topology_validate wit_topology_write = Inr ()" by code_simp
  moreover have "list_all (\<lambda>sp. db_prefix_ok (spw_prefix sp)) (tw_site_prefixes wit_topology_write)"
    by code_simp
  ultimately show ?thesis using topology_validate_guarantees by blast
qed

end
