(* ===== verification/Topology_Sync.thy ===== *)
theory Topology_Sync
  imports Control_Topology Sdwan_Chain
begin

section \<open>What the topology transaction does to the tables\<close>

text \<open>
  The transaction leaves everything that was published alone, so it can run before each
  publication, and the live attachments of the segment are afterwards exactly the active
  attachments of the management graph. The name of a segment is a unique key of its table:
  what happens when a name is used again is stated as well.
\<close>

lemma upsert_row_cases:
  assumes "upsert_row keys update row table = Inr table'"
  obtains (insert) "table' = table @ [row]" "\<forall>k \<in> set keys. \<forall>x \<in> set table. \<not> k row x"
  | (update) k before old after where "k \<in> set keys" "k row old"
      "table = before @ old # after" "table' = before @ update old row # after"
      "\<forall>x \<in> set before \<union> set after. \<forall>key \<in> set keys. \<not> key (update old row) x"
      "find (\<lambda>k. list_ex (k row) table) keys = Some k" "\<forall>x \<in> set before. \<not> k row x"
proof (cases "find (\<lambda>k. list_ex (k row) table) keys")
  case None
  then have "\<forall>k \<in> set keys. \<forall>x \<in> set table. \<not> k row x"
    by (auto simp: find_None_iff list_ex_iff)
  with None assms show ?thesis by (intro insert) (auto simp: upsert_row_def)
next
  case (Some k)
  then have k: "k \<in> set keys" by (auto dest: find_SomeD)
  from Some assms obtain before old after
    where x: "List.extract (k row) table = Some (before, old, after)"
      and t: "table' = before @ update old row # after"
      and c: "\<not> list_ex (\<lambda>x. list_ex (\<lambda>key. key (update old row) x) keys) (before @ after)"
    by (auto simp: upsert_row_def split: if_splits)
  show ?thesis
    using extract_SomeE [OF x] k t c Some by (intro update [of k old before after]) (auto simp: list_ex_iff)
qed

subsection \<open>Published objects\<close>

lemma update_segment_head [simp]:
  "sgr_id (update_segment old new) = sgr_id old"
  "sgr_tenant_id (update_segment old new) = sgr_tenant_id old"
  "sgr_current_generation (update_segment old new) = sgr_current_generation old"
  "sgr_current_content_hash (update_segment old new) = sgr_current_content_hash old"
  by (simp_all add: update_segment_def)

lemma ensure_control_topologyE:
  assumes "ensure_control_topology collate now new_pool tenant segment resources d = Inr d'"
  obtains state v pool t segments t' where
    "control_segment segment resources = Some (state, v)"
    "upsert_row (segment_keys collate) update_segment
       (control_segment_row tenant segment pool state v) (db_segments d) = Inr segments"
    "fold_res (upsert_attachment tenant resources segments)
       (t\<lparr>tt_attachments := revoke_attachments tenant segment (tt_attachments t)\<rparr>) resources = Inr t'"
    "tt_attachments t = tt_attachments (db_topology d)"
    "d' = d\<lparr>db_segments := segments, db_topology := t'\<rparr>"
proof -
  from assms obtain state v t1 t2 pool t3 t4 segments t5 where
    1: "control_segment segment resources = Some (state, v)"
    and t1: "fold_res (upsert_site collate tenant) (db_topology d) resources = Inr t1"
    and t2: "fold_res (upsert_site_prefix tenant) t1 resources = Inr t2"
    and t3: "hub_pool tenant now new_pool t2 = (pool, t3)"
    and t4: "fold_res (upsert_node tenant pool) t3 resources = Inr t4"
    and 2: "upsert_row (segment_keys collate) update_segment
       (control_segment_row tenant segment pool state v) (db_segments d) = Inr segments"
    and 3: "fold_res (upsert_attachment tenant resources segments)
       (t4\<lparr>tt_attachments := revoke_attachments tenant segment (tt_attachments t4)\<rparr>) resources = Inr t5"
    and d': "d' = d\<lparr>db_segments := segments, db_topology := t5\<rparr>"
    by (auto simp: ensure_control_topology_def case_prod_beta Let_def) (metis prod.collapse)
  have "tt_attachments t1 = tt_attachments (db_topology d)"
    by (rule fold_res_invariant [where I = "\<lambda>t. tt_attachments t = tt_attachments (db_topology d)", OF t1])
      (auto simp: upsert_site_def split: ResourceSpecV1.splits)
  moreover have "tt_attachments t2 = tt_attachments t1"
    by (rule fold_res_invariant [where I = "\<lambda>t. tt_attachments t = tt_attachments t1", OF t2])
      (auto simp: upsert_site_prefix_def split: ResourceSpecV1.splits)
  moreover have "tt_attachments t3 = tt_attachments t2"
    using t3 by (auto simp: hub_pool_def split: list.splits)
  moreover have "tt_attachments t4 = tt_attachments t3"
    by (rule fold_res_invariant [where I = "\<lambda>t. tt_attachments t = tt_attachments t3", OF t4])
      (auto simp: upsert_node_def split: ResourceSpecV1.splits)
  ultimately show ?thesis using 1 2 3 d' that by metis
qed

lemma ensure_is_route_steps:
  assumes "ensure_control_topology collate now new_pool tenant segment resources d = Inr d'"
  shows "route_step\<^sup>*\<^sup>* d d'"
proof -
  from assms obtain state v pool t' segments where
    u: "upsert_row (segment_keys collate) update_segment
       (control_segment_row tenant segment pool state v) (db_segments d) = Inr segments"
    and d': "d' = d\<lparr>db_segments := segments, db_topology := t'\<rparr>"
    by (rule ensure_control_topologyE)
  from u show ?thesis
  proof (cases rule: upsert_row_cases)
    case insert
    let ?r = "control_segment_row tenant segment pool state v"
    let ?d = "d\<lparr>db_segments := db_segments d @ [?r]\<rparr>"
    have "route_step d ?d"
      using insert(2) by (intro route_step.new_segment) (auto simp: segment_keys_def control_segment_row_def)
    moreover have "route_step ?d d'"
      by (rule route_step.environment) (simp_all add: d' insert(1))
    ultimately show ?thesis by (meson converse_rtranclp_into_rtranclp r_into_rtranclp)
  next
    case (update k before old after)
    have "route_step d d'" by (rule route_step.environment) (simp_all add: d' update(3,4))
    then show ?thesis by blast
  qed
qed

subsection \<open>The live attachments\<close>

text \<open>The rows the attachments among \<open>docs\<close> have, with the devices of their nodes.\<close>

definition attachment_rows ::
  "uuid \<Rightarrow> ControlResourceV1 list \<Rightarrow> ControlResourceV1 set \<Rightarrow> attachment_row set" where
  "attachment_rows tenant resources docs =
     {control_attachment_row tenant r v node | r v node.
        r \<in> docs \<and> cr_resource r = Attachment v \<and> node_of (at_node_id v) resources = Some node}"

text \<open>
  What the management store promises of the documents, and what the table owes to its only
  writer: an id is one document, two attachments of a segment have different router addresses,
  and a row keeps the tenant and the segment of its document.
\<close>

definition attachments_differ :: "ControlResourceV1 list \<Rightarrow> bool" where
  "attachments_differ resources \<longleftrightarrow>
     (\<forall>r \<in> set resources. \<forall>q \<in> set resources. \<forall>v w.
        cr_resource r = Attachment v \<longrightarrow> cr_resource q = Attachment w \<longrightarrow>
        md_id (cr_metadata r) = md_id (cr_metadata q) \<or>
        (at_segment_id v = at_segment_id w \<and> at_overlay_router_ipv4 v = at_overlay_router_ipv4 w) \<longrightarrow>
        r = q)"

definition rows_in_place :: "uuid \<Rightarrow> ControlResourceV1 list \<Rightarrow> attachment_row list \<Rightarrow> bool" where
  "rows_in_place tenant resources table \<longleftrightarrow>
     distinct (map atr_id table) \<and> list_all atr_is_device table \<and>
     (\<forall>a \<in> set table. \<forall>r \<in> set resources. \<forall>v.
        cr_resource r = Attachment v \<longrightarrow> atr_id a = md_id (cr_metadata r) \<longrightarrow>
        atr_tenant_id a = tenant \<and> atr_segment_id a = at_segment_id v)"

definition live_rows :: "uuid \<Rightarrow> uuid \<Rightarrow> attachment_row list \<Rightarrow> attachment_row set" where
  "live_rows tenant segment table =
     {a \<in> set table. atr_tenant_id a = tenant \<and> atr_segment_id a = segment \<and> live_attachment a}"

definition sync_inv ::
  "uuid \<Rightarrow> uuid \<Rightarrow> ControlResourceV1 list \<Rightarrow> ControlResourceV1 set \<Rightarrow> attachment_row list \<Rightarrow> bool" where
  "sync_inv tenant segment resources docs table \<longleftrightarrow>
     rows_in_place tenant resources table \<and>
     live_rows tenant segment table \<subseteq> attachment_rows tenant resources docs \<and>
     {a \<in> attachment_rows tenant resources docs. atr_segment_id a = segment} \<subseteq> set table"

lemma control_attachment_row_fields [simp]:
  "atr_id (control_attachment_row t r v n) = md_id (cr_metadata r)"
  "atr_tenant_id (control_attachment_row t r v n) = t"
  "atr_segment_id (control_attachment_row t r v n) = at_segment_id v"
  "atr_is_device (control_attachment_row t r v n)"
  "atr_overlay_router_ipv4 (control_attachment_row t r v n) = at_overlay_router_ipv4 v"
  "atr_state (control_attachment_row t r v n) = attachment_state (md_state (cr_metadata r))"
  by (simp_all add: control_attachment_row_def)

lemma update_attachment_fields [simp]:
  "atr_id (update_attachment old new) = atr_id old"
  "atr_tenant_id (update_attachment old new) = atr_tenant_id old"
  "atr_segment_id (update_attachment old new) = atr_segment_id old"
  "atr_is_device (update_attachment old new) = atr_is_device old"
  by (simp_all add: update_attachment_def)

lemma update_attachment_same:
  "\<lbrakk>atr_id old = atr_id new; atr_tenant_id old = atr_tenant_id new;
    atr_segment_id old = atr_segment_id new; atr_is_device old = atr_is_device new\<rbrakk> \<Longrightarrow>
   update_attachment old new = (new :: attachment_row)"
  by (cases old; cases new) (simp add: update_attachment_def)

lemma attachment_rows_insert:
  assumes "cr_resource r = Attachment v" and "node_of (at_node_id v) resources = Some node"
  shows "attachment_rows tenant resources (insert r docs) =
    insert (control_attachment_row tenant r v node) (attachment_rows tenant resources docs)"
  using assms by (auto simp: attachment_rows_def)

lemma rows_in_place_replace:
  assumes "rows_in_place tenant resources (before @ old # after)"
  shows "rows_in_place tenant resources (before @ update_attachment old new # after)"
  using assms unfolding rows_in_place_def by simp

lemma sync_upsert:
  assumes inv: "sync_inv tenant segment resources docs table" and differ: "attachments_differ resources"
    and docs: "docs \<subseteq> set resources" and r: "r \<in> set resources" "cr_resource r = Attachment v"
    and node: "node_of (at_node_id v) resources = Some node"
    and up: "upsert_row attachment_keys update_attachment
      (control_attachment_row tenant r v node) table = Inr table'"
  shows "sync_inv tenant segment resources (insert r docs) table'"
proof -
  let ?new = "control_attachment_row tenant r v node"
  note rows = attachment_rows_insert [OF r(2) node]
  have place: "rows_in_place tenant resources table"
    and live: "live_rows tenant segment table \<subseteq> attachment_rows tenant resources docs"
    and kept: "{a \<in> attachment_rows tenant resources docs. atr_segment_id a = segment} \<subseteq> set table"
    using inv by (simp_all add: sync_inv_def)
  have same: "q = r" if "q \<in> set resources" "cr_resource q = Attachment w"
    "md_id (cr_metadata q) = md_id (cr_metadata r) \<or>
      (at_segment_id w = at_segment_id v \<and> at_overlay_router_ipv4 w = at_overlay_router_ipv4 v)" for q w
    using differ r that unfolding attachments_differ_def by metis
  from up show ?thesis
  proof (cases rule: upsert_row_cases)
    case insert
    have fresh: "md_id (cr_metadata r) \<notin> atr_id ` set table"
      using insert(2) by (auto simp: attachment_keys_def)
    have "rows_in_place tenant resources table'"
      using place fresh r(2) same unfolding rows_in_place_def insert(1)
      by (auto dest: sym)
    moreover have "live_rows tenant segment table' \<subseteq> insert ?new (attachment_rows tenant resources docs)"
      using live insert(1) by (auto simp: live_rows_def)
    ultimately show ?thesis using kept insert(1) by (auto simp: sync_inv_def rows)
  next
    case (update k before old after)
    have old: "old \<in> set table" by (simp add: update(3))
    show ?thesis
    proof (cases "atr_id old = md_id (cr_metadata r)")
      case True
      have new: "update_attachment old ?new = ?new"
        using place old r True unfolding rows_in_place_def
        by (intro update_attachment_same) (auto simp: list_all_iff)
      have row: "a = ?new" if "a \<in> attachment_rows tenant resources docs" "atr_id a = atr_id old" for a
      proof -
        from that(1) obtain q w n where q: "a = control_attachment_row tenant q w n" "q \<in> docs"
          "cr_resource q = Attachment w" "node_of (at_node_id w) resources = Some n"
          unfolding attachment_rows_def by blast
        with same [of q w] docs that(2) True have "q = r" by auto
        with q r(2) node show ?thesis by simp
      qed
      have "rows_in_place tenant resources table'"
        using place unfolding update(3,4) by (rule rows_in_place_replace)
      moreover have "live_rows tenant segment table' \<subseteq> insert ?new (attachment_rows tenant resources docs)"
        using live unfolding update(3,4) new by (auto simp: live_rows_def)
      moreover have "{a \<in> attachment_rows tenant resources docs. atr_segment_id a = segment} \<subseteq> set table'"
        using kept row unfolding update(3,4) new by auto
      ultimately show ?thesis unfolding sync_inv_def rows update(4) new by auto
    next
      case False
      then have shared: "atr_tenant_id old = tenant" "atr_segment_id old = at_segment_id v"
        "owns_address old" "atr_overlay_router_ipv4 old = at_overlay_router_ipv4 v"
        using update(1,2) by (auto simp: attachment_keys_def)
      have other: "at_segment_id v \<noteq> segment"
      proof
        assume "at_segment_id v = segment"
        with shared place old have "old \<in> live_rows tenant segment table"
          by (auto simp: live_rows_def live_attachment_def owns_address_def rows_in_place_def list_all_iff)
        with live obtain q w n where "old = control_attachment_row tenant q w n" "q \<in> docs"
          "cr_resource q = Attachment w" unfolding attachment_rows_def by blast
        with same [of q w] docs shared False show False by auto
      qed
      have "rows_in_place tenant resources table'"
        using place unfolding update(3,4) by (rule rows_in_place_replace)
      moreover have "live_rows tenant segment table' \<subseteq> live_rows tenant segment table"
        using other shared unfolding update(3,4) by (auto simp: live_rows_def)
      moreover have "{a \<in> attachment_rows tenant resources docs. atr_segment_id a = segment} \<subseteq> set table'"
        using kept other shared unfolding update(3,4) by auto
      ultimately show ?thesis unfolding sync_inv_def rows using live other by auto
    qed
  qed
qed

lemma sync_attachments:
  assumes "fold_res (upsert_attachment tenant resources segments) t docs = Inr t'"
    and "sync_inv tenant segment resources done (tt_attachments t)"
    and "attachments_differ resources" and "done \<union> set docs \<subseteq> set resources"
  shows "sync_inv tenant segment resources (done \<union> set docs) (tt_attachments t')"
  using assms(1,2,4)
proof (induction docs arbitrary: t "done")
  case (Cons r docs)
  then obtain u where u: "upsert_attachment tenant resources segments t r = Inr u"
    and rest: "fold_res (upsert_attachment tenant resources segments) u docs = Inr t'"
    by (auto simp only: fold_res_Cons_ok)
  have "sync_inv tenant segment resources (insert r done) (tt_attachments u)"
  proof (cases "\<exists>v. cr_resource r = Attachment v")
    case True
    then obtain v where v: "cr_resource r = Attachment v" ..
    with u obtain node rows where "node_of (at_node_id v) resources = Some node"
      "upsert_row attachment_keys update_attachment (control_attachment_row tenant r v node)
         (tt_attachments t) = Inr rows" "u = t\<lparr>tt_attachments := rows\<rparr>"
      by (auto simp: upsert_attachment_def)
    with v Cons.prems assms(3) show ?thesis by (auto intro!: sync_upsert)
  next
    case False
    then have "u = t" using u by (auto simp: upsert_attachment_def split: ResourceSpecV1.splits)
    moreover have "attachment_rows tenant resources (insert r done) = attachment_rows tenant resources done"
      using False by (auto simp: attachment_rows_def)
    ultimately show ?thesis using Cons.prems(2) by (simp add: sync_inv_def)
  qed
  from Cons.IH [OF rest this] Cons.prems(3) show ?case by simp
qed simp

lemma sync_inv_revoked:
  assumes "rows_in_place tenant resources table"
  shows "sync_inv tenant segment resources {} (revoke_attachments tenant segment table)"
proof -
  define f where "f = (\<lambda>a. if atr_tenant_id a = tenant \<and> atr_segment_id a = segment \<and> live_attachment a
    then a\<lparr>atr_state := WRevoked\<rparr> else a)"
  have f: "atr_id (f a) = atr_id a" "atr_tenant_id (f a) = atr_tenant_id a"
    "atr_segment_id (f a) = atr_segment_id a" "atr_is_device (f a) = atr_is_device a" for a
    by (simp_all add: f_def)
  have "rows_in_place tenant resources (map f table)"
    using assms unfolding rows_in_place_def by (simp add: comp_def f list_all_iff)
  moreover have "\<not> (atr_tenant_id (f a) = tenant \<and> atr_segment_id (f a) = segment \<and>
      live_attachment (f a))" for a
    by (simp add: f_def live_attachment_def)
  moreover have "revoke_attachments tenant segment table = map f table"
    by (simp add: revoke_attachments_def f_def)
  ultimately show ?thesis
    unfolding sync_inv_def live_rows_def attachment_rows_def by auto
qed


subsection \<open>A name used again\<close>

text \<open>
  C38: the tables have no row for a segment whose name another segment of the tenant has
  already had, deleted or not: the document goes to the row of the other segment, which takes
  its state, and the publication of the new segment then fails with \<open>SegmentNotFound\<close>.
\<close>

theorem reused_segment_name_not_found:
  assumes "ensure_control_topology collate now new_pool tenant segment resources d = Inr d'"
    and "control_segment segment resources = Some (state, v)"
    and "old \<in> set (db_segments d)" and "sgr_tenant_id old = tenant"
    and "collate (sgr_name old) = collate (sg_name v)"
    and "segment \<notin> sgr_id ` set (db_segments d)"
  shows "current_head tenant segment d' = Inl SegmentNotFound \<and>
    (\<exists>r \<in> set (db_segments d'). sgr_id r \<in> sgr_id ` set (db_segments d) \<and> sgr_tenant_id r = tenant \<and>
       sgr_name r = sg_name v \<and> sgr_state r = state)"
proof -
  from assms(1) obtain state' v' pool t segments where
    "control_segment segment resources = Some (state', v')"
    "upsert_row (segment_keys collate) update_segment
       (control_segment_row tenant segment pool state' v') (db_segments d) = Inr segments"
    and d': "d' = d\<lparr>db_segments := segments, db_topology := t\<rparr>"
    by (rule ensure_control_topologyE)
  with assms(2) have u: "upsert_row (segment_keys collate) update_segment
       (control_segment_row tenant segment pool state v) (db_segments d) = Inr segments" by simp
  from u show ?thesis
  proof (cases rule: upsert_row_cases)
    case insert
    with assms(3-5) show ?thesis by (auto simp: segment_keys_def control_segment_row_def)
  next
    case (update k before row after)
    have ids: "sgr_id ` set segments = sgr_id ` set (db_segments d)" by (simp add: update(3,4))
    have "row \<in> set (db_segments d)" by (simp add: update(3))
    with update(1,2) assms(6) have "sgr_tenant_id row = tenant"
      by (auto simp: segment_keys_def control_segment_row_def)
    moreover have "find_segment tenant segment d' = None"
      using assms(6) ids unfolding find_segment_def find_None_iff by (auto simp: d' image_iff)
    ultimately show ?thesis
      by (auto simp: current_head_def d' update(3,4) update_segment_def control_segment_row_def)
  qed
qed

end
