(* ===== verification/Route_Build.thy ===== *)
theory Route_Build
  imports Route_Publication
begin

section \<open>What a built publication contains\<close>

text \<open>
  The routes compiled from the attachments of a segment are exactly the announced prefixes,
  each with its site and its attachments, and no address has two routes. A built publication
  has one projection per active device attachment, bound to the sealed segment snapshot.
\<close>

subsection \<open>Announcements\<close>

type_synonym announcement = "AttachmentId \<times> SiteId \<times> RoutePrefix"

definition announced :: "SegmentAttachmentV1 list \<Rightarrow> announcement list" where
  "announced attachments = concat (map (\<lambda>a.
     case sa_site_id a of
       None \<Rightarrow> []
     | Some site \<Rightarrow> if sa_state a = AttActive
         then map (\<lambda>p. (sa_attachment_id a, site, p)) (sa_local_prefixes a) else []) attachments)"

definition announce :: "SegmentRouteV1 list \<Rightarrow> announcement \<Rightarrow>
    RoutePublicationError + SegmentRouteV1 list" where
  "announce routes = (\<lambda>(a, site, p). route_prefix_step a site routes p)"

lemma fold_res_map: "fold_res f s (map g xs) = fold_res (\<lambda>s x. f s (g x)) s xs"
  by (induction xs arbitrary: s) (auto split: sum.splits)

text \<open>The nested loops run over the announcements.\<close>

lemma attachments_announce:
  assumes "fold_res route_attachment_step routes attachments = Inr routes'"
  shows "fold_res announce routes (announced attachments) = Inr routes'"
  using assms
proof (induction attachments arbitrary: routes)
  case Nil
  then show ?case by (simp add: announced_def)
next
  case (Cons a as)
  from Cons.prems obtain mid where mid: "route_attachment_step routes a = Inr mid"
    and rest: "fold_res route_attachment_step mid as = Inr routes'"
    unfolding fold_res_Cons_ok by blast
  have "fold_res announce routes (announced [a]) = Inr mid"
    using mid by (auto simp: route_attachment_step_def announced_def fold_res_map announce_def
        split: if_splits option.splits)
  with Cons.IH [OF rest] show ?case
    by (simp add: announced_def fold_res_append)
qed

subsection \<open>The invariant of the loop\<close>

definition owned :: "SegmentRouteV1 list \<Rightarrow> announcement set" where
  "owned routes = {(a, site, p). \<exists>r \<in> set routes. sr_destination_prefix r = p \<and>
     sr_owner_site_id r = Some site \<and> a \<in> set (sr_owner_attachment_ids r)}"

definition routes_inv :: "SegmentRouteV1 list \<Rightarrow> bool" where
  "routes_inv routes \<longleftrightarrow> distinct (map sr_destination_prefix routes) \<and>
     (\<forall>r \<in> set routes. \<forall>r' \<in> set routes. sr_destination_prefix r \<noteq> sr_destination_prefix r' \<longrightarrow>
        \<not> route_prefix_overlaps (sr_destination_prefix r) (sr_destination_prefix r')) \<and>
     (\<forall>r \<in> set routes. sr_owner_site_id r \<noteq> None \<and> sr_owner_attachment_ids r \<noteq> [])"

lemma owned_Nil: "owned [] = {}"
  by (simp add: owned_def)

lemma add_owner_map:
  "distinct (map sr_destination_prefix routes) \<Longrightarrow>
     add_owner p a routes = map (\<lambda>r. if sr_destination_prefix r = p
       then r\<lparr>sr_owner_attachment_ids := sr_owner_attachment_ids r @ [a]\<rparr> else r) routes"
proof (induction routes)
  case (Cons r rs)
  have "map (\<lambda>r. if sr_destination_prefix r = p
      then r\<lparr>sr_owner_attachment_ids := sr_owner_attachment_ids r @ [a]\<rparr> else r) rs = rs"
    if "sr_destination_prefix r = p"
    using Cons.prems that by (intro map_idI) (auto, metis imageI)
  with Cons show ?case by auto
qed simp

lemma announce_inv:
  assumes inv: "routes_inv routes" and step: "announce routes (a, site, p) = Inr routes'"
  shows "routes_inv routes'" and "owned routes' = insert (a, site, p) (owned routes)"
proof -
  have dist: "distinct (map sr_destination_prefix routes)" using inv by (simp add: routes_inv_def)
  show "routes_inv routes'" "owned routes' = insert (a, site, p) (owned routes)"
  proof (atomize (full), cases "find (\<lambda>r. sr_destination_prefix r = p) routes")
    case None
    let ?new = "\<lparr>sr_destination_prefix = p, sr_owner_site_id = Some site, sr_owner_attachment_ids = [a]\<rparr>"
    from None step have r': "routes' = routes @ [?new]"
      and disj: "\<forall>r \<in> set routes. \<not> route_prefix_overlaps (sr_destination_prefix r) p"
      by (auto simp: announce_def route_prefix_step_def list_ex_iff split: if_splits)
    from None have fresh: "p \<notin> sr_destination_prefix ` set routes" by (auto simp: find_None_iff)
    show "routes_inv routes' \<and> owned routes' = insert (a, site, p) (owned routes)"
      using inv fresh disj route_prefix_overlaps_sym
      by (auto simp: routes_inv_def owned_def r')
  next
    case (Some route)
    then have route: "route \<in> set routes" "sr_destination_prefix route = p" by (auto dest: find_SomeD)
    define f where "f = (\<lambda>r :: SegmentRouteV1. if sr_destination_prefix r = p
       then r\<lparr>sr_owner_attachment_ids := sr_owner_attachment_ids r @ [a]\<rparr> else r)"
    from Some step have site: "sr_owner_site_id route = Some site"
      and r': "routes' = map f routes"
      using add_owner_map [OF dist]
      by (auto simp: announce_def route_prefix_step_def f_def split: if_splits)
    have f: "sr_destination_prefix (f r) = sr_destination_prefix r"
      "sr_owner_site_id (f r) = sr_owner_site_id r"
      "set (sr_owner_attachment_ids (f r)) = (if sr_destination_prefix r = p
        then insert a (set (sr_owner_attachment_ids r)) else set (sr_owner_attachment_ids r))" for r
      by (simp_all add: f_def)
    have ne: "sr_owner_attachment_ids (f r) \<noteq> []" if "sr_owner_attachment_ids r \<noteq> []" for r
      using that by (simp add: f_def)
    have only: "r = route" if "r \<in> set routes" "sr_destination_prefix r = p" for r
    proof -
      have "inj_on sr_destination_prefix (set routes)" using dist by (simp add: distinct_map)
      with that route show ?thesis by (simp add: inj_onD)
    qed
    have "routes_inv routes'"
      using inv ne by (simp add: routes_inv_def r' f comp_def)
    moreover have "x \<in> owned routes' \<longleftrightarrow> x \<in> insert (a, site, p) (owned routes)" for x
    proof -
      obtain b s q where x: "x = (b, s, q)" by (cases x)
      have "x \<in> owned routes' \<longleftrightarrow> (\<exists>r \<in> set routes. sr_destination_prefix r = q \<and>
          sr_owner_site_id r = Some s \<and> b \<in> set (sr_owner_attachment_ids (f r)))"
        by (simp add: owned_def r' x f)
      also have "\<dots> \<longleftrightarrow> x \<in> insert (a, site, p) (owned routes)"
      proof (cases "q = p")
        case True
        have ex: "(\<exists>r \<in> set routes. sr_destination_prefix r = p \<and> P r) \<longleftrightarrow> P route" for P
          using only route by blast
        show ?thesis using site route(2) by (auto simp: owned_def x True ex f)
      qed (auto simp: owned_def x f)
      finally show ?thesis .
    qed
    ultimately show "routes_inv routes' \<and> owned routes' = insert (a, site, p) (owned routes)"
      by blast
  qed
qed

lemma announce_all:
  assumes "fold_res announce routes xs = Inr routes'" and "routes_inv routes"
  shows "routes_inv routes' \<and> owned routes' = owned routes \<union> set xs"
  using assms
proof (induction xs arbitrary: routes)
  case (Cons x xs)
  from Cons.prems(1) obtain mid where mid: "announce routes x = Inr mid"
    and rest: "fold_res announce mid xs = Inr routes'" unfolding fold_res_Cons_ok by blast
  obtain a site p where x: "x = (a, site, p)" by (cases x)
  from announce_inv [OF Cons.prems(2) mid [unfolded x]] Cons.IH [OF rest] show ?case by (simp add: x)
qed simp

subsection \<open>Compiled routes\<close>

lemma owned_perm:
  assumes "set routes' = (\<lambda>r. r\<lparr>sr_owner_attachment_ids := sort (sr_owner_attachment_ids r)\<rparr>) ` set routes"
  shows "owned routes' = owned routes"
  by (auto simp: owned_def assms)

text \<open>
  C11: compiled routes are sorted by prefix without repetition and say exactly who announces
  what: an attachment is an owner of the route to a prefix, under a site, exactly when it is
  an active attachment of the site that lists the prefix. No address matches two routes.
\<close>

theorem compile_routes_exact:
  assumes "compile_routes attachments = Inr routes"
    and "\<forall>a \<in> set attachments. list_all route_prefix_ok (sa_local_prefixes a)"
  shows "sorted_wrt (<) (map sr_destination_prefix routes) \<and> owned routes = set (announced attachments) \<and>
    (\<forall>r \<in> set routes. \<forall>r' \<in> set routes. \<forall>address.
       prefix_covers (rp_network (sr_destination_prefix r)) (rp_prefix_len (sr_destination_prefix r)) address \<longrightarrow>
       prefix_covers (rp_network (sr_destination_prefix r')) (rp_prefix_len (sr_destination_prefix r')) address \<longrightarrow>
       r = r')"
proof -
  let ?g = "\<lambda>r :: SegmentRouteV1. r\<lparr>sr_owner_attachment_ids := sort (sr_owner_attachment_ids r)\<rparr>"
  from assms(1) obtain raw where raw: "fold_res route_attachment_step [] attachments = Inr raw"
    and routes: "routes = map ?g (sort_key sr_destination_prefix raw)"
    by (auto simp: compile_routes_def)
  have "routes_inv []" by (simp add: routes_inv_def)
  from announce_all [OF attachments_announce [OF raw] this]
  have inv: "routes_inv raw" and own: "owned raw = set (announced attachments)" by (simp_all add: owned_Nil)
  have own': "owned routes = owned raw" by (rule owned_perm) (simp add: routes)
  have dests: "map sr_destination_prefix routes = map sr_destination_prefix (sort_key sr_destination_prefix raw)"
    by (simp add: routes)
  have dist: "distinct (map sr_destination_prefix routes)"
    using inv by (simp add: dests routes_inv_def distinct_map)
  then have "sorted_wrt (<) (map sr_destination_prefix routes)"
    by (simp add: dests strict_sorted_iff)
  moreover have ok: "route_prefix_ok (sr_destination_prefix r)" if r: "r \<in> set routes" for r
  proof -
    from r obtain r0 where r0: "r0 \<in> set raw" "r = ?g r0" by (auto simp: routes)
    with inv obtain site a where "sr_owner_site_id r0 = Some site" "a \<in> set (sr_owner_attachment_ids r0)"
      unfolding routes_inv_def by (metis list.set_intros(1) neq_Nil_conv not_None_eq)
    with r0 own have "(a, site, sr_destination_prefix r) \<in> set (announced attachments)"
      by (auto simp: owned_def)
    with assms(2) show ?thesis
      by (auto simp: announced_def list_all_iff split: option.splits if_splits)
  qed
  moreover have "r = r'" if rr: "r \<in> set routes" "r' \<in> set routes"
    and cov: "prefix_covers (rp_network (sr_destination_prefix r)) (rp_prefix_len (sr_destination_prefix r)) x"
      "prefix_covers (rp_network (sr_destination_prefix r')) (rp_prefix_len (sr_destination_prefix r')) x"
    for r r' x
  proof -
    have "\<forall>p \<in> sr_destination_prefix ` set routes. \<forall>q \<in> sr_destination_prefix ` set routes.
        p \<noteq> q \<longrightarrow> \<not> route_prefix_overlaps p q"
      using inv by (auto simp: routes_inv_def routes)
    then have "sr_destination_prefix r = sr_destination_prefix r'"
      by (rule rt_prefix.disjoint_unique_owner [rotated]) (use rr cov ok in auto)
    moreover have "inj_on sr_destination_prefix (set routes)" using dist by (simp add: distinct_map)
    ultimately show ?thesis using rr by (simp add: inj_onD)
  qed
  ultimately show ?thesis using own own' by blast
qed

lemma compile_routes_owned:
  assumes "compile_routes attachments = Inr routes"
  shows "owned routes = set (announced attachments)"
proof -
  from assms obtain raw where raw: "fold_res route_attachment_step [] attachments = Inr raw"
    and routes: "routes = map (\<lambda>r. r\<lparr>sr_owner_attachment_ids := sort (sr_owner_attachment_ids r)\<rparr>)
      (sort_key sr_destination_prefix raw)"
    by (auto simp: compile_routes_def)
  have "owned routes = owned raw" by (rule owned_perm) (simp add: routes)
  moreover have "routes_inv []" by (simp add: routes_inv_def)
  ultimately show ?thesis using announce_all [OF attachments_announce [OF raw]] by (simp add: owned_Nil)
qed

subsection \<open>Built publications\<close>

lemma announced_set:
  "(a, site, p) \<in> set (announced attachments) \<longleftrightarrow>
     (\<exists>at \<in> set attachments. sa_attachment_id at = a \<and> sa_site_id at = Some site \<and>
        sa_state at = AttActive \<and> p \<in> set (sa_local_prefixes at))"
proof
  show "\<exists>at \<in> set attachments. sa_attachment_id at = a \<and> sa_site_id at = Some site \<and>
      sa_state at = AttActive \<and> p \<in> set (sa_local_prefixes at)"
    if "(a, site, p) \<in> set (announced attachments)"
    using that by (auto simp: announced_def split: option.splits if_splits)
  show "(a, site, p) \<in> set (announced attachments)"
    if "\<exists>at \<in> set attachments. sa_attachment_id at = a \<and> sa_site_id at = Some site \<and>
      sa_state at = AttActive \<and> p \<in> set (sa_local_prefixes at)"
    using that by (force simp: announced_def)
qed

lemma remote_routes_contain:
  assumes "remote_routes_for routes site egress = Inr remote"
    and "r \<in> set routes" and "sr_owner_site_id r = Some owner" and "owner \<noteq> site"
  shows "\<lparr>rr_destination_prefix = sr_destination_prefix r, rr_owner_site_id = owner,
    rr_owner_attachment_ids = sr_owner_attachment_ids r\<rparr> \<in> set remote"
proof -
  from assms(1) obtain own where own: "list_all2 (\<lambda>route y. (case sr_owner_site_id route of
         None \<Rightarrow> Inl OverlappingOwnership
       | Some owner \<Rightarrow> Inr \<lparr>rr_destination_prefix = sr_destination_prefix route,
           rr_owner_site_id = owner, rr_owner_attachment_ids = sr_owner_attachment_ids route\<rparr>) = Inr y)
       (filter (\<lambda>route. sr_owner_site_id route \<noteq> Some site) routes) own"
    and remote: "remote = sort_key rr_destination_prefix (own @ egress)"
    by (auto simp: remote_routes_for_def map_res_ok)
  have "r \<in> set (filter (\<lambda>route. sr_owner_site_id route \<noteq> Some site) routes)"
    using assms(2-4) by simp
  from list_all2_mem1 [OF own this] assms(3) show ?thesis by (auto simp: remote)
qed

text \<open>What \<open>build_projection\<close> and \<open>module_seal\<close> return.\<close>

lemma module_seal_source:
  "module_seal core k sk ty src obj = Inr s \<Longrightarrow> sealed_source s = src"
  by (auto simp: module_seal_def Let_def)

lemma build_projection_source:
  assumes "build_projection core signer input routes devices hash plan = Inr built"
  obtains a where "a \<in> set devices" and "sa_attachment_id a = dpi_attachment_id plan"
    and "sa_site_id a = Some (srp_site_id (sealed_source (bdp_sealed built)))"
    and "srp_attachment_id (sealed_source (bdp_sealed built)) = dpi_attachment_id plan"
    and "srp_tenant_id (sealed_source (bdp_sealed built)) = rpi_tenant_id input"
    and "srp_segment_id (sealed_source (bdp_sealed built)) = rpi_segment_id input"
    and "srp_segment_generation (sealed_source (bdp_sealed built)) = rpi_generation input"
    and "srp_segment_content_hash (sealed_source (bdp_sealed built)) = hash"
    and "remote_routes_for routes (srp_site_id (sealed_source (bdp_sealed built)))
      (dpi_egress_routes plan) = Inr (srp_remote_routes (sealed_source (bdp_sealed built)))"
    and "peer_paths_cover_remote_route_owners
      (srp_remote_routes (sealed_source (bdp_sealed built)))
      (srp_peer_paths (sealed_source (bdp_sealed built)))"
proof -
  from assms obtain a dev key site remote sealed where
    a: "find (\<lambda>a. sa_attachment_id a = dpi_attachment_id plan) devices = Some a"
    and site: "sa_site_id a = Some site"
    and remote: "remote_routes_for routes site (dpi_egress_routes plan) = Inr remote"
    and cover: "peer_paths_cover_remote_route_owners remote (dpi_peer_paths plan)"
    and sealed: "sealed_source sealed =
      \<lparr>srp_tenant_id = rpi_tenant_id input, srp_segment_id = rpi_segment_id input,
        srp_segment_generation = rpi_generation input, srp_segment_content_hash = hash,
        srp_site_id = site, srp_attachment_id = sa_attachment_id a,
        srp_device_id = dev, srp_device_key_id = key,
        srp_local_transport_node = dpi_local_transport_node plan,
        srp_overlay_router_ipv4 = sa_overlay_router_ipv4 a,
        srp_local_prefixes = sa_local_prefixes a, srp_remote_routes = remote,
        srp_egress_destination_prefixes = dpi_egress_destination_prefixes plan,
        srp_path_policy = dpi_path_policy plan, srp_peer_paths = dpi_peer_paths plan,
        srp_coherent_manifest = dpi_coherent_manifest plan,
        srp_max_inner_mtu = dpi_max_inner_mtu plan, srp_resources = dpi_resources plan,
        srp_epoch_floor = sa_epoch_floor a, srp_not_before = rpi_not_before input,
        srp_expires_at = rpi_expires_at input, srp_stale_until = rpi_stale_until input,
        srp_projection_id = dpi_projection_id plan,
        srp_projection_generation = dpi_projection_generation plan,
        srp_previous_hash = dpi_previous_hash plan\<rparr>"
    and built: "built = \<lparr>bdp_publication_id = dpi_publication_id plan, bdp_sealed = sealed\<rparr>"
    unfolding build_projection_def sign_site_projection_def bind_res_ok ok_or_ok guard_ok
    by (elim exE conjE) (simp split: prod.splits, elim exE conjE, drule module_seal_source, blast)
  show thesis
    using find_SomeD [OF a] site remote cover by (intro that [of a]) (simp_all add: built sealed)
qed

lemma build_route_publication_parts:
  assumes "build_route_publication core input signer = Inr b"
  obtains routes segment projections where
    "compile_routes (sort_key sa_attachment_id (rpi_attachments input)) = Inr routes"
    and "rpi_generation input \<noteq> 0"
    and "length (rpi_projections input) =
      length (filter is_active_device (sort_key sa_attachment_id (rpi_attachments input)))"
    and "distinct (map dpi_attachment_id (rpi_projections input))"
    and "ss_segment_generation (sealed_source segment) = rpi_generation input"
    and "ss_tenant_id (sealed_source segment) = rpi_tenant_id input"
    and "ss_segment_id (sealed_source segment) = rpi_segment_id input"
    and "ss_previous_hash (sealed_source segment) = rpi_previous_hash input"
    and "list_all2 (\<lambda>plan built. build_projection core signer input routes
      (filter is_active_device (sort_key sa_attachment_id (rpi_attachments input)))
      (sealed_content_hash segment) plan = Inr built)
      (sort_key dpi_attachment_id (rpi_projections input)) projections"
    and "b = \<lparr>brp_publication_id = rpi_publication_id input,
          brp_audit_event_id = rpi_audit_event_id input, brp_actor_id = rpi_actor_id input,
          brp_segment = segment, brp_projections = projections\<rparr>"
proof -
  let ?plans = "sort_key dpi_attachment_id (rpi_projections input)"
  have dist: "distinct (map dpi_attachment_id (rpi_projections input))"
    if "\<not> adjacent_equal (map dpi_attachment_id ?plans)"
  proof -
    have "distinct (map dpi_attachment_id ?plans)"
      using that adjacent_equal_sorted [of "map dpi_attachment_id ?plans"] by simp
    then show ?thesis by (simp add: distinct_map)
  qed
  show thesis
    using assms dist
    by (auto simp: build_route_publication_def Let_def map_res_ok sign_segment_snapshot_def
        intro!: that dest!: module_seal_source)
qed

text \<open>
  C12: every active device gets a route and a path to every prefix of every other site: when a
  publication is built, for each of its projections and each prefix announced by an active
  attachment of another site, the projection has a remote route to the prefix that names the
  site and the attachment, and a peer path to that attachment.
\<close>

theorem projections_reach_other_sites:
  assumes "build_route_publication core input signer = Inr b"
    and "built \<in> set (brp_projections b)"
    and "a \<in> set (rpi_attachments input)" and "sa_state a = AttActive"
    and "sa_site_id a = Some site" and "p \<in> set (sa_local_prefixes a)"
    and "site \<noteq> srp_site_id (sealed_source (bdp_sealed built))"
  shows "(\<exists>r \<in> set (srp_remote_routes (sealed_source (bdp_sealed built))).
      rr_destination_prefix r = p \<and> rr_owner_site_id r = site \<and>
      sa_attachment_id a \<in> set (rr_owner_attachment_ids r)) \<and>
    (\<exists>path \<in> set (srp_peer_paths (sealed_source (bdp_sealed built))).
      ppc_peer_site_id path = site \<and> ppc_peer_attachment_id path = sa_attachment_id a)"
proof -
  let ?src = "sealed_source (bdp_sealed built)"
  obtain routes segment projections where
    routes: "compile_routes (sort_key sa_attachment_id (rpi_attachments input)) = Inr routes"
    and proj: "list_all2 (\<lambda>plan built. build_projection core signer input routes
      (filter is_active_device (sort_key sa_attachment_id (rpi_attachments input)))
      (sealed_content_hash segment) plan = Inr built)
      (sort_key dpi_attachment_id (rpi_projections input)) projections"
    and b: "b = \<lparr>brp_publication_id = rpi_publication_id input,
          brp_audit_event_id = rpi_audit_event_id input, brp_actor_id = rpi_actor_id input,
          brp_segment = segment, brp_projections = projections\<rparr>"
    using assms(1) by (rule build_route_publication_parts)
  obtain plan where "build_projection core signer input routes
      (filter is_active_device (sort_key sa_attachment_id (rpi_attachments input)))
      (sealed_content_hash segment) plan = Inr built"
    using list_all2_mem2 [OF proj] assms(2) by (auto simp: b)
  then obtain egress where remote: "remote_routes_for routes (srp_site_id ?src) egress =
      Inr (srp_remote_routes ?src)"
    and cover: "peer_paths_cover_remote_route_owners (srp_remote_routes ?src) (srp_peer_paths ?src)"
    by (rule build_projection_source)
  have "(sa_attachment_id a, site, p) \<in> owned routes"
    unfolding compile_routes_owned [OF routes] announced_set using assms(3-6) by auto
  then obtain r where r: "r \<in> set routes" "sr_destination_prefix r = p" "sr_owner_site_id r = Some site"
    "sa_attachment_id a \<in> set (sr_owner_attachment_ids r)"
    by (auto simp: owned_def)
  note mem = remote_routes_contain [OF remote r(1,3) assms(7)]
  with cover r(4) have "(site, sa_attachment_id a) \<in>
      set (map (\<lambda>path. (ppc_peer_site_id path, ppc_peer_attachment_id path)) (srp_peer_paths ?src))"
    by (fastforce simp: peer_paths_cover_remote_route_owners_def list_all_iff Let_def)
  then have "\<exists>path \<in> set (srp_peer_paths ?src). ppc_peer_site_id path = site \<and>
      ppc_peer_attachment_id path = sa_attachment_id a" by auto
  moreover have "\<exists>r \<in> set (srp_remote_routes ?src). rr_destination_prefix r = p \<and>
      rr_owner_site_id r = site \<and> sa_attachment_id a \<in> set (rr_owner_attachment_ids r)"
    using mem r(2,4) by (intro bexI [OF _ mem]) simp
  ultimately show ?thesis by blast
qed

text \<open>
  C26: the write for the repository has one projection per active device attachment, in scope:
  its generation follows the expected one, every projection carries the tenant, the segment,
  the generation and the hash of the snapshot, and the attachments of the projections are
  exactly the active device attachments, each once.
\<close>

theorem built_write_projects_devices:
  assumes "build_route_publication core input signer = Inr b" and "database_write b = Inr w"
    and "distinct (map sa_attachment_id (rpi_attachments input))"
  shows "unat (sw_generation w) = unat (sw_expected_previous_generation w) + 1 \<and>
    sw_generation w = rpi_generation input \<and> sw_expected_previous_hash w = rpi_previous_hash input \<and>
    list_all (\<lambda>p. pw_tenant_id p = sw_tenant_id w \<and> pw_segment_id p = sw_segment_id w \<and>
      pw_segment_generation p = sw_generation w \<and>
      pw_segment_content_hash p = so_content_hash (sw_snapshot w)) (sw_projections w) \<and>
    distinct (map pw_attachment_id (sw_projections w)) \<and>
    set (map pw_attachment_id (sw_projections w)) =
      sa_attachment_id ` {a \<in> set (rpi_attachments input). is_active_device a}"
proof -
  let ?sorted = "sort_key sa_attachment_id (rpi_attachments input)"
  let ?devices = "filter is_active_device ?sorted"
  let ?plans = "sort_key dpi_attachment_id (rpi_projections input)"
  obtain routes segment projections where
    gen: "rpi_generation input \<noteq> 0"
    and len: "length (rpi_projections input) = length ?devices"
    and dist: "distinct (map dpi_attachment_id (rpi_projections input))"
    and segment: "ss_segment_generation (sealed_source segment) = rpi_generation input"
      "ss_tenant_id (sealed_source segment) = rpi_tenant_id input"
      "ss_segment_id (sealed_source segment) = rpi_segment_id input"
      "ss_previous_hash (sealed_source segment) = rpi_previous_hash input"
    and proj: "list_all2 (\<lambda>plan built. build_projection core signer input routes ?devices
      (sealed_content_hash segment) plan = Inr built) ?plans projections"
    and b: "b = \<lparr>brp_publication_id = rpi_publication_id input,
          brp_audit_event_id = rpi_audit_event_id input, brp_actor_id = rpi_actor_id input,
          brp_segment = segment, brp_projections = projections\<rparr>"
    using assms(1) by (rule build_route_publication_parts)
  from assms(2) obtain previous where previous: "checked_sub (rpi_generation input) 1 = Some previous"
    and w: "sw_projections w = map projection_write projections" "sw_generation w = rpi_generation input"
      "sw_expected_previous_generation w = previous" "sw_expected_previous_hash w = rpi_previous_hash input"
      "sw_tenant_id w = rpi_tenant_id input" "sw_segment_id w = rpi_segment_id input"
      "so_content_hash (sw_snapshot w) = sealed_content_hash segment"
    by (auto simp: database_write_def database_write_with_expansions_def Let_def b segment)
  have "1 \<le> unat (rpi_generation input)" using gen by (simp add: Suc_leI unat_gt_0)
  then have g: "unat (sw_generation w) = unat (sw_expected_previous_generation w) + 1"
    using checked_sub_Some(1) [OF previous] by (simp add: w)
  have ids: "map (pw_attachment_id \<circ> projection_write) projections = map dpi_attachment_id ?plans"
    using proj by (induction rule: list_all2_induct)
      (auto simp: projection_write_def Let_def elim: build_projection_source)
  have scope: "list_all (\<lambda>p. pw_tenant_id p = sw_tenant_id w \<and> pw_segment_id p = sw_segment_id w \<and>
      pw_segment_generation p = sw_generation w \<and>
      pw_segment_content_hash p = so_content_hash (sw_snapshot w)) (sw_projections w)"
    unfolding list_all_iff w(1)
    using list_all2_mem2 [OF proj]
    by (auto simp: w projection_write_def Let_def elim: build_projection_source)
  have "set (map dpi_attachment_id ?plans) \<subseteq> sa_attachment_id ` set ?devices"
  proof
    fix i
    assume "i \<in> set (map dpi_attachment_id ?plans)"
    then obtain plan where plan: "plan \<in> set ?plans" "i = dpi_attachment_id plan" by auto
    from list_all2_mem1 [OF proj plan(1)] obtain built where
      "build_projection core signer input routes ?devices (sealed_content_hash segment) plan = Inr built"
      by blast
    then obtain a where "a \<in> set ?devices" "sa_attachment_id a = dpi_attachment_id plan"
      by (rule build_projection_source)
    then show "i \<in> sa_attachment_id ` set ?devices" by (metis imageI plan(2))
  qed
  moreover have "card (set (map dpi_attachment_id ?plans)) = length ?devices"
    using dist len by (simp add: distinct_card [symmetric] card_image distinct_map)
  moreover have "card (sa_attachment_id ` set ?devices) \<le> length ?devices"
    by (meson card_image_le card_length finite_set le_trans)
  ultimately have "set (map dpi_attachment_id ?plans) = sa_attachment_id ` set ?devices"
    by (intro card_seteq) auto
  then show ?thesis
    using g scope ids dist by (simp add: w distinct_map)
qed

subsection \<open>A concrete publication\<close>

text \<open>Two devices on two sites, with a direct path from each to the other.\<close>

definition wit_attachment :: "uuid \<Rightarrow> u32 \<Rightarrow> SegmentAttachmentV1" where
  "wit_attachment n net =
     \<lparr>sa_attachment_id = 20 + n, sa_site_id = Some (30 + n), sa_principal = PrDevice (40 + n) (50 + n),
      sa_overlay_router_ipv4 = net, sa_local_prefixes = [RoutePrefix net 24],
      sa_state = AttActive, sa_epoch_floor = 1\<rparr>"

definition wit_path :: "uuid \<Rightarrow> PeerPathCandidateV1" where
  "wit_path n =
     \<lparr>ppc_candidate_id = 60 + n, ppc_peer_site_id = 30 + n, ppc_peer_attachment_id = 20 + n,
      ppc_kind = PathDirect, ppc_relay_node = None, ppc_node_pool_id = 7,
      ppc_transport_node = \<lparr>tni_node_id = 70 + n, tni_node_key_id = 80 + n\<rparr>,
      ppc_endpoint = EpIpv4 1 443, ppc_server_name = ''n'', ppc_server_cert_sha256 = zero_hash,
      ppc_transport_preset = Current, ppc_priority = 1,
      ppc_authorization = \<lparr>pref_policy_id = 9, pref_generation = 1, pref_content_hash = zero_hash\<rparr>\<rparr>"

definition wit_plan :: "uuid \<Rightarrow> uuid \<Rightarrow> DeviceProjectionInput" where
  "wit_plan n peer =
     \<lparr>dpi_publication_id = 90 + n, dpi_attachment_id = 20 + n, dpi_projection_id = 100 + n,
      dpi_projection_generation = 1, dpi_previous_hash = zero_hash,
      dpi_local_transport_node = None, dpi_path_policy = PolDirectOnly,
      dpi_peer_paths = [wit_path peer], dpi_egress_routes = [],
      dpi_egress_destination_prefixes = [],
      dpi_coherent_manifest = \<lparr>cm_generation = 1, cm_peer_paths_hash = zero_hash,
        cm_dns_projection = None, cm_egress_authorization = None, cm_egress_gateway = False\<rparr>,
      dpi_max_inner_mtu = 1280,
      dpi_resources = \<lparr>prp_max_route_prefixes = 1, prp_max_queue_packets = 1,
        prp_max_queue_bytes = 1, prp_replay_window_packets = 1, prp_max_packets_per_second = 1,
        prp_max_bytes_per_second = 1, prp_allowed_traffic_classes = 1\<rparr>\<rparr>"

definition wit_input :: RoutePublicationInput where
  "wit_input =
     \<lparr>rpi_publication_id = 11, rpi_audit_event_id = 12, rpi_actor_id = ''w'', rpi_tenant_id = 2,
      rpi_segment_id = 3, rpi_generation = 1, rpi_previous_hash = zero_hash,
      rpi_segment_overlay_prefix = RoutePrefix 0x0A000000 8,
      rpi_attachments = [wit_attachment 2 0xC0A80200, wit_attachment 1 0xC0A80100],
      rpi_not_before = 1, rpi_expires_at = 2, rpi_stale_until = 3,
      rpi_projections = [wit_plan 1 2, wit_plan 2 1]\<rparr>"

text \<open>A Core module that recognises the two object types by the request.\<close>

fun wit_request :: "json \<Rightarrow> string + u8 list" where
  "wit_request (JObj [_, _, (_, JObj ((_, JStr t) # _))]) =
     Inr (if t = ''segment_snapshot_v1'' then [1] else [2])"
| "wit_request _ = Inl ''request''"

definition wit_core :: core_ext where
  "wit_core =
     \<lparr>ce_json_to_vec = wit_request,
      ce_prepare = (\<lambda>r. Inr \<lparr>po_object_type = (if r = [1] then SEGMENT_SNAPSHOT_V1 else SITE_PROJECTION_V1),
        po_payload = r, po_signing_transcript = r\<rparr>),
      ce_route_content_hash = (\<lambda>_ _. Inr (replicate 32 1)),
      ce_assemble = (\<lambda>_ _ p s. Inr (p @ s)), ce_validate = (\<lambda>_ _ _. Inr ()),
      ce_sign = (\<lambda>_ t. t), ce_public_key = (\<lambda>k. k)\<rparr>"

definition wit_signer :: RouteSigner where
  "wit_signer = signer_new ''k'' [1]"

lemma wit_sign:
  "sign_segment_snapshot wit_core s o1 =
     Inr \<lparr>sealed_source = o1, sealed_content_hash = replicate 32 1, sealed_envelope = [1, 1]\<rparr>"
  "sign_site_projection wit_core s o2 =
     Inr \<lparr>sealed_source = o2, sealed_content_hash = replicate 32 1, sealed_envelope = [2, 2]\<rparr>"
  by (simp_all add: sign_segment_snapshot_def sign_site_projection_def module_seal_def wit_core_def
      build_request_def segment_snapshot_json_def site_projection_json_def guard_def)

lemma wit_attachments:
  "sort_key sa_attachment_id (rpi_attachments wit_input) =
     [wit_attachment 1 0xC0A80100, wit_attachment 2 0xC0A80200]"
  "is_active_device (wit_attachment n net)"
  by (simp_all add: wit_input_def wit_attachment_def is_active_device_def)

lemma wit_routes:
  "compile_routes [wit_attachment 1 0xC0A80100, wit_attachment 2 0xC0A80200] =
     Inr [\<lparr>sr_destination_prefix = RoutePrefix 0xC0A80100 24, sr_owner_site_id = Some 31,
           sr_owner_attachment_ids = [21]\<rparr>,
          \<lparr>sr_destination_prefix = RoutePrefix 0xC0A80200 24, sr_owner_site_id = Some 32,
           sr_owner_attachment_ids = [22]\<rparr>]"
  by code_simp

lemma wit_plans:
  "sort_key dpi_attachment_id (rpi_projections wit_input) = [wit_plan 1 2, wit_plan 2 1]"
  by (simp add: wit_input_def wit_plan_def)

lemma wit_built:
  obtains b w built where "build_route_publication wit_core wit_input wit_signer = Inr b"
    and "database_write b = Inr w" and "built \<in> set (brp_projections b)"
    and "srp_site_id (sealed_source (bdp_sealed built)) = 31"
proof -
  let ?as = "[wit_attachment 1 0xC0A80100, wit_attachment 2 0xC0A80200]"
  define routes where "routes = (case compile_routes ?as of Inr r \<Rightarrow> r | Inl _ \<Rightarrow> [])"
  have routes: "compile_routes ?as = Inr routes" by (simp add: routes_def wit_routes)
  have remote: "remote_routes_for routes 31 [] = Inr [\<lparr>rr_destination_prefix = RoutePrefix 0xC0A80200 24,
      rr_owner_site_id = 32, rr_owner_attachment_ids = [22]\<rparr>]"
    "remote_routes_for routes 32 [] = Inr [\<lparr>rr_destination_prefix = RoutePrefix 0xC0A80100 24,
      rr_owner_site_id = 31, rr_owner_attachment_ids = [21]\<rparr>]"
    unfolding routes_def wit_routes sum.case by code_simp+
  note unfold = remote wit_sign build_projection_def
    peer_paths_cover_remote_route_owners_def guard_def is_nil_def ok_or_def wit_attachment_def
    wit_plan_def wit_path_def
  let ?built = "build_projection wit_core wit_signer wit_input routes ?as (replicate 32 1)"
  have "case ?built (wit_plan 1 2) of
      Inr b1 \<Rightarrow> srp_site_id (sealed_source (bdp_sealed b1)) = 31 | Inl _ \<Rightarrow> False"
    by (simp add: unfold)
  then obtain b1 where b1: "?built (wit_plan 1 2) = Inr b1"
    and site: "srp_site_id (sealed_source (bdp_sealed b1)) = 31"
    by (auto split: sum.splits)
  have "case ?built (wit_plan 2 1) of Inr _ \<Rightarrow> True | Inl _ \<Rightarrow> False"
    by (simp add: unfold)
  then obtain b2 where b2: "?built (wit_plan 2 1) = Inr b2" by (auto split: sum.splits)
  have "length (rpi_projections wit_input) = 2" "rpi_generation wit_input = 1"
    "\<not> is_nil (rpi_publication_id wit_input)" "\<not> is_nil (rpi_audit_event_id wit_input)"
    "rpi_actor_id wit_input \<noteq> []" "dpi_attachment_id (wit_plan 1 2) \<noteq> dpi_attachment_id (wit_plan 2 1)"
    by (simp_all add: wit_input_def is_nil_def wit_plan_def)
  then have "case build_route_publication wit_core wit_input wit_signer of Inl _ \<Rightarrow> False
    | Inr b \<Rightarrow> brp_projections b = [b1, b2] \<and> ss_segment_generation (sealed_source (brp_segment b)) = 1"
    using b1 b2
    by (simp add: build_route_publication_def wit_attachments wit_plans routes wit_sign guard_def Let_def)
  then obtain b where b: "build_route_publication wit_core wit_input wit_signer = Inr b"
    and parts: "brp_projections b = [b1, b2]"
    and gen: "ss_segment_generation (sealed_source (brp_segment b)) = 1"
    by (auto split: sum.splits)
  have "is_ok (database_write b)"
    by (simp add: is_ok_def database_write_def database_write_with_expansions_def Let_def gen
        checked_sub_def ok_or_def)
  with b parts site show thesis
    by (auto simp: is_ok_def split: sum.splits intro: that)
qed

theorem compile_routes_exact_witness:
  "\<exists>routes. compile_routes (rpi_attachments wit_input) = Inr routes \<and>
     owned routes = {(22, 32, RoutePrefix 0xC0A80200 24), (21, 31, RoutePrefix 0xC0A80100 24)}"
proof -
  have "is_ok (compile_routes (rpi_attachments wit_input))" by code_simp
  then obtain routes where routes: "compile_routes (rpi_attachments wit_input) = Inr routes"
    by (auto simp: is_ok_def split: sum.splits)
  have "list_all (\<lambda>a. list_all route_prefix_ok (sa_local_prefixes a)) (rpi_attachments wit_input)"
    by code_simp
  then have "owned routes = set (announced (rpi_attachments wit_input))"
    using compile_routes_exact [OF routes] by (simp add: list_all_iff)
  moreover have "announced (rpi_attachments wit_input) =
      [(22, 32, RoutePrefix 0xC0A80200 24), (21, 31, RoutePrefix 0xC0A80100 24)]"
    by code_simp
  ultimately show ?thesis using routes by simp
qed

theorem projections_reach_other_sites_witness:
  "\<exists>b built. build_route_publication wit_core wit_input wit_signer = Inr b \<and>
     built \<in> set (brp_projections b) \<and>
     (\<exists>path \<in> set (srp_peer_paths (sealed_source (bdp_sealed built))).
        ppc_peer_site_id path = 32 \<and> ppc_peer_attachment_id path = 22)"
proof -
  obtain b built where b: "build_route_publication wit_core wit_input wit_signer = Inr b"
    and built: "built \<in> set (brp_projections b)"
    and site: "srp_site_id (sealed_source (bdp_sealed built)) = 31"
    by (rule wit_built)
  from projections_reach_other_sites [OF b built, of "wit_attachment 2 0xC0A80200" 32] b built site
  show ?thesis by (auto simp: wit_input_def wit_attachment_def)
qed

theorem built_write_projects_devices_witness:
  "\<exists>b w. build_route_publication wit_core wit_input wit_signer = Inr b \<and> database_write b = Inr w \<and>
     set (map pw_attachment_id (sw_projections w)) = {21, 22}"
proof -
  obtain b w where b: "build_route_publication wit_core wit_input wit_signer = Inr b"
    and w: "database_write b = Inr w"
    by (rule wit_built)
  have "distinct (map sa_attachment_id (rpi_attachments wit_input))" by code_simp
  from built_write_projects_devices [OF b w this]
  have "set (map pw_attachment_id (sw_projections w)) =
      sa_attachment_id ` {a \<in> set (rpi_attachments wit_input). is_active_device a}" by blast
  also have "\<dots> = set (map sa_attachment_id (filter is_active_device (rpi_attachments wit_input)))"
    by simp
  also have "map sa_attachment_id (filter is_active_device (rpi_attachments wit_input)) = [22, 21]"
    by code_simp
  also have "set [22, 21] = {21, 22 :: uuid}" by auto
  finally show ?thesis using b w by blast
qed

end
