(* ===== verification/Publisher_Safety.thy ===== *)
theory Publisher_Safety
  imports Control_Publisher Topology_Sync Route_Build
begin

section \<open>What publishing a snapshot guarantees\<close>

text \<open>
  The publisher on top of the route tables: a successful publication of a snapshot is a
  sequence of steps of the route tables, it records the revision under its own id, and
  publishing the same revision again gives the same answer. Then the parts of the input: who
  takes part, which direct paths are accepted, and how failures are reported to the queue.
\<close>

subsection \<open>One publication per revision\<close>

text \<open>Rust's \<open>[u8; 32]\<close>: the content hash of the Core module has 32 bytes.\<close>

definition core_typed :: "core_ext \<Rightarrow> bool" where
  "core_typed core \<longleftrightarrow> (\<forall>ty payload hash. ce_route_content_hash core ty payload = Inr hash \<longrightarrow> length hash = 32)"

definition revision_id :: "(u8 list \<Rightarrow> u8 list) \<Rightarrow> SegmentControlSnapshot \<Rightarrow> uuid" where
  "revision_id sha sn = stable_uuid sha (sn_tenant_id sn) (sn_segment_id sn) (sn_desired_revision sn)"

lemma module_seal_typed:
  "core_typed core \<Longrightarrow> module_seal core k sk ty src obj = Inr s \<Longrightarrow> length (sealed_content_hash s) = 32"
  by (auto simp: module_seal_def Let_def core_typed_def)

lemma build_input_header:
  assumes "build_input ext geo now sn d = Inr input"
  shows "rpi_publication_id input = revision_id (sha256 ext) sn"
    "rpi_tenant_id input = sn_tenant_id sn" "rpi_segment_id input = sn_segment_id sn"
  using assms by (auto simp: build_input_def Let_def revision_id_def)

lemma build_projection_typed:
  assumes "core_typed core" and "build_projection core signer input routes devices hash plan = Inr built"
  shows "length (sealed_content_hash (bdp_sealed built)) = 32"
  using assms by (auto simp: build_projection_def sign_site_projection_def dest: module_seal_typed)

lemma build_route_publication_typed:
  assumes "core_typed core" and "build_route_publication core input signer = Inr b"
  shows "length (sealed_content_hash (brp_segment b)) = 32 \<and>
    (\<forall>p \<in> set (brp_projections b). length (sealed_content_hash (bdp_sealed p)) = 32)"
proof -
  from assms(2) obtain routes devices segment plans where
    seg: "sign_segment_snapshot core signer segment = Inr (brp_segment b)"
    and "map_res (build_projection core signer input routes devices (sealed_content_hash (brp_segment b))) plans
       = Inr (brp_projections b)"
    by (auto simp: build_route_publication_def Let_def)
  then have "\<forall>p \<in> set (brp_projections b). \<exists>plan. build_projection core signer input routes devices
      (sealed_content_hash (brp_segment b)) plan = Inr p"
    unfolding map_res_ok by (meson list_all2_mem2)
  with assms(1) seg show ?thesis
    by (auto simp: sign_segment_snapshot_def dest: module_seal_typed build_projection_typed)
qed

lemma publish_builtE:
  assumes "publish_built ext geo now sn d = Inr (p, d')" and "core_typed (pe_core ext)"
  obtains w out where "write_typed w"
    "publish (pe_policy_isolation ext) (sha256 (pe_control ext)) w d = Inr (out, d')"
    "sw_publication_id w = revision_id (sha256 (pe_control ext)) sn" "sw_tenant_id w = sn_tenant_id sn"
    "sw_segment_id w = sn_segment_id sn" "sw_generation w = pgn_generation p"
    "so_content_hash (sw_snapshot w) = pgn_content_hash p"
proof -
  from assms(1) obtain input b w out where
    input: "build_input (pe_control ext) geo now sn d = Inr input"
    and b: "build_route_publication (pe_core ext) input (pe_signer ext) = Inr b"
    and w: "database_write b = Inr w"
    and pub: "publish (pe_policy_isolation ext) (sha256 (pe_control ext))
       (w\<lparr>sw_policy_only := sn_policy_only sn\<rparr>) d = Inr (out, d')"
    and p: "p = \<lparr>pgn_generation = ss_segment_generation (sealed_source (brp_segment b)),
           pgn_content_hash = sealed_content_hash (brp_segment b)\<rparr>"
    by (auto simp: publish_built_def)
  obtain routes segment projections where
    "ss_segment_generation (sealed_source segment) = rpi_generation input"
    "ss_tenant_id (sealed_source segment) = rpi_tenant_id input"
    "ss_segment_id (sealed_source segment) = rpi_segment_id input"
    and bb: "b = \<lparr>brp_publication_id = rpi_publication_id input,
          brp_audit_event_id = rpi_audit_event_id input, brp_actor_id = rpi_actor_id input,
          brp_segment = segment, brp_projections = projections\<rparr>"
    using b by (rule build_route_publication_parts)
  with build_input_header [OF input] p w build_route_publication_typed [OF assms(2) b]
  show thesis
    by (intro that [OF _ pub])
      (auto simp: database_write_def database_write_with_expansions_def Let_def write_typed_def
        projection_write_def list_all_iff)
qed

lemma publications_grow:
  assumes "route_step\<^sup>*\<^sup>* d d'"
  shows "\<exists>rows. db_publications d' = db_publications d @ rows"
  using assms
proof (induction rule: rtranclp_induct)
  case (step d1 d2)
  have "\<exists>rows. db_publications d2 = db_publications d1 @ rows"
    using step(2)
  proof cases
    case (publication w pol sha out)
    then show ?thesis
      by (cases out) (auto elim!: publish_publishedE dest: publish_replayedE)
  qed auto
  with step(3) show ?case by auto
qed simp

lemma find_prefix: "find P xs = Some x \<Longrightarrow> find P (xs @ ys) = Some x"
  by (simp add: find_append)

lemma published_generation_later:
  assumes "route_step\<^sup>*\<^sup>* d d'" and "published_generation tenant segment i d = Inr (Some g)"
  shows "published_generation tenant segment i d' = Inr (Some g)"
proof -
  obtain rows where rows: "db_publications d' = db_publications d @ rows"
    using publications_grow [OF assms(1)] by blast
  with assms(2) show ?thesis
    by (auto simp: published_generation_def find_append split: if_splits option.splits)
qed

text \<open>The answer for a revision is the row that stands under its id.\<close>

lemma publish_built_records:
  assumes "publish_built ext geo now sn d = Inr (p, d')" and "core_typed (pe_core ext)"
    and "published_generation (sn_tenant_id sn) (sn_segment_id sn)
      (revision_id (sha256 (pe_control ext)) sn) d = Inr None"
  shows "route_step d d' \<and> published_generation (sn_tenant_id sn) (sn_segment_id sn)
      (revision_id (sha256 (pe_control ext)) sn) d' = Inr (Some (pgn_generation p, pgn_content_hash p)) \<and>
    (\<exists>w. publish (pe_policy_isolation ext) (sha256 (pe_control ext)) w d = Inr (Published, d') \<and>
       sw_tenant_id w = sn_tenant_id sn \<and> sw_segment_id w = sn_segment_id sn \<and>
       sw_generation w = pgn_generation p \<and> so_content_hash (sw_snapshot w) = pgn_content_hash p)"
proof -
  let ?sha = "sha256 (pe_control ext)"
  obtain w out where w: "write_typed w" "publish (pe_policy_isolation ext) ?sha w d = Inr (out, d')"
    "sw_publication_id w = revision_id ?sha sn" "sw_tenant_id w = sn_tenant_id sn"
    "sw_segment_id w = sn_segment_id sn" "sw_generation w = pgn_generation p"
    "so_content_hash (sw_snapshot w) = pgn_content_hash p"
    using publish_builtE [OF assms(1,2)] by blast
  from assms(3) have scope: "\<not> is_nil (sn_tenant_id sn)" "\<not> is_nil (sn_segment_id sn)"
      "\<not> is_nil (revision_id ?sha sn)"
    and none: "\<forall>r \<in> set (db_publications d). \<not> (pbr_id r = revision_id ?sha sn \<and>
      pbr_tenant_id r = sn_tenant_id sn \<and> pbr_segment_id r = sn_segment_id sn)"
    by (auto simp: published_generation_def find_None_iff split: if_splits option.splits)
  have out: "out = Published"
  proof (rule ccontr)
    assume "out \<noteq> Published"
    then have "publish (pe_policy_isolation ext) ?sha w d = Inr (Replayed, d')" using w(2) by (cases out) auto
    from publish_replayedE(3) [OF this] obtain r where "find (\<lambda>r. pbr_id r = sw_publication_id w) (db_publications d) = Some r"
      "header_matches r w"
      by (auto simp: publication_matches_def split: option.splits if_splits)
    with find_SomeD [of _ _ r] none w(3-5) show False by (fastforce simp: header_matches_def)
  qed
  from w(2) [unfolded out] have v: "publication_validate w = Inr ()"
    and pb: "db_publications d' = db_publications d @ [publication_row_of w]"
    by (rule publish_publishedE, blast)+
  from publication_validate_facts [OF v] have nz: "sw_generation w \<noteq> 0"
    by (auto dest: checked_add_succ_pos)
  have hash: "so_content_hash (sw_snapshot w) \<noteq> zero_hash" "length (so_content_hash (sw_snapshot w)) = 32"
    using v w(1) by (auto simp: publication_validate_def publication_header_check_def signed_object_validate_def
        write_typed_def)
  have "find (\<lambda>r. pbr_id r = revision_id ?sha sn \<and> pbr_tenant_id r = sn_tenant_id sn \<and>
      pbr_segment_id r = sn_segment_id sn) (db_publications d') = Some (publication_row_of w)"
    using none w(3-5) unfolding pb find_append
    by (auto simp: find_None_iff [THEN iffD2] publication_row_of_def split: option.splits)
  then have "published_generation (sn_tenant_id sn) (sn_segment_id sn) (revision_id ?sha sn) d' =
      Inr (Some (pgn_generation p, pgn_content_hash p))"
    using scope hash nz w(6,7) by (simp add: published_generation_def decode_hash_def publication_row_of_def)
  moreover have "route_step d d'" using w(1,2) by (rule route_step.publication)
  ultimately show ?thesis using w(2,4-7) out by blast
qed

lemma publish_snapshot_cases:
  assumes "publish_snapshot ext geo created new_pool now sn d = (Inr p, d')" and "core_typed (pe_core ext)"
  obtains d1 where "route_step\<^sup>*\<^sup>* d d1" "db_publications d1 = db_publications d" "route_step\<^sup>*\<^sup>* d1 d'"
    "published_generation (sn_tenant_id sn) (sn_segment_id sn)
      (revision_id (sha256 (pe_control ext)) sn) d' = Inr (Some (pgn_generation p, pgn_content_hash p))"
    "published_generation (sn_tenant_id sn) (sn_segment_id sn)
      (revision_id (sha256 (pe_control ext)) sn) d1 = Inr None \<Longrightarrow>
     publish_built ext geo now sn d1 = Inr (p, d')"
proof -
  let ?i = "revision_id (sha256 (pe_control ext)) sn"
  from assms(1) obtain d1 where top: "ensure_control_topology (pe_collate ext) created new_pool
      (sn_tenant_id sn) (sn_segment_id sn) (sn_resources sn) d = Inr d1"
    and rest: "(published_generation (sn_tenant_id sn) (sn_segment_id sn) ?i d1 =
        Inr (Some (pgn_generation p, pgn_content_hash p)) \<and> d' = d1) \<or>
      (published_generation (sn_tenant_id sn) (sn_segment_id sn) ?i d1 = Inr None \<and>
        publish_built ext geo now sn d1 = Inr (p, d'))"
    by (auto simp: publish_snapshot_def revision_id_def split: sum.splits option.splits)
  have "db_publications d1 = db_publications d"
    using top by (rule ensure_control_topologyE) simp
  with ensure_is_route_steps [OF top] rest publish_built_records [OF _ assms(2)] show thesis
    by (intro that [of d1]) auto
qed

text \<open>
  C5: a revision is published once: whatever happened since it was, publishing the same
  revision of the segment again leaves the publications as they are and reports the same
  generation and hash, unless the topology transaction fails, whose error is then reported.
\<close>

theorem revision_published_once:
  assumes "publish_snapshot ext geo created new_pool now sn d = (Inr p, d1)" and "core_typed (pe_core ext)"
    and "route_step\<^sup>*\<^sup>* d1 d2"
    and "publish_snapshot ext' geo' created' new_pool' now' sn' d2 = (r, d3)"
    and "sha256 (pe_control ext') = sha256 (pe_control ext)" and "sn_tenant_id sn' = sn_tenant_id sn"
    and "sn_segment_id sn' = sn_segment_id sn" and "sn_desired_revision sn' = sn_desired_revision sn"
  shows "db_publications d3 = db_publications d2 \<and>
    (r = Inr p \<or> (\<exists>e. ensure_control_topology (pe_collate ext') created' new_pool' (sn_tenant_id sn')
       (sn_segment_id sn') (sn_resources sn') d2 = Inl e \<and> r = Inl (classify_publish_error e)))"
proof (cases "ensure_control_topology (pe_collate ext') created' new_pool' (sn_tenant_id sn')
       (sn_segment_id sn') (sn_resources sn') d2")
  case (Inl e)
  with assms(4) show ?thesis by (simp add: publish_snapshot_def)
next
  case (Inr u)
  let ?i = "revision_id (sha256 (pe_control ext)) sn"
  have i: "revision_id (sha256 (pe_control ext')) sn' = ?i"
    using assms(5-8) by (simp add: revision_id_def)
  have "published_generation (sn_tenant_id sn) (sn_segment_id sn) ?i d1 =
      Inr (Some (pgn_generation p, pgn_content_hash p))"
    using assms(1,2) by (rule publish_snapshot_cases)
  with rtranclp_trans [OF assms(3) ensure_is_route_steps [OF Inr]]
  have "published_generation (sn_tenant_id sn) (sn_segment_id sn) ?i u =
      Inr (Some (pgn_generation p, pgn_content_hash p))"
    by (rule published_generation_later)
  with assms(4,6,7) i Inr have "r = Inr p \<and> d3 = u"
    by (auto simp: publish_snapshot_def revision_id_def)
  moreover have "db_publications u = db_publications d2"
    using Inr by (rule ensure_control_topologyE) simp
  ultimately show ?thesis by simp
qed

text \<open>
  C1: publishing a new revision appends one generation to the chain of its segment: the
  reported generation follows the last one, its snapshot names the hash of the last one, the
  head of the segment becomes the reported pair, and the chains of the other segments stay.
\<close>

theorem publication_extends_chain:
  assumes "route_step\<^sup>*\<^sup>* (empty_db t) d" and "core_typed (pe_core ext)"
    and "publish_snapshot ext geo created new_pool now sn d = (Inr p, d')"
    and "published_generation (sn_tenant_id sn) (sn_segment_id sn)
      (revision_id (sha256 (pe_control ext)) sn) d = Inr None"
  shows "route_step\<^sup>*\<^sup>* (empty_db t) d' \<and>
    unat (pgn_generation p) = length (segment_log d (sn_tenant_id sn, sn_segment_id sn)) + 1 \<and>
    segment_log d' (sn_tenant_id sn, sn_segment_id sn) = segment_log d (sn_tenant_id sn, sn_segment_id sn) @
      [(pgn_generation p, chain_end (segment_log d (sn_tenant_id sn, sn_segment_id sn)), pgn_content_hash p)] \<and>
    current_head (sn_tenant_id sn) (sn_segment_id sn) d' = Inr (pgn_generation p, pgn_content_hash p) \<and>
    (\<forall>k. k \<noteq> (sn_tenant_id sn, sn_segment_id sn) \<longrightarrow> segment_log d' k = segment_log d k)"
proof -
  let ?k = "(sn_tenant_id sn, sn_segment_id sn)"
  obtain d1 where steps: "route_step\<^sup>*\<^sup>* d d1" "route_step\<^sup>*\<^sup>* d1 d'"
    and same: "db_publications d1 = db_publications d"
    and built: "published_generation (sn_tenant_id sn) (sn_segment_id sn)
      (revision_id (sha256 (pe_control ext)) sn) d1 = Inr None \<Longrightarrow> publish_built ext geo now sn d1 = Inr (p, d')"
    using assms(3,2) by (rule publish_snapshot_cases) blast
  have none: "published_generation (sn_tenant_id sn) (sn_segment_id sn)
      (revision_id (sha256 (pe_control ext)) sn) d1 = Inr None"
    using assms(4) unfolding published_generation_def same .
  from publish_built_records [OF built [OF none] assms(2) none] obtain w where
    w: "publish (pe_policy_isolation ext) (sha256 (pe_control ext)) w d1 = Inr (Published, d')"
      "sw_tenant_id w = sn_tenant_id sn" "sw_segment_id w = sn_segment_id sn"
      "sw_generation w = pgn_generation p" "so_content_hash (sw_snapshot w) = pgn_content_hash p" by blast
  have reach1: "route_step\<^sup>*\<^sup>* (empty_db t) d1" using assms(1) steps(1) by (rule rtranclp_trans)
  have reach: "route_step\<^sup>*\<^sup>* (empty_db t) d'" using reach1 steps(2) by (rule rtranclp_trans)
  have log: "segment_log d1 k = segment_log d k" for k by (simp add: segment_log_def same)
  have ext: "extends (segment_log d ?k) (pgn_generation p, sw_expected_previous_hash w, pgn_content_hash p)"
    using segment_log_extends [OF w(1) reachable_inv(1) [OF reach1]] by (simp add: w log)
  from w(1) have "db_publications d' = db_publications d1 @ [publication_row_of w]"
    by (rule publish_publishedE)
  from segment_log_snoc [OF this] have logs: "segment_log d' k = segment_log d k @
      (if k = ?k then [(pgn_generation p, chain_end (segment_log d ?k), pgn_content_hash p)] else [])" for k
    using ext by (simp add: w log extends_def)
  obtain q where "find_segment (sn_tenant_id sn) (sn_segment_id sn) d' = Some q"
    using published_segment_found [OF w(1)] by (auto simp: w)
  from head_of_reachable [OF reach this]
  have "current_head (sn_tenant_id sn) (sn_segment_id sn) d' =
      Inr (of_nat (length (segment_log d ?k) + 1), pgn_content_hash p)"
    by (simp add: logs chain_end_def)
  moreover have "unat (pgn_generation p) = length (segment_log d ?k) + 1" using ext by (simp add: extends_def)
  moreover from this have "pgn_generation p = of_nat (length (segment_log d ?k) + 1)"
    by (rule unat_eq_of_nat_D)
  ultimately show ?thesis using reach by (simp add: logs)
qed

subsection \<open>Who takes part\<close>

lemma destinations_by_source_eq:
  "destinations_by_source owners paths source =
     (let ds = {pc_destination_attachment_id p | p. p \<in> set paths \<and> pc_source_attachment_id p = source \<and>
        pc_destination_attachment_id p \<in> owners}
      in if ds = {} then None else Some ds)"
proof (induction paths rule: rev_induct)
  case Nil
  then show ?case by (simp add: destinations_by_source_def)
next
  case (snoc p paths)
  have "destinations_by_source owners (paths @ [p]) =
      (if pc_destination_attachment_id p \<in> owners
       then (destinations_by_source owners paths)(pc_source_attachment_id p \<mapsto>
         insert (pc_destination_attachment_id p)
           (case destinations_by_source owners paths (pc_source_attachment_id p) of None \<Rightarrow> {} | Some ds \<Rightarrow> ds))
       else destinations_by_source owners paths)"
    by (simp add: destinations_by_source_def)
  with snoc show ?case by (auto simp: Let_def split: if_splits)
qed

text \<open>The reference: an owner, or the source of paths to every owner.\<close>

definition reaches_owners :: "uuid set \<Rightarrow> PathCandidateV1 list \<Rightarrow> uuid \<Rightarrow> bool" where
  "reaches_owners owners paths a \<longleftrightarrow> owners \<noteq> {} \<and>
     (\<forall>owner \<in> owners. \<exists>p \<in> set paths. pc_source_attachment_id p = a \<and> pc_destination_attachment_id p = owner)"

lemma participating_attachments_iff:
  "a \<in> participating_attachments owners (filter (\<lambda>p. path_targets_route_owner p owners) paths) \<longleftrightarrow>
     a \<in> owners \<or> reaches_owners owners paths a"
proof -
  let ?paths = "filter (\<lambda>p. path_targets_route_owner p owners) paths"
  define ds where "ds = {pc_destination_attachment_id p | p. p \<in> set ?paths \<and> pc_source_attachment_id p = a \<and>
        pc_destination_attachment_id p \<in> owners}"
  have "destinations_by_source owners ?paths a = (if ds = {} then None else Some ds)"
    unfolding destinations_by_source_eq ds_def Let_def ..
  then have "a \<in> participating_attachments owners ?paths \<longleftrightarrow>
      a \<in> owners \<or> a \<in> set (map pc_source_attachment_id ?paths) \<and> ds \<noteq> {} \<and> (\<forall>owner \<in> owners. owner \<in> ds)"
    unfolding participating_attachments_def by auto
  moreover have "ds \<noteq> {} \<and> (\<forall>owner \<in> owners. owner \<in> ds) \<longleftrightarrow> reaches_owners owners paths a"
    by (fastforce simp: ds_def reaches_owners_def path_targets_route_owner_def)
  moreover have "a \<in> set (map pc_source_attachment_id ?paths)" if "ds \<noteq> {}"
    using that unfolding ds_def by auto
  ultimately show ?thesis by blast
qed

lemma core_attachment_fields:
  assumes "core_attachment sn (r, v) = Inr x"
  shows "case x of None \<Rightarrow> \<not> is_active r
    | Some a \<Rightarrow> sa_attachment_id a = md_id (cr_metadata r) \<and> (sa_state a = AttActive \<longleftrightarrow> is_active r) \<and>
        (case sa_principal a of PrDevice _ _ \<Rightarrow> True | PrNode _ _ \<Rightarrow> False)"
  using assms by (auto simp: core_attachment_def split: option.splits if_splits)

lemma active_core_ids:
  assumes "core_attachments sn = Inr attachments"
  shows "map sa_attachment_id (filter (\<lambda>a. sa_state a = AttActive \<and> Q (sa_attachment_id a)) attachments) =
    map (\<lambda>(r, _). md_id (cr_metadata r)) (filter (\<lambda>(r, _). Q (md_id (cr_metadata r))) (active_attachments sn))"
proof -
  from assms obtain xs where xs: "list_all2 (\<lambda>rv x. core_attachment sn rv = Inr x) (segment_attachments sn) xs"
    and a: "attachments = List.map_filter (\<lambda>x. x) xs"
    by (auto simp: core_attachments_def map_res_ok)
  from xs show ?thesis
    unfolding a active_attachments_def
  proof (induction rule: list_all2_induct)
    case (Cons rv rvs x xs)
    obtain r v where rv: "rv = (r, v)" by (cases rv)
    from core_attachment_fields [of sn r v x] Cons show ?case
      by (cases x) (auto simp: rv List.map_filter_simps)
  qed (simp add: List.map_filter_simps)
qed

lemma effective_rate_positive:
  assumes "effective_projection_rate_limit limits = Inr limit"
  shows "limit \<noteq> 0 \<and> limit \<in> set limits \<and> (\<forall>l \<in> set limits. limit \<le> l)"
proof -
  let ?f = "\<lambda>effective limit. if limit = 0
    then Inl (Bail ''projection contains a zero outbound entitlement rate limit'')
    else Inr (Some (case effective of None \<Rightarrow> limit | Some current \<Rightarrow> min current limit))"
  have "case e' of None \<Rightarrow> e = None \<and> ls = []
      | Some m \<Rightarrow> m \<in> set_option e \<union> set ls \<and> (\<forall>l \<in> set_option e \<union> set ls. m \<le> l) \<and> (0 \<notin> set_option e \<longrightarrow> m \<noteq> 0)"
    if "fold_res ?f e ls = Inr e'" for e e' and ls :: "u64 list"
    using that
  proof (induction ls arbitrary: e)
    case Nil
    then show ?case by (cases e) auto
  next
    case (Cons l ls)
    then have l: "l \<noteq> 0" and rest: "fold_res ?f (Some (case e of None \<Rightarrow> l | Some c \<Rightarrow> min c l)) ls = Inr e'"
      unfolding fold_res_Cons_ok by (auto split: if_splits)
    from Cons.IH [OF rest] l show ?case
      by (cases e; cases e') (auto simp: min_def split: if_splits)
  qed
  from this [of None limits] assms show ?thesis
    by (auto simp: effective_projection_rate_limit_def split: option.splits)
qed

definition participants_of :: "SegmentControlSnapshot \<Rightarrow> SegmentAttachmentV1 list \<Rightarrow> uuid set" where
  "participants_of sn attachments = participating_attachments (route_owners attachments)
     (filter (\<lambda>p. path_targets_route_owner p (route_owners attachments)) (map snd (live_paths sn)))"

lemma build_inputE:
  assumes "build_input ext geo now sn d = Inr input"
  obtains attachments where "core_attachments sn = Inr attachments"
    "rpi_attachments input = map (revoke_outsiders (participants_of sn attachments)) attachments"
    "list_all2 (\<lambda>(r, v) plan. dpi_attachment_id plan = md_id (cr_metadata r) \<and> dpi_peer_paths plan \<noteq> [] \<and>
        prp_max_bytes_per_second (dpi_resources plan) \<noteq> 0)
      (filter (\<lambda>(r, _). md_id (cr_metadata r) \<in> participants_of sn attachments) (active_attachments sn))
      (rpi_projections input)"
proof -
  from assms obtain plan generation attachments taking expanded where
    as: "core_attachments sn = Inr attachments"
    and atts: "rpi_attachments input = map (revoke_outsiders (participants_of sn attachments)) attachments"
    and proj: "map_res (device_projection ext sn plan generation taking expanded (participants_of sn attachments) d)
      (filter (\<lambda>(r, _). md_id (cr_metadata r) \<in> participants_of sn attachments) (active_attachments sn)) =
      Inr (rpi_projections input)"
    by (auto simp: build_input_def Let_def participants_of_def)
  have "dpi_attachment_id plan' = md_id (cr_metadata r) \<and> dpi_peer_paths plan' \<noteq> [] \<and>
      prp_max_bytes_per_second (dpi_resources plan') \<noteq> 0"
    if "device_projection ext sn plan generation taking expanded participants d (r, v) = Inr plan'"
    for r v plan' participants
    using that effective_rate_positive by (auto simp: device_projection_def Let_def packet_resources_def)
  with proj show thesis
    by (intro that [OF as atts]) (auto simp: map_res_ok elim!: list_all2_mono)
qed

lemma revoked_active_device:
  assumes "core_attachments sn = Inr attachments" and "a \<in> set attachments"
  shows "is_active_device (revoke_outsiders participants a) \<longleftrightarrow>
    sa_state a = AttActive \<and> sa_attachment_id a \<in> participants"
proof -
  from assms(1) obtain xs where "list_all2 (\<lambda>rv x. core_attachment sn rv = Inr x) (segment_attachments sn) xs"
    "attachments = List.map_filter (\<lambda>x. x) xs"
    by (auto simp: core_attachments_def map_res_ok)
  with assms(2) obtain r v where "core_attachment sn (r, v) = Inr (Some a)"
    by (auto simp: List.map_filter_def dest!: list_all2_mem2)
  from core_attachment_fields [OF this] show ?thesis
    by (auto simp: is_active_device_def revoke_outsiders_def)
qed

lemma revoke_outsiders_fields [simp]:
  "sa_attachment_id (revoke_outsiders participants a) = sa_attachment_id a"
  "sa_local_prefixes (revoke_outsiders participants a) = sa_local_prefixes a"
  by (simp_all add: revoke_outsiders_def)

lemma owners_take_part:
  "route_owners (map (revoke_outsiders (participants_of sn attachments)) attachments) = route_owners attachments"
proof -
  have "route_owners attachments \<subseteq> participants_of sn attachments"
    unfolding participants_of_def participating_attachments_def by blast
  then show ?thesis
    unfolding route_owners_def by (fastforce simp: revoke_outsiders_def split: if_splits)
qed

text \<open>
  C10: the input gives the route builder exactly what it asks for: one projection per active
  attachment, in the same order; an attachment of the segment is active in it exactly when it
  announces a prefix or has live paths to every attachment that does; and every projection has
  a peer path and a rate limit that is not zero.
\<close>

theorem build_input_complete:
  assumes "build_input ext geo now sn d = Inr input"
  defines "owners \<equiv> route_owners (rpi_attachments input)"
  shows "map dpi_attachment_id (rpi_projections input) =
      map sa_attachment_id (filter is_active_device (rpi_attachments input)) \<and>
    (\<forall>(r, v) \<in> set (active_attachments sn).
      (\<exists>a \<in> set (rpi_attachments input). sa_attachment_id a = md_id (cr_metadata r) \<and> is_active_device a) \<longleftrightarrow>
      md_id (cr_metadata r) \<in> owners \<or>
      reaches_owners owners (map snd (live_paths sn)) (md_id (cr_metadata r))) \<and>
    (\<forall>plan \<in> set (rpi_projections input). dpi_peer_paths plan \<noteq> [] \<and>
      prp_max_bytes_per_second (dpi_resources plan) \<noteq> 0)"
proof -
  obtain attachments where as: "core_attachments sn = Inr attachments"
    and atts: "rpi_attachments input = map (revoke_outsiders (participants_of sn attachments)) attachments"
    and proj: "list_all2 (\<lambda>(r, v) plan. dpi_attachment_id plan = md_id (cr_metadata r) \<and> dpi_peer_paths plan \<noteq> [] \<and>
        prp_max_bytes_per_second (dpi_resources plan) \<noteq> 0)
      (filter (\<lambda>(r, _). md_id (cr_metadata r) \<in> participants_of sn attachments) (active_attachments sn))
      (rpi_projections input)"
    using assms(1) by (rule build_inputE)
  let ?in = "participants_of sn attachments"
  let ?ids = "map (\<lambda>(r, _). md_id (cr_metadata r))
    (filter (\<lambda>(r, _). md_id (cr_metadata r) \<in> ?in) (active_attachments sn))"
  have owners: "owners = route_owners attachments" by (simp add: owners_def atts owners_take_part)
  have "map sa_attachment_id (filter is_active_device (rpi_attachments input)) =
      map sa_attachment_id (filter (\<lambda>a. sa_state a = AttActive \<and> sa_attachment_id a \<in> ?in) attachments)"
    using revoked_active_device [OF as] unfolding atts by (simp add: filter_map comp_def cong: filter_cong)
  then have active: "map sa_attachment_id (filter is_active_device (rpi_attachments input)) = ?ids"
    using active_core_ids [OF as, of "\<lambda>i. i \<in> ?in"] by simp
  have "map dpi_attachment_id (rpi_projections input) = ?ids"
    using proj by (induction rule: list_all2_induct) auto
  moreover have "\<forall>plan' \<in> set (rpi_projections input). dpi_peer_paths plan' \<noteq> [] \<and>
      prp_max_bytes_per_second (dpi_resources plan') \<noteq> 0"
    using proj by (fastforce dest: list_all2_mem2)
  moreover have "(\<exists>a \<in> set (rpi_attachments input). sa_attachment_id a = md_id (cr_metadata r) \<and> is_active_device a) \<longleftrightarrow>
      md_id (cr_metadata r) \<in> owners \<or> reaches_owners owners (map snd (live_paths sn)) (md_id (cr_metadata r))"
    if rv: "(r, v) \<in> set (active_attachments sn)" for r v
  proof -
    have "(\<exists>a \<in> set (rpi_attachments input). sa_attachment_id a = md_id (cr_metadata r) \<and> is_active_device a) \<longleftrightarrow>
        md_id (cr_metadata r) \<in> set (map sa_attachment_id (filter is_active_device (rpi_attachments input)))"
      by (auto simp: image_iff)
    also have "\<dots> \<longleftrightarrow> md_id (cr_metadata r) \<in> ?in" unfolding active using rv by auto
    finally show ?thesis unfolding participants_of_def owners by (simp add: participating_attachments_iff)
  qed
  ultimately show ?thesis using active by auto
qed

end
