(* ===== verification/Publisher_Checks.thy ===== *)
theory Publisher_Checks
  imports Control_Publisher
begin

section \<open>The checks of the publisher and the codes it reports\<close>

text \<open>
  The check of the direct paths against a declarative reference, what the enabled flag of a
  service policy does to the rules that are published, and which failures of the publisher the
  recovery scan of the queue takes up again after an upgrade.
\<close>

subsection \<open>Direct paths\<close>

definition is_direct :: "PathCandidateV1 \<Rightarrow> bool" where
  "is_direct p \<longleftrightarrow> pc_kind p = Direct"

text \<open>The transport node is at the far end: the source dials it.\<close>

definition dials :: "(uuid \<Rightarrow> uuid option) \<Rightarrow> PathCandidateV1 \<Rightarrow> bool" where
  "dials nodes p \<longleftrightarrow> nodes (pc_source_attachment_id p) \<noteq> Some (pc_transport_node_id p)"

definition endpoint_transport :: "(uuid \<Rightarrow> uuid option) \<Rightarrow> (uuid \<Rightarrow> bool) \<Rightarrow> PathCandidateV1 \<Rightarrow> bool" where
  "endpoint_transport nodes known p \<longleftrightarrow>
     nodes (pc_source_attachment_id p) \<noteq> None \<and> nodes (pc_destination_attachment_id p) \<noteq> None \<and>
     (nodes (pc_source_attachment_id p) = Some (pc_transport_node_id p) \<or>
      nodes (pc_destination_attachment_id p) = Some (pc_transport_node_id p)) \<and>
     known (pc_transport_node_id p)"

definition one_transport :: "PathCandidateV1 list \<Rightarrow> bool" where
  "one_transport paths \<longleftrightarrow> (\<forall>p \<in> set paths. \<forall>q \<in> set paths. is_direct p \<and> is_direct q \<and>
     pc_peer_id p = pc_peer_id q \<longrightarrow> pc_transport_node_id p = pc_transport_node_id q)"

definition direct_peers_of ::
  "(uuid \<Rightarrow> uuid option) \<Rightarrow> PathCandidateV1 list \<Rightarrow> uuid \<Rightarrow> (uuid \<times> bool) option" where
  "direct_peers_of nodes paths peer =
     (case filter (\<lambda>p. is_direct p \<and> pc_peer_id p = peer) paths of
        [] \<Rightarrow> None
      | p # ps \<Rightarrow> Some (pc_transport_node_id p, list_ex (dials nodes) (p # ps)))"

lemma direct_peers_of_snoc:
  "direct_peers_of nodes (ps @ [p]) =
     (if is_direct p then (direct_peers_of nodes ps)(pc_peer_id p \<mapsto>
        (case direct_peers_of nodes ps (pc_peer_id p) of
           None \<Rightarrow> (pc_transport_node_id p, dials nodes p)
         | Some (node, has_dialer) \<Rightarrow> (node, has_dialer \<or> dials nodes p)))
      else direct_peers_of nodes ps)"
  by (rule ext) (auto simp: direct_peers_of_def split: list.splits)

lemma direct_peers_of_Some:
  assumes "direct_peers_of nodes ps peer = Some (node, b)"
  obtains q where "q \<in> set ps" "is_direct q" "pc_peer_id q = peer" "pc_transport_node_id q = node"
proof -
  from assms obtain q qs where "filter (\<lambda>p. is_direct p \<and> pc_peer_id p = peer) ps = q # qs"
    "pc_transport_node_id q = node"
    by (auto simp: direct_peers_of_def split: list.splits)
  then have "q \<in> set (filter (\<lambda>p. is_direct p \<and> pc_peer_id p = peer) ps)" by simp
  with \<open>pc_transport_node_id q = node\<close> that show thesis by auto
qed

lemma direct_peers_of_None:
  "direct_peers_of nodes ps peer = None \<longleftrightarrow> (\<forall>q \<in> set ps. is_direct q \<longrightarrow> pc_peer_id q \<noteq> peer)"
  by (cases "filter (\<lambda>p. is_direct p \<and> pc_peer_id p = peer) ps")
    (auto simp: direct_peers_of_def filter_empty_conv filter_eq_Cons_iff)

lemma one_transportD:
  "one_transport ps \<Longrightarrow> p \<in> set ps \<Longrightarrow> q \<in> set ps \<Longrightarrow> is_direct p \<Longrightarrow> is_direct q \<Longrightarrow>
    pc_peer_id p = pc_peer_id q \<Longrightarrow> pc_transport_node_id p = pc_transport_node_id q"
  unfolding one_transport_def by blast

definition agrees :: "PathCandidateV1 list \<Rightarrow> PathCandidateV1 \<Rightarrow> bool" where
  "agrees ps p \<longleftrightarrow> (\<forall>q \<in> set ps. is_direct q \<and> pc_peer_id q = pc_peer_id p \<longrightarrow>
     pc_transport_node_id q = pc_transport_node_id p)"

lemma one_transport_snoc:
  "one_transport (ps @ [p]) \<longleftrightarrow> one_transport ps \<and> (is_direct p \<longrightarrow> agrees ps p)"
proof (intro iffI conjI impI)
  assume one: "one_transport (ps @ [p])"
  then show "one_transport ps" unfolding one_transport_def set_append by (meson UnI1)
  show "agrees ps p" if "is_direct p"
    unfolding agrees_def
  proof (intro ballI impI, elim conjE)
    fix q assume "q \<in> set ps" "is_direct q" "pc_peer_id q = pc_peer_id p"
    with that one_transportD [OF one, of q p] show "pc_transport_node_id q = pc_transport_node_id p" by simp
  qed
next
  assume ok: "one_transport ps \<and> (is_direct p \<longrightarrow> agrees ps p)"
  show "one_transport (ps @ [p])"
    unfolding one_transport_def
  proof (intro ballI impI)
    fix x y assume "x \<in> set (ps @ [p])" "y \<in> set (ps @ [p])"
      and xy: "is_direct x \<and> is_direct y \<and> pc_peer_id x = pc_peer_id y"
    then consider "x \<in> set ps" "y \<in> set ps" | "x = p" "y \<in> set ps" | "x \<in> set ps" "y = p" | "x = p" "y = p"
      by auto
    then show "pc_transport_node_id x = pc_transport_node_id y"
    proof cases
      case 1
      with ok xy show ?thesis by (metis one_transportD)
    next
      case 2
      with ok xy show ?thesis unfolding agrees_def by metis
    next
      case 3
      with ok xy show ?thesis unfolding agrees_def by metis
    qed simp
  qed
qed

lemma agrees_iff:
  assumes "one_transport ps" and "direct_peers_of nodes ps (pc_peer_id p) = Some (node, b)"
  shows "node = pc_transport_node_id p \<longleftrightarrow> agrees ps p"
proof -
  obtain q where q: "q \<in> set ps" "is_direct q" "pc_peer_id q = pc_peer_id p" "pc_transport_node_id q = node"
    using assms(2) by (rule direct_peers_of_Some)
  with one_transportD [OF assms(1) _ q(1) _ q(2)] show ?thesis
    unfolding agrees_def by auto
qed

lemma agrees_new: "direct_peers_of nodes ps (pc_peer_id p) = None \<Longrightarrow> agrees ps p"
  unfolding direct_peers_of_None agrees_def by blast

lemma dialer_step_ok:
  assumes "\<forall>node b. m (pc_peer_id p) = Some (node, b) \<longrightarrow> (node = pc_transport_node_id p \<longleftrightarrow> Q)"
  shows "dialer_step nodes known m p = Inr m' \<longleftrightarrow>
    (if is_direct p then endpoint_transport nodes known p \<and> (m (pc_peer_id p) \<noteq> None \<longrightarrow> Q) \<and>
       m' = m(pc_peer_id p \<mapsto> (case m (pc_peer_id p) of
           None \<Rightarrow> (pc_transport_node_id p, dials nodes p)
         | Some (node, has_dialer) \<Rightarrow> (node, has_dialer \<or> dials nodes p)))
     else m' = m)"
  using assms
  by (auto simp: dialer_step_def is_direct_def endpoint_transport_def dials_def
      eq_commute [of "pc_transport_node_id p"] split: option.splits if_splits)

lemma dialer_fold:
  "fold_res (dialer_step nodes known) Map.empty paths = Inr m \<longleftrightarrow>
     (\<forall>p \<in> set paths. is_direct p \<longrightarrow> endpoint_transport nodes known p) \<and> one_transport paths \<and>
     m = direct_peers_of nodes paths"
proof (induction paths arbitrary: m rule: rev_induct)
  case Nil
  then show ?case by (auto simp: one_transport_def direct_peers_of_def)
next
  case (snoc p ps)
  have step: "dialer_step nodes known (direct_peers_of nodes ps) p = Inr m \<longleftrightarrow>
      (is_direct p \<longrightarrow> endpoint_transport nodes known p \<and> agrees ps p) \<and> m = direct_peers_of nodes (ps @ [p])"
    if "one_transport ps"
    unfolding direct_peers_of_snoc
    using dialer_step_ok [of "direct_peers_of nodes ps" p "agrees ps p" nodes known m]
      agrees_iff [OF that, of nodes p] agrees_new [of nodes ps p]
    by (cases "direct_peers_of nodes ps (pc_peer_id p)") auto
  have "fold_res (dialer_step nodes known) Map.empty (ps @ [p]) = Inr m \<longleftrightarrow>
      (\<exists>u. fold_res (dialer_step nodes known) Map.empty ps = Inr u \<and> dialer_step nodes known u p = Inr m)"
    by (simp add: fold_res_append fold_res_Cons_ok del: fold_res.simps(2))
  also have "\<dots> \<longleftrightarrow> (\<forall>p \<in> set ps. is_direct p \<longrightarrow> endpoint_transport nodes known p) \<and> one_transport ps \<and>
      dialer_step nodes known (direct_peers_of nodes ps) p = Inr m"
    unfolding snoc.IH by simp
  finally show ?case using step by (simp add: one_transport_snoc) blast
qed

text \<open>
  C22: \<open>validate_direct_dialers\<close> accepts the paths exactly when the transport node of every
  direct path is a known node at one of its two ends, the direct paths of one peer name the same
  transport node, and at least one of them has it at its far end, so that some side dials.
\<close>

theorem validate_direct_dialers_iff:
  "validate_direct_dialers paths nodes known = Inr () \<longleftrightarrow>
     (\<forall>p \<in> set paths. is_direct p \<longrightarrow> endpoint_transport nodes known p) \<and> one_transport paths \<and>
     (\<forall>p \<in> set paths. is_direct p \<longrightarrow>
        (\<exists>q \<in> set paths. is_direct q \<and> pc_peer_id q = pc_peer_id p \<and> dials nodes q))"
proof -
  have "\<not> list_ex (\<lambda>p. case direct_peers_of nodes paths (pc_peer_id p) of None \<Rightarrow> False
         | Some (_, has_dialer) \<Rightarrow> \<not> has_dialer) paths \<longleftrightarrow>
      (\<forall>p \<in> set paths. is_direct p \<longrightarrow>
        (\<exists>q \<in> set paths. is_direct q \<and> pc_peer_id q = pc_peer_id p \<and> dials nodes q))"
  proof -
    have "(case direct_peers_of nodes paths peer of None \<Rightarrow> False | Some (_, has_dialer) \<Rightarrow> \<not> has_dialer) \<longleftrightarrow>
        (\<exists>p \<in> set paths. is_direct p \<and> pc_peer_id p = peer) \<and>
        \<not> (\<exists>q \<in> set paths. is_direct q \<and> pc_peer_id q = peer \<and> dials nodes q)" for peer
    proof (cases "filter (\<lambda>p. is_direct p \<and> pc_peer_id p = peer) paths")
      case Nil
      then show ?thesis by (auto simp: direct_peers_of_def filter_empty_conv)
    next
      case (Cons p ps)
      have "set (p # ps) = {q \<in> set paths. is_direct q \<and> pc_peer_id q = peer}"
        unfolding Cons [symmetric] by auto
      then show ?thesis
        unfolding direct_peers_of_def Cons by (auto simp: list_ex_iff)
    qed
    then show ?thesis by (auto simp: list_ex_iff)
  qed
  then show ?thesis
    unfolding validate_direct_dialers_def by (auto simp: dialer_fold)
qed

subsection \<open>Disabled policies\<close>

lemma policy_rulesE:
  assumes "policy_rules ext geo settings i policy = Inr rules"
  obtains dir expanded where
    "(if list_ex (\<lambda>rule. rule_destination_geo rule \<noteq> None) (sp_rules policy)
       then bind_res (ge_lock geo i) (\<lambda>_. bind_res (enabled_settings settings) (ge_refresh geo i))
       else Inr Map.empty) = Inr dir"
    "map_res (expand_policy_rule ext settings dir) (sp_rules policy) = Inr expanded"
    "map snd rules = map fst expanded"
proof -
  from assms obtain dir expanded ref where d: "(if list_ex (\<lambda>rule. rule_destination_geo rule \<noteq> None) (sp_rules policy)
       then bind_res (ge_lock geo i) (\<lambda>_. bind_res (enabled_settings settings) (ge_refresh geo i))
       else Inr Map.empty) = Inr dir"
    and e: "map_res (expand_policy_rule ext settings dir) (sp_rules policy) = Inr expanded"
    and r: "map_res (\<lambda>(rule, _).
       if (case rule_action rule of RemoteEgress _ \<Rightarrow> True | LocalEgress \<Rightarrow> False) \<and>
          rule_destination_prefixes rule = []
       then Inl (Bail ''remote egress policy requires an explicit CIDR or GeoIP destination selector'')
       else Inr (ref, rule)) expanded = Inr rules"
    by (auto simp: policy_rules_def Let_def)
  from r have "map snd rules = map fst expanded"
    unfolding map_res_ok by (induction rule: list_all2_induct) (auto split: if_splits)
  with d e show thesis by (rule that)
qed


subsection \<open>Failure codes and the recovery scan\<close>

fun reported_code :: "PublicationFailure \<Rightarrow> string" where
  "reported_code (PfRetryable code _) = code"
| "reported_code (PfPermanent code) = code"

lemma normalize_loop_extends: "\<exists>t. normalize_loop acc prev s = acc @ t"
proof (induction acc prev s rule: normalize_loop.induct)
  case (2 acc prev c s)
  have "\<exists>t. acc @ [d] @ u = acc @ t" for d u by blast
  with 2 show ?case
    by (cases "is_ascii_alphanumeric c"; cases "length acc = MAX_CODE_LEN"; cases prev) auto
qed simp

lemma pop_separators_keeps:
  assumes "c \<in> set t" and "c \<noteq> CHR ''_''"
  shows "\<exists>u. pop_separators (p @ t) = p @ u"
  using assms
proof (induction t rule: rev_induct)
  case (snoc x t)
  show ?case
  proof (cases "x = CHR ''_''")
    case True
    then have "pop_separators (p @ t @ [x]) = pop_separators (p @ t)"
      by (subst pop_separators.simps) (simp add: butlast_append)
    with snoc True show ?thesis by auto
  next
    case False
    then have "pop_separators (p @ t @ [x]) = p @ t @ [x]" by (subst pop_separators.simps) simp
    then show ?thesis by blast
  qed
qed simp

lemma pop_separators_first:
  assumes "c \<noteq> CHR ''_''"
  shows "\<exists>u. pop_separators (p @ c # t) = p @ c # u"
proof (cases "\<exists>d \<in> set t. d \<noteq> CHR ''_''")
  case True
  then obtain d where "d \<in> set t" "d \<noteq> CHR ''_''" by blast
  from pop_separators_keeps [OF this, of "p @ [c]"] show ?thesis by simp
next
  case False
  then have "pop_separators (p @ c # t) = p @ [c]"
  proof (induction t rule: rev_induct)
    case Nil
    with assms show ?case by (subst pop_separators.simps) simp
  next
    case (snoc x t)
    then show ?case by (subst pop_separators.simps) (simp add: butlast_append)
  qed
  then show ?thesis by simp
qed

lemma normalize_loop_alphanumeric:
  assumes "list_ex is_ascii_alphanumeric m" and "length acc + (if prev then 0 else 1) < MAX_CODE_LEN"
  shows "\<exists>t. normalize_loop acc prev m = acc @ t \<and> (\<exists>c \<in> set t. c \<noteq> CHR ''_'')"
  using assms
proof (induction m arbitrary: acc prev)
  case (Cons c m)
  have upper: "is_ascii_alphanumeric c \<Longrightarrow> to_ascii_uppercase c \<noteq> CHR ''_''"
    by (rule upper_code_byte(2))
  show ?case
  proof (cases "is_ascii_alphanumeric c")
    case True
    obtain t where "normalize_loop (acc @ [to_ascii_uppercase c]) False m = acc @ [to_ascii_uppercase c] @ t"
      using normalize_loop_extends [of "acc @ [to_ascii_uppercase c]" False m] by auto
    with True upper Cons.prems show ?thesis by auto
  next
    case False
    show ?thesis
    proof (cases prev)
      case True
      with Cons \<open>\<not> is_ascii_alphanumeric c\<close> show ?thesis by simp
    next
      case prev: False
      obtain t where "normalize_loop (acc @ [CHR ''_'']) True m = (acc @ [CHR ''_'']) @ t"
        "\<exists>c \<in> set t. c \<noteq> CHR ''_''"
        using Cons.IH [of "acc @ [CHR ''_'']" True] Cons.prems False prev by auto
      with False prev Cons.prems show ?thesis by auto
    qed
  qed
qed simp

lemma input_code_recoverable:
  assumes "list_ex is_ascii_alphanumeric m"
  shows "recoverable_route_error (normalize_failure_code (''ROUTE_INPUT_'' @ m))"
proof -
  let ?p = "''ROUTE_INPUT_''"
  have "normalize_loop [] False (?p @ m) = normalize_loop ?p True m"
    by (simp add: MAX_CODE_LEN_def ascii_defs to_ascii_uppercase_def)
  moreover obtain t c where "normalize_loop ?p True m = ?p @ t" "c \<in> set t" "c \<noteq> CHR ''_''"
    using normalize_loop_alphanumeric [OF assms, of ?p True] by (auto simp: MAX_CODE_LEN_def)
  moreover from this obtain u where "pop_separators (?p @ t) = ?p @ u"
    using pop_separators_keeps by blast
  ultimately have "normalize_failure_code (?p @ m) = ?p @ u"
    by (simp add: normalize_failure_code_def)
  then show ?thesis by (simp add: recoverable_route_error_def starts_with_def)
qed

text \<open>
  Every failure to collect the input of a publication is reported under a code with the
  prefix \<open>ROUTE_INPUT_\<close>, and the recovery scan takes that code up again after an upgrade unless
  the text behind the prefix has no letter and no digit.
\<close>

theorem input_failures_recoverable:
  "\<exists>text. reported_code (classify_input_error e) = ''ROUTE_INPUT_'' @ text \<and>
     (list_ex is_ascii_alphanumeric text \<longrightarrow>
       recoverable_route_error (normalize_failure_code (reported_code (classify_input_error e))))"
proof -
  have "\<exists>text. reported_code (classify_input_error e) = ''ROUTE_INPUT_'' @ text"
  proof (cases e)
    case (Readiness r)
    then show ?thesis by (cases r) auto
  qed auto
  then show ?thesis using input_code_recoverable by auto
qed

text \<open>
  C39: a route object that the Core module refuses to prepare fails for good: the text around
  its error starts with the type of the object, so no such code has the prefix that the
  recovery scan looks for.
\<close>

theorem prepare_failure_not_recoverable:
  "\<not> recoverable_route_error (normalize_failure_code
     (''ROUTE_BUILD_'' @ route_error_text (CorePrepareFailed ty message)))"
proof -
  let ?p = "''ROUTE_BUILD_CORE_MODULE_ROUTE_OPERATION_FAILED_''"
  obtain m where m: "route_error_text (CorePrepareFailed ty message) =
      ''Core module route operation failed: o'' @ m" by simp
  have "normalize_loop [] False (''ROUTE_BUILD_Core module route operation failed: o'' @ m) =
      normalize_loop (?p @ ''O'') False m"
    by (simp add: MAX_CODE_LEN_def ascii_defs to_ascii_uppercase_def char_of_def bit_Suc_0_iff)
  moreover obtain t where "normalize_loop (?p @ ''O'') False m = ?p @ ''O'' @ t"
    using normalize_loop_extends [of "?p @ ''O''" False m] by auto
  moreover obtain u where "pop_separators (?p @ ''O'' @ t) = ?p @ ''O'' @ u"
    using pop_separators_first [of "CHR ''O''" ?p t] by auto
  ultimately have "normalize_failure_code (''ROUTE_BUILD_Core module route operation failed: o'' @ m) = ?p @ ''O'' @ u"
    by (simp add: normalize_failure_code_def)
  then show ?thesis unfolding m by (simp add: recoverable_route_error_def starts_with_def)
qed

end
