(* ===== verification/Publisher_Witness.thy ===== *)
theory Publisher_Witness
  imports Publisher_Safety Publisher_Checks
begin

section \<open>A concrete segment\<close>

text \<open>
  Two sites with a device each and one prefix each, a peer between them and a direct path in
  both directions; the second site dials the first. The properties of the publisher are applied
  to the publication of this segment into empty tables.
\<close>

definition net_doc :: "uuid \<Rightarrow> ResourceSpecV1 \<Rightarrow> ControlResourceV1" where
  "net_doc i spec = \<lparr>cr_metadata = \<lparr>md_schema_version = 1, md_id = i, md_tenant_id = 2, md_revision = 1,
     md_state = Active\<rparr>, cr_resource = spec\<rparr>"

definition net_site :: "uuid \<Rightarrow> ControlResourceV1 list" where
  "net_site n =
     [net_doc (30 + n) (Site \<lparr>st_name = (if n = 1 then ''a'' else ''b''), st_kind = Edge\<rparr>),
      net_doc (40 + n) (Node \<lparr>nd_device_id = 50 + n, nd_device_key_id = 60 + n, nd_site_id = 30 + n,
        nd_display_name = ''n'', nd_platform = Linux, nd_architecture = ''x''\<rparr>),
      net_doc (20 + n) (Attachment \<lparr>at_segment_id = 3, at_site_id = 30 + n, at_node_id = 40 + n,
        at_overlay_router_ipv4 = (if n = 1 then 0x0A000001 else 0x0A000002), at_epoch_floor = 1\<rparr>),
      net_doc (70 + n) (Prefix \<lparr>px_site_id = 30 + n, px_segment_id = 3,
        px_prefix = Ipv4PrefixV1 (if n = 1 then 0xC0A80100 else 0xC0A80200) 24, px_source = Connected\<rparr>)]"

definition net_path :: "uuid \<Rightarrow> uuid \<Rightarrow> PathCandidateV1" where
  "net_path n peer = \<lparr>pc_segment_id = 3, pc_peer_id = 4, pc_source_attachment_id = 20 + n,
     pc_destination_attachment_id = 20 + peer, pc_kind = Direct, pc_relay_id = None,
     pc_transport_node_id = 41, pc_priority = 1\<rparr>"

definition net_resources :: "ControlResourceV1 list" where
  "net_resources = net_doc 3 (Segment \<lparr>sg_name = ''s'', sg_overlay_prefix = Ipv4PrefixV1 0x0A000000 24\<rparr>) #
     net_site 1 @ net_site 2 @
     [net_doc 4 (Peer \<lparr>pe_segment_id = 3, pe_site_a_id = 31, pe_site_b_id = 32, pe_path_policy = DirectOnly\<rparr>),
      net_doc 81 (PathCandidate (net_path 1 2)), net_doc 82 (PathCandidate (net_path 2 1))]"

definition net_binding :: "uuid \<Rightarrow> RuntimeTransportBinding" where
  "net_binding i = \<lparr>tb_candidate_id = i, tb_endpoint_id = 9, tb_service_node_id = 41,
     tb_service_node_key_id = 61, tb_service_device_id = 51, tb_service_device_key_id = 61,
     tb_node_pool_id = 8, tb_entitlement_id = 7, tb_entitlement_rate_limit = 1000,
     tb_endpoint = SocketV4 0xCB007101 443, tb_server_name = ''n'', tb_server_cert_sha256 = replicate 32 1,
     tb_transport_preset = RtCurrent\<rparr>"

definition net_snapshot :: SegmentControlSnapshot where
  "net_snapshot = \<lparr>sn_tenant_id = 2, sn_segment_id = 3, sn_desired_revision = 1, sn_policy_only = False,
     sn_resources = net_resources, sn_transport_bindings = [(81, [net_binding 81]), (82, [net_binding 82])]\<rparr>"

text \<open>The devices are registered; the other tables are empty.\<close>

definition net_tables :: topology_tables where
  "net_tables = \<lparr>tt_attachments = [], tt_sites = [], tt_site_prefixes = [], tt_node_pools = [], tt_nodes = [],
     tt_endpoints = [], tt_subscriptions = [], tt_entitlements = [], tt_organizations = [], tt_tenants = [],
     tt_devices = map (\<lambda>i. \<lparr>dvr_id = i, dvr_tenant_id = 2, dvr_display_name = ''d'', dvr_active = True,
       dvr_last_seen_at = None\<rparr>) [51, 52],
     tt_active_keys = [(2, 51, 61), (2, 52, 62)], tt_status = []\<rparr>"

text \<open>A digest that keeps the bytes 16 to 47 of its input.\<close>

definition net_sha :: "u8 list \<Rightarrow> u8 list" where
  "net_sha bytes = take 32 (drop 16 bytes @ replicate 32 1)"

definition net_ext :: publisher_ext where
  "net_ext = \<lparr>pe_control = \<lparr>json_record = (\<lambda>_. Some []), json_spec = (\<lambda>_. Some []), sha256 = net_sha\<rparr>,
     pe_core = wit_core, pe_signer = wit_signer, pe_collate = (\<lambda>s. s), pe_policy_isolation = False\<rparr>"

definition net_geo :: geo_env where
  "net_geo = \<lparr>ge_settings = Inr None, ge_lock = (\<lambda>_. Inr ()), ge_refresh = (\<lambda>_ _. Inl GeoBusy)\<rparr>"


subsection \<open>Its tables, input and write\<close>

definition net_db :: route_db where
  "net_db = (case ensure_control_topology (pe_collate net_ext) 5 8 2 3 net_resources (empty_db net_tables) of
     Inr d \<Rightarrow> d | Inl _ \<Rightarrow> empty_db net_tables)"

definition net_hash :: hash32 where
  "net_hash = replicate 32 1"

definition net_attachment :: "uuid \<Rightarrow> SegmentAttachmentV1" where
  "net_attachment n = \<lparr>sa_attachment_id = 20 + n, sa_site_id = Some (30 + n),
     sa_principal = PrDevice (50 + n) (60 + n),
     sa_overlay_router_ipv4 = (if n = 1 then 0x0A000001 else 0x0A000002),
     sa_local_prefixes = [RoutePrefix (if n = 1 then 0xC0A80100 else 0xC0A80200) 24],
     sa_state = AttActive, sa_epoch_floor = 1\<rparr>"

definition net_candidate :: uuid where
  "net_candidate = 140142448567393137519100071406100903473"

definition net_plan :: "uuid \<Rightarrow> uuid \<Rightarrow> DeviceProjectionInput" where
  "net_plan n peer = \<lparr>dpi_publication_id = 20 + n, dpi_attachment_id = 20 + n, dpi_projection_id = 20 + n,
     dpi_projection_generation = 1, dpi_previous_hash = zero_hash,
     dpi_local_transport_node = (if n = 1 then Some \<lparr>tni_node_id = 41, tni_node_key_id = 61\<rparr> else None),
     dpi_path_policy = PolDirectOnly,
     dpi_peer_paths = [\<lparr>ppc_candidate_id = net_candidate, ppc_peer_site_id = 30 + peer,
       ppc_peer_attachment_id = 20 + peer, ppc_kind = PathDirect, ppc_relay_node = None,
       ppc_node_pool_id = 8, ppc_transport_node = \<lparr>tni_node_id = 41, tni_node_key_id = 61\<rparr>,
       ppc_endpoint = EpIpv4 0xCB007101 443, ppc_server_name = ''n'', ppc_server_cert_sha256 = net_hash,
       ppc_transport_preset = Current, ppc_priority = 1,
       ppc_authorization = \<lparr>pref_policy_id = 80 + n, pref_generation = 1, pref_content_hash = net_hash\<rparr>\<rparr>],
     dpi_egress_routes = [], dpi_egress_destination_prefixes = [],
     dpi_coherent_manifest = \<lparr>cm_generation = 1, cm_peer_paths_hash = zero_hash, cm_dns_projection = None,
       cm_egress_authorization = None, cm_egress_gateway = False\<rparr>,
     dpi_max_inner_mtu = 1300, dpi_resources = packet_resources 1000\<rparr>"

definition net_input :: RoutePublicationInput where
  "net_input = \<lparr>rpi_publication_id = 3, rpi_audit_event_id = 2, rpi_actor_id = ''cloud-worker'',
     rpi_tenant_id = 2, rpi_segment_id = 3, rpi_generation = 1, rpi_previous_hash = zero_hash,
     rpi_segment_overlay_prefix = RoutePrefix 0x0A000000 24,
     rpi_attachments = [net_attachment 1, net_attachment 2], rpi_not_before = 100,
     rpi_expires_at = 86500, rpi_stale_until = 172900, rpi_projections = [net_plan 1 2, net_plan 2 1]\<rparr>"

definition net_projection :: "uuid \<Rightarrow> uuid \<Rightarrow> SiteProjectionPublicationWrite" where
  "net_projection n peer = \<lparr>pw_publication_id = 20 + n, pw_projection_id = 20 + n, pw_tenant_id = 2,
     pw_segment_id = 3, pw_site_id = 30 + n, pw_attachment_id = 20 + n, pw_device_id = 50 + n,
     pw_device_key_id = 60 + n, pw_segment_generation = 1, pw_segment_content_hash = net_hash,
     pw_projection_generation = 1, pw_previous_hash = zero_hash,
     pw_object = \<lparr>so_content_hash = net_hash, so_signed_envelope = [2, 2]\<rparr>,
     pw_transport_nodes = [(41, 61)],
     pw_runtime_paths = [\<lparr>rpw_candidate_id = net_candidate, rpw_peer_attachment_id = 20 + peer,
       rpw_path_kind = RtDirect\<rparr>]\<rparr>"

definition net_write :: SegmentPublicationWrite where
  "net_write = \<lparr>sw_publication_id = 3, sw_tenant_id = 2, sw_segment_id = 3,
     sw_expected_previous_generation = 0, sw_expected_previous_hash = zero_hash,
     sw_generation = 1, sw_policy_only = False, sw_expires_at = 86500, sw_stale_until = 172900,
     sw_snapshot = \<lparr>so_content_hash = net_hash, so_signed_envelope = [1, 1]\<rparr>,
     sw_projections = [net_projection 1 2, net_projection 2 1], sw_expansions = [],
     sw_audit_event_id = 2, sw_actor_id = ''cloud-worker''\<rparr>"

text \<open>The bounds of the code as word arithmetic, for evaluation.\<close>

lemma packet_resources_code [code]:
  "packet_resources limit = \<lparr>prp_max_route_prefixes = 65536, prp_max_queue_packets = 4096,
      prp_max_queue_bytes = 16 * 1024 * 1024, prp_replay_window_packets = 4096,
      prp_max_packets_per_second = 100000, prp_max_bytes_per_second = limit,
      prp_allowed_traffic_classes = 1\<rparr>"
  by (simp add: packet_resources_def MAX_GEO_ROUTE_PREFIXES_def)

lemma to_u32_code [code]: "to_u32 n = (if int n < 4294967296 then Some (of_nat n) else None)"
  by (simp add: to_u32_def)

lemma net_topology:
  "ensure_control_topology (pe_collate net_ext) 5 8 2 3 net_resources (empty_db net_tables) = Inr net_db"
proof -
  have "is_ok (ensure_control_topology (pe_collate net_ext) 5 8 2 3 net_resources (empty_db net_tables))"
    by code_simp
  then show ?thesis by (auto simp: is_ok_def net_db_def split: sum.splits)
qed

lemma net_build_input: "build_input (pe_control net_ext) net_geo 100 net_snapshot net_db = Inr net_input"
  by code_simp

lemma net_built:
  obtains b where "build_route_publication wit_core net_input wit_signer = Inr b"
    and "database_write b = Inr net_write" and "sealed_content_hash (brp_segment b) = net_hash"
    and "ss_segment_generation (sealed_source (brp_segment b)) = 1"
proof -
  let ?as = "[net_attachment 1, net_attachment 2]"
  define routes where "routes = (case compile_routes ?as of Inr r \<Rightarrow> r | Inl _ \<Rightarrow> [])"
  have "is_ok (compile_routes ?as)" by code_simp
  then have routes: "compile_routes ?as = Inr routes" by (auto simp: is_ok_def routes_def split: sum.splits)
  have remote: "remote_routes_for routes 31 [] = Inr [\<lparr>rr_destination_prefix = RoutePrefix 0xC0A80200 24,
      rr_owner_site_id = 32, rr_owner_attachment_ids = [22]\<rparr>]"
    "remote_routes_for routes 32 [] = Inr [\<lparr>rr_destination_prefix = RoutePrefix 0xC0A80100 24,
      rr_owner_site_id = 31, rr_owner_attachment_ids = [21]\<rparr>]"
    unfolding routes_def by code_simp+
  have sorted: "sort_key sa_attachment_id (rpi_attachments net_input) = ?as"
    "sort_key dpi_attachment_id (rpi_projections net_input) = [net_plan 1 2, net_plan 2 1]"
    "is_active_device (net_attachment n)" for n
    by (simp_all add: net_input_def net_attachment_def net_plan_def is_active_device_def)
  note unfold = remote wit_sign build_projection_def peer_paths_cover_remote_route_owners_def guard_def
    is_nil_def ok_or_def net_attachment_def net_plan_def
  let ?built = "build_projection wit_core wit_signer net_input routes ?as (replicate 32 1)"
  have part: "case ?built (net_plan n peer) of Inl _ \<Rightarrow> False | Inr p \<Rightarrow> projection_write p = net_projection n peer"
    if "(n, peer) = (1, 2) \<or> (n, peer) = (2, 1)" for n peer
    using that
    by (elim disjE; simp add: unfold projection_write_def net_projection_def net_input_def Let_def
        transport_node_pairs_def net_hash_def net_candidate_def)
  obtain p1 p2 where parts: "?built (net_plan 1 2) = Inr p1" "?built (net_plan 2 1) = Inr p2"
    "projection_write p1 = net_projection 1 2" "projection_write p2 = net_projection 2 1"
    using part [of 1 2] part [of 2 1] by (auto split: sum.splits)
  have "length (rpi_projections net_input) = 2" "rpi_generation net_input = 1"
    "\<not> is_nil (rpi_publication_id net_input)" "\<not> is_nil (rpi_audit_event_id net_input)"
    "rpi_actor_id net_input \<noteq> []" "dpi_attachment_id (net_plan 1 2) \<noteq> dpi_attachment_id (net_plan 2 1)"
    and header: "rpi_publication_id net_input = 3" "rpi_tenant_id net_input = 2" "rpi_segment_id net_input = 3"
    "rpi_previous_hash net_input = zero_hash" "rpi_expires_at net_input = 86500"
    "rpi_stale_until net_input = 172900" "rpi_audit_event_id net_input = 2"
    "rpi_actor_id net_input = ''cloud-worker''"
    by (simp_all add: net_input_def is_nil_def net_plan_def)
  then have "case build_route_publication wit_core net_input wit_signer of Inl _ \<Rightarrow> False
    | Inr b \<Rightarrow> database_write b = Inr net_write \<and> sealed_content_hash (brp_segment b) = net_hash \<and>
        ss_segment_generation (sealed_source (brp_segment b)) = 1"
    using parts
    by (simp add: build_route_publication_def sorted routes wit_sign guard_def Let_def database_write_def
        database_write_with_expansions_def net_write_def checked_sub_def net_hash_def header)
  then show thesis by (auto split: sum.splits intro: that)
qed

lemma net_write_valid: "publication_validate net_write = Inr ()"
  by (simp add: publication_validate_def publication_header_check_def projection_step_def
      projection_fields_check_def projection_paths_check_def signed_object_validate_def
      net_write_def net_projection_def net_hash_def net_candidate_def is_nil_def checked_add_def
      wit_hash_not_zero MAX_ACTOR_ID_LEN_def MAX_SIGNED_ENVELOPE_LEN_def MAX_PROJECTIONS_def
      MAX_EXPANSION_OBJECTS_def MAX_RUNTIME_PATHS_def first_err.simps)

lemma net_publish: "\<exists>d. publish False net_sha net_write net_db = Inr (Published, d)"
proof -
  have "\<not> publication_exists 3 net_db" by code_simp
  moreover have "find_segment 2 3 net_db = Some (hd (db_segments net_db))" by code_simp
  moreover have "sgr_current_generation (hd (db_segments net_db)) = 0"
    "sgr_current_content_hash (hd (db_segments net_db)) = zero_hash" by code_simp+
  moreover have "validate_projection_ownership net_write net_db = Inr ()" by code_simp
  moreover have "validate_projection_heads net_write net_db = Inr ()" by code_simp
  moreover have "is_ok (publish_rows net_write net_db)" by code_simp
  moreover have "sw_tenant_id net_write = 2" "sw_segment_id net_write = 3" "sw_publication_id net_write = 3"
    "\<not> sw_policy_only net_write" "sw_expected_previous_generation net_write = 0"
    "sw_expected_previous_hash net_write = zero_hash"
    by (simp_all add: net_write_def)
  ultimately show ?thesis
    by (auto simp: publish_def net_write_valid policy_only_gate_def is_ok_iff)
qed

lemma net_revision: "revision_id (sha256 (pe_control net_ext)) net_snapshot = 3"
  by code_simp

lemma net_unpublished:
  "published_generation 2 3 3 (empty_db net_tables) = Inr None" "published_generation 2 3 3 net_db = Inr None"
  by code_simp+

lemma net_fields:
  "sn_tenant_id net_snapshot = 2" "sn_segment_id net_snapshot = 3" "sn_resources net_snapshot = net_resources"
  "\<not> sn_policy_only net_snapshot" "pe_core net_ext = wit_core" "pe_signer net_ext = wit_signer"
  "\<not> pe_policy_isolation net_ext" "sha256 (pe_control net_ext) = net_sha"
  by (simp_all add: net_snapshot_def net_ext_def)

lemma net_core_typed: "core_typed (pe_core net_ext)"
  by (simp add: net_ext_def core_typed_def wit_core_def)

lemma net_published:
  obtains d where "publish_snapshot net_ext net_geo 5 8 100 net_snapshot (empty_db net_tables) =
    (Inr \<lparr>pgn_generation = 1, pgn_content_hash = net_hash\<rparr>, d)"
proof -
  obtain b where b: "build_route_publication wit_core net_input wit_signer = Inr b"
    "database_write b = Inr net_write" "sealed_content_hash (brp_segment b) = net_hash"
    "ss_segment_generation (sealed_source (brp_segment b)) = 1"
    by (rule net_built)
  obtain d where d: "publish False net_sha net_write net_db = Inr (Published, d)"
    using net_publish by blast
  have "net_write\<lparr>sw_policy_only := False\<rparr> = net_write" by (simp add: net_write_def)
  with b d have "publish_built net_ext net_geo 100 net_snapshot net_db =
      Inr (\<lparr>pgn_generation = 1, pgn_content_hash = net_hash\<rparr>, d)"
    by (simp add: publish_built_def net_build_input net_fields)
  then have "publish_snapshot net_ext net_geo 5 8 100 net_snapshot (empty_db net_tables) =
      (Inr \<lparr>pgn_generation = 1, pgn_content_hash = net_hash\<rparr>, d)"
    using net_revision unfolding revision_id_def
    by (simp add: publish_snapshot_def net_fields net_topology net_unpublished)
  then show thesis by (rule that)
qed

subsection \<open>The properties on this segment\<close>

theorem revision_published_once_witness:
  "\<exists>d. publish_snapshot net_ext net_geo 5 8 100 net_snapshot (empty_db net_tables) =
       (Inr \<lparr>pgn_generation = 1, pgn_content_hash = net_hash\<rparr>, d) \<and>
     db_publications (snd (publish_snapshot net_ext net_geo 6 9 200 net_snapshot d)) = db_publications d"
proof -
  obtain d where d: "publish_snapshot net_ext net_geo 5 8 100 net_snapshot (empty_db net_tables) =
    (Inr \<lparr>pgn_generation = 1, pgn_content_hash = net_hash\<rparr>, d)" by (rule net_published)
  obtain r d3 where r: "publish_snapshot net_ext net_geo 6 9 200 net_snapshot d = (r, d3)" by fastforce
  from revision_published_once [OF d net_core_typed rtranclp.rtrancl_refl r refl refl refl refl] d r
  show ?thesis by auto
qed

theorem publication_extends_chain_witness:
  "\<exists>d. publish_snapshot net_ext net_geo 5 8 100 net_snapshot (empty_db net_tables) =
       (Inr \<lparr>pgn_generation = 1, pgn_content_hash = net_hash\<rparr>, d) \<and>
     current_head 2 3 d = Inr (1, net_hash)"
proof -
  obtain d where d: "publish_snapshot net_ext net_geo 5 8 100 net_snapshot (empty_db net_tables) =
    (Inr \<lparr>pgn_generation = 1, pgn_content_hash = net_hash\<rparr>, d)" by (rule net_published)
  have "published_generation (sn_tenant_id net_snapshot) (sn_segment_id net_snapshot)
      (revision_id (sha256 (pe_control net_ext)) net_snapshot) (empty_db net_tables) = Inr None"
    unfolding net_revision by (simp add: net_fields net_unpublished)
  from publication_extends_chain [OF rtranclp.rtrancl_refl net_core_typed d this] d
  show ?thesis by (auto simp: net_fields)
qed

theorem build_input_complete_witness:
  "map dpi_attachment_id (rpi_projections net_input) = [21, 22] \<and>
   map sa_attachment_id (filter is_active_device (rpi_attachments net_input)) = [21, 22]"
proof -
  have "map dpi_attachment_id (rpi_projections net_input) = [21, 22]" by code_simp
  with build_input_complete [OF net_build_input] show ?thesis by simp
qed

theorem validate_direct_dialers_iff_witness:
  "validate_direct_dialers [net_path 1 2, net_path 2 1] [21 \<mapsto> 41, 22 \<mapsto> 42] (\<lambda>i. i = 41) = Inr () \<and>
   validate_direct_dialers [net_path 1 2] [21 \<mapsto> 41, 22 \<mapsto> 42] (\<lambda>i. i = 41) \<noteq> Inr ()"
  unfolding validate_direct_dialers_iff
  by (auto simp: endpoint_transport_def one_transport_def is_direct_def dials_def net_path_def)

definition net_policy :: ServicePolicyV1 where
  "net_policy = \<lparr>sp_segment_id = 3, sp_generation = 1, sp_name = ''p'', sp_enabled = True,
     sp_rules = [\<lparr>rule_id = 91, rule_priority = 1, rule_source_site_ids = [31],
       rule_destination_prefixes = [Ipv4PrefixV1 0xCB007100 24], rule_destination_geo = None,
       rule_domains = [], rule_traffic_classes = [], rule_action = RemoteEgress 92\<rparr>]\<rparr>"


theorem input_failures_recoverable_witness:
  "recoverable_route_error (normalize_failure_code (reported_code (classify_input_error (Readiness PathCandidates))))"
  using input_failures_recoverable [of "Readiness PathCandidates"] by (auto simp: ascii_defs)

end
