(* ===== verification/Publisher_Input_Witness.thy ===== *)
theory Publisher_Input_Witness
  imports Publisher_Witness
begin

section \<open>Topology, countries and egress on concrete inputs\<close>

text \<open>
  The properties of the parts that prepare a publication, applied to the segment of
  \<open>Publisher_Witness\<close>, to a provider of one country and to two rules that compete for a
  destination.
\<close>

subsection \<open>Topology tables\<close>

lemma net_attachment_docs:
  "r \<in> set net_resources \<Longrightarrow> cr_resource r = Attachment v \<Longrightarrow>
     (\<exists>n \<in> {1, 2}. md_id (cr_metadata r) = 20 + n \<and> r = net_site n ! 2 \<and>
        at_overlay_router_ipv4 v = (if n = 1 then 0x0A000001 else 0x0A000002))"
  by (auto simp: net_resources_def net_site_def net_doc_def)


text \<open>A deleted segment has had the name of the new one.\<close>

definition old_db :: route_db where
  "old_db = (empty_db net_tables)\<lparr>db_segments :=
     [\<lparr>sgr_id = 5, sgr_tenant_id = 2, sgr_name = ''s'', sgr_hub_node_pool_id = 8,
       sgr_overlay_network = 0x0A000000, sgr_overlay_prefix_len = 24, sgr_state = Deleted,
       sgr_current_generation = 0, sgr_current_content_hash = zero_hash\<rparr>]\<rparr>"

theorem reused_segment_name_not_found_witness:
  "\<exists>d. ensure_control_topology (\<lambda>s. s) 5 8 2 3 [hd net_resources] old_db = Inr d \<and>
     current_head 2 3 d = Inl SegmentNotFound"
proof -
  have "is_ok (ensure_control_topology (\<lambda>s. s) 5 8 2 3 [hd net_resources] old_db)" by code_simp
  then obtain d where d: "ensure_control_topology (\<lambda>s. s) 5 8 2 3 [hd net_resources] old_db = Inr d"
    by (auto simp: is_ok_iff)
  have seg: "control_segment 3 [hd net_resources] =
      Some (Active, \<lparr>sg_name = ''s'', sg_overlay_prefix = Ipv4PrefixV1 0x0A000000 24\<rparr>)"
    by (simp add: net_resources_def net_doc_def)
  have "hd (db_segments old_db) \<in> set (db_segments old_db)" "sgr_tenant_id (hd (db_segments old_db)) = 2"
    "sgr_name (hd (db_segments old_db)) = ''s''" "3 \<notin> sgr_id ` set (db_segments old_db)"
    by (simp_all add: old_db_def)
  with reused_segment_name_not_found [OF d seg, of "hd (db_segments old_db)"] d show ?thesis by auto
qed

subsection \<open>Countries\<close>

definition nl_settings :: GeoProviderSettings where
  "nl_settings = \<lparr>gs_provider = OPENWRT_CIDR_PROVIDER, gs_source_url = ''u'', gs_countries = [''NL''],
     gs_refresh_interval_seconds = 3, gs_enabled = True, gs_version = None, gs_digest = None, gs_generation = 1\<rparr>"

definition nl_content :: string where
  "nl_content = ''9.9.0.0/16'' @ [CHR 0x0A] @ ''8.8.8.0/24 # x''"

definition nl_io :: geo_io where
  "nl_io = \<lparr>io_recover = True, io_create_root = True, io_create = True, io_write = True, io_clean = True,
     io_rotate = True, io_activate = True, io_restore = True, io_drop = True\<rparr>"

definition nl_root :: geo_root where
  "nl_root = \<lparr>gr_current = None, gr_previous = None, gr_stage = None, gr_files = Map.empty\<rparr>"


definition nl_rule :: ServicePolicyRuleV1 where
  "nl_rule = \<lparr>rule_id = 91, rule_priority = 1, rule_source_site_ids = [31],
     rule_destination_prefixes = [], rule_destination_geo = Some
       \<lparr>geo_provider = GEO_PROVIDER_KIND, geo_countries = [''NL''], geo_version = None, geo_digest = None\<rparr>,
     rule_domains = [], rule_traffic_classes = [], rule_action = RemoteEgress 92\<rparr>"

theorem expand_geo_rule_exact_witness:
  "\<exists>rule digest. expand_geo_rule net_sha [''nl-ip.cidr'' \<mapsto> \<lparr>gf_content = nl_content, gf_age = None\<rparr>] nl_rule =
       Inr (rule, digest) \<and>
     rule_destination_prefixes rule = [Ipv4PrefixV1 0x08080800 24, Ipv4PrefixV1 0x09090000 16] \<and>
     distinct (rule_destination_prefixes rule)"
proof -
  let ?dir = "[''nl-ip.cidr'' \<mapsto> \<lparr>gf_content = nl_content, gf_age = None\<rparr>]"
  define canon where "canon = concat (map (\<lambda>v. str_bytes ''NL'' @ [0] @ str_bytes v @ [10]) [''9.9.0.0/16'', ''8.8.8.0/24''])"
  have "country_file ''NL'' = ''nl-ip.cidr''" "entries nl_content = [''9.9.0.0/16'', ''8.8.8.0/24'']"
    "geo_entry ''nl-ip.cidr'' ''9.9.0.0/16'' = Inr (Ipv4PrefixV1 0x09090000 16)"
    "geo_entry ''nl-ip.cidr'' ''8.8.8.0/24'' = Inr (Ipv4PrefixV1 0x08080800 24)"
    by code_simp+
  then have nl: "country_entries ?dir ''NL'' =
      Inr ([Ipv4PrefixV1 0x09090000 16, Ipv4PrefixV1 0x08080800 24], canon)"
    by (simp add: country_entries_def read_to_string_def map_res_ok canon_def)
  have "canon \<noteq> []" by (simp add: canon_def)
  note nl this
  moreover have "remdups_adj (sort_prefixes [Ipv4PrefixV1 0x09090000 16, Ipv4PrefixV1 0x08080800 24]) =
      [Ipv4PrefixV1 0x08080800 24, Ipv4PrefixV1 0x09090000 16]" by code_simp
  moreover have "map_res (country_entries ?dir) [''NL''] =
      Inr [([Ipv4PrefixV1 0x09090000 16, Ipv4PrefixV1 0x08080800 24], canon)]"
    unfolding map_res_ok by (simp add: nl)
  ultimately have "\<exists>rule digest. expand_geo_rule net_sha ?dir nl_rule = Inr (rule, digest) \<and>
      rule_destination_prefixes rule = [Ipv4PrefixV1 0x08080800 24, Ipv4PrefixV1 0x09090000 16]"
    by (simp add: expand_geo_rule_def nl_rule_def MAX_GEO_ROUTE_PREFIXES_def)
  then obtain rule digest where e: "expand_geo_rule net_sha ?dir nl_rule = Inr (rule, digest)"
    and p: "rule_destination_prefixes rule = [Ipv4PrefixV1 0x08080800 24, Ipv4PrefixV1 0x09090000 16]"
    by blast
  have "rule_destination_geo nl_rule = Some
      \<lparr>geo_provider = GEO_PROVIDER_KIND, geo_countries = [''NL''], geo_version = None, geo_digest = None\<rparr>"
    by (simp add: nl_rule_def)
  from expand_geo_rule_exact [OF e this] e p show ?thesis by blast
qed

subsection \<open>Egress\<close>

text \<open>Of two rules for one destination the one with the lower number wins.\<close>

definition two_rules :: "(PolicyRefV1 \<times> ServicePolicyRuleV1) list" where
  "two_rules =
     [(\<lparr>pref_policy_id = 94, pref_generation = 1, pref_content_hash = net_hash\<rparr>,
       hd (sp_rules net_policy)\<lparr>rule_id := 95, rule_priority := 2, rule_action := RemoteEgress 96\<rparr>),
      (\<lparr>pref_policy_id = 93, pref_generation = 1, pref_content_hash = net_hash\<rparr>, hd (sp_rules net_policy))]"

definition two_egresses :: "uuid \<Rightarrow> EgressV1 option" where
  "two_egresses = [92 \<mapsto> \<lparr>eg_name = ''e'', eg_site_id = 32, eg_attachment_id = 22, eg_max_sessions = 1,
       eg_max_bits_per_second = 1\<rparr>,
     96 \<mapsto> \<lparr>eg_name = ''f'', eg_site_id = 33, eg_attachment_id = 23, eg_max_sessions = 1,
       eg_max_bits_per_second = 1\<rparr>]"

definition one_effective :: EffectiveRemoteEgressRule where
  "one_effective = \<lparr>ere_policy_ref = \<lparr>pref_policy_id = 93, pref_generation = 1, pref_content_hash = net_hash\<rparr>,
     ere_priority = 1, ere_source_site_id = 31, ere_destination = RoutePrefix 0xCB007100 24, ere_egress_id = 92\<rparr>"

lemma two_selected: "select_remote_egress_rules two_rules [31, 32] two_egresses = Inr [one_effective]"
  by code_simp


theorem plan_egress_carries_rules_witness:
  "\<exists>plan. plan_egress two_egresses [one_effective] = Inr plan \<and> 32 \<in> set (ep_gateway_sites plan)"
proof -
  have "is_ok (plan_egress two_egresses [one_effective])" by code_simp
  then obtain plan where plan: "plan_egress two_egresses [one_effective] = Inr plan"
    by (auto simp: is_ok_iff)
  from plan_egress_carries_rules [OF plan] have "rule_planned two_egresses plan one_effective" by simp
  with plan show ?thesis by (auto simp: rule_planned_def one_effective_def two_egresses_def)
qed

end
