(* ===== verification/Spec2Isabelle.thy ===== *)
theory Spec2Isabelle
  imports Client_Projection Worker_Main Control_Store_Witness Publisher_Input_Witness
begin

text \<open>
  \<^bold>\<open>Verification of the candy-cloud control plane.\<close>

  The program is the cloud side of an SD-WAN. Operators store documents (sites, segments,
  attachments, prefixes, peers, policies, ...) through the management API. Each stored change
  enqueues generation jobs for the segments that depend on it. A worker leases a job, reads the
  graph of its segment, compiles the routes, has every object sealed and signed, and publishes
  one generation of the segment: a link of a hash chain per segment and per device. Terminal
  clients receive signed grants and policy projections.

  \<^bold>\<open>Theories and sources.\<close> Paths are relative to \<^verbatim>\<open>src/crates\<close>.
  \<^item> \<^verbatim>\<open>Candy_Prelude\<close>, \<^verbatim>\<open>Std_Text\<close>, \<^verbatim>\<open>Std_Net\<close>, \<^verbatim>\<open>Ipv4_Prefix\<close>: results (\<open>bind_res\<close>, \<open>guard\<close>,
    folds that stop at an error), machine words with checked arithmetic, identifiers, hexadecimal
    and UTF-8 text, the address parser of the standard library, prefixes and their overlap.
  \<^item> \<^verbatim>\<open>Control_Contract\<close>: \<^verbatim>\<open>cloud-control/src/lib.rs\<close>, the documents, their validation and hashes.
  \<^item> \<^verbatim>\<open>Generation_Jobs\<close>, \<^verbatim>\<open>Generation_Queue\<close>: \<open>GenerationJobRepository\<close> of
    \<^verbatim>\<open>cloud-db/src/control.rs\<close>. The state is a record of the two tables; enqueue, claim, renew,
    publish, fail, recovery and refresh are functions from the state to a result with the next
    state. \<open>queue_step\<close> is the abstract lease queue they refine.
  \<^item> \<^verbatim>\<open>Control_Store\<close>, \<^verbatim>\<open>Control_Integrity\<close>, \<^verbatim>\<open>Control_Effects\<close>, \<^verbatim>\<open>Control_Store_Witness\<close>:
    \<open>ControlRepository\<close> of the same file: \<open>get\<close>, \<open>list\<close>, \<open>references_to\<close> and the transaction
    \<open>mutate\<close> with its checks between resources, its idempotency records, its audit row and the
    jobs it enqueues. \<open>store_step\<close> is the relation of its applied mutations.
  \<^item> \<^verbatim>\<open>Segment_Snapshot\<close>: \<open>segment_snapshot\<close> and \<open>load_transport_bindings\<close> of the same file.
  \<^item> \<^verbatim>\<open>Sdwan_Contract\<close>, \<^verbatim>\<open>Sdwan_Repository\<close>, \<^verbatim>\<open>Sdwan_Chain\<close>: the writes, their validation and
    \<open>publish\<close> of \<^verbatim>\<open>cloud-db/src/sdwan.rs\<close>, over the record \<open>route_db\<close> of its tables.
    \<open>route_step\<close> is the relation of its steps, interleaved with any other change of the tables
    that the publication only reads.
  \<^item> \<^verbatim>\<open>Control_Topology\<close>, \<^verbatim>\<open>Topology_Sync\<close>: \<open>ensure_control_topology\<close> of the same file with the
    unique keys of the migrations.
  \<^item> \<^verbatim>\<open>Route_Types\<close>, \<^verbatim>\<open>Route_Encoding\<close>, \<^verbatim>\<open>Route_Publication\<close>, \<^verbatim>\<open>Route_Build\<close>:
    \<^verbatim>\<open>cloud-worker/src/route_types.rs\<close> and \<^verbatim>\<open>route_publication.rs\<close>.
  \<^item> \<^verbatim>\<open>Geo_Provider\<close>, \<^verbatim>\<open>Egress_Selection\<close>, \<^verbatim>\<open>Control_Publisher\<close>, \<^verbatim>\<open>Publisher_Safety\<close>,
    \<^verbatim>\<open>Publisher_Checks\<close>, \<^verbatim>\<open>Publisher_Witness\<close>, \<^verbatim>\<open>Publisher_Input_Witness\<close>:
    \<^verbatim>\<open>cloud-worker/src/control_publisher.rs\<close> with \<^verbatim>\<open>cloud-db/src/geo_provider.rs\<close>.
  \<^item> \<^verbatim>\<open>Generation_Loop\<close>, \<^verbatim>\<open>Worker_Main\<close>: \<^verbatim>\<open>cloud-worker/src/generation_loop.rs\<close> and the parsing
    in \<^verbatim>\<open>main.rs\<close>.
  \<^item> \<^verbatim>\<open>Signed_Document\<close>, \<^verbatim>\<open>Client_Grant\<close>, \<^verbatim>\<open>Client_Projection\<close>: \<^verbatim>\<open>cloud-client-grant\<close> and
    \<^verbatim>\<open>cloud-client-projection\<close>.

  \<^bold>\<open>Conventions.\<close> A Rust struct is a record whose fields carry a prefix, an enum a datatype, an
  integer a word of its width, a \<open>String\<close> the list of its UTF-8 bytes, a \<open>Result\<close> a sum with the
  error on the left. A table is the list of its rows in insertion order. A transaction is one
  step: it sees a state no other transaction is changing, and an error leaves that state as it
  was. This is what \<open>SELECT ... FOR UPDATE\<close> and the rollback give in the source. A time, a fresh
  UUID or the answer of the operating system is an argument, so the theorems hold for all of them.

  \<^bold>\<open>Parameters.\<close> SHA-256, Ed25519, base64, the JSON and JCS serialisers, the Core module, the
  collation of names, the parser of quota documents, HTTP and file system are functions in the
  records \<open>control_ext\<close>, \<open>core_ext\<close>, \<open>grant_ext\<close>, \<open>proj_ext\<close>, \<open>store_ext\<close> and \<open>publisher_ext\<close>. What a
  theorem needs of them is a hypothesis of that theorem (a hash of 32 bytes, a serialiser that is
  injective, a signature that verifies), and its witness gives concrete functions for which it
  holds.

  \<^bold>\<open>What is shown.\<close>
  \<^item> The hash chains: from empty tables, heads always agree with an unbroken chain, history is
    append-only, a repeated publication is a replay, and the publisher appends exactly one
    generation per revision, whatever is interleaved (\<^verbatim>\<open>Sdwan_Chain\<close>, \<^verbatim>\<open>Publisher_Safety\<close>).
  \<^item> The queue: it refines the abstract lease queue, serialises the jobs of a segment, fences
    workers that lost their lease, and gives out the due work (\<^verbatim>\<open>Generation_Queue\<close>,
    \<^verbatim>\<open>Generation_Loop\<close>).
  \<^item> The store: references lead to live resources, prefixes of a segment are disjoint although a
    mutation checks only its own resource, a retry is a replay, revisions grow by one, every
    dependent segment is republished (\<^verbatim>\<open>Control_Integrity\<close>, \<^verbatim>\<open>Control_Effects\<close>).
  \<^item> The routes: compiled routes are exactly the announced prefixes, projections reach every other
    site, egress rules are decided by the first rule in order, and the live attachments follow
    the management graph (\<^verbatim>\<open>Route_Build\<close>, \<^verbatim>\<open>Egress_Selection\<close>, \<^verbatim>\<open>Topology_Sync\<close>).
  \<^item> The signed documents: what validation guarantees, round trips of tokens, tamper evidence
    under an injective hash, and that the signing domains do not overlap.
  \<^item> Places where the code does not do what it means to: a disabled policy stays in force, the
    name of a deleted segment cannot be used again, and a failed preparation is never recovered.

  \<^bold>\<open>Termination.\<close> All loops of the model are structural or have a measure (the closure of the
  reference table shrinks the set of unseen keys); walking the pages of a listing takes a number
  of steps that is shown to be enough.

  \<^bold>\<open>Not modelled.\<close> HTTP routes and request parsing (\<^verbatim>\<open>cloud-api\<close>, \<^verbatim>\<open>cloud-auth\<close>, \<^verbatim>\<open>cloud-identity\<close>)
  and their stores, the foreign function interface of \<^verbatim>\<open>cloud-core-module\<close>, the user interface, the
  router packages and the deployment. Failures of the database connection itself are left out.
\<close>

end
